(* ===== verification/Undi_Prelude.thy ===== *)
theory Undi_Prelude
  imports Main "HOL-Library.Word" "HOL-Library.State_Monad"
begin

text \<open>
  Shared ground of the development: the fixed-width integer types of the C sources, single-bit
  masks, little-endian byte memory, the loop combinators the driver's \<^verbatim>\<open>for\<close> and
  \<^verbatim>\<open>while (limit--)\<close> loops are written with, and two small program logics over the library's
  state monad: \<open>wp\<close> (what holds of the result and the final state) and \<open>keeps\<close> (a projection
  of the state an operation never changes).  The named collections \<open>frame\<close> and \<open>wp_simps\<close>
  carry most of the component proofs.
\<close>

unbundle bit_operations_syntax

named_theorems frame "introduction rules for keeps"
named_theorems outcome "introduction rules for ensures"
named_theorems wp_simps "rewrite rules for wp"

section \<open>Integer types and single-bit masks\<close>

type_synonym u8 = "8 word"
type_synonym u16 = "16 word"
type_synonym u32 = "32 word"
type_synonym u64 = "64 word"

text \<open>\<^verbatim>\<open>#define BIT(n) (1UL << (n))\<close> and \<^verbatim>\<open>BIT_MASK(n) (BIT(n) - 1)\<close>.\<close>

definition BIT :: "nat \<Rightarrow> 'a::len word" where
  "BIT n = 2 ^ n"

definition BIT_MASK :: "nat \<Rightarrow> 'a::len word" where
  "BIT_MASK n = BIT n - 1"

section \<open>Byte memory, little endian\<close>

type_synonym memory = "u64 \<Rightarrow> u8"

definition le_word :: "u8 list \<Rightarrow> 'a::len word" where
  "le_word bs = foldr (\<lambda>b w. ucast b OR push_bit 8 w) bs 0"

definition le_bytes :: "nat \<Rightarrow> 'a::len word \<Rightarrow> u8 list" where
  "le_bytes n w = map (\<lambda>i. ucast (drop_bit (8 * i) w)) [0..<n]"

definition load_bytes :: "memory \<Rightarrow> u64 \<Rightarrow> nat \<Rightarrow> u8 list" where
  "load_bytes m a n = map (\<lambda>i. m (a + of_nat i)) [0..<n]"

definition store_bytes :: "memory \<Rightarrow> u64 \<Rightarrow> u8 list \<Rightarrow> memory" where
  "store_bytes m a bs = (\<lambda>x. if unat (x - a) < length bs then bs ! unat (x - a) else m x)"

definition load16 :: "memory \<Rightarrow> u64 \<Rightarrow> u16" where
  "load16 m a = le_word (load_bytes m a 2)"

definition load32 :: "memory \<Rightarrow> u64 \<Rightarrow> u32" where
  "load32 m a = le_word (load_bytes m a 4)"

definition load64 :: "memory \<Rightarrow> u64 \<Rightarrow> u64" where
  "load64 m a = le_word (load_bytes m a 8)"

definition store8 :: "memory \<Rightarrow> u64 \<Rightarrow> u8 \<Rightarrow> memory" where
  "store8 m a v = store_bytes m a [v]"

definition store16 :: "memory \<Rightarrow> u64 \<Rightarrow> u16 \<Rightarrow> memory" where
  "store16 m a v = store_bytes m a (le_bytes 2 v)"

definition store32 :: "memory \<Rightarrow> u64 \<Rightarrow> u32 \<Rightarrow> memory" where
  "store32 m a v = store_bytes m a (le_bytes 4 v)"

definition store64 :: "memory \<Rightarrow> u64 \<Rightarrow> u64 \<Rightarrow> memory" where
  "store64 m a v = store_bytes m a (le_bytes 8 v)"

section \<open>Monadic primitives and loops\<close>

definition gets :: "('s \<Rightarrow> 'a) \<Rightarrow> ('s, 'a) state" where
  "gets f = State (\<lambda>s. (f s, s))"

definition modify :: "('s \<Rightarrow> 's) \<Rightarrow> ('s, unit) state" where
  "modify f = State (\<lambda>s. ((), f s))"

abbreviation ret :: "'a \<Rightarrow> ('s, 'a) state" where
  "ret \<equiv> State_Monad.return"

text \<open>\<^verbatim>\<open>for (i = 0; i < n; i++) body(i)\<close> runs \<open>body\<close> over \<open>[0..<n]\<close>.\<close>

fun for_each :: "'a list \<Rightarrow> ('a \<Rightarrow> ('s, unit) state) \<Rightarrow> ('s, unit) state" where
  "for_each [] f = ret ()"
| "for_each (x # xs) f = do { _ \<leftarrow> f x; for_each xs f }"

text \<open>
  \<^verbatim>\<open>while (limit--) { if (test) break; delay }\<close>, started with \<open>limit = n\<close>; the result is the
  value \<open>limit\<close> has after the loop, so it is \<open>-1\<close> exactly when the loop ran out.
\<close>

fun poll_while :: "nat \<Rightarrow> ('s, bool) state \<Rightarrow> ('s, unit) state \<Rightarrow> ('s, int) state" where
  "poll_while 0 test delay = ret (-1)"
| "poll_while (Suc n) test delay =
     do { ok \<leftarrow> test;
          if ok then ret (int n) else do { _ \<leftarrow> delay; poll_while n test delay } }"

text \<open>
  \<^verbatim>\<open>do { if (error) return e; if (test) break; delay } while (--retries)\<close>, started with
  \<open>retries = n\<close>.  The test yields \<open>Inl e\<close> for the early return of \<open>e\<close>, and the loop then
  yields \<open>Inl e\<close>; otherwise it yields \<open>Inr\<close> of the value \<open>retries\<close> has after the loop.
\<close>

fun poll_do :: "nat \<Rightarrow> ('s, 'e + bool) state \<Rightarrow> ('s, unit) state \<Rightarrow> ('s, 'e + int) state" where
  "poll_do 0 test delay = ret (Inr 0)"
| "poll_do (Suc n) test delay =
     do { r \<leftarrow> test;
          (case r of
             Inl e \<Rightarrow> ret (Inl e)
           | Inr ok \<Rightarrow>
               if ok then ret (Inr (int (Suc n)))
               else do { _ \<leftarrow> delay; poll_do n test delay }) }"

section \<open>Weakest preconditions and frames\<close>

definition wp :: "('s, 'a) state \<Rightarrow> ('a \<Rightarrow> 's \<Rightarrow> bool) \<Rightarrow> 's \<Rightarrow> bool" where
  "wp m Q s \<longleftrightarrow> (case run_state m s of (r, t) \<Rightarrow> Q r t)"

definition keeps :: "('s \<Rightarrow> 'b) \<Rightarrow> ('s, 'a) state \<Rightarrow> bool" where
  "keeps f m \<longleftrightarrow> (\<forall>s. f (snd (run_state m s)) = f s)"

lemma run_gets [simp]: "run_state (gets f) s = (f s, s)"
  by (simp add: gets_def)

lemma run_modify [simp]: "run_state (modify f) s = ((), f s)"
  by (simp add: modify_def)

lemma wp_return [wp_simps]: "wp (ret x) Q s = Q x s"
  by (simp add: wp_def)

lemma wp_gets [wp_simps]: "wp (gets f) Q s = Q (f s) s"
  by (simp add: wp_def)

lemma wp_modify [wp_simps]: "wp (modify f) Q s = Q () (f s)"
  by (simp add: wp_def)

lemma wp_bind [wp_simps]: "wp (State_Monad.bind m f) Q s = wp m (\<lambda>r. wp (f r) Q) s"
  by (simp add: wp_def split: prod.splits)

lemma wp_if [wp_simps]: "wp (if b then m else n) Q s = (if b then wp m Q s else wp n Q s)"
  by simp

lemma wp_run: "wp m Q s \<Longrightarrow> run_state m s = (r, t) \<Longrightarrow> Q r t"
  by (simp add: wp_def)

lemma wpI: "(\<And>r t. run_state m s = (r, t) \<Longrightarrow> Q r t) \<Longrightarrow> wp m Q s"
  by (simp add: wp_def split: prod.splits)

lemma wp_any: "(\<And>r t. Q r t) \<Longrightarrow> wp m Q s"
  by (simp add: wp_def split: prod.splits)

lemma wp_mono: "wp m Q s \<Longrightarrow> (\<And>r t. Q r t \<Longrightarrow> R r t) \<Longrightarrow> wp m R s"
  by (simp add: wp_def split: prod.splits)

lemma keepsI: "(\<And>s r t. run_state m s = (r, t) \<Longrightarrow> f t = f s) \<Longrightarrow> keeps f m"
  unfolding keeps_def by (metis prod.collapse)

lemma keepsD: "keeps f m \<Longrightarrow> run_state m s = (r, t) \<Longrightarrow> f t = f s"
  unfolding keeps_def by (metis snd_conv)

lemma keeps_wp: "keeps f m \<Longrightarrow> wp m (\<lambda>r t. f t = f s) s"
  by (auto intro: wpI dest: keepsD)

lemma keeps_return [frame]: "keeps f (ret x)"
  by (simp add: keeps_def)

lemma keeps_gets [frame]: "keeps f (gets g)"
  by (simp add: keeps_def)

lemma keeps_modify [frame]: "(\<And>s. f (g s) = f s) \<Longrightarrow> keeps f (modify g)"
  by (simp add: keeps_def)

lemma keeps_bind [frame]:
  "keeps f m \<Longrightarrow> (\<And>r. keeps f (g r)) \<Longrightarrow> keeps f (State_Monad.bind m g)"
  by (simp add: keeps_def split: prod.splits) (metis snd_conv)

lemma keeps_if [frame]:
  "(b \<Longrightarrow> keeps f m) \<Longrightarrow> (\<not> b \<Longrightarrow> keeps f n) \<Longrightarrow> keeps f (if b then m else n)"
  by simp

lemma keeps_case_prod [frame]:
  "(\<And>a b. keeps f (g a b)) \<Longrightarrow> keeps f (case p of (a, b) \<Rightarrow> g a b)"
  by (cases p) simp

lemma keeps_case_sum [frame]:
  "(\<And>a. keeps f (g a)) \<Longrightarrow> (\<And>b. keeps f (h b)) \<Longrightarrow>
   keeps f (case x of Inl a \<Rightarrow> g a | Inr b \<Rightarrow> h b)"
  by (cases x) simp_all

lemma keeps_case_option [frame]:
  "keeps f g \<Longrightarrow> (\<And>b. keeps f (h b)) \<Longrightarrow>
   keeps f (case x of None \<Rightarrow> g | Some b \<Rightarrow> h b)"
  by (cases x) simp_all

lemma keeps_Let [frame]: "keeps f (g x) \<Longrightarrow> keeps f (let y = x in g y)"
  by simp

lemma keeps_for_each [frame]: "(\<And>x. keeps f (g x)) \<Longrightarrow> keeps f (for_each xs g)"
  by (induction xs) (auto intro!: frame)

lemma keeps_poll_while [frame]:
  "keeps f test \<Longrightarrow> keeps f delay \<Longrightarrow> keeps f (poll_while n test delay)"
  by (induction n) (auto intro!: frame)

lemma keeps_poll_do [frame]:
  "keeps f test \<Longrightarrow> keeps f delay \<Longrightarrow> keeps f (poll_do n test delay)"
  by (induction n) (auto intro!: frame)

lemma keeps_comp: "keeps f m \<Longrightarrow> keeps (\<lambda>s. g (f s)) m"
  by (simp add: keeps_def)

section \<open>Outcomes\<close>

text \<open>
  \<open>ensures P m R\<close>: from any state in \<open>P\<close>, \<open>m\<close> ends in one with a result in \<open>R\<close>.
\<close>

definition ensures :: "('s \<Rightarrow> bool) \<Rightarrow> ('s, 'a) state \<Rightarrow> ('a \<Rightarrow> bool) \<Rightarrow> bool" where
  "ensures P m R \<longleftrightarrow> (\<forall>s. P s \<longrightarrow> (case run_state m s of (r, t) \<Rightarrow> R r \<and> P t))"

lemma ensuresD: "ensures P m R \<Longrightarrow> P s \<Longrightarrow> run_state m s = (r, t) \<Longrightarrow> R r \<and> P t"
  by (auto simp: ensures_def)

lemma ensures_return [outcome]: "R x \<Longrightarrow> ensures P (ret x) R"
  by (simp add: ensures_def)

lemma ensures_bind [outcome]:
  "ensures P m S \<Longrightarrow> (\<And>r. S r \<Longrightarrow> ensures P (k r) R) \<Longrightarrow> ensures P (State_Monad.bind m k) R"
  unfolding ensures_def
proof (intro allI impI)
  fix s
  assume m: "\<forall>s. P s \<longrightarrow> (case run_state m s of (r, t) \<Rightarrow> S r \<and> P t)" and "P s"
    and k: "\<And>r. S r \<Longrightarrow> \<forall>s. P s \<longrightarrow> (case run_state (k r) s of (r, t) \<Rightarrow> R r \<and> P t)"
  obtain r t where "run_state m s = (r, t)" by fastforce
  moreover from this m \<open>P s\<close> have "S r" "P t" by auto
  ultimately show "case run_state (State_Monad.bind m k) s of (r, t) \<Rightarrow> R r \<and> P t" using k [of r] by auto
qed

lemma ensures_gets [outcome]: "ensures P (gets f) (\<lambda>r. \<exists>s. P s \<and> r = f s)"
  by (auto simp: ensures_def)

lemma ensures_modify [outcome]: "(\<And>s. P s \<Longrightarrow> P (g s)) \<Longrightarrow> ensures P (modify g) (\<lambda>_. True)"
  by (simp add: ensures_def)

text \<open>A branch that only returns is taken last, when the other has fixed the result's property.\<close>

lemma ensures_if [outcome]:
  "(\<not> b \<Longrightarrow> ensures P m R) \<Longrightarrow> (b \<Longrightarrow> R x) \<Longrightarrow> ensures P (if b then ret x else m) R"
  "(b \<Longrightarrow> ensures P m R) \<Longrightarrow> (\<not> b \<Longrightarrow> R x) \<Longrightarrow> ensures P (if b then m else ret x) R"
  "(\<not> b \<Longrightarrow> ensures P n R) \<Longrightarrow> (b \<Longrightarrow> ensures P m R) \<Longrightarrow> ensures P (if b then m else n) R"
  by (simp_all add: ensures_def)

lemma ensures_case_prod [outcome]:
  "(\<And>a b. p = (a, b) \<Longrightarrow> ensures P (m a b) R) \<Longrightarrow> ensures P (case p of (a, b) \<Rightarrow> m a b) R"
  by (cases p) simp

lemma ensures_case_sum [outcome]:
  "(\<And>a. x = Inl a \<Longrightarrow> ensures P (m a) R) \<Longrightarrow> (\<And>b. x = Inr b \<Longrightarrow> ensures P (n b) R) \<Longrightarrow>
   ensures P (case x of Inl a \<Rightarrow> m a | Inr b \<Rightarrow> n b) R"
  by (cases x) simp_all

lemma ensures_Let [outcome]: "ensures P (m x) R \<Longrightarrow> ensures P (let y = x in m y) R"
  by simp

lemma ensures_mono: "ensures P m R \<Longrightarrow> (\<And>r. R r \<Longrightarrow> S r) \<Longrightarrow> ensures P m S"
  by (fastforce simp: ensures_def split: prod.splits)

lemma ensures_poll_do [outcome]:
  assumes "ensures P test (\<lambda>r. \<exists>b. r = Inr b)" and "ensures P delay (\<lambda>_. True)"
  shows "ensures P (poll_do n test delay) (\<lambda>r. \<exists>k. r = Inr k)"
proof (induction n)
  case (Suc n)
  show ?case unfolding poll_do.simps
    by (rule ensures_bind [OF assms(1)]) (auto intro!: outcome ensures_bind [OF assms(2)] Suc)
qed (simp add: outcome)

section \<open>Bounded polls\<close>

text \<open>A bounded poll returns \<open>-1\<close> or the index at which its test first held.\<close>

lemma poll_while_range: "wp (poll_while n test delay) (\<lambda>r _. -1 \<le> r \<and> r < int n) s"
proof (induction n arbitrary: s)
  case 0
  then show ?case by (simp add: wp_simps)
next
  case (Suc n)
  have "wp (poll_while n test delay) (\<lambda>r _. - 1 \<le> r \<and> r < int (Suc n)) t" for t
    by (rule wp_mono [OF Suc.IH]) simp
  note IH = this
  have "wp delay (\<lambda>_. wp (poll_while n test delay) (\<lambda>r _. - 1 \<le> r \<and> r < int (Suc n))) t" for t
    by (rule wp_any) (rule IH)
  then show ?case by (simp add: wp_simps wp_any)
qed

section \<open>Words and bits\<close>

lemma bit_BIT [simp]: "bit (BIT n :: 'a::len word) i \<longleftrightarrow> i = n \<and> n < LENGTH('a)"
  by (auto simp: BIT_def bit_simps)

lemma and_BIT_eq_0 [simp]: "x AND BIT n = 0 \<longleftrightarrow> \<not> bit x n"
  by (simp add: BIT_def and_exp_eq_0_iff_not_bit)

lemma bit_le_word:
  "bit (le_word bs :: 'a::len word) i \<longleftrightarrow>
     i < LENGTH('a) \<and> i < 8 * length bs \<and> bit (bs ! (i div 8)) (i mod 8)"
proof (induction bs arbitrary: i)
  case Nil
  then show ?case by (simp add: le_word_def)
next
  case (Cons b bs)
  have step: "le_word (b # bs) = (ucast b OR push_bit 8 (le_word bs) :: 'a word)"
    by (simp add: le_word_def)
  show ?case
  proof (cases "i < 8")
    case True
    then show ?thesis
      by (auto simp: step bit_simps bit_imp_le_length)
  next
    case False
    then have "i div 8 = Suc ((i - 8) div 8)" and "i mod 8 = (i - 8) mod 8"
      by (simp_all add: div_if mod_if)
    moreover have "\<not> bit b i"
      using False bit_imp_le_length [of b i] by auto
    ultimately show ?thesis
      using False by (auto simp: step bit_simps Cons.IH)
  qed
qed

lemma length_le_bytes [simp]: "length (le_bytes n w) = n"
  by (simp add: le_bytes_def)

lemma nth_le_bytes: "i < n \<Longrightarrow> le_bytes n w ! i = ucast (drop_bit (8 * i) w)"
  by (simp add: le_bytes_def)

lemma le_word_le_bytes:
  "LENGTH('a) \<le> 8 * n \<Longrightarrow> le_word (le_bytes n (w :: 'a::len word)) = w"
  by (rule bit_word_eqI)
    (auto simp: bit_le_word nth_le_bytes bit_simps less_mult_imp_div_less)

lemma le_bytes_le_word:
  assumes "8 * length bs \<le> LENGTH('a)"
  shows "le_bytes (length bs) (le_word bs :: 'a::len word) = bs"
proof (rule nth_equalityI)
  fix i assume i: "i < length (le_bytes (length bs) (le_word bs :: 'a word))"
  show "le_bytes (length bs) (le_word bs :: 'a word) ! i = bs ! i"
  proof (rule bit_word_eqI)
    fix k assume k: "k < LENGTH(8)"
    then have "(8 * i + k) div 8 = i" and "(8 * i + k) mod 8 = k" by simp_all
    moreover have "8 * i + k < 8 * length bs" using i k by simp
    ultimately show "bit (le_bytes (length bs) (le_word bs :: 'a word) ! i) k = bit (bs ! i) k"
      using i k assms by (simp add: nth_le_bytes bit_simps bit_le_word)
  qed
qed simp

section \<open>Memory laws\<close>

lemma length_load_bytes [simp]: "length (load_bytes m a n) = n"
  by (simp add: load_bytes_def)

lemma nth_load_bytes: "i < n \<Longrightarrow> load_bytes m a n ! i = m (a + of_nat i)"
  by (simp add: load_bytes_def)

lemma load_store_bytes:
  assumes "length bs \<le> 2 ^ 64"
  shows "load_bytes (store_bytes m a bs) a (length bs) = bs"
proof (rule nth_equalityI)
  fix i assume "i < length (load_bytes (store_bytes m a bs) a (length bs))"
  then have i: "i < length bs" by simp
  with assms have "unat (of_nat i :: u64) = i"
    by (simp add: unat_of_nat take_bit_nat_eq_self)
  with i show "load_bytes (store_bytes m a bs) a (length bs) ! i = bs ! i"
    by (simp add: nth_load_bytes store_bytes_def)
qed simp

lemma store_bytes_other: "length bs \<le> unat (x - a) \<Longrightarrow> store_bytes m a bs x = m x"
  by (simp add: store_bytes_def)

definition disjoint_ranges :: "u64 \<Rightarrow> nat \<Rightarrow> u64 \<Rightarrow> nat \<Rightarrow> bool" where
  "disjoint_ranges a n b k \<longleftrightarrow> (\<forall>i<n. k \<le> unat (a + of_nat i - b))"

lemma load_store_other:
  "disjoint_ranges a n b (length bs) \<Longrightarrow> load_bytes (store_bytes m b bs) a n = load_bytes m a n"
  by (auto simp: load_bytes_def store_bytes_def disjoint_ranges_def)

lemma load16_store16 [simp]: "load16 (store16 m a v) a = v"
  using load_store_bytes [of "le_bytes 2 v" m a]
  by (simp add: load16_def store16_def le_word_le_bytes)

lemma load32_store32 [simp]: "load32 (store32 m a v) a = v"
  using load_store_bytes [of "le_bytes 4 v" m a]
  by (simp add: load32_def store32_def le_word_le_bytes)

lemma load64_store64 [simp]: "load64 (store64 m a v) a = v"
  using load_store_bytes [of "le_bytes 8 v" m a]
  by (simp add: load64_def store64_def le_word_le_bytes)

lemma unat_u16: "unat (n :: u16) < 65536"
  by (rule less_le_trans [OF unsigned_less]) simp

lemma unat_ucast_up:
  assumes "LENGTH('a::len) \<le> LENGTH('b::len)"
  shows "unat (ucast (x :: 'a word) :: 'b word) = unat x"
proof -
  have "unat x < 2 ^ LENGTH('b)"
    by (rule less_le_trans [OF unsigned_less power_increasing [OF assms]]) simp
  then show ?thesis by (simp add: unsigned_ucast_eq take_bit_nat_eq_self)
qed

lemma store_bytes_append:
  assumes "length xs + length ys \<le> 2 ^ 64"
  shows "store_bytes (store_bytes m a xs) (a + of_nat (length xs)) ys = store_bytes m a (xs @ ys)"
proof
  fix x
  define k where "k = unat (x - a)"
  have k: "x - a = of_nat k" "k < 2 ^ 64" by (simp_all add: k_def) (use unsigned_less [of "x - a"] in simp)
  have diff: "x - (a + of_nat (length xs)) = of_nat k - of_nat (length xs)"
    by (simp add: k(1) [symmetric] algebra_simps)
  show "store_bytes (store_bytes m a xs) (a + of_nat (length xs)) ys x = store_bytes m a (xs @ ys) x"
  proof (cases "k < length xs")
    case True
    then have "of_nat k - of_nat (length xs) = (of_nat (2 ^ 64 + k - length xs) :: u64)"
      using assms by (simp add: of_nat_diff word_of_nat_eq_0_iff flip: of_nat_power)
    moreover have "2 ^ 64 + k - length xs < 2 ^ 64" using True assms by simp
    ultimately have "unat (x - (a + of_nat (length xs))) = 2 ^ 64 + k - length xs"
      by (simp add: diff unat_of_nat take_bit_nat_eq_self)
    moreover have "\<not> 2 ^ 64 + k - length xs < length ys" using True assms by linarith
    ultimately show ?thesis using True by (simp add: store_bytes_def nth_append flip: k_def)
  next
    case False
    then have "unat (x - (a + of_nat (length xs))) = k - length xs"
      using k(2) by (simp add: diff unat_of_nat take_bit_nat_eq_self flip: of_nat_diff)
    with False show ?thesis by (auto simp: store_bytes_def nth_append simp flip: k_def)
  qed
qed

lemma load_zero [simp]: "le_word (load_bytes (\<lambda>_. 0) a n) = 0"
proof -
  have "le_word (replicate n 0) = 0" by (induction n) (simp_all add: le_word_def)
  then show ?thesis by (simp add: load_bytes_def map_replicate_const)
qed

section \<open>Searches\<close>

lemma find_SomeD: "find P xs = Some x \<Longrightarrow> P x \<and> x \<in> set xs"
  by (auto simp: find_Some_iff)

lemma find_append: "find P (xs @ ys) = (case find P xs of None \<Rightarrow> find P ys | Some x \<Rightarrow> Some x)"
  by (induction xs) auto

end
