(* ===== verification/Undi_Types.thy ===== *)
theory Undi_Types
  imports Undi_Prelude
begin

text \<open>
  The data of the driver: EFI status codes, the structures of \<^verbatim>\<open>Intelgbe.h\<close>, \<^verbatim>\<open>Dma.h\<close> and
  \<^verbatim>\<open>intelgbe_stmmac.h\<close> as records, the services the driver calls but does not contain (the
  memory-mapped registers, \<^verbatim>\<open>EFI_PCI_IO_PROTOCOL\<close>, the boot services, the SNP callbacks) as the
  fields of an environment record, and the state \<open>world\<close> every adapter operation runs on.

  A pointer is its 64-bit address, 0 is \<^verbatim>\<open>NULL\<close>.  A MAC operation slot is only ever assigned one
  function in the sources, so it is a \<open>bool\<close>: \<^verbatim>\<open>NULL\<close> or that function; a PHY operation slot
  holds the PHY driver whose function was stored in it.  The contents of the descriptor array a queue
  points to are kept in the queue (\<open>tx_ring\<close>, \<open>rx_ring\<close>); all other memory is byte memory.
\<close>

section \<open>EFI status codes\<close>

type_synonym EFI_STATUS = u64

definition ENCODE_ERROR :: "u64 \<Rightarrow> EFI_STATUS" where
  "ENCODE_ERROR a = BIT 63 OR a"

definition EFI_ERROR :: "EFI_STATUS \<Rightarrow> bool" where
  "EFI_ERROR st \<longleftrightarrow> sint st < 0"

abbreviation EFI_SUCCESS :: EFI_STATUS where "EFI_SUCCESS \<equiv> 0"

definition EFI_INVALID_PARAMETER :: EFI_STATUS where
  "EFI_INVALID_PARAMETER = ENCODE_ERROR 2"

definition EFI_UNSUPPORTED :: EFI_STATUS where
  "EFI_UNSUPPORTED = ENCODE_ERROR 3"

definition EFI_NOT_READY :: EFI_STATUS where
  "EFI_NOT_READY = ENCODE_ERROR 6"

definition EFI_DEVICE_ERROR :: EFI_STATUS where
  "EFI_DEVICE_ERROR = ENCODE_ERROR 7"

definition EFI_WRITE_PROTECTED :: EFI_STATUS where
  "EFI_WRITE_PROTECTED = ENCODE_ERROR 8"

definition EFI_OUT_OF_RESOURCES :: EFI_STATUS where
  "EFI_OUT_OF_RESOURCES = ENCODE_ERROR 9"

definition EFI_NO_MEDIA :: EFI_STATUS where
  "EFI_NO_MEDIA = ENCODE_ERROR 12"

definition EFI_ACCESS_DENIED :: EFI_STATUS where
  "EFI_ACCESS_DENIED = ENCODE_ERROR 15"

definition EFI_ALREADY_STARTED :: EFI_STATUS where
  "EFI_ALREADY_STARTED = ENCODE_ERROR 20"

lemmas efi_status_defs =
  EFI_INVALID_PARAMETER_def EFI_UNSUPPORTED_def EFI_NOT_READY_def EFI_DEVICE_ERROR_def
  EFI_WRITE_PROTECTED_def EFI_OUT_OF_RESOURCES_def EFI_NO_MEDIA_def EFI_ACCESS_DENIED_def
  EFI_ALREADY_STARTED_def

section \<open>Structures of the adapter\<close>

record UNDI_DMA_MAPPING =
  UnmappedAddress :: u64
  PhysicalAddress :: u64
  Size :: u64
  Mapping :: u64

record intelgbe_desc =
  des0 :: u32
  des1 :: u32
  des2 :: u32
  des3 :: u32

type_synonym intelgbe_tx_desc = intelgbe_desc
type_synonym intelgbe_rx_desc = intelgbe_desc

definition zero_desc :: intelgbe_desc where
  "zero_desc = \<lparr>des0 = 0, des1 = 0, des2 = 0, des3 = 0\<rparr>"

definition zero_mapping :: UNDI_DMA_MAPPING where
  "zero_mapping = \<lparr>UnmappedAddress = 0, PhysicalAddress = 0, Size = 0, Mapping = 0\<rparr>"

abbreviation DEFAULT_TX_DESCRIPTORS :: nat where "DEFAULT_TX_DESCRIPTORS \<equiv> 512"
abbreviation DEFAULT_RX_DESCRIPTORS :: nat where "DEFAULT_RX_DESCRIPTORS \<equiv> 512"
abbreviation INTELGBE_MAX_TX_QUEUES :: u8 where "INTELGBE_MAX_TX_QUEUES \<equiv> 1"
abbreviation INTELGBE_MAX_RX_QUEUES :: u8 where "INTELGBE_MAX_RX_QUEUES \<equiv> 1"
abbreviation RX_BUFFER_SIZE :: nat where "RX_BUFFER_SIZE \<equiv> 2048"
abbreviation sizeof_DESCRIPTOR :: nat where "sizeof_DESCRIPTOR \<equiv> 16"
abbreviation sizeof_LOCAL_RX_BUFFER :: nat where "sizeof_LOCAL_RX_BUFFER \<equiv> 2048"

record intelgbe_tx_queue =
  tx_queue_index :: u32
  tx_desc :: u64
  dma_tx :: u64
  cur_tx :: u32
  dirty_tx :: u32
  tx_tail_addr :: u32
  tx_ring :: "intelgbe_tx_desc list"

record intelgbe_rx_queue =
  rx_queue_index :: u32
  chan :: u32
  rx_desc :: u64
  dma_rx :: u64
  rx_buff :: u64
  dma_rx_buff :: u64
  cur_rx :: u32
  dirty_rx :: u32
  rx_tail_addr :: u32
  rx_ring :: "intelgbe_rx_desc list"

datatype intelgbe_mac_type = intelgbe_undefined | intelgbe_stmmac_rgmii | intelgbe_stmmac_sgmii

record intelgbe_mac_operations =
  mac_init_params :: bool
  check_for_link :: bool
  reset_hw :: bool
  init_hw :: bool
  uninit_hw :: bool
  read_mac_addr :: bool
  write_mac_addr :: bool
  get_id :: bool

record intelgbe_mac_info =
  mac_ops :: intelgbe_mac_operations
  mac_addr :: "u8 list"
  perm_addr :: "u8 list"
  mac_type :: intelgbe_mac_type
  txfifosz :: u32
  rxfifosz :: u32
  link_speed :: u32
  full_duplex :: u32
  speed_2500_en :: bool
  pse_gbe :: bool

datatype phy_type = PHY_MARVELL_88E1512 | PHY_MAXLINEAR_GPY211 | PHY_MARVELL_88E2110

datatype phy_interface =
  PHY_INTERFACE_MII | PHY_INTERFACE_GMII | PHY_INTERFACE_SGMII | PHY_INTERFACE_RGMII

record intelgbe_phy_operations =
  phy_init_params :: bool
  mdio_write :: bool
  mdio_read :: bool
  phy_init_op :: "phy_type option"
  cfg_link :: "phy_type option"
  link_status_change :: "phy_type option"
  phy_status :: "phy_type option"

record intelgbe_phy_info =
  phy_ops :: intelgbe_phy_operations
  phy_addr :: u32
  mdio_csr_clk :: u32
  phy_id :: u32
  phy_type_of :: phy_type
  interface :: phy_interface
  support :: u32
  link_up :: bool
  c45 :: bool

record intelgbe_hw =
  hw_addr :: u64
  io_base :: u64
  mac :: intelgbe_mac_info
  phy :: intelgbe_phy_info
  device_id :: u16
  subsystem_vendor_id :: u16
  subsystem_device_id :: u16
  vendor_id :: u16
  revision_id :: u8

record GIG_DRIVER_DATA =
  State :: u16
  Hw :: intelgbe_hw
  PciLocation :: "u64 \<times> u64 \<times> u64 \<times> u64"
  PciClass :: u8
  PciSubClass :: u8
  PciConfig :: "u32 list"
  HwInitialized :: bool
  DriverBusy :: bool
  LinkSpeed :: u16
  DuplexMode :: u8
  CableDetect :: u8
  LoopBack :: u8
  UndiEnabled :: bool
  UniqueId :: u64
  PciIo :: u64
  OriginalPciAttributes :: u64
  Delay :: u64
  Virt2Phys :: u64
  Block :: u64
  MemIo :: u64
  MapMem :: u64
  UnMapMem :: u64
  SyncMem :: u64
  IoBarIndex :: u8
  RxFilter :: u16
  txqnum :: u8
  rxqnum :: u8
  ReceiveStarted :: bool
  TxRing :: UNDI_DMA_MAPPING
  RxRing :: UNDI_DMA_MAPPING
  RxBufferMapping :: UNDI_DMA_MAPPING
  TxBufferMappings :: "UNDI_DMA_MAPPING list"
  rx_queue :: "intelgbe_rx_queue list"
  tx_queue :: "intelgbe_tx_queue list"
  BroadcastNodeAddress :: "u8 list"
  DeviceId :: u8
  MacAddrOverride :: bool
  ExitBootServicesTriggered :: bool
  VersionFlag :: u64

text \<open>The contents of zeroed structures, as \<^verbatim>\<open>AllocateZeroPool\<close> and \<^verbatim>\<open>ZeroMem\<close> leave them.\<close>

definition zero_tx_queue :: intelgbe_tx_queue where
  "zero_tx_queue = \<lparr>tx_queue_index = 0, tx_desc = 0, dma_tx = 0, cur_tx = 0, dirty_tx = 0,
                    tx_tail_addr = 0, tx_ring = []\<rparr>"

definition zero_rx_queue :: intelgbe_rx_queue where
  "zero_rx_queue = \<lparr>rx_queue_index = 0, chan = 0, rx_desc = 0, dma_rx = 0, rx_buff = 0,
                    dma_rx_buff = 0, cur_rx = 0, dirty_rx = 0, rx_tail_addr = 0, rx_ring = []\<rparr>"

definition zero_hw :: intelgbe_hw where
  "zero_hw =
     \<lparr>hw_addr = 0, io_base = 0,
      mac = \<lparr>mac_ops = \<lparr>mac_init_params = False, check_for_link = False, reset_hw = False,
                        init_hw = False, uninit_hw = False, read_mac_addr = False,
                        write_mac_addr = False, get_id = False\<rparr>,
             mac_addr = replicate 6 0, perm_addr = replicate 6 0, mac_type = intelgbe_undefined,
             txfifosz = 0, rxfifosz = 0, link_speed = 0, full_duplex = 0, speed_2500_en = False,
             pse_gbe = False\<rparr>,
      phy = \<lparr>phy_ops = \<lparr>phy_init_params = False, mdio_write = False, mdio_read = False,
                        phy_init_op = None, cfg_link = None, link_status_change = None,
                        phy_status = None\<rparr>,
             phy_addr = 0, mdio_csr_clk = 0, phy_id = 0, phy_type_of = PHY_MARVELL_88E1512,
             interface = PHY_INTERFACE_MII, support = 0, link_up = False, c45 = False\<rparr>,
      device_id = 0, subsystem_vendor_id = 0, subsystem_device_id = 0, vendor_id = 0,
      revision_id = 0\<rparr>"

definition zero_adapter :: GIG_DRIVER_DATA where
  "zero_adapter =
     \<lparr>State = 0, Hw = zero_hw, PciLocation = (0, 0, 0, 0), PciClass = 0, PciSubClass = 0,
      PciConfig = replicate 64 0, HwInitialized = False, DriverBusy = False, LinkSpeed = 0,
      DuplexMode = 0, CableDetect = 0, LoopBack = 0, UndiEnabled = False, UniqueId = 0, PciIo = 0,
      OriginalPciAttributes = 0, Delay = 0, Virt2Phys = 0, Block = 0, MemIo = 0, MapMem = 0,
      UnMapMem = 0, SyncMem = 0, IoBarIndex = 0, RxFilter = 0, txqnum = 0, rxqnum = 0,
      ReceiveStarted = False, TxRing = zero_mapping, RxRing = zero_mapping,
      RxBufferMapping = zero_mapping,
      TxBufferMappings = replicate DEFAULT_TX_DESCRIPTORS zero_mapping,
      rx_queue = [zero_rx_queue], tx_queue = [zero_tx_queue],
      BroadcastNodeAddress = replicate 32 0, DeviceId = 0, MacAddrOverride = False,
      ExitBootServicesTriggered = False, VersionFlag = 0\<rparr>"

section \<open>The environment\<close>

text \<open>
  Everything the driver reaches but that is not part of it.  The state of all of it is one value of
  type \<open>'d\<close>; each service is a function on that state.  An \<^verbatim>\<open>OUT\<close> parameter is passed with the
  value it has before the call, and the service returns the value it has after.  \<open>uninit_*\<close> are
  the values of uninitialised local variables.
\<close>

datatype pci_attribute_op =
  EfiPciIoAttributeOperationGet | EfiPciIoAttributeOperationSet |
  EfiPciIoAttributeOperationEnable | EfiPciIoAttributeOperationSupported

datatype pci_map_op = EfiPciIoOperationBusMasterRead | EfiPciIoOperationBusMasterCommonBuffer

record 'd env =
  mmio_read :: "u64 \<Rightarrow> 'd \<Rightarrow> u32 \<times> 'd"
  mmio_write :: "u64 \<Rightarrow> u32 \<Rightarrow> 'd \<Rightarrow> 'd"
  bs_stall :: "u64 \<Rightarrow> 'd \<Rightarrow> 'd"
  pci_attributes :: "u64 \<Rightarrow> pci_attribute_op \<Rightarrow> u64 \<Rightarrow> u64 \<Rightarrow> 'd \<Rightarrow> (EFI_STATUS \<times> u64) \<times> 'd"
  pci_allocate_buffer :: "u64 \<Rightarrow> u64 \<Rightarrow> u64 \<Rightarrow> 'd \<Rightarrow> (EFI_STATUS \<times> u64) \<times> 'd"
  pci_free_buffer :: "u64 \<Rightarrow> u64 \<Rightarrow> u64 \<Rightarrow> 'd \<Rightarrow> EFI_STATUS \<times> 'd"
  pci_map :: "u64 \<Rightarrow> pci_map_op \<Rightarrow> u64 \<Rightarrow> u64 \<Rightarrow> u64 \<Rightarrow> u64 \<Rightarrow> 'd \<Rightarrow>
                (EFI_STATUS \<times> u64 \<times> u64 \<times> u64) \<times> 'd"
  pci_unmap :: "u64 \<Rightarrow> u64 \<Rightarrow> 'd \<Rightarrow> EFI_STATUS \<times> 'd"
  pci_read_config :: "u64 \<Rightarrow> 'd \<Rightarrow> u32 list \<times> 'd"
  pci_get_location :: "u64 \<Rightarrow> 'd \<Rightarrow> (u64 \<times> u64 \<times> u64 \<times> u64) \<times> 'd"
  map_mem_callback :: "u64 \<Rightarrow> u64 \<Rightarrow> u64 \<Rightarrow> u32 \<Rightarrow> u32 \<Rightarrow> u64 \<Rightarrow> 'd \<Rightarrow> u64 \<times> 'd"
  uninit_u32 :: u32
  uninit_s32 :: int
  uninit_bool :: bool

section \<open>The state of the adapter operations\<close>

text \<open>
  \<open>fault\<close> records that the code called a \<^verbatim>\<open>NULL\<close> function pointer or dereferenced a \<^verbatim>\<open>NULL\<close>
  pointer; nothing sets it back.
\<close>

record 'd world =
  GigAdapter :: GIG_DRIVER_DATA
  dev :: 'd
  mem :: memory
  fault :: bool

type_synonym ('d, 'a) op = "('d world, 'a) state"

definition call_env :: "('d \<Rightarrow> 'a \<times> 'd) \<Rightarrow> ('d, 'a) op" where
  "call_env f = state.State (\<lambda>w. case f (dev w) of (r, d) \<Rightarrow> (r, w\<lparr>dev := d\<rparr>))"

definition run_env :: "('d \<Rightarrow> 'd) \<Rightarrow> ('d, unit) op" where
  "run_env f = modify (\<lambda>w. w\<lparr>dev := f (dev w)\<rparr>)"

abbreviation adapter :: "('d, GIG_DRIVER_DATA) op" where
  "adapter \<equiv> gets GigAdapter"

abbreviation upd_adapter :: "(GIG_DRIVER_DATA \<Rightarrow> GIG_DRIVER_DATA) \<Rightarrow> ('d, unit) op" where
  "upd_adapter f \<equiv> modify (\<lambda>w. w\<lparr>GigAdapter := f (GigAdapter w)\<rparr>)"

abbreviation upd_hw :: "(intelgbe_hw \<Rightarrow> intelgbe_hw) \<Rightarrow> ('d, unit) op" where
  "upd_hw f \<equiv> upd_adapter (\<lambda>g. g\<lparr>Hw := f (Hw g)\<rparr>)"

abbreviation upd_mac :: "(intelgbe_mac_info \<Rightarrow> intelgbe_mac_info) \<Rightarrow> ('d, unit) op" where
  "upd_mac f \<equiv> upd_hw (\<lambda>h. h\<lparr>mac := f (mac h)\<rparr>)"

abbreviation upd_phy :: "(intelgbe_phy_info \<Rightarrow> intelgbe_phy_info) \<Rightarrow> ('d, unit) op" where
  "upd_phy f \<equiv> upd_hw (\<lambda>h. h\<lparr>phy := f (phy h)\<rparr>)"

abbreviation upd_mem :: "(memory \<Rightarrow> memory) \<Rightarrow> ('d, unit) op" where
  "upd_mem f \<equiv> modify (\<lambda>w. w\<lparr>mem := f (mem w)\<rparr>)"

abbreviation raise_fault :: "('d, unit) op" where
  "raise_fault \<equiv> modify (\<lambda>w. w\<lparr>fault := True\<rparr>)"

section \<open>Laws\<close>

lemma run_call_env [simp]:
  "run_state (call_env f) w = (fst (f (dev w)), w\<lparr>dev := snd (f (dev w))\<rparr>)"
  by (simp add: call_env_def split: prod.splits)

lemma wp_call_env [wp_simps]:
  "wp (call_env f) Q w = Q (fst (f (dev w))) (w\<lparr>dev := snd (f (dev w))\<rparr>)"
  by (simp add: wp_def)

lemma run_run_env [simp]: "run_state (run_env f) w = ((), w\<lparr>dev := f (dev w)\<rparr>)"
  by (simp add: run_env_def)

lemma wp_run_env [wp_simps]: "wp (run_env f) Q w = Q () (w\<lparr>dev := f (dev w)\<rparr>)"
  by (simp add: wp_def)

lemma keeps_call_env [frame]: "(\<And>w d. f (w\<lparr>dev := d\<rparr>) = f w) \<Longrightarrow> keeps f (call_env g)"
  by (simp add: keeps_def)

lemma keeps_run_env [frame]: "(\<And>w d. f (w\<lparr>dev := d\<rparr>) = f w) \<Longrightarrow> keeps f (run_env g)"
  by (simp add: keeps_def)

lemma EFI_ERROR_bit: "EFI_ERROR st \<longleftrightarrow> bit st 63"
  using bit_last_iff [of st] by (simp add: EFI_ERROR_def)

lemma EFI_ERROR_simps [simp]:
  "\<not> EFI_ERROR 0" "EFI_ERROR (ENCODE_ERROR a)"
  by (simp_all add: EFI_ERROR_bit ENCODE_ERROR_def bit_or_iff)

lemma EFI_ERROR_codes [simp]:
  "EFI_ERROR EFI_INVALID_PARAMETER" "EFI_ERROR EFI_UNSUPPORTED" "EFI_ERROR EFI_NOT_READY"
  "EFI_ERROR EFI_DEVICE_ERROR" "EFI_ERROR EFI_WRITE_PROTECTED" "EFI_ERROR EFI_OUT_OF_RESOURCES"
  "EFI_ERROR EFI_NO_MEDIA" "EFI_ERROR EFI_ACCESS_DENIED" "EFI_ERROR EFI_ALREADY_STARTED"
  by (simp_all add: efi_status_defs)

lemma EFI_ERROR_nonzero: "EFI_ERROR st \<Longrightarrow> st \<noteq> 0"
  by auto

end
