(* ===== verification/Undi_Mdio.thy ===== *)
theory Undi_Mdio
  imports Undi_Types
begin

text \<open>
  Register access and the management bus: \<^verbatim>\<open>Intelgbe_osdep.c\<close> (\<^verbatim>\<open>INTELGBEInDword\<close>,
  \<^verbatim>\<open>INTELGBEOutDword\<close>, \<^verbatim>\<open>USecDelay\<close>), the MDIO transactions of \<^verbatim>\<open>intelgbe_stmmac.c\<close> and the
  clause 22 / clause 45 helpers of \<^verbatim>\<open>intelgbe_api.c\<close>.  An \<^verbatim>\<open>s32\<close> result is an \<open>int\<close> (all the
  values are small constants, and \<^verbatim>\<open>|\<close> on them is \<open>OR\<close> on two's complement integers); an
  \<^verbatim>\<open>OUT\<close> pointer is passed as the value it points to and returned beside the result.

  The lemmas show the frame of every operation, that a transaction is only started on an idle bus,
  that the command word encodes what the caller asked for, and that over a management controller that
  follows its documented handshake the accesses implement reads and writes of an abstract PHY register
  file, from which the read-modify-write helpers follow once for both clauses (locale
  \<open>register_access\<close>).
\<close>

section \<open>Constants\<close>

abbreviation INTELGBE_BUSY :: int where "INTELGBE_BUSY \<equiv> 100"
abbreviation INTELGBE_SUCCESS :: int where "INTELGBE_SUCCESS \<equiv> 0"
abbreviation INTELGBE_ERR_PHY :: int where "INTELGBE_ERR_PHY \<equiv> 2"
abbreviation INTELGBE_ERR_CONFIG :: int where "INTELGBE_ERR_CONFIG \<equiv> 3"
abbreviation INTELGBE_ERR_MAC_INIT :: int where "INTELGBE_ERR_MAC_INIT \<equiv> 5"
abbreviation INTELGBE_ERR_RESET :: int where "INTELGBE_ERR_RESET \<equiv> 9"
abbreviation INTELGBE_NOT_IMPLEMENTED :: int where "INTELGBE_NOT_IMPLEMENTED \<equiv> 14"
abbreviation INTELGBE_ERR_TIMEOUT :: int where "INTELGBE_ERR_TIMEOUT \<equiv> 19"

abbreviation MAC_MDIO_ADDRESS_REG :: u32 where "MAC_MDIO_ADDRESS_REG \<equiv> 0x0200"
abbreviation MAC_MDIO_DATA_REG :: u32 where "MAC_MDIO_DATA_REG \<equiv> 0x0204"
abbreviation MAC_MDIO_PA_MASK :: u32 where "MAC_MDIO_PA_MASK \<equiv> 0x03E00000"
abbreviation MAC_MDIO_RDA_MASK :: u32 where "MAC_MDIO_RDA_MASK \<equiv> 0x001F0000"
abbreviation MAC_MDIO_RA_MASK :: u32 where "MAC_MDIO_RA_MASK \<equiv> 0xFFFF0000"
abbreviation MAC_MDIO_GMII_BUSY :: u32 where "MAC_MDIO_GMII_BUSY \<equiv> BIT 0"
abbreviation MAC_MDIO_CLAUSE_45_PHY_EN :: u32 where "MAC_MDIO_CLAUSE_45_PHY_EN \<equiv> BIT 1"
abbreviation MAC_MDIO_GMII_OPR_CMD_READ :: u32 where "MAC_MDIO_GMII_OPR_CMD_READ \<equiv> 0x0000000C"
abbreviation MAC_MDIO_GMII_OPR_CMD_WRITE :: u32 where "MAC_MDIO_GMII_OPR_CMD_WRITE \<equiv> 0x00000004"
abbreviation MAC_MDIO_CSR_CLOCK_250_300MHZ :: u32 where
  "MAC_MDIO_CSR_CLOCK_250_300MHZ \<equiv> 0x00000500"

abbreviation XPCS_ADDR :: u32 where "XPCS_ADDR \<equiv> 0x16"

section \<open>Register access\<close>

definition IsSurpriseRemoval :: bool where
  "IsSurpriseRemoval = False"

definition INTELGBEInDword :: "'d env \<Rightarrow> u32 \<Rightarrow> ('d, u32) op" where
  "INTELGBEInDword E Port =
     (if IsSurpriseRemoval then ret 0xFFFFFFFF
      else do { g \<leftarrow> adapter; call_env (mmio_read E (hw_addr (Hw g) + ucast Port)) })"

definition INTELGBEOutDword :: "'d env \<Rightarrow> u32 \<Rightarrow> u32 \<Rightarrow> ('d, unit) op" where
  "INTELGBEOutDword E Port Data =
     (if IsSurpriseRemoval then ret ()
      else do { g \<leftarrow> adapter; run_env (mmio_write E (hw_addr (Hw g) + ucast Port) Data) })"

definition DelayInMicroseconds :: "'d env \<Rightarrow> u64 \<Rightarrow> ('d, unit) op" where
  "DelayInMicroseconds E MicroSeconds = run_env (bs_stall E MicroSeconds)"

definition USecDelay :: "'d env \<Rightarrow> u64 \<Rightarrow> ('d, unit) op" where
  "USecDelay E Usecs = DelayInMicroseconds E Usecs"

definition msec_delay :: "'d env \<Rightarrow> u64 \<Rightarrow> ('d, unit) op" where
  "msec_delay E x = USecDelay E (x * 1000)"

section \<open>MDIO transactions\<close>

text \<open>
  The address word (without command and clock) and the data word a transaction starts from, the two
  branches on \<^verbatim>\<open>c45\<close> at the head of \<^verbatim>\<open>intelgbe_mdio_write\<close> and \<^verbatim>\<open>intelgbe_mdio_read\<close>.
\<close>

definition mdio_target_address :: "u32 \<Rightarrow> u8 \<Rightarrow> u16 \<Rightarrow> bool \<Rightarrow> u32" where
  "mdio_target_address addr dv reg is45 =
     (if is45 then
        MAC_MDIO_CLAUSE_45_PHY_EN
        OR (push_bit 21 addr AND MAC_MDIO_PA_MASK)
        OR (push_bit 16 (ucast dv) AND MAC_MDIO_RDA_MASK)
      else
        (push_bit 21 addr AND MAC_MDIO_PA_MASK)
        OR (push_bit 16 (ucast reg) AND MAC_MDIO_RDA_MASK))"

definition mdio_target_data :: "u16 \<Rightarrow> bool \<Rightarrow> u32" where
  "mdio_target_data reg is45 =
     (if is45 then push_bit 16 (ucast reg) AND MAC_MDIO_RA_MASK else 0)"

text \<open>\<^verbatim>\<open>while (limit--) { if (!(read & BUSY)) break; msec_delay(1); }\<close> with \<^verbatim>\<open>limit = 100\<close>.\<close>

definition mdio_poll_busy :: "'d env \<Rightarrow> ('d, int) op" where
  "mdio_poll_busy E =
     poll_while 100
       (do { val \<leftarrow> INTELGBEInDword E MAC_MDIO_ADDRESS_REG; ret (val AND MAC_MDIO_GMII_BUSY = 0) })
       (msec_delay E 1)"

definition intelgbe_mdio_write ::
  "'d env \<Rightarrow> u32 \<Rightarrow> u8 \<Rightarrow> u16 \<Rightarrow> u16 \<Rightarrow> bool \<Rightarrow> ('d, int) op" where
  "intelgbe_mdio_write E addr dv reg data is45 = do {
     clk \<leftarrow> gets (\<lambda>w. mdio_csr_clk (phy (Hw (GigAdapter w))));
     let mdio_address = mdio_target_address addr dv reg is45
           OR (MAC_MDIO_GMII_BUSY OR MAC_MDIO_GMII_OPR_CMD_WRITE OR clk);
     let mdio_data = mdio_target_data reg is45 OR ucast data;
     limit \<leftarrow> mdio_poll_busy E;
     if limit < 0 then ret (- INTELGBE_BUSY)
     else do {
       _ \<leftarrow> INTELGBEOutDword E MAC_MDIO_DATA_REG mdio_data;
       _ \<leftarrow> INTELGBEOutDword E MAC_MDIO_ADDRESS_REG mdio_address;
       limit \<leftarrow> mdio_poll_busy E;
       if limit < 0 then ret (- INTELGBE_BUSY) else ret INTELGBE_SUCCESS } }"

definition intelgbe_mdio_read ::
  "'d env \<Rightarrow> u32 \<Rightarrow> u8 \<Rightarrow> u16 \<Rightarrow> u32 \<Rightarrow> bool \<Rightarrow> ('d, int \<times> u32) op" where
  "intelgbe_mdio_read E addr dv reg data is45 = do {
     clk \<leftarrow> gets (\<lambda>w. mdio_csr_clk (phy (Hw (GigAdapter w))));
     let mdio_address = mdio_target_address addr dv reg is45
           OR (MAC_MDIO_GMII_BUSY OR MAC_MDIO_GMII_OPR_CMD_READ OR clk);
     let mdio_data = mdio_target_data reg is45;
     limit \<leftarrow> mdio_poll_busy E;
     if limit < 0 then ret (- INTELGBE_BUSY, data)
     else do {
       _ \<leftarrow> INTELGBEOutDword E MAC_MDIO_DATA_REG mdio_data;
       _ \<leftarrow> INTELGBEOutDword E MAC_MDIO_ADDRESS_REG mdio_address;
       limit \<leftarrow> mdio_poll_busy E;
       if limit < 0 then ret (- INTELGBE_BUSY, data)
       else do {
         val \<leftarrow> INTELGBEInDword E MAC_MDIO_DATA_REG;
         ret (INTELGBE_SUCCESS, val) } } }"

section \<open>Clause 45 access to the XPCS\<close>

text \<open>
  The C code passes \<^verbatim>\<open>(UINT32 *)&data\<close> for a 16-bit variable, so \<^verbatim>\<open>intelgbe_mdio_read\<close> stores
  four bytes into it; the variable keeps the low half, on a little-endian machine.
\<close>

definition intelgbe_mdio_c45_modify ::
  "'d env \<Rightarrow> u8 \<Rightarrow> u16 \<Rightarrow> u16 \<Rightarrow> u16 \<Rightarrow> ('d, int) op" where
  "intelgbe_mdio_c45_modify E devnum regnum msk val = do {
     (retval, data32) \<leftarrow> intelgbe_mdio_read E XPCS_ADDR devnum regnum (uninit_u32 E) True;
     if retval < 0 then ret retval
     else do {
       let data = (ucast data32 :: u16);
       let data = data AND NOT msk;
       let data = data OR val;
       retval \<leftarrow> intelgbe_mdio_write E XPCS_ADDR devnum regnum data True;
       if retval < 0 then ret retval else ret INTELGBE_SUCCESS } }"

definition intelgbe_mdio_c45_read :: "'d env \<Rightarrow> u8 \<Rightarrow> u16 \<Rightarrow> u16 \<Rightarrow> ('d, int \<times> u16) op" where
  "intelgbe_mdio_c45_read E devnum regnum val = do {
     (retval, data32) \<leftarrow> intelgbe_mdio_read E XPCS_ADDR devnum regnum (ucast val) True;
     ret (retval, ucast data32) }"

section \<open>PHY register access\<close>

definition intelgbe_phy_write_c22 :: "'d env \<Rightarrow> u8 \<Rightarrow> u16 \<Rightarrow> ('d, int) op" where
  "intelgbe_phy_write_c22 E reg val = do {
     p \<leftarrow> gets (\<lambda>w. phy (Hw (GigAdapter w)));
     if mdio_write (phy_ops p) then intelgbe_mdio_write E (phy_addr p) 0 (ucast reg) val False
     else ret (- INTELGBE_NOT_IMPLEMENTED) }"

definition intelgbe_phy_read_c22 :: "'d env \<Rightarrow> u8 \<Rightarrow> u32 \<Rightarrow> ('d, int \<times> u32) op" where
  "intelgbe_phy_read_c22 E reg val = do {
     p \<leftarrow> gets (\<lambda>w. phy (Hw (GigAdapter w)));
     if mdio_read (phy_ops p) then intelgbe_mdio_read E (phy_addr p) 0 (ucast reg) val False
     else ret (- INTELGBE_NOT_IMPLEMENTED, val) }"

definition intelgbe_phy_modify_c22 :: "'d env \<Rightarrow> u8 \<Rightarrow> u16 \<Rightarrow> u16 \<Rightarrow> ('d, int) op" where
  "intelgbe_phy_modify_c22 E regnum msk val = do {
     (retval, data) \<leftarrow> intelgbe_phy_read_c22 E regnum (uninit_u32 E);
     if retval < 0 then ret retval
     else intelgbe_phy_write_c22 E regnum (ucast ((data AND NOT (ucast msk)) OR ucast val)) }"

definition intelgbe_phy_modify_c22_if_changed :: "'d env \<Rightarrow> u8 \<Rightarrow> u16 \<Rightarrow> u16 \<Rightarrow> ('d, int) op" where
  "intelgbe_phy_modify_c22_if_changed E regnum msk val = do {
     (retval, oldval) \<leftarrow> intelgbe_phy_read_c22 E regnum (uninit_u32 E);
     if retval < 0 then ret retval
     else do {
       let newval = (ucast ((oldval AND NOT (ucast msk)) OR ucast val) :: u16);
       if ucast newval = oldval then ret 0
       else do {
         retval \<leftarrow> intelgbe_phy_write_c22 E regnum newval;
         if retval < 0 then ret retval else ret 1 } } }"

definition intelgbe_phy_write_c45 :: "'d env \<Rightarrow> u8 \<Rightarrow> u16 \<Rightarrow> u16 \<Rightarrow> ('d, int) op" where
  "intelgbe_phy_write_c45 E devnum regnum val = do {
     p \<leftarrow> gets (\<lambda>w. phy (Hw (GigAdapter w)));
     if mdio_write (phy_ops p) then intelgbe_mdio_write E (phy_addr p) devnum regnum val True
     else ret (- INTELGBE_NOT_IMPLEMENTED) }"

definition intelgbe_phy_read_c45 :: "'d env \<Rightarrow> u8 \<Rightarrow> u16 \<Rightarrow> u32 \<Rightarrow> ('d, int \<times> u32) op" where
  "intelgbe_phy_read_c45 E devnum regnum val = do {
     p \<leftarrow> gets (\<lambda>w. phy (Hw (GigAdapter w)));
     if mdio_read (phy_ops p) then intelgbe_mdio_read E (phy_addr p) devnum regnum val True
     else ret (- INTELGBE_NOT_IMPLEMENTED, val) }"

definition intelgbe_phy_modify_c45 :: "'d env \<Rightarrow> u8 \<Rightarrow> u16 \<Rightarrow> u16 \<Rightarrow> u16 \<Rightarrow> ('d, int) op" where
  "intelgbe_phy_modify_c45 E devnum regnum msk val = do {
     (retval, data) \<leftarrow> intelgbe_phy_read_c45 E devnum regnum (uninit_u32 E);
     if retval < 0 then ret retval
     else intelgbe_phy_write_c45 E devnum regnum
            (ucast ((data AND NOT (ucast msk)) OR ucast val)) }"

definition intelgbe_phy_modify_c45_if_changed ::
  "'d env \<Rightarrow> u8 \<Rightarrow> u16 \<Rightarrow> u16 \<Rightarrow> u16 \<Rightarrow> ('d, int) op" where
  "intelgbe_phy_modify_c45_if_changed E devnum regnum msk val = do {
     (retval, oldval) \<leftarrow> intelgbe_phy_read_c45 E devnum regnum (uninit_u32 E);
     if retval < 0 then ret retval
     else do {
       let newval = (ucast ((oldval AND NOT (ucast msk)) OR ucast val) :: u16);
       if ucast newval = oldval then ret 0
       else do {
         retval \<leftarrow> intelgbe_phy_write_c45 E devnum regnum newval;
         if retval < 0 then ret retval else ret 1 } } }"

section \<open>Frames: bus accesses change the environment only\<close>

text \<open>
  \<open>host f\<close>: the projection \<open>f\<close> of the world does not read the environment's state.  Every
  operation of this theory keeps every such projection.
\<close>

definition host :: "('d world \<Rightarrow> 'b) \<Rightarrow> bool" where
  "host f \<longleftrightarrow> (\<forall>w d. f (w\<lparr>dev := d\<rparr>) = f w)"

lemma hostI [intro]: "(\<And>w d. f (w\<lparr>dev := d\<rparr>) = f w) \<Longrightarrow> host f"
  by (simp add: host_def)

lemma host_simps [simp]:
  "host GigAdapter" "host mem" "host fault"
  by (simp_all add: host_def)

lemma host_comp [simp]: "host f \<Longrightarrow> host (\<lambda>w. g (f w))"
  by (simp add: host_def)

lemma keeps_InDword [frame]: "host f \<Longrightarrow> keeps f (INTELGBEInDword E p)"
  unfolding INTELGBEInDword_def by (auto intro!: frame simp: host_def)

lemma keeps_OutDword [frame]: "host f \<Longrightarrow> keeps f (INTELGBEOutDword E p v)"
  unfolding INTELGBEOutDword_def by (auto intro!: frame simp: host_def)

lemma keeps_msec_delay [frame]: "host f \<Longrightarrow> keeps f (msec_delay E x)"
  unfolding msec_delay_def USecDelay_def DelayInMicroseconds_def
  by (auto intro!: frame simp: host_def)

lemma keeps_mdio_poll_busy [frame]: "host f \<Longrightarrow> keeps f (mdio_poll_busy E)"
  unfolding mdio_poll_busy_def by (auto intro!: frame)

lemma keeps_mdio_write [frame]: "host f \<Longrightarrow> keeps f (intelgbe_mdio_write E a d r v c)"
  unfolding intelgbe_mdio_write_def by (auto intro!: frame)

lemma keeps_mdio_read [frame]: "host f \<Longrightarrow> keeps f (intelgbe_mdio_read E a d r v c)"
  unfolding intelgbe_mdio_read_def by (auto intro!: frame)

lemma keeps_c45_modify [frame]: "host f \<Longrightarrow> keeps f (intelgbe_mdio_c45_modify E d r m v)"
  unfolding intelgbe_mdio_c45_modify_def by (auto intro!: frame)

lemma keeps_c45_read [frame]: "host f \<Longrightarrow> keeps f (intelgbe_mdio_c45_read E d r v)"
  unfolding intelgbe_mdio_c45_read_def by (auto intro!: frame)

lemma keeps_phy_write_c22 [frame]: "host f \<Longrightarrow> keeps f (intelgbe_phy_write_c22 E r v)"
  unfolding intelgbe_phy_write_c22_def by (auto intro!: frame)

lemma keeps_phy_read_c22 [frame]: "host f \<Longrightarrow> keeps f (intelgbe_phy_read_c22 E r v)"
  unfolding intelgbe_phy_read_c22_def by (auto intro!: frame)

lemma keeps_phy_write_c45 [frame]: "host f \<Longrightarrow> keeps f (intelgbe_phy_write_c45 E d r v)"
  unfolding intelgbe_phy_write_c45_def by (auto intro!: frame)

lemma keeps_phy_read_c45 [frame]: "host f \<Longrightarrow> keeps f (intelgbe_phy_read_c45 E d r v)"
  unfolding intelgbe_phy_read_c45_def by (auto intro!: frame)

lemma keeps_phy_modify_c22 [frame]: "host f \<Longrightarrow> keeps f (intelgbe_phy_modify_c22 E r m v)"
  unfolding intelgbe_phy_modify_c22_def by (auto intro!: frame)

lemma keeps_phy_modify_c22_if_changed [frame]:
  "host f \<Longrightarrow> keeps f (intelgbe_phy_modify_c22_if_changed E r m v)"
  unfolding intelgbe_phy_modify_c22_if_changed_def by (auto intro!: frame)

lemma keeps_phy_modify_c45 [frame]: "host f \<Longrightarrow> keeps f (intelgbe_phy_modify_c45 E d r m v)"
  unfolding intelgbe_phy_modify_c45_def by (auto intro!: frame)

lemma keeps_phy_modify_c45_if_changed [frame]:
  "host f \<Longrightarrow> keeps f (intelgbe_phy_modify_c45_if_changed E d r m v)"
  unfolding intelgbe_phy_modify_c45_if_changed_def by (auto intro!: frame)

section \<open>The management bus\<close>

text \<open>
  What a transaction addresses: clause, port address, device (clause 45) or register (clause 22)
  address, and the clause 45 register.  \<open>mdio_key\<close> decodes the command and data words the way the
  controller does, \<open>phy_target\<close> is what a caller asks for.
\<close>

type_synonym phy_key = "bool \<times> u32 \<times> u32 \<times> u32"

definition mdio_key :: "u32 \<Rightarrow> u32 \<Rightarrow> phy_key" where
  "mdio_key cmd data =
     (bit cmd 1, take_bit 5 (drop_bit 21 cmd), take_bit 5 (drop_bit 16 cmd),
      if bit cmd 1 then drop_bit 16 data else 0)"

definition phy_target :: "u32 \<Rightarrow> u8 \<Rightarrow> u16 \<Rightarrow> bool \<Rightarrow> phy_key" where
  "phy_target addr dv reg is45 =
     (is45, take_bit 5 addr, take_bit 5 (if is45 then ucast dv else ucast reg),
      if is45 then ucast reg else 0)"

lemma bit_0xF00: "bit (0xF00::u32) n \<longleftrightarrow> 8 \<le> n \<and> n < 12"
proof -
  have "(0xF00::u32) = push_bit 8 (Bit_Operations.mask 4)" by (simp add: mask_eq_exp_minus_1)
  then show ?thesis by (auto simp only: bit_simps) simp_all
qed

lemma bit_PA: "bit (0x03E00000::u32) n \<longleftrightarrow> 21 \<le> n \<and> n < 26"
proof -
  have "(0x03E00000::u32) = push_bit 21 (Bit_Operations.mask 5)" by (simp add: mask_eq_exp_minus_1)
  then show ?thesis by (auto simp only: bit_simps) simp_all
qed

lemma bit_RDA: "bit (0x001F0000::u32) n \<longleftrightarrow> 16 \<le> n \<and> n < 21"
proof -
  have "(0x001F0000::u32) = push_bit 16 (Bit_Operations.mask 5)" by (simp add: mask_eq_exp_minus_1)
  then show ?thesis by (auto simp only: bit_simps) simp_all
qed

lemma bit_RA: "bit (0xFFFF0000::u32) n \<longleftrightarrow> 16 \<le> n \<and> n < 32"
proof -
  have "(0xFFFF0000::u32) = push_bit 16 (Bit_Operations.mask 16)" by (simp add: mask_eq_exp_minus_1)
  then show ?thesis by (auto simp only: bit_simps) simp_all
qed

lemma bit_0xFFFF: "bit (0xFFFF::u32) n \<longleftrightarrow> n < 16"
proof -
  have "(0xFFFF::u32) = Bit_Operations.mask 16" by (simp add: mask_eq_exp_minus_1)
  then show ?thesis by (auto simp only: bit_simps) simp_all
qed

lemma bit_cmd: "bit (0x0C::u32) n \<longleftrightarrow> n = 2 \<or> n = 3" "bit (0x04::u32) n \<longleftrightarrow> n = 2"
proof -
  have "(0x0C::u32) = BIT 2 OR BIT 3" "(0x04::u32) = BIT 2" by (simp_all add: BIT_def)
  then show "bit (0x0C::u32) n \<longleftrightarrow> n = 2 \<or> n = 3" "bit (0x04::u32) n \<longleftrightarrow> n = 2"
    by (auto simp only: bit_simps bit_BIT) simp_all
qed

lemmas mdio_bits = bit_0xF00 bit_PA bit_RDA bit_RA bit_0xFFFF bit_cmd bit_simps

lemma csr_clk_bits: "clk AND NOT 0xF00 = (0::u32) \<Longrightarrow> bit clk n \<Longrightarrow> 8 \<le> n \<and> n < 12"
  by (metis bit_0xF00 bit_and_iff bit_not_iff bit_0_eq bot_apply bot_bool_def bit_imp_le_length
      impossible_bit linorder_not_le)

lemma bit_target_address:
  "bit (mdio_target_address addr dv reg is45) n \<longleftrightarrow>
     n = 1 \<and> is45 \<or> 21 \<le> n \<and> n < 26 \<and> bit addr (n - 21) \<or>
     16 \<le> n \<and> n < 21 \<and> bit (if is45 then ucast dv else ucast reg :: u32) (n - 16)"
  by (auto simp: mdio_target_address_def mdio_bits simp del: bit_numeral_word_iff)

lemma mdio_key_target:
  assumes clk: "clk AND NOT 0xF00 = 0" and cmd: "cmd = 0x04 \<or> cmd = (0x0C::u32)"
  shows "mdio_key (mdio_target_address addr dv reg is45 OR (BIT 0 OR cmd OR clk))
           (mdio_target_data reg is45 OR ucast (v::u16)) = phy_target addr dv reg is45"
proof -
  define c where "c = mdio_target_address addr dv reg is45 OR (BIT 0 OR cmd OR clk)"
  have hi: "bit c n \<longleftrightarrow> bit (mdio_target_address addr dv reg is45) n" if "16 \<le> n \<or> n = 1" for n
    using that cmd csr_clk_bits [OF clk, of n]
    by (auto simp: c_def bit_or_iff bit_cmd simp del: bit_numeral_word_iff)
  have "bit c 1 = is45"
    by (simp add: hi bit_target_address)
  moreover have "take_bit 5 (drop_bit 21 c) = take_bit 5 addr"
    by (rule bit_word_eqI) (auto simp: bit_take_bit_iff bit_drop_bit_eq hi bit_target_address)
  moreover have "take_bit 5 (drop_bit 16 c) =
      take_bit 5 (if is45 then ucast dv else ucast reg :: u32)"
    by (rule bit_word_eqI)
      (cases is45, auto simp: bit_take_bit_iff bit_drop_bit_eq hi bit_target_address)
  moreover have "is45 \<Longrightarrow> drop_bit 16 (mdio_target_data reg is45 OR ucast v) = ucast reg"
    by (rule bit_word_eqI)
      (auto simp: mdio_target_data_def mdio_bits simp del: bit_numeral_word_iff
        dest: bit_imp_le_length)
  ultimately show ?thesis
    by (simp add: mdio_key_def phy_target_def c_def)
qed

lemma mdio_command_bits:
  fixes addr :: u32 and dv :: u8 and reg :: u16 and is45 :: bool
  assumes clk: "clk AND NOT 0xF00 = 0" and cmd: "cmd = 0x04 \<or> cmd = (0x0C::u32)"
  defines "c \<equiv> mdio_target_address addr dv reg is45 OR (BIT 0 OR cmd OR clk)"
  shows "bit c 0" and "bit c 2" and "bit c 3 \<longleftrightarrow> cmd = 0x0C"
  using cmd csr_clk_bits [OF clk, of 3]
  by (auto simp: c_def bit_or_iff bit_cmd bit_target_address simp del: bit_numeral_word_iff)

section \<open>The controller's handshake\<close>

text \<open>
  The documented behaviour of the management controller, over a view of the environment's state: the
  PHY registers behind the bus, the number of polls a command still needs, and the data register.
  A poll of the address register shows the busy bit as long as polls remain and a delay consumes
  one; on an idle bus the data register can be written and read, and writing the address register
  with the busy bit set starts the command its operation bits name, which completes within the
  hundred polls the driver waits.  A read puts the register's value in the low half of the data
  register and leaves the high half.  PHY registers are plain storage in this contract: bits that a PHY sets
  or clears by itself between two transactions are outside it.
\<close>

record 'd mdio_view =
  phy_regs :: "'d \<Rightarrow> phy_key \<Rightarrow> u16"
  bus_busy :: "'d \<Rightarrow> nat"
  bus_data :: "'d \<Rightarrow> u32"

definition mdio_controller :: "'d env \<Rightarrow> u64 \<Rightarrow> 'd mdio_view \<Rightarrow> bool" where
  "mdio_controller E base V \<longleftrightarrow>
     (\<forall>d. case mmio_read E (base + 0x200) d of (v, d') \<Rightarrow>
        (bit v 0 \<longleftrightarrow> 0 < bus_busy V d) \<and>
        phy_regs V d' = phy_regs V d \<and> bus_busy V d' = bus_busy V d \<and> bus_data V d' = bus_data V d) \<and>
     (\<forall>d. case mmio_read E (base + 0x204) d of (v, d') \<Rightarrow>
        v = bus_data V d \<and>
        phy_regs V d' = phy_regs V d \<and> bus_busy V d' = bus_busy V d \<and> bus_data V d' = bus_data V d) \<and>
     (\<forall>d n. phy_regs V (bs_stall E n d) = phy_regs V d \<and>
        bus_busy V (bs_stall E n d) = bus_busy V d - 1 \<and> bus_data V (bs_stall E n d) = bus_data V d) \<and>
     (\<forall>d v. bus_busy V d = 0 \<longrightarrow> (let d' = mmio_write E (base + 0x204) v d in
        phy_regs V d' = phy_regs V d \<and> bus_busy V d' = 0 \<and> bus_data V d' = v)) \<and>
     (\<forall>d c. bus_busy V d = 0 \<and> bit c 0 \<longrightarrow> (let d' = mmio_write E (base + 0x200) c d in
        bus_busy V d' < 100 \<and>
        (bit c 2 \<and> \<not> bit c 3 \<longrightarrow>
           phy_regs V d' = (phy_regs V d)(mdio_key c (bus_data V d) := ucast (bus_data V d))) \<and>
        (bit c 2 \<and> bit c 3 \<longrightarrow>
           phy_regs V d' = phy_regs V d \<and>
           bus_data V d' = (bus_data V d AND MAC_MDIO_RA_MASK)
             OR ucast (phy_regs V d (mdio_key c (bus_data V d))))))"

lemma mdio_controllerD:
  assumes "mdio_controller E base V"
  shows poll_view: "mmio_read E (base + 0x200) d = (v, d') \<Longrightarrow>
      (bit v 0 \<longleftrightarrow> 0 < bus_busy V d) \<and>
      phy_regs V d' = phy_regs V d \<and> bus_busy V d' = bus_busy V d \<and> bus_data V d' = bus_data V d"
    and data_view: "mmio_read E (base + 0x204) d = (v, d') \<Longrightarrow> v = bus_data V d \<and>
      phy_regs V d' = phy_regs V d \<and> bus_busy V d' = bus_busy V d \<and> bus_data V d' = bus_data V d"
    and stall_view: "phy_regs V (bs_stall E n d) = phy_regs V d"
      "bus_busy V (bs_stall E n d) = bus_busy V d - 1" "bus_data V (bs_stall E n d) = bus_data V d"
    and data_write: "bus_busy V d = 0 \<Longrightarrow> mmio_write E (base + 0x204) v d = d' \<Longrightarrow>
      phy_regs V d' = phy_regs V d \<and> bus_busy V d' = 0 \<and> bus_data V d' = v"
    and command: "bus_busy V d = 0 \<Longrightarrow> bit c 0 \<Longrightarrow> mmio_write E (base + 0x200) c d = d' \<Longrightarrow>
      bus_busy V d' < 100 \<and>
      (bit c 2 \<and> \<not> bit c 3 \<longrightarrow>
           phy_regs V d' = (phy_regs V d)(mdio_key c (bus_data V d) := ucast (bus_data V d))) \<and>
      (bit c 2 \<and> bit c 3 \<longrightarrow>
           phy_regs V d' = phy_regs V d \<and>
           bus_data V d' = (bus_data V d AND MAC_MDIO_RA_MASK)
             OR ucast (phy_regs V d (mdio_key c (bus_data V d))))"
  using assms unfolding mdio_controller_def Let_def by (fastforce split: prod.splits)+

text \<open>What the accesses rely on: the controller behind the adapter's base address, a clock selection
  inside its field, and a bus that is idle within the hundred polls.\<close>

definition mdio_ready :: "'d env \<Rightarrow> 'd mdio_view \<Rightarrow> 'd world \<Rightarrow> bool" where
  "mdio_ready E V w \<longleftrightarrow>
     mdio_controller E (hw_addr (Hw (GigAdapter w))) V \<and>
     mdio_csr_clk (phy (Hw (GigAdapter w))) AND NOT 0xF00 = 0 \<and> bus_busy V (dev w) < 100"

abbreviation bus_regs :: "'d mdio_view \<Rightarrow> 'd world \<Rightarrow> phy_key \<Rightarrow> u16" where
  "bus_regs V w \<equiv> phy_regs V (dev w)"

lemma run_InDword [simp]:
  "run_state (INTELGBEInDword E p) w =
     (case mmio_read E (hw_addr (Hw (GigAdapter w)) + ucast p) (dev w) of (v, d) \<Rightarrow> (v, w\<lparr>dev := d\<rparr>))"
  by (simp add: INTELGBEInDword_def IsSurpriseRemoval_def split: prod.splits)

lemma run_OutDword [simp]:
  "run_state (INTELGBEOutDword E p v) w =
     ((), w\<lparr>dev := mmio_write E (hw_addr (Hw (GigAdapter w)) + ucast p) v (dev w)\<rparr>)"
  by (simp add: INTELGBEOutDword_def IsSurpriseRemoval_def)

lemma run_msec_delay [simp]:
  "run_state (msec_delay E x) w = ((), w\<lparr>dev := bs_stall E (x * 1000) (dev w)\<rparr>)"
  by (simp add: msec_delay_def USecDelay_def DelayInMicroseconds_def)

lemma poll_busy_idle:
  assumes "mdio_controller E (hw_addr (Hw (GigAdapter w))) V" and "bus_busy V (dev w) < n"
  shows "\<exists>d. run_state (poll_while n
       (do { val \<leftarrow> INTELGBEInDword E MAC_MDIO_ADDRESS_REG; ret (val AND MAC_MDIO_GMII_BUSY = 0) })
       (msec_delay E 1)) w = (int (n - 1 - bus_busy V (dev w)), w\<lparr>dev := d\<rparr>) \<and>
     phy_regs V d = phy_regs V (dev w) \<and> bus_busy V d = 0 \<and> bus_data V d = bus_data V (dev w)"
  using assms
proof (induction n arbitrary: w)
  case 0
  then show ?case by simp
next
  case (Suc n)
  obtain v d where rd: "mmio_read E (hw_addr (Hw (GigAdapter w)) + 0x200) (dev w) = (v, d)"
    by fastforce
  note view = poll_view [OF Suc.prems(1) rd]
  show ?case
  proof (cases "bus_busy V (dev w) = 0")
    case True
    with rd view show ?thesis by auto
  next
    case False
    let ?w = "w\<lparr>dev := bs_stall E 1000 d\<rparr>"
    have "bus_busy V (dev ?w) < n"
      using view False Suc.prems by (simp add: stall_view [OF Suc.prems(1)])
    then obtain d' where "run_state (poll_while n
       (do { val \<leftarrow> INTELGBEInDword E MAC_MDIO_ADDRESS_REG; ret (val AND MAC_MDIO_GMII_BUSY = 0) })
       (msec_delay E 1)) ?w = (int (n - 1 - bus_busy V (dev ?w)), ?w\<lparr>dev := d'\<rparr>) \<and>
     phy_regs V d' = phy_regs V (dev ?w) \<and> bus_busy V d' = 0 \<and> bus_data V d' = bus_data V (dev ?w)"
      using Suc.IH [of ?w] Suc.prems(1) by auto
    with rd view False Suc.prems show ?thesis
      by (auto simp: stall_view [OF Suc.prems(1)])
  qed
qed

lemma mdio_poll_busy_idle:
  assumes "mdio_ready E V w"
  obtains l d where "run_state (mdio_poll_busy E) w = (l, w\<lparr>dev := d\<rparr>)" and "0 \<le> l"
    and "phy_regs V d = phy_regs V (dev w)" and "bus_busy V d = 0"
    and "bus_data V d = bus_data V (dev w)"
  using poll_busy_idle [of E w V 100] assms unfolding mdio_ready_def mdio_poll_busy_def by auto

lemma mdio_write_ready:
  assumes ready: "mdio_ready E V w"
  shows "\<exists>d. run_state (intelgbe_mdio_write E addr dv reg v is45) w = (0, w\<lparr>dev := d\<rparr>) \<and>
    bus_regs V (w\<lparr>dev := d\<rparr>) = (bus_regs V w)(phy_target addr dv reg is45 := v) \<and>
    mdio_ready E V (w\<lparr>dev := d\<rparr>)"
proof -
  let ?base = "hw_addr (Hw (GigAdapter w))" and ?clk = "mdio_csr_clk (phy (Hw (GigAdapter w)))"
  define c where "c = mdio_target_address addr dv reg is45 OR (BIT 0 OR 0x04 OR ?clk)"
  define da where "da = mdio_target_data reg is45 OR ucast v"
  have C: "mdio_controller E ?base V" and clk: "?clk AND NOT 0xF00 = 0"
    using ready by (simp_all add: mdio_ready_def)
  obtain l d0 where 0: "run_state (mdio_poll_busy E) w = (l, w\<lparr>dev := d0\<rparr>)" "0 \<le> l"
    "phy_regs V d0 = phy_regs V (dev w)" "bus_busy V d0 = 0"
    using mdio_poll_busy_idle [OF ready] by metis
  define d1 where "d1 = mmio_write E (?base + 0x204) da d0"
  have 1: "phy_regs V d1 = phy_regs V d0" "bus_busy V d1 = 0" "bus_data V d1 = da"
    using data_write [OF C 0(4) d1_def [symmetric]] by simp_all
  define d2 where "d2 = mmio_write E (?base + 0x200) c d1"
  have low: "ucast da = v"
    unfolding da_def mdio_target_data_def
    by (rule bit_word_eqI) (auto simp: mdio_bits simp del: bit_numeral_word_iff)
  have 2: "bus_busy V d2 < 100" "phy_regs V d2 = (phy_regs V d1)(phy_target addr dv reg is45 := v)"
    using command [OF C 1(2) _ d2_def [symmetric]] mdio_command_bits [OF clk, of 4 addr dv reg is45]
      mdio_key_target [OF clk, of 4 addr dv reg is45 v] low
    by (simp_all add: 1 flip: c_def da_def)
  have "mdio_ready E V (w\<lparr>dev := d2\<rparr>)" using ready 2 by (simp add: mdio_ready_def)
  then obtain l' d3 where 3: "run_state (mdio_poll_busy E) (w\<lparr>dev := d2\<rparr>) = (l', w\<lparr>dev := d3\<rparr>)" "0 \<le> l'"
    "phy_regs V d3 = phy_regs V d2" "bus_busy V d3 = 0"
    by (rule mdio_poll_busy_idle) auto
  have "run_state (intelgbe_mdio_write E addr dv reg v is45) w = (0, w\<lparr>dev := d3\<rparr>)"
    using 0 3 by (simp add: intelgbe_mdio_write_def flip: c_def da_def d1_def d2_def)
  moreover have "mdio_ready E V (w\<lparr>dev := d3\<rparr>)" using ready 3 by (simp add: mdio_ready_def)
  ultimately show ?thesis using 3 2 1 0 by auto
qed


lemma mdio_read_ready:
  assumes ready: "mdio_ready E V w"
  shows "\<exists>d. run_state (intelgbe_mdio_read E addr dv reg v is45) w =
      ((0, mdio_target_data reg is45 OR ucast (bus_regs V w (phy_target addr dv reg is45))),
       w\<lparr>dev := d\<rparr>) \<and>
    bus_regs V (w\<lparr>dev := d\<rparr>) = bus_regs V w \<and> mdio_ready E V (w\<lparr>dev := d\<rparr>)"
proof -
  let ?base = "hw_addr (Hw (GigAdapter w))" and ?clk = "mdio_csr_clk (phy (Hw (GigAdapter w)))"
  define c where "c = mdio_target_address addr dv reg is45 OR (BIT 0 OR 0x0C OR ?clk)"
  define da where "da = mdio_target_data reg is45"
  have C: "mdio_controller E ?base V" and clk: "?clk AND NOT 0xF00 = 0"
    using ready by (simp_all add: mdio_ready_def)
  obtain l d0 where 0: "run_state (mdio_poll_busy E) w = (l, w\<lparr>dev := d0\<rparr>)" "0 \<le> l"
    "phy_regs V d0 = phy_regs V (dev w)" "bus_busy V d0 = 0"
    using mdio_poll_busy_idle [OF ready] by metis
  define d1 where "d1 = mmio_write E (?base + 0x204) da d0"
  have 1: "phy_regs V d1 = phy_regs V d0" "bus_busy V d1 = 0" "bus_data V d1 = da"
    using data_write [OF C 0(4) d1_def [symmetric]] by simp_all
  define d2 where "d2 = mmio_write E (?base + 0x200) c d1"
  have tag: "da AND MAC_MDIO_RA_MASK = da"
    unfolding da_def mdio_target_data_def
    by (rule bit_word_eqI) (auto simp: mdio_bits simp del: bit_numeral_word_iff)
  have 2: "bus_busy V d2 < 100" "phy_regs V d2 = phy_regs V d1"
    "bus_data V d2 = da OR ucast (phy_regs V d1 (phy_target addr dv reg is45))"
    using command [OF C 1(2) _ d2_def [symmetric]] mdio_command_bits [OF clk, of 12 addr dv reg is45]
      mdio_key_target [OF clk, of 12 addr dv reg is45 0]
    by (simp_all add: 1 tag flip: c_def da_def)
  have "mdio_ready E V (w\<lparr>dev := d2\<rparr>)" using ready 2 by (simp add: mdio_ready_def)
  then obtain l' d3 where 3: "run_state (mdio_poll_busy E) (w\<lparr>dev := d2\<rparr>) = (l', w\<lparr>dev := d3\<rparr>)" "0 \<le> l'"
    "phy_regs V d3 = phy_regs V d2" "bus_busy V d3 = 0" "bus_data V d3 = bus_data V d2"
    by (rule mdio_poll_busy_idle) auto
  obtain r d4 where rd: "mmio_read E (?base + 0x204) d3 = (r, d4)" by fastforce
  note 4 = data_view [OF C rd]
  have "run_state (intelgbe_mdio_read E addr dv reg v is45) w = ((0, r), w\<lparr>dev := d4\<rparr>)"
    using 0 3 rd by (simp add: intelgbe_mdio_read_def flip: c_def da_def d1_def d2_def)
  moreover have "mdio_ready E V (w\<lparr>dev := d4\<rparr>)" using ready 3 4 by (simp add: mdio_ready_def)
  ultimately show ?thesis using 4 3 2 1 0 by (auto simp: da_def)
qed

section \<open>Read-modify-write over a register file\<close>

text \<open>
  The two helpers the driver writes once for each clause, over any pair of accesses.  The contract:
  the accesses succeed on an abstract register file, where a read may return a tag above the
  register's sixteen bits.
\<close>

definition rmw :: "('k \<Rightarrow> ('s, int \<times> u32) state) \<Rightarrow> ('k \<Rightarrow> u16 \<Rightarrow> ('s, int) state) \<Rightarrow>
    'k \<Rightarrow> u16 \<Rightarrow> u16 \<Rightarrow> ('s, int) state" where
  "rmw rd wr k msk val = do {
     (retval, data) \<leftarrow> rd k;
     if retval < 0 then ret retval
     else wr k (ucast ((data AND NOT (ucast msk)) OR ucast val)) }"

definition rmw_if_changed :: "('k \<Rightarrow> ('s, int \<times> u32) state) \<Rightarrow> ('k \<Rightarrow> u16 \<Rightarrow> ('s, int) state) \<Rightarrow>
    'k \<Rightarrow> u16 \<Rightarrow> u16 \<Rightarrow> ('s, int) state" where
  "rmw_if_changed rd wr k msk val = do {
     (retval, oldval) \<leftarrow> rd k;
     if retval < 0 then ret retval
     else do {
       let newval = (ucast ((oldval AND NOT (ucast msk)) OR ucast val) :: u16);
       if ucast newval = oldval then ret 0
       else do {
         retval \<leftarrow> wr k newval;
         if retval < 0 then ret retval else ret 1 } } }"

definition merge_bits :: "u16 \<Rightarrow> u16 \<Rightarrow> u16 \<Rightarrow> u16" where
  "merge_bits old msk val = (old AND NOT msk) OR val"

locale register_access =
  fixes rd :: "'k \<Rightarrow> ('s, int \<times> u32) state"
    and wr :: "'k \<Rightarrow> u16 \<Rightarrow> ('s, int) state"
    and ok :: "'s \<Rightarrow> bool"
    and regs :: "'s \<Rightarrow> 'a \<Rightarrow> u16"
    and key :: "'k \<Rightarrow> 'a"
    and tag :: "'k \<Rightarrow> u32"
  assumes reads: "ok s \<Longrightarrow>
      \<exists>t. run_state (rd k) s = ((0, tag k OR ucast (regs s (key k))), t) \<and> regs t = regs s \<and> ok t"
    and writes: "ok s \<Longrightarrow>
      \<exists>t. run_state (wr k v) s = (0, t) \<and> regs t = (regs s)(key k := v) \<and> ok t"
    and tag_high: "ucast (tag k) = (0::u16)"
begin

lemma tag_bits: "i < 16 \<Longrightarrow> \<not> bit (tag k) i"
  using arg_cong [OF tag_high [of k], of "\<lambda>x. bit x i"] by (auto simp: bit_simps dest: bit_imp_le_length)

lemma merged: "ucast ((tag k OR ucast old AND NOT (ucast msk)) OR ucast val :: u32) = merge_bits old msk val"
  "ucast (((tag k OR ucast old) AND NOT (ucast msk)) OR ucast val :: u32) = merge_bits old msk val"
  unfolding merge_bits_def by (rule bit_word_eqI; auto simp: bit_simps tag_bits)+

lemma tagged_eq: "(ucast new :: u32) = tag k OR ucast (old :: u16) \<longleftrightarrow> tag k = 0 \<and> new = old"
proof (intro iffI conjI)
  assume eq: "(ucast new :: u32) = tag k OR ucast old"
  show "tag k = 0"
  proof (rule bit_word_eqI)
    fix i show "bit (tag k) i = bit (0::u32) i"
      using arg_cong [OF eq, of "\<lambda>x. bit x i"] tag_bits [of i k]
      by (cases "i < 16") (auto simp: bit_simps dest: bit_imp_le_length)
  qed
  show "new = old"
  proof (rule bit_word_eqI)
    fix i assume "i < LENGTH(16)"
    then show "bit new i = bit old i"
      using arg_cong [OF eq, of "\<lambda>x. bit x i"] tag_bits [of i k] by (auto simp: bit_simps)
  qed
qed simp

lemma rmw_updates:
  assumes "ok s"
  shows "\<exists>t. run_state (rmw rd wr k msk val) s = (0, t) \<and>
    regs t = (regs s)(key k := merge_bits (regs s (key k)) msk val) \<and> ok t"
proof -
  obtain t where r: "run_state (rd k) s = ((0, tag k OR ucast (regs s (key k))), t)"
    and t: "regs t = regs s" "ok t"
    using reads [OF assms] by blast
  show ?thesis
    using writes [OF t(2), of k "merge_bits (regs s (key k)) msk val"] r t
    by (simp add: rmw_def merged)
qed

lemma rmw_if_changed_updates:
  assumes "ok s"
  shows "\<exists>t. run_state (rmw_if_changed rd wr k msk val) s =
      (if tag k = 0 \<and> merge_bits (regs s (key k)) msk val = regs s (key k) then 0 else 1, t) \<and>
    regs t = (regs s)(key k := merge_bits (regs s (key k)) msk val) \<and> ok t"
proof -
  obtain t where r: "run_state (rd k) s = ((0, tag k OR ucast (regs s (key k))), t)"
    and t: "regs t = regs s" "ok t"
    using reads [OF assms] by blast
  show ?thesis
    using writes [OF t(2), of k "merge_bits (regs s (key k)) msk val"] r t
    by (auto simp: rmw_if_changed_def merged tagged_eq Let_def)
qed

end

text \<open>The world is ready for the accesses of the PHY helpers: both bus operations are installed and the
  PHY answers at address \<open>a\<close>.\<close>

definition phy_ready :: "'d env \<Rightarrow> 'd mdio_view \<Rightarrow> u32 \<Rightarrow> 'd world \<Rightarrow> bool" where
  "phy_ready E V a w \<longleftrightarrow> mdio_ready E V w \<and>
     mdio_write (phy_ops (phy (Hw (GigAdapter w)))) \<and> mdio_read (phy_ops (phy (Hw (GigAdapter w)))) \<and>
     phy_addr (phy (Hw (GigAdapter w))) = a"

lemma phy_ready_dev: "phy_ready E V a w \<Longrightarrow> mdio_ready E V (w\<lparr>dev := d\<rparr>) \<Longrightarrow> phy_ready E V a (w\<lparr>dev := d\<rparr>)"
  by (simp add: phy_ready_def)

lemma push_tag: "ucast (push_bit 16 (ucast (r::u16) :: u32)) = (0::u16)"
  by (rule bit_word_eqI) (auto simp: bit_simps)

lemma target_tag: "mdio_target_data r True = push_bit 16 (ucast r)"
  unfolding mdio_target_data_def
  by (rule bit_word_eqI) (auto simp: mdio_bits simp del: bit_numeral_word_iff)

interpretation c22: register_access
  "\<lambda>r. intelgbe_phy_read_c22 E r (uninit_u32 E)" "intelgbe_phy_write_c22 E"
  "phy_ready E V a" "bus_regs V" "\<lambda>r. phy_target a 0 (ucast r) False" "\<lambda>_. 0"
  for E V a
proof
  fix w k v assume ok: "phy_ready E V a w"
  then have r: "mdio_ready E V w" by (simp add: phy_ready_def)
  show "\<exists>t. run_state (intelgbe_phy_read_c22 E k (uninit_u32 E)) w =
      ((0, 0 OR ucast (bus_regs V w (phy_target a 0 (ucast k) False))), t) \<and>
      bus_regs V t = bus_regs V w \<and> phy_ready E V a t"
    using mdio_read_ready [OF r, of a 0 "ucast k" "uninit_u32 E" False] ok phy_ready_dev [OF ok]
    by (auto simp: intelgbe_phy_read_c22_def phy_ready_def mdio_target_data_def)
  show "\<exists>t. run_state (intelgbe_phy_write_c22 E k v) w = (0, t) \<and>
      bus_regs V t = (bus_regs V w)(phy_target a 0 (ucast k) False := v) \<and> phy_ready E V a t"
    using mdio_write_ready [OF r, of a 0 "ucast k" v False] ok phy_ready_dev [OF ok]
    by (auto simp: intelgbe_phy_write_c22_def phy_ready_def)
qed simp

interpretation c45: register_access
  "\<lambda>(dv, r). intelgbe_phy_read_c45 E dv r (uninit_u32 E)" "\<lambda>(dv, r). intelgbe_phy_write_c45 E dv r"
  "phy_ready E V a" "bus_regs V" "\<lambda>(dv, r). phy_target a dv r True" "\<lambda>(dv, r). push_bit 16 (ucast r)"
  for E V a
proof
  fix w v and k :: "u8 \<times> u16" assume ok: "phy_ready E V a w"
  then have r: "mdio_ready E V w" by (simp add: phy_ready_def)
  obtain dv rg where k: "k = (dv, rg)" by fastforce
  show "\<exists>t. run_state (case k of (dv, r) \<Rightarrow> intelgbe_phy_read_c45 E dv r (uninit_u32 E)) w =
      ((0, (case k of (dv, r) \<Rightarrow> push_bit 16 (ucast r)) OR
        ucast (bus_regs V w (case k of (dv, r) \<Rightarrow> phy_target a dv r True))), t) \<and>
      bus_regs V t = bus_regs V w \<and> phy_ready E V a t"
    using mdio_read_ready [OF r, of a dv rg "uninit_u32 E" True] ok phy_ready_dev [OF ok]
    by (auto simp: k intelgbe_phy_read_c45_def phy_ready_def target_tag)
  show "\<exists>t. run_state ((case k of (dv, r) \<Rightarrow> intelgbe_phy_write_c45 E dv r) v) w = (0, t) \<and>
      bus_regs V t = (bus_regs V w)((case k of (dv, r) \<Rightarrow> phy_target a dv r True) := v) \<and>
      phy_ready E V a t"
    using mdio_write_ready [OF r, of a dv rg v True] ok phy_ready_dev [OF ok]
    by (auto simp: k intelgbe_phy_write_c45_def phy_ready_def)
qed (auto simp: push_tag)

interpretation xpcs: register_access
  "\<lambda>(dv, r). intelgbe_mdio_read E XPCS_ADDR dv r (uninit_u32 E) True"
  "\<lambda>(dv, r) v. intelgbe_mdio_write E XPCS_ADDR dv r v True"
  "mdio_ready E V" "bus_regs V" "\<lambda>(dv, r). phy_target XPCS_ADDR dv r True"
  "\<lambda>(dv, r). push_bit 16 (ucast r)"
  for E V
proof
  fix w v and k :: "u8 \<times> u16" assume r: "mdio_ready E V w"
  obtain dv rg where k: "k = (dv, rg)" by fastforce
  show "\<exists>t. run_state (case k of (dv, r) \<Rightarrow> intelgbe_mdio_read E XPCS_ADDR dv r (uninit_u32 E) True) w =
      ((0, (case k of (dv, r) \<Rightarrow> push_bit 16 (ucast r)) OR
        ucast (bus_regs V w (case k of (dv, r) \<Rightarrow> phy_target XPCS_ADDR dv r True))), t) \<and>
      bus_regs V t = bus_regs V w \<and> mdio_ready E V t"
    using mdio_read_ready [OF r, of XPCS_ADDR dv rg "uninit_u32 E" True] by (auto simp: k target_tag)
  show "\<exists>t. run_state ((case k of (dv, r) \<Rightarrow> \<lambda>v. intelgbe_mdio_write E XPCS_ADDR dv r v True) v) w =
      (0, t) \<and> bus_regs V t = (bus_regs V w)((case k of (dv, r) \<Rightarrow> phy_target XPCS_ADDR dv r True) := v) \<and>
      mdio_ready E V t"
    using mdio_write_ready [OF r, of XPCS_ADDR dv rg v True] by (auto simp: k)
qed (auto simp: push_tag)

lemma phy_modify_c22_rmw:
  "intelgbe_phy_modify_c22 E r m v =
     rmw (\<lambda>r. intelgbe_phy_read_c22 E r (uninit_u32 E)) (intelgbe_phy_write_c22 E) r m v"
  by (simp add: intelgbe_phy_modify_c22_def rmw_def)

lemma phy_modify_c22_if_changed_rmw:
  "intelgbe_phy_modify_c22_if_changed E r m v =
     rmw_if_changed (\<lambda>r. intelgbe_phy_read_c22 E r (uninit_u32 E)) (intelgbe_phy_write_c22 E) r m v"
  by (simp add: intelgbe_phy_modify_c22_if_changed_def rmw_if_changed_def)

lemma phy_modify_c45_rmw:
  "intelgbe_phy_modify_c45 E dv r m v =
     rmw (\<lambda>(dv, r). intelgbe_phy_read_c45 E dv r (uninit_u32 E))
       (\<lambda>(dv, r). intelgbe_phy_write_c45 E dv r) (dv, r) m v"
  by (simp add: intelgbe_phy_modify_c45_def rmw_def split_def cong: if_cong)

lemma phy_modify_c45_if_changed_rmw:
  "intelgbe_phy_modify_c45_if_changed E dv r m v =
     rmw_if_changed (\<lambda>(dv, r). intelgbe_phy_read_c45 E dv r (uninit_u32 E))
       (\<lambda>(dv, r). intelgbe_phy_write_c45 E dv r) (dv, r) m v"
  by (simp add: intelgbe_phy_modify_c45_if_changed_def rmw_if_changed_def split_def Let_def cong: if_cong)


section \<open>A simulated controller\<close>

text \<open>
  An environment in which nothing but the management bus answers, and a bus whose commands take
  \<open>n\<close> polls, at any base address.  It shows that the contract above can hold.
\<close>

definition dead_env :: "'d env" where
  "dead_env =
     \<lparr>mmio_read = \<lambda>a d. (0, d), mmio_write = \<lambda>a v d. d, bs_stall = \<lambda>n d. d,
      pci_attributes = \<lambda>p oper x r d. ((EFI_UNSUPPORTED, r), d),
      pci_allocate_buffer = \<lambda>p n r d. ((EFI_OUT_OF_RESOURCES, r), d),
      pci_free_buffer = \<lambda>p n a d. (EFI_SUCCESS, d),
      pci_map = \<lambda>p oper h n a m d. ((EFI_UNSUPPORTED, n, a, m), d),
      pci_unmap = \<lambda>p m d. (EFI_SUCCESS, d),
      pci_read_config = \<lambda>p d. (replicate 64 0, d),
      pci_get_location = \<lambda>p d. ((0, 0, 0, 0), d),
      map_mem_callback = \<lambda>f u a n x r d. (r, d),
      uninit_u32 = 0, uninit_s32 = 0, uninit_bool = False\<rparr>"

record sim_bus =
  sim_regs :: "phy_key \<Rightarrow> u16"
  sim_busy :: nat
  sim_data :: u32

definition sim_view :: "sim_bus mdio_view" where
  "sim_view = \<lparr>phy_regs = sim_regs, bus_busy = sim_busy, bus_data = sim_data\<rparr>"

definition sim_command :: "nat \<Rightarrow> u32 \<Rightarrow> sim_bus \<Rightarrow> sim_bus" where
  "sim_command n c d =
     (let k = mdio_key c (sim_data d) in
      if bit c 3 then
        d\<lparr>sim_data := (sim_data d AND MAC_MDIO_RA_MASK) OR ucast (sim_regs d k), sim_busy := n\<rparr>
      else d\<lparr>sim_regs := (sim_regs d)(k := ucast (sim_data d)), sim_busy := n\<rparr>)"

definition sim_env :: "nat \<Rightarrow> u64 \<Rightarrow> sim_bus env" where
  "sim_env n base = dead_env
     \<lparr>mmio_read := \<lambda>a d. (if a = base + 0x200 then (if sim_busy d = 0 then 0 else 1)
                          else if a = base + 0x204 then sim_data d else 0, d),
      mmio_write := \<lambda>a v d. (if a = base + 0x204 then d\<lparr>sim_data := v\<rparr>
                             else if a = base + 0x200 \<and> bit v 0 then sim_command n v d else d),
      bs_stall := \<lambda>_ d. d\<lparr>sim_busy := sim_busy d - 1\<rparr>\<rparr>"

lemma sim_controller: "n < 100 \<Longrightarrow> mdio_controller (sim_env n base) base sim_view"
  by (simp add: mdio_controller_def sim_env_def sim_view_def sim_command_def Let_def)

definition sim_world :: "u32 \<Rightarrow> sim_bus world" where
  "sim_world a =
     \<lparr>GigAdapter = zero_adapter\<lparr>Hw := zero_hw\<lparr>hw_addr := 0x1000,
        phy := (phy zero_hw)\<lparr>phy_addr := a, mdio_csr_clk := MAC_MDIO_CSR_CLOCK_250_300MHZ,
          phy_ops := (phy_ops (phy zero_hw))\<lparr>mdio_write := True, mdio_read := True\<rparr>\<rparr>\<rparr>\<rparr>,
      dev = \<lparr>sim_regs = \<lambda>_. 7, sim_busy = 3, sim_data = 0\<rparr>, mem = \<lambda>_. 0, fault = False\<rparr>"

lemma sim_mdio_ready: "n < 100 \<Longrightarrow> mdio_ready (sim_env n 0x1000) sim_view (sim_world a)"
  by (simp add: mdio_ready_def sim_world_def sim_controller zero_adapter_def zero_hw_def)
    (simp add: sim_view_def)

lemma sim_phy_ready: "n < 100 \<Longrightarrow> phy_ready (sim_env n 0x1000) sim_view a (sim_world a)"
  by (simp add: phy_ready_def sim_mdio_ready) (simp add: sim_world_def)

section \<open>Properties\<close>

text \<open>
  C10.  Over a management controller that follows its handshake, \<^verbatim>\<open>intelgbe_mdio_write\<close> is an
  assignment to the PHY register the caller names: it returns success, exactly the addressed register
  takes the new value, whatever clause, and nothing of the driver's own state changes.
\<close>

theorem mdio_write_refines:
  assumes "mdio_ready E V w"
    and "run_state (intelgbe_mdio_write E addr dv reg v is45) w = (r, w')"
  shows "r = INTELGBE_SUCCESS \<and> mdio_ready E V w' \<and> w' = w\<lparr>dev := dev w'\<rparr> \<and>
    bus_regs V w' = (bus_regs V w)(phy_target addr dv reg is45 := v)"
  using mdio_write_ready [OF assms(1), of addr dv reg v is45] assms(2) by auto

theorem mdio_write_refines_witness:
  "\<exists>r w'. run_state (intelgbe_mdio_write (sim_env 5 0x1000) 1 0 4 0xBEEF False) (sim_world 1) = (r, w') \<and>
     r = 0 \<and> bus_regs sim_view w' = (\<lambda>_. 7)(phy_target 1 0 4 False := 0xBEEF)"
proof -
  obtain r w' where run:
    "run_state (intelgbe_mdio_write (sim_env 5 0x1000) 1 0 4 0xBEEF False) (sim_world 1) = (r, w')"
    by fastforce
  have "phy_regs sim_view (dev (sim_world 1)) = (\<lambda>_. 7)"
    by (simp add: sim_view_def sim_world_def)
  with mdio_write_refines [OF sim_mdio_ready run] run show ?thesis by simp
qed

text \<open>
  C11.  Over such a controller \<^verbatim>\<open>intelgbe_mdio_read\<close> returns success and the addressed register in
  the low half of its result, with the clause 45 register number above it, and changes neither a PHY
  register nor the driver's state.
\<close>

theorem mdio_read_refines:
  assumes "mdio_ready E V w"
    and "run_state (intelgbe_mdio_read E addr dv reg x is45) w = ((r, val), w')"
  shows "r = INTELGBE_SUCCESS \<and> ucast val = bus_regs V w (phy_target addr dv reg is45) \<and>
    drop_bit 16 val = (if is45 then ucast reg else 0) \<and>
    mdio_ready E V w' \<and> w' = w\<lparr>dev := dev w'\<rparr> \<and> bus_regs V w' = bus_regs V w"
proof -
  have val: "val = mdio_target_data reg is45 OR ucast (bus_regs V w (phy_target addr dv reg is45))"
    using mdio_read_ready [OF assms(1), of addr dv reg x is45] assms(2) by auto
  have low: "ucast (mdio_target_data reg is45 OR ucast y) = y" for y :: u16
    by (rule bit_word_eqI)
      (auto simp: mdio_target_data_def mdio_bits simp del: bit_numeral_word_iff)
  have high: "drop_bit 16 (mdio_target_data reg is45 OR ucast y) = (if is45 then ucast reg else 0)"
    for y :: u16
    by (rule bit_word_eqI)
      (auto simp: target_tag mdio_target_data_def mdio_bits simp del: bit_numeral_word_iff
        dest: bit_imp_le_length)
  show ?thesis
    using mdio_read_ready [OF assms(1), of addr dv reg x is45] assms(2) low high by (auto simp: val)
qed

theorem mdio_read_refines_witness:
  "\<exists>r val w'. run_state (intelgbe_mdio_read (sim_env 5 0x1000) 1 3 4 0 True) (sim_world 1) = ((r, val), w') \<and>
     r = 0 \<and> ucast val = (7 :: u16)"
proof -
  obtain r val w' where run:
    "run_state (intelgbe_mdio_read (sim_env 5 0x1000) 1 3 4 0 True) (sim_world 1) = ((r, val), w')"
    by (metis prod.exhaust)
  have "phy_regs sim_view (dev (sim_world 1)) = (\<lambda>_. 7)"
    by (simp add: sim_view_def sim_world_def)
  with mdio_read_refines [OF sim_mdio_ready run] run show ?thesis by simp
qed


text \<open>
  \<^verbatim>\<open>intelgbe_phy_modify_c22_if_changed\<close> replaces exactly the masked bits of the register, leaves
  every other register alone, and returns 1 when that changed the register and 0 when it did not.
\<close>

theorem phy_modify_c22_if_changed_refines:
  assumes "phy_ready E V a w"
    and "run_state (intelgbe_phy_modify_c22_if_changed E reg msk val) w = (r, w')"
    and "k = phy_target a 0 (ucast reg) False"
  shows "bus_regs V w' = (bus_regs V w)(k := (bus_regs V w k AND NOT msk) OR val) \<and>
    r = (if bus_regs V w' = bus_regs V w then 0 else 1) \<and> phy_ready E V a w'"
  using c22.rmw_if_changed_updates [OF assms(1), of reg msk val] assms(2,3)
  by (auto simp: phy_modify_c22_if_changed_rmw merge_bits_def fun_upd_idem_iff)

theorem phy_modify_c22_if_changed_refines_witness:
  "\<exists>r w'. run_state (intelgbe_phy_modify_c22_if_changed (sim_env 5 0x1000) 4 0x6 0x8) (sim_world 1) = (r, w') \<and>
     r = 1 \<and> bus_regs sim_view w' = (\<lambda>_. 7)(phy_target 1 0 4 False := 9)"
proof -
  obtain r w' where run: "run_state (intelgbe_phy_modify_c22_if_changed (sim_env 5 0x1000) 4 0x6 0x8)
      (sim_world 1) = (r, w')"
    by fastforce
  have v: "phy_regs sim_view (dev (sim_world 1)) = (\<lambda>_. 7)"
    by (simp add: sim_view_def sim_world_def)
  have "(\<lambda>_. 7)(phy_target 1 0 4 False := 9) \<noteq> (\<lambda>_. 7 :: u16)"
    by (simp add: fun_upd_idem_iff)
  with phy_modify_c22_if_changed_refines [OF sim_phy_ready run refl] run show ?thesis
    by (simp add: v)
qed

text \<open>
  The clause 45 variant updates the register in the same way but compares the new sixteen-bit value
  with the whole data word, which carries the register number above the value: for every register but
  number 0 it writes and reports a change even when the value is the same.
\<close>

theorem phy_modify_c45_if_changed_reports:
  assumes "phy_ready E V a w"
    and "run_state (intelgbe_phy_modify_c45_if_changed E dv reg msk val) w = (r, w')"
    and "k = phy_target a dv reg True"
  shows "bus_regs V w' = (bus_regs V w)(k := (bus_regs V w k AND NOT msk) OR val) \<and>
    (reg \<noteq> 0 \<longrightarrow> r = 1) \<and>
    (reg = 0 \<longrightarrow> r = (if bus_regs V w' = bus_regs V w then 0 else 1)) \<and> phy_ready E V a w'"
proof -
  have tag: "push_bit 16 (ucast reg :: u32) = 0 \<longleftrightarrow> reg = 0"
  proof
    assume *: "push_bit 16 (ucast reg :: u32) = 0"
    show "reg = 0"
    proof (rule bit_word_eqI)
      fix n assume "n < LENGTH(16)"
      with arg_cong [OF *, of "\<lambda>x. bit x (n + 16)"] show "bit reg n = bit 0 n"
        by (auto simp: bit_simps)
    qed
  qed simp
  show ?thesis
    using c45.rmw_if_changed_updates [OF assms(1), of "(dv, reg)" msk val] assms(2,3)
    by (auto simp: phy_modify_c45_if_changed_rmw merge_bits_def tag fun_upd_idem_iff)
qed

theorem phy_modify_c45_if_changed_reports_witness:
  "\<exists>r w'. run_state (intelgbe_phy_modify_c45_if_changed (sim_env 5 0x1000) 3 4 0x6 0x6) (sim_world 1) = (r, w') \<and>
     r = 1 \<and> bus_regs sim_view w' = bus_regs sim_view (sim_world 1)"
proof -
  obtain r w' where run: "run_state (intelgbe_phy_modify_c45_if_changed (sim_env 5 0x1000) 3 4 0x6 0x6)
      (sim_world 1) = (r, w')"
    by fastforce
  have v: "phy_regs sim_view (dev (sim_world 1)) = (\<lambda>_. 7)"
    by (simp add: sim_view_def sim_world_def)
  from phy_modify_c45_if_changed_reports [OF sim_phy_ready run refl] run show ?thesis
    by (simp add: v fun_upd_idem)
qed

lemma poll_while_never:
  assumes "\<And>s. P s \<Longrightarrow> \<not> fst (run_state test s)" and "\<And>s. P s \<Longrightarrow> P (snd (run_state test s))"
    and "\<And>s. P s \<Longrightarrow> P (snd (run_state delay s))" and "P s"
  shows "fst (run_state (poll_while n test delay) s) = -1"
  using assms(4)
proof (induction n arbitrary: s)
  case (Suc n)
  then show ?case
    using assms(1-3) [of s] assms(3) [of "snd (run_state test s)"]
    by (auto split: prod.splits)
qed simp

lemma mdio_poll_busy_stuck:
  assumes "\<forall>d. bit (fst (mmio_read E (hw_addr (Hw (GigAdapter w)) + 0x200) d)) 0"
  shows "fst (run_state (mdio_poll_busy E) w) = -1"
  unfolding mdio_poll_busy_def
  by (rule poll_while_never [where P = "\<lambda>v. hw_addr (Hw (GigAdapter v)) = hw_addr (Hw (GigAdapter w))"])
    (use assms in \<open>auto split: prod.splits simp: case_prod_unfold\<close>)

lemma mdio_poll_busy_reads_only: "mdio_poll_busy (E\<lparr>mmio_write := f\<rparr>) = mdio_poll_busy E"
  by (simp add: mdio_poll_busy_def INTELGBEInDword_def msec_delay_def USecDelay_def
      DelayInMicroseconds_def)

text \<open>
  C35.  On a bus that never becomes idle both transactions give up after their hundred polls with
  \<^verbatim>\<open>-INTELGBE_BUSY\<close>, leave the caller's result as it was, and never write a register: replacing
  the register write of the environment by any other function changes nothing.
\<close>

theorem mdio_busy_gives_up:
  assumes stuck: "\<forall>d. bit (fst (mmio_read E (hw_addr (Hw (GigAdapter w)) + 0x200) d)) 0"
  shows "fst (run_state (intelgbe_mdio_write E addr dv reg v is45) w) = - INTELGBE_BUSY \<and>
    fst (run_state (intelgbe_mdio_read E addr dv reg x is45) w) = (- INTELGBE_BUSY, x) \<and>
    run_state (intelgbe_mdio_write (E\<lparr>mmio_write := f\<rparr>) addr dv reg v is45) w =
      run_state (intelgbe_mdio_write E addr dv reg v is45) w \<and>
    run_state (intelgbe_mdio_read (E\<lparr>mmio_write := f\<rparr>) addr dv reg x is45) w =
      run_state (intelgbe_mdio_read E addr dv reg x is45) w"
  using mdio_poll_busy_stuck [OF stuck]
  by (auto simp: intelgbe_mdio_write_def intelgbe_mdio_read_def mdio_poll_busy_reads_only
      split: prod.splits)

theorem mdio_busy_gives_up_witness:
  "fst (run_state (intelgbe_mdio_read (dead_env\<lparr>mmio_read := \<lambda>a d. (1, d)\<rparr>) 1 0 2 5 False)
      (sim_world 1)) = (- INTELGBE_BUSY, 5)"
  using mdio_busy_gives_up [of "dead_env\<lparr>mmio_read := \<lambda>a d. (1, d)\<rparr>" "sim_world 1"] by simp

text \<open>
  \<^verbatim>\<open>intelgbe_mdio_c45_modify\<close>, although it reads the 32-bit data word through a 16-bit variable,
  replaces exactly the masked bits of the addressed XPCS register.
\<close>

theorem mdio_c45_modify_refines:
  assumes "mdio_ready E V w"
    and "run_state (intelgbe_mdio_c45_modify E devnum regnum msk val) w = (r, w')"
    and "k = phy_target XPCS_ADDR devnum regnum True"
  shows "r = INTELGBE_SUCCESS \<and> mdio_ready E V w' \<and>
    bus_regs V w' = (bus_regs V w)(k := (bus_regs V w k AND NOT msk) OR val)"
proof -
  obtain t where rd: "run_state (intelgbe_mdio_read E XPCS_ADDR devnum regnum (uninit_u32 E) True) w =
      ((0, push_bit 16 (ucast regnum) OR ucast (bus_regs V w k)), t)"
    and t: "bus_regs V t = bus_regs V w" "mdio_ready E V t"
    using xpcs.reads [OF assms(1), of "(devnum, regnum)"] assms(3) by auto
  have low: "ucast (push_bit 16 (ucast regnum) OR ucast y :: u32) = y" for y :: u16
    by (rule bit_word_eqI) (auto simp: bit_simps)
  show ?thesis
    using xpcs.writes [OF t(2), of "(devnum, regnum)" "(bus_regs V w k AND NOT msk) OR val"] rd t assms(2,3)
    by (auto simp: intelgbe_mdio_c45_modify_def low)
qed

theorem mdio_c45_modify_refines_witness:
  "\<exists>r w'. run_state (intelgbe_mdio_c45_modify (sim_env 5 0x1000) 31 0 3 8) (sim_world 1) = (r, w') \<and>
     r = 0 \<and> bus_regs sim_view w' = (\<lambda>_. 7)(phy_target XPCS_ADDR 31 0 True := 12)"
proof -
  obtain r w' where run: "run_state (intelgbe_mdio_c45_modify (sim_env 5 0x1000) 31 0 3 8)
      (sim_world 1) = (r, w')"
    by fastforce
  have v: "phy_regs sim_view (dev (sim_world 1)) = (\<lambda>_. 7)"
    by (simp add: sim_view_def sim_world_def)
  from mdio_c45_modify_refines [OF sim_mdio_ready run refl] run show ?thesis
    by (simp add: v)
qed

section \<open>The steady part of the adapter\<close>

text \<open>
  \<open>core w\<close> is the adapter without the parts that hardware operations and the data path change: the
  hardware description, the rings and the flags of their initialisation.
\<close>

definition core :: "'d world \<Rightarrow> GIG_DRIVER_DATA" where
  "core w = (GigAdapter w)\<lparr>Hw := zero_hw, tx_queue := [], rx_queue := [], TxBufferMappings := [],
     HwInitialized := False, ReceiveStarted := False\<rparr>"

lemma core_simps [simp]:
  "core (w\<lparr>dev := d\<rparr>) = core w" "core (w\<lparr>mem := m\<rparr>) = core w" "core (w\<lparr>fault := b\<rparr>) = core w"
  "core (w\<lparr>GigAdapter := (GigAdapter w)\<lparr>Hw := h\<rparr>\<rparr>) = core w"
  "core (w\<lparr>GigAdapter := (GigAdapter w)\<lparr>tx_queue := tq\<rparr>\<rparr>) = core w"
  "core (w\<lparr>GigAdapter := (GigAdapter w)\<lparr>rx_queue := rq\<rparr>\<rparr>) = core w"
  "core (w\<lparr>GigAdapter := (GigAdapter w)\<lparr>TxBufferMappings := ms\<rparr>\<rparr>) = core w"
  "core (w\<lparr>GigAdapter := (GigAdapter w)\<lparr>HwInitialized := b\<rparr>\<rparr>) = core w"
  "core (w\<lparr>GigAdapter := (GigAdapter w)\<lparr>ReceiveStarted := b\<rparr>\<rparr>) = core w"
  by (simp_all add: core_def)

text \<open>
  \<open>steady f\<close>: the projection \<open>f\<close> reads neither the environment's state nor the hardware
  description; the operations of the controller that leave the rings alone keep every such projection.
  \<open>phy_blind f\<close>: of the PHY's part of that description it reads the operations only, which the
  PHY layer never changes once they are installed; its operations keep those projections.
\<close>

definition steady :: "('d world \<Rightarrow> 'b) \<Rightarrow> bool" where
  "steady f \<longleftrightarrow> host f \<and> (\<forall>w h. f (w\<lparr>GigAdapter := (GigAdapter w)\<lparr>Hw := h\<rparr>\<rparr>) = f w) \<and>
     (\<forall>w b. f (w\<lparr>fault := b\<rparr>) = f w)"

definition phy_blind :: "('d world \<Rightarrow> 'b) \<Rightarrow> bool" where
  "phy_blind f \<longleftrightarrow> host f \<and>
     (\<forall>w p. phy_ops p = phy_ops (phy (Hw (GigAdapter w))) \<longrightarrow>
        f (w\<lparr>GigAdapter := (GigAdapter w)\<lparr>Hw := (Hw (GigAdapter w))\<lparr>phy := p\<rparr>\<rparr>\<rparr>) = f w)"

lemma steady_phy_blind: "steady f \<Longrightarrow> phy_blind f"
  by (simp add: steady_def phy_blind_def)

lemma steady_simps [simp]: "steady core" "steady mem"
  by (simp_all add: steady_def host_def)

lemma steady_host [simp]: "steady f \<Longrightarrow> host f"
  by (simp add: steady_def)

lemma phy_blind_simps [simp]: "phy_blind core" "phy_blind mem"
  by (simp_all add: steady_phy_blind)

lemma core_fields:
  "core w' = core w \<Longrightarrow> State (GigAdapter w') = State (GigAdapter w)"
  "core w' = core w \<Longrightarrow> DriverBusy (GigAdapter w') = DriverBusy (GigAdapter w)"
  "core w' = core w \<Longrightarrow> CableDetect (GigAdapter w') = CableDetect (GigAdapter w)"
  "core w' = core w \<Longrightarrow> PciIo (GigAdapter w') = PciIo (GigAdapter w)"
  "core w' = core w \<Longrightarrow> ExitBootServicesTriggered (GigAdapter w') = ExitBootServicesTriggered (GigAdapter w)"
  by (auto simp: core_def dest: arg_cong [of _ _ State] arg_cong [of _ _ DriverBusy]
      arg_cong [of _ _ CableDetect] arg_cong [of _ _ PciIo] arg_cong [of _ _ ExitBootServicesTriggered])

end
