(* ===== verification/Undi_Phy.thy ===== *)
theory Undi_Phy
  imports Undi_Mdio
begin

text \<open>
  The PHY layer: \<^verbatim>\<open>intelgbe_phy.c\<close> (identification, ability read-out, soft reset, link
  configuration of an MII compatible PHY) and the three PHY drivers \<^verbatim>\<open>marvell_88e1512.c\<close>,
  \<^verbatim>\<open>marvell_88e2110.c\<close> and \<^verbatim>\<open>maxlinear_gpyxxx.c\<close>, with the dispatch through the operation
  table \<^verbatim>\<open>phy->ops\<close>.  Two of the drivers name their static functions alike; those carry the
  driver's name here.
\<close>

section \<open>Constants of mii_regs.h and the PHY headers\<close>

abbreviation MII_STD_CTRL :: u8 where "MII_STD_CTRL \<equiv> 0x00"
abbreviation MII_STD_STATUS :: u8 where "MII_STD_STATUS \<equiv> 0x01"
abbreviation MII_STD_PHYID1 :: u8 where "MII_STD_PHYID1 \<equiv> 0x02"
abbreviation MII_STD_PHYID2 :: u8 where "MII_STD_PHYID2 \<equiv> 0x03"
abbreviation MII_AN_ADV :: u8 where "MII_AN_ADV \<equiv> 0x04"
abbreviation MII_AN_LPA :: u8 where "MII_AN_LPA \<equiv> 0x05"
abbreviation MII_STD_GCTRL :: u8 where "MII_STD_GCTRL \<equiv> 0x09"
abbreviation MII_STD_GSTAT :: u8 where "MII_STD_GSTAT \<equiv> 0x0A"
abbreviation MII_STD_XSTATUS :: u8 where "MII_STD_XSTATUS \<equiv> 0x0F"

abbreviation MMD_PMA_PMD :: u8 where "MMD_PMA_PMD \<equiv> 0x01"
abbreviation MMD_PMA_PHYID1 :: u16 where "MMD_PMA_PHYID1 \<equiv> 0x02"
abbreviation MMD_PMA_PHYID2 :: u16 where "MMD_PMA_PHYID2 \<equiv> 0x03"
abbreviation MMD_PMA_FW_VER0 :: u16 where "MMD_PMA_FW_VER0 \<equiv> 0xC011"
abbreviation MMD_PMA_FW_VER1 :: u16 where "MMD_PMA_FW_VER1 \<equiv> 0xC012"
abbreviation MMD_PMA_BOOT :: u16 where "MMD_PMA_BOOT \<equiv> 0xC050"
abbreviation MMD_AN :: u8 where "MMD_AN \<equiv> 0x07"
abbreviation MMD_AN_CTRL :: u16 where "MMD_AN_CTRL \<equiv> 0x00"
abbreviation MMD_AN_STATUS :: u16 where "MMD_AN_STATUS \<equiv> 0x01"
abbreviation MMD_AN_ADV :: u16 where "MMD_AN_ADV \<equiv> 0x10"
abbreviation MMD_AN_LPA :: u16 where "MMD_AN_LPA \<equiv> 0x13"
abbreviation MMD_AN_MULTIG_CTRL :: u16 where "MMD_AN_MULTIG_CTRL \<equiv> 0x20"
abbreviation MMD_AN_1G_ABILITY :: u16 where "MMD_AN_1G_ABILITY \<equiv> 0x8002"
abbreviation MMD_AN_1G_STATUS :: u16 where "MMD_AN_1G_STATUS \<equiv> 0x8001"
abbreviation MMD_AN_1G_CTRL :: u16 where "MMD_AN_1G_CTRL \<equiv> 0x8000"
abbreviation MMD_PCS :: u8 where "MMD_PCS \<equiv> 0x03"
abbreviation MMD_PCS_CSTATUS1 :: u16 where "MMD_PCS_CSTATUS1 \<equiv> 0x8008"

abbreviation PHY_SUPPORT_10_HALF :: u32 where "PHY_SUPPORT_10_HALF \<equiv> BIT 0"
abbreviation PHY_SUPPORT_10_FULL :: u32 where "PHY_SUPPORT_10_FULL \<equiv> BIT 1"
abbreviation PHY_SUPPORT_100_HALF :: u32 where "PHY_SUPPORT_100_HALF \<equiv> BIT 2"
abbreviation PHY_SUPPORT_100_FULL :: u32 where "PHY_SUPPORT_100_FULL \<equiv> BIT 3"
abbreviation PHY_SUPPORT_1000_HALF :: u32 where "PHY_SUPPORT_1000_HALF \<equiv> BIT 4"
abbreviation PHY_SUPPORT_1000_FULL :: u32 where "PHY_SUPPORT_1000_FULL \<equiv> BIT 5"

abbreviation REG_PAGE_ADDR :: u8 where "REG_PAGE_ADDR \<equiv> 0x16"
abbreviation REG_GENERAL_CTRL_1 :: u8 where "REG_GENERAL_CTRL_1 \<equiv> 0x14"
abbreviation REG_COPPER_SPE_INT_STATUS :: u8 where "REG_COPPER_SPE_INT_STATUS \<equiv> 0x13"
abbreviation REG_LED_FUNC_CTRL :: u8 where "REG_LED_FUNC_CTRL \<equiv> 0x10"
abbreviation REG_SPE_MAC_CTRL_1 :: u8 where "REG_SPE_MAC_CTRL_1 \<equiv> 0x10"
abbreviation REG_COPPER_SPE_STATUS_1 :: u8 where "REG_COPPER_SPE_STATUS_1 \<equiv> 0x11"
abbreviation GPY_PHY_ISTAT :: u8 where "GPY_PHY_ISTAT \<equiv> 0x1A"
abbreviation GPY_PHY_MIISTAT :: u8 where "GPY_PHY_MIISTAT \<equiv> 0x18"

text \<open>
  \<^verbatim>\<open>GENMASK(h, l)\<close> shifts the \<^emph>\<open>signed\<close> value \<^verbatim>\<open>~0\<close> to the right, which keeps it
  \<open>-1\<close>, so the mask has no upper end.
\<close>

definition GENMASK :: "nat \<Rightarrow> nat \<Rightarrow> u32" where
  "GENMASK h l = push_bit l (NOT 0) AND signed_drop_bit (4 * 8 - 1 - h) (NOT 0)"

definition MII_PHY_VENDOR :: "u32 \<Rightarrow> u32" where
  "MII_PHY_VENDOR i = drop_bit 10 (i AND GENMASK 31 10)"

definition MII_PHY_MODEL :: "u32 \<Rightarrow> u32" where
  "MII_PHY_MODEL i = drop_bit 4 (i AND GENMASK 9 4)"

abbreviation MARVELL_PHY_ID_88E1512 :: u32 where "MARVELL_PHY_ID_88E1512 \<equiv> 0x01410DD1"
abbreviation MARVELL_PHY_ID_88E2110 :: u32 where "MARVELL_PHY_ID_88E2110 \<equiv> 0x002B09B9"
abbreviation MAXLINEAR_PHY_ID_GPY :: u32 where "MAXLINEAR_PHY_ID_GPY \<equiv> 0x67C9DC00"

section \<open>intelgbe_phy.c\<close>

text \<open>
  The scan of \<^verbatim>\<open>mii_phy_id_get\<close>: \<open>Inl\<close> is the early return of an access error, \<open>Inr\<close> the
  values of \<^verbatim>\<open>phy_id\<close>, \<^verbatim>\<open>phy_addr\<close> and \<^verbatim>\<open>phy_c45\<close> after the loop.
\<close>

definition no_phy_id :: "u32 \<Rightarrow> bool" where
  "no_phy_id i \<longleftrightarrow> i = 0xFFFFFFFF \<or> i = 0"

definition mii_probe_c22 :: "'d env \<Rightarrow> ('d, int + u32) op" where
  "mii_probe_c22 E = do {
     (retval, phy_reg) \<leftarrow> intelgbe_phy_read_c22 E MII_STD_PHYID1 (uninit_u32 E);
     if retval \<noteq> 0 then ret (Inl retval)
     else do {
       let i = push_bit 16 (phy_reg AND BIT_MASK 16);
       (retval, phy_reg) \<leftarrow> intelgbe_phy_read_c22 E MII_STD_PHYID2 phy_reg;
       if retval \<noteq> 0 then ret (Inl retval)
       else ret (Inr (i OR (phy_reg AND BIT_MASK 16))) } }"

definition mii_probe_c45 :: "'d env \<Rightarrow> ('d, int + u32) op" where
  "mii_probe_c45 E = do {
     (retval, phy_reg) \<leftarrow> intelgbe_phy_read_c45 E MMD_PMA_PMD MMD_PMA_PHYID1 (uninit_u32 E);
     if retval \<noteq> 0 then ret (Inl retval)
     else do {
       let i = push_bit 16 (phy_reg AND BIT_MASK 16);
       (retval, phy_reg) \<leftarrow> intelgbe_phy_read_c45 E MMD_PMA_PMD MMD_PMA_PHYID2 phy_reg;
       if retval \<noteq> 0 then ret (Inl retval)
       else ret (Inr (i OR (phy_reg AND BIT_MASK 16))) } }"

function mii_phy_scan ::
  "'d env \<Rightarrow> u32 \<Rightarrow> u8 \<Rightarrow> bool \<Rightarrow> ('d, int + (u32 \<times> u8 \<times> bool)) op" where
  "mii_phy_scan E i a is45 =
     (if no_phy_id i \<and> a < 32 then do {
        _ \<leftarrow> upd_phy (\<lambda>p. p\<lparr>phy_addr := ucast a\<rparr>);
        r \<leftarrow> mii_probe_c22 E;
        (case r of
           Inl e \<Rightarrow> ret (Inl e)
         | Inr i22 \<Rightarrow>
             if no_phy_id i22 then do {
               r \<leftarrow> mii_probe_c45 E;
               (case r of
                  Inl e \<Rightarrow> ret (Inl e)
                | Inr i45 \<Rightarrow> mii_phy_scan E i45 (a + 1) True) }
             else mii_phy_scan E i22 (a + 1) False) }
      else ret (Inr (i, a, is45)))"
  by pat_completeness auto
termination
proof (relation "measure (\<lambda>(E, i, a, is45). 32 - unat a)", goal_cases)
  case 1
  then show ?case by simp
next
  case (2 E i a is45)
  then show ?case by (auto simp: word_less_nat_alt unat_word_ariths)
next
  case (3 E i a is45)
  then show ?case by (auto simp: word_less_nat_alt unat_word_ariths)
qed

declare mii_phy_scan.simps [simp del]

definition mii_phy_id_get :: "'d env \<Rightarrow> ('d, int) op" where
  "mii_phy_id_get E = do {
     r \<leftarrow> mii_phy_scan E 0 0 (uninit_bool E);
     (case r of
        Inl e \<Rightarrow> ret e
      | Inr (i, a, is45) \<Rightarrow> do {
          _ \<leftarrow> upd_phy (\<lambda>p. p\<lparr>phy_id := i, c45 := is45\<rparr>);
          ret (if a < 32 then INTELGBE_SUCCESS else - INTELGBE_ERR_PHY) }) }"

definition add_support :: "bool \<Rightarrow> u32 \<Rightarrow> ('d, unit) op" where
  "add_support b flag = (if b then upd_phy (\<lambda>p. p\<lparr>support := support p OR flag\<rparr>) else ret ())"

definition mii_phy_get_supported :: "'d env \<Rightarrow> ('d, int) op" where
  "mii_phy_get_supported E = do {
     p \<leftarrow> gets (\<lambda>w. phy (Hw (GigAdapter w)));
     (retval, bmsr_val) \<leftarrow>
       (if c45 p then intelgbe_phy_read_c45 E MMD_AN MMD_AN_1G_ABILITY (uninit_u32 E)
        else intelgbe_phy_read_c22 E MII_STD_STATUS (uninit_u32 E));
     if retval < 0 then ret retval
     else do {
       _ \<leftarrow> add_support (bit bmsr_val 12) PHY_SUPPORT_10_FULL;
       _ \<leftarrow> add_support (bit bmsr_val 11) PHY_SUPPORT_10_HALF;
       _ \<leftarrow> add_support (bit bmsr_val 14) PHY_SUPPORT_100_FULL;
       _ \<leftarrow> add_support (bit bmsr_val 13) PHY_SUPPORT_100_HALF;
       if bit bmsr_val 8 then do {
         (retval, estat_val) \<leftarrow>
           (if c45 p then ret (0, bmsr_val)
            else intelgbe_phy_read_c22 E MII_STD_XSTATUS (uninit_u32 E));
         if retval < 0 then ret retval
         else do {
           _ \<leftarrow> add_support (bit estat_val 13) PHY_SUPPORT_1000_FULL;
           _ \<leftarrow> add_support (bit estat_val 12) PHY_SUPPORT_1000_HALF;
           ret INTELGBE_SUCCESS } }
       else ret INTELGBE_SUCCESS } }"

fun soft_reset_wait :: "'d env \<Rightarrow> nat \<Rightarrow> u32 \<Rightarrow> ('d, int + u32) op" where
  "soft_reset_wait E 0 status = ret (Inl (- INTELGBE_BUSY))"
| "soft_reset_wait E (Suc retries) status = do {
     _ \<leftarrow> msec_delay E 50;
     (retval, status) \<leftarrow> intelgbe_phy_read_c22 E MII_STD_CTRL status;
     if bit status 15 then soft_reset_wait E retries status else ret (Inr status) }"

definition mii_phy_soft_reset :: "'d env \<Rightarrow> bool \<Rightarrow> ('d, int) op" where
  "mii_phy_soft_reset E wait = do {
     retval \<leftarrow> intelgbe_phy_modify_c22 E MII_STD_CTRL (BIT 15) (BIT 15);
     if retval < 0 then ret retval
     else do {
       r \<leftarrow> (if wait then soft_reset_wait E (600 div 50) (uninit_u32 E)
            else ret (Inr (uninit_u32 E)));
       (case r of
          Inl e \<Rightarrow> ret e
        | Inr status \<Rightarrow> do {
            (retval, status) \<leftarrow> intelgbe_phy_read_c22 E MII_STD_CTRL status;
            ret retval }) } }"

text \<open>The advertisement words computed from the ability flags, and the mask of the 10/100 word.\<close>

definition advertise_10_100 :: "u32 \<Rightarrow> u16" where
  "advertise_10_100 s =
     (if bit s 3 then BIT 8 else 0) OR (if bit s 2 then BIT 7 else 0) OR
     (if bit s 1 then BIT 6 else 0) OR (if bit s 0 then BIT 5 else 0) OR BIT 0"

definition advertise_1000 :: "u32 \<Rightarrow> u16" where
  "advertise_1000 s = (if bit s 5 then BIT 9 else 0) OR (if bit s 4 then BIT 8 else 0)"

definition advertise_mask :: u16 where
  "advertise_mask = BIT 5 OR BIT 6 OR BIT 7 OR BIT 8 OR BIT 9 OR BIT 10 OR BIT 11"

text \<open>The register reads at the end of \<^verbatim>\<open>mii_phy_config_link\<close>; the values are only printed.\<close>

definition mii_phy_read_partner :: "'d env \<Rightarrow> bool \<Rightarrow> ('d, int) op" where
  "mii_phy_read_partner E is45 = do {
     (retval, readval) \<leftarrow>
       (if is45 then intelgbe_phy_read_c45 E MMD_AN MMD_AN_LPA 0
        else intelgbe_phy_read_c22 E MII_AN_LPA 0);
     if retval < 0 then ret retval
     else do {
       (retval, readval) \<leftarrow>
         (if is45 then intelgbe_phy_read_c45 E MMD_AN MMD_AN_1G_STATUS readval
          else intelgbe_phy_read_c22 E MII_STD_GSTAT readval);
       if retval < 0 then ret retval else ret INTELGBE_SUCCESS } }"

text \<open>
  \<^verbatim>\<open>if (changed) { restart; poll }\<close> followed by the read-out.  \<open>retval0\<close> is the value
  \<^verbatim>\<open>retval\<close> has on entry: the clause 45 branch ORs into it.
\<close>

definition mii_phy_restart_aneg :: "'d env \<Rightarrow> bool \<Rightarrow> int \<Rightarrow> ('d, int) op" where
  "mii_phy_restart_aneg E is45 retval0 = do {
     retval \<leftarrow>
       (if is45 then do {
          r \<leftarrow> intelgbe_phy_write_c45 E MMD_AN MMD_AN_CTRL (BIT 9 OR BIT 12 OR BIT 13);
          ret (retval0 OR r) }
        else intelgbe_phy_modify_c22 E MII_STD_CTRL (BIT 10) (BIT 12 OR BIT 9));
     if retval < 0 then ret retval
     else do {
       r \<leftarrow> poll_do (5500 div 100)
             (do { _ \<leftarrow> msec_delay E 100;
                   (retval, readval) \<leftarrow>
                     (if is45 then intelgbe_phy_read_c45 E MMD_AN MMD_AN_STATUS 0
                      else intelgbe_phy_read_c22 E MII_STD_STATUS 0);
                   ret (if retval < 0 then Inl retval else Inr (bit readval 5)) })
             (ret ());
       (case r of Inl e \<Rightarrow> ret e | Inr _ \<Rightarrow> ret 0) } }"

definition mii_phy_config_link :: "'d env \<Rightarrow> bool \<Rightarrow> ('d, int) op" where
  "mii_phy_config_link E changed0 = do {
     s \<leftarrow> gets (\<lambda>w. support (phy (Hw (GigAdapter w))));
     retval \<leftarrow> (if s = 0 then mii_phy_get_supported E else ret 0);
     if retval < 0 then ret retval
     else do {
       p \<leftarrow> gets (\<lambda>w. phy (Hw (GigAdapter w)));
       let is45 = c45 p;
       let advertise = advertise_10_100 (support p);
       let adv_1000 = advertise_1000 (support p);
       retval \<leftarrow>
         (if is45 then intelgbe_phy_modify_c45_if_changed E MMD_AN MMD_AN_ADV advertise_mask advertise
          else intelgbe_phy_modify_c22_if_changed E MII_AN_ADV advertise_mask advertise);
       if retval < 0 then ret retval
       else do {
         let changed = (changed0 \<or> retval > 0);
         (retval, readval) \<leftarrow>
           (if is45 then intelgbe_phy_read_c45 E MMD_AN MMD_AN_1G_ABILITY 0
            else intelgbe_phy_read_c22 E MII_STD_STATUS 0);
         if retval < 0 then ret retval
         else do {
           retval \<leftarrow>
             (if bit readval 8 then
                (if is45 then
                   intelgbe_phy_modify_c45_if_changed E MMD_AN MMD_AN_1G_CTRL (BIT 8 OR BIT 9) adv_1000
                 else intelgbe_phy_modify_c22_if_changed E MII_STD_GCTRL (BIT 8 OR BIT 9) adv_1000)
              else ret retval);
           if retval < 0 then ret retval
           else do {
             let changed = (changed \<or> retval > 0);
             (retval, readval) \<leftarrow>
               (if \<not> changed then
                  (if is45 then intelgbe_phy_read_c45 E MMD_AN MMD_AN_CTRL readval
                   else intelgbe_phy_read_c22 E MII_STD_CTRL readval)
                else ret (retval, readval));
             if retval < 0 then ret retval
             else do {
               let changed = (changed \<or> \<not> bit readval 12 \<or> bit readval 10);
               retval \<leftarrow> (if changed then mii_phy_restart_aneg E is45 retval else ret 0);
               if retval < 0 then ret retval
               else mii_phy_read_partner E is45 } } } } } }"

section \<open>marvell_88e1512.c\<close>

definition marvell_88e1512_link_status_change :: "'d env \<Rightarrow> bool \<Rightarrow> ('d, int \<times> bool) op" where
  "marvell_88e1512_link_status_change E intr_sig = do {
     retval \<leftarrow> intelgbe_phy_write_c22 E REG_PAGE_ADDR 0;
     if retval < 0 then ret (retval, intr_sig)
     else do {
       (retval, val) \<leftarrow> intelgbe_phy_read_c22 E REG_COPPER_SPE_INT_STATUS (uninit_u32 E);
       ret (retval, bit val 10) } }"

text \<open>The outputs of a status read: link, link speed, full duplex.\<close>

type_synonym link_info = "bool \<times> int \<times> int"

definition marvell_88e1512_read_status :: "'d env \<Rightarrow> link_info \<Rightarrow> ('d, int \<times> link_info) op" where
  "marvell_88e1512_read_status E out = do {
     retval \<leftarrow> intelgbe_phy_write_c22 E REG_PAGE_ADDR 0;
     if retval < 0 then ret (retval, out)
     else do {
       (retval, val) \<leftarrow> intelgbe_phy_read_c22 E REG_COPPER_SPE_STATUS_1 (uninit_u32 E);
       if retval < 0 then ret (retval, out)
       else (case out of (link, speed, duplex) \<Rightarrow>
         if bit val 10 then
           ret (0, True,
                (let v = val AND (BIT 15 OR BIT 14) in
                   if v = BIT 15 then 1000 else if v = BIT 14 then 100 else 10),
                (if bit val 13 then 1 else 0))
         else ret (0, False, speed, duplex)) } }"

definition intelgbe_phy_cfg_link_88e1512 :: "'d env \<Rightarrow> ('d, int) op" where
  "intelgbe_phy_cfg_link_88e1512 E = do {
     retval \<leftarrow> intelgbe_phy_write_c22 E REG_PAGE_ADDR 0;
     if retval < 0 then ret retval else mii_phy_config_link E False }"

definition intelgbe_phy_initialize_88e1512 :: "'d env \<Rightarrow> ('d, int) op" where
  "intelgbe_phy_initialize_88e1512 E = do {
     i \<leftarrow> gets (\<lambda>w. interface (phy (Hw (GigAdapter w))));
     retval \<leftarrow>
       (if i = PHY_INTERFACE_SGMII then do {
          retval \<leftarrow> intelgbe_phy_write_c22 E REG_PAGE_ADDR 18;
          if retval < 0 then ret retval
          else do {
            r1 \<leftarrow> intelgbe_phy_modify_c22 E REG_GENERAL_CTRL_1 (BIT_MASK 3) (BIT 0);
            r2 \<leftarrow> intelgbe_phy_modify_c22 E REG_GENERAL_CTRL_1 0 (BIT 15);
            ret (retval OR r1 OR r2) } }
        else ret 0);
     if retval < 0 then ret retval
     else do {
       retval \<leftarrow> intelgbe_phy_write_c22 E REG_PAGE_ADDR 3;
       if retval < 0 then ret retval
       else do {
         retval \<leftarrow> intelgbe_phy_write_c22 E REG_LED_FUNC_CTRL (BIT 4 OR BIT 5);
         if retval < 0 then ret retval
         else do {
           retval \<leftarrow> intelgbe_phy_write_c22 E REG_PAGE_ADDR 2;
           if retval < 0 then ret retval
           else do {
             retval \<leftarrow> intelgbe_phy_modify_c22 E REG_SPE_MAC_CTRL_1 0 (BIT 6);
             if retval < 0 then ret retval
             else do {
               retval \<leftarrow> intelgbe_phy_write_c22 E REG_PAGE_ADDR 0;
               if retval < 0 then ret retval
               else do {
                 _ \<leftarrow> mii_phy_soft_reset E False;
                 ret INTELGBE_SUCCESS } } } } } } }"

definition install_phy_ops :: "phy_type \<Rightarrow> intelgbe_phy_info \<Rightarrow> intelgbe_phy_info" where
  "install_phy_ops t p =
     p\<lparr>phy_ops := (phy_ops p)\<lparr>phy_init_op := Some t, cfg_link := Some t,
                              link_status_change := Some t, phy_status := Some t\<rparr>,
       phy_type_of := t\<rparr>"

definition intelgbe_init_phy_ops_marvell_88e1512 :: "('d, int) op" where
  "intelgbe_init_phy_ops_marvell_88e1512 = do {
     _ \<leftarrow> upd_phy (install_phy_ops PHY_MARVELL_88E1512);
     ret INTELGBE_SUCCESS }"

section \<open>marvell_88e2110.c\<close>

definition m88e2110_link_status_change :: "'d env \<Rightarrow> bool \<Rightarrow> ('d, int \<times> bool) op" where
  "m88e2110_link_status_change E intr_sig = do {
     (retval, phyreg) \<leftarrow> intelgbe_phy_read_c45 E MMD_AN MMD_AN_STATUS (uninit_u32 E);
     if retval < 0 then ret (retval, intr_sig)
     else do {
       let currlink = bit phyreg 2;
       prevlink \<leftarrow> gets (\<lambda>w. link_up (phy (Hw (GigAdapter w))));
       if (prevlink \<and> currlink) \<or> (\<not> prevlink \<and> \<not> currlink) then ret (INTELGBE_SUCCESS, False)
       else ret (INTELGBE_SUCCESS, True) } }"

definition m88e2110_read_status :: "'d env \<Rightarrow> link_info \<Rightarrow> ('d, int \<times> link_info) op" where
  "m88e2110_read_status E out = do {
     (retval, phyreg) \<leftarrow> intelgbe_phy_read_c45 E MMD_PCS MMD_PCS_CSTATUS1 (uninit_u32 E);
     if retval < 0 then ret (retval, out)
     else do {
       let speed = drop_bit 14 (phyreg AND (BIT 15 OR BIT 14));
       ret (INTELGBE_SUCCESS, bit phyreg 10,
            (if speed = 2 then 1000 else if speed = 1 then 100 else 10),
            (if bit phyreg 13 then 1 else 0)) } }"

definition m88e2110_phy_cfg_link :: "'d env \<Rightarrow> ('d, int) op" where
  "m88e2110_phy_cfg_link E = do {
     retval \<leftarrow> intelgbe_phy_write_c45 E MMD_AN MMD_AN_MULTIG_CTRL (BIT 0);
     if retval < 0 then ret retval else mii_phy_config_link E False }"

definition m88e2110_phy_initialize :: "'d env \<Rightarrow> ('d, int) op" where
  "m88e2110_phy_initialize E = do {
     (r0, phyreg) \<leftarrow> intelgbe_phy_read_c45 E MMD_PMA_PMD MMD_PMA_BOOT (uninit_u32 E);
     if bit phyreg 0 then ret (- INTELGBE_ERR_PHY)
     else do {
       (r1, phyreg) \<leftarrow> intelgbe_phy_read_c45 E MMD_PMA_PMD MMD_PMA_FW_VER1 phyreg;
       (r2, phyreg) \<leftarrow> intelgbe_phy_read_c45 E MMD_PMA_PMD MMD_PMA_FW_VER0 phyreg;
       ret (r0 OR r1 OR r2) } }"

definition intelgbe_init_phy_ops_marvell_88e2110 :: "('d, int) op" where
  "intelgbe_init_phy_ops_marvell_88e2110 = do {
     _ \<leftarrow> upd_phy (install_phy_ops PHY_MARVELL_88E2110);
     ret INTELGBE_SUCCESS }"

section \<open>maxlinear_gpyxxx.c\<close>

definition maxlinear_gpyxxx_link_status_change :: "'d env \<Rightarrow> bool \<Rightarrow> ('d, int \<times> bool) op" where
  "maxlinear_gpyxxx_link_status_change E intr_sig = do {
     (retval, val) \<leftarrow> intelgbe_phy_read_c22 E GPY_PHY_ISTAT (uninit_u32 E);
     ret (retval, bit val 0) }"

definition maxlinear_gpyxxx_read_status :: "'d env \<Rightarrow> link_info \<Rightarrow> ('d, int \<times> link_info) op" where
  "maxlinear_gpyxxx_read_status E out = do {
     (retval, val) \<leftarrow> intelgbe_phy_read_c22 E GPY_PHY_MIISTAT (uninit_u32 E);
     if retval < 0 then ret (retval, out)
     else (case out of (link, speed, duplex) \<Rightarrow>
       if bit val 10 then
         ret (0, True,
              (let v = val AND (BIT 2 OR BIT 1 OR BIT 0) in
                 if v = 4 then 2500 else if v = 2 then 1000 else if v = 1 then 100 else 10),
              (if bit val 3 then 1 else 0))
       else ret (0, False, speed, duplex)) }"

definition intelgbe_phy_cfg_link_gpyxxx :: "'d env \<Rightarrow> ('d, int) op" where
  "intelgbe_phy_cfg_link_gpyxxx E = mii_phy_config_link E False"

definition intelgbe_phy_initialize_gpyxxx :: "('d, int) op" where
  "intelgbe_phy_initialize_gpyxxx = ret INTELGBE_SUCCESS"

definition intelgbe_init_phy_ops_maxlinear_gpyxxx :: "('d, int) op" where
  "intelgbe_init_phy_ops_maxlinear_gpyxxx = do {
     _ \<leftarrow> upd_phy (install_phy_ops PHY_MAXLINEAR_GPY211);
     ret INTELGBE_SUCCESS }"

section \<open>Calls through phy->ops\<close>

definition call_phy_init :: "'d env \<Rightarrow> phy_type \<Rightarrow> ('d, int) op" where
  "call_phy_init E t = (case t of
     PHY_MARVELL_88E1512 \<Rightarrow> intelgbe_phy_initialize_88e1512 E
   | PHY_MAXLINEAR_GPY211 \<Rightarrow> intelgbe_phy_initialize_gpyxxx
   | PHY_MARVELL_88E2110 \<Rightarrow> m88e2110_phy_initialize E)"

definition call_phy_cfg_link :: "'d env \<Rightarrow> phy_type \<Rightarrow> ('d, int) op" where
  "call_phy_cfg_link E t = (case t of
     PHY_MARVELL_88E1512 \<Rightarrow> intelgbe_phy_cfg_link_88e1512 E
   | PHY_MAXLINEAR_GPY211 \<Rightarrow> intelgbe_phy_cfg_link_gpyxxx E
   | PHY_MARVELL_88E2110 \<Rightarrow> m88e2110_phy_cfg_link E)"

definition call_phy_link_status_change ::
  "'d env \<Rightarrow> phy_type option \<Rightarrow> bool \<Rightarrow> ('d, int \<times> bool) op" where
  "call_phy_link_status_change E t b = (case t of
     None \<Rightarrow> do { _ \<leftarrow> raise_fault; ret (0, b) }
   | Some PHY_MARVELL_88E1512 \<Rightarrow> marvell_88e1512_link_status_change E b
   | Some PHY_MAXLINEAR_GPY211 \<Rightarrow> maxlinear_gpyxxx_link_status_change E b
   | Some PHY_MARVELL_88E2110 \<Rightarrow> m88e2110_link_status_change E b)"

definition call_phy_status :: "'d env \<Rightarrow> phy_type option \<Rightarrow> link_info \<Rightarrow> ('d, int \<times> link_info) op" where
  "call_phy_status E t out = (case t of
     None \<Rightarrow> do { _ \<leftarrow> raise_fault; ret (0, out) }
   | Some PHY_MARVELL_88E1512 \<Rightarrow> marvell_88e1512_read_status E out
   | Some PHY_MAXLINEAR_GPY211 \<Rightarrow> maxlinear_gpyxxx_read_status E out
   | Some PHY_MARVELL_88E2110 \<Rightarrow> m88e2110_read_status E out)"

definition intelgbe_phy_init :: "'d env \<Rightarrow> ('d, int) op" where
  "intelgbe_phy_init E = do {
     o1 \<leftarrow> gets (\<lambda>w. phy_init_op (phy_ops (phy (Hw (GigAdapter w)))));
     r1 \<leftarrow> (case o1 of None \<Rightarrow> ret 0 | Some t \<Rightarrow> call_phy_init E t);
     o2 \<leftarrow> gets (\<lambda>w. cfg_link (phy_ops (phy (Hw (GigAdapter w)))));
     r2 \<leftarrow> (case o2 of None \<Rightarrow> ret 0 | Some t \<Rightarrow> call_phy_cfg_link E t);
     ret (0 OR r1 OR r2) }"

section \<open>Frames of the PHY layer\<close>

lemma keeps_case_phy_type [frame]:
  "keeps f a \<Longrightarrow> keeps f b \<Longrightarrow> keeps f c \<Longrightarrow> keeps f (case t of PHY_MARVELL_88E1512 \<Rightarrow> a
     | PHY_MAXLINEAR_GPY211 \<Rightarrow> b | PHY_MARVELL_88E2110 \<Rightarrow> c)"
  by (cases t) simp_all

lemma keeps_mii_probe_c22 [frame]: "phy_blind f \<Longrightarrow> keeps f (mii_probe_c22 E)"
  unfolding mii_probe_c22_def by (auto intro!: frame simp: phy_blind_def host_def)

lemma keeps_mii_probe_c45 [frame]: "phy_blind f \<Longrightarrow> keeps f (mii_probe_c45 E)"
  unfolding mii_probe_c45_def by (auto intro!: frame simp: phy_blind_def host_def)

lemma keeps_mii_phy_scan [frame]: "phy_blind f \<Longrightarrow> keeps f (mii_phy_scan E i a b)"
proof (induction E i a b rule: mii_phy_scan.induct)
  case (1 E i a b)
  then show ?case by (subst mii_phy_scan.simps) (auto intro!: frame simp: phy_blind_def host_def)
qed

lemma keeps_mii_phy_id_get [frame]: "phy_blind f \<Longrightarrow> keeps f (mii_phy_id_get E)"
  unfolding mii_phy_id_get_def by (auto intro!: frame simp: phy_blind_def host_def)

lemma keeps_add_support [frame]: "phy_blind f \<Longrightarrow> keeps f (add_support b x)"
  unfolding add_support_def by (auto intro!: frame simp: phy_blind_def host_def)

lemma keeps_mii_phy_get_supported [frame]: "phy_blind f \<Longrightarrow> keeps f (mii_phy_get_supported E)"
  unfolding mii_phy_get_supported_def by (auto intro!: frame simp: phy_blind_def host_def)

lemma keeps_soft_reset_wait [frame]: "phy_blind f \<Longrightarrow> keeps f (soft_reset_wait E n s)"
  by (induction n arbitrary: s) (auto intro!: frame simp: phy_blind_def host_def)

lemma keeps_mii_phy_soft_reset [frame]: "phy_blind f \<Longrightarrow> keeps f (mii_phy_soft_reset E b)"
  unfolding mii_phy_soft_reset_def by (auto intro!: frame simp: phy_blind_def host_def)

lemma keeps_mii_phy_read_partner [frame]: "phy_blind f \<Longrightarrow> keeps f (mii_phy_read_partner E b)"
  unfolding mii_phy_read_partner_def by (auto intro!: frame simp: phy_blind_def host_def)

lemma keeps_mii_phy_restart_aneg [frame]: "phy_blind f \<Longrightarrow> keeps f (mii_phy_restart_aneg E b r)"
  unfolding mii_phy_restart_aneg_def by (auto intro!: frame simp: phy_blind_def host_def)

lemma keeps_mii_phy_config_link [frame]: "phy_blind f \<Longrightarrow> keeps f (mii_phy_config_link E b)"
  unfolding mii_phy_config_link_def by (auto intro!: frame simp: phy_blind_def host_def)

lemma keeps_marvell_88e1512_link_status_change [frame]: "phy_blind f \<Longrightarrow> keeps f (marvell_88e1512_link_status_change E b)"
  unfolding marvell_88e1512_link_status_change_def by (auto intro!: frame simp: phy_blind_def host_def)

lemma keeps_marvell_88e1512_read_status [frame]: "phy_blind f \<Longrightarrow> keeps f (marvell_88e1512_read_status E x)"
  unfolding marvell_88e1512_read_status_def by (auto intro!: frame simp: phy_blind_def host_def)

lemma keeps_intelgbe_phy_cfg_link_88e1512 [frame]: "phy_blind f \<Longrightarrow> keeps f (intelgbe_phy_cfg_link_88e1512 E)"
  unfolding intelgbe_phy_cfg_link_88e1512_def by (auto intro!: frame simp: phy_blind_def host_def)

lemma keeps_intelgbe_phy_initialize_88e1512 [frame]: "phy_blind f \<Longrightarrow> keeps f (intelgbe_phy_initialize_88e1512 E)"
  unfolding intelgbe_phy_initialize_88e1512_def by (auto intro!: frame simp: phy_blind_def host_def)

lemma keeps_m88e2110_link_status_change [frame]: "phy_blind f \<Longrightarrow> keeps f (m88e2110_link_status_change E b)"
  unfolding m88e2110_link_status_change_def by (auto intro!: frame simp: phy_blind_def host_def)

lemma keeps_m88e2110_read_status [frame]: "phy_blind f \<Longrightarrow> keeps f (m88e2110_read_status E x)"
  unfolding m88e2110_read_status_def by (auto intro!: frame simp: phy_blind_def host_def)

lemma keeps_m88e2110_phy_cfg_link [frame]: "phy_blind f \<Longrightarrow> keeps f (m88e2110_phy_cfg_link E)"
  unfolding m88e2110_phy_cfg_link_def by (auto intro!: frame simp: phy_blind_def host_def)

lemma keeps_m88e2110_phy_initialize [frame]: "phy_blind f \<Longrightarrow> keeps f (m88e2110_phy_initialize E)"
  unfolding m88e2110_phy_initialize_def by (auto intro!: frame simp: phy_blind_def host_def)

lemma keeps_maxlinear_gpyxxx_link_status_change [frame]: "phy_blind f \<Longrightarrow> keeps f (maxlinear_gpyxxx_link_status_change E b)"
  unfolding maxlinear_gpyxxx_link_status_change_def by (auto intro!: frame simp: phy_blind_def host_def)

lemma keeps_maxlinear_gpyxxx_read_status [frame]: "phy_blind f \<Longrightarrow> keeps f (maxlinear_gpyxxx_read_status E x)"
  unfolding maxlinear_gpyxxx_read_status_def by (auto intro!: frame simp: phy_blind_def host_def)

lemma keeps_intelgbe_phy_cfg_link_gpyxxx [frame]: "phy_blind f \<Longrightarrow> keeps f (intelgbe_phy_cfg_link_gpyxxx E)"
  unfolding intelgbe_phy_cfg_link_gpyxxx_def by (auto intro!: frame simp: phy_blind_def host_def)

lemma keeps_intelgbe_phy_initialize_gpyxxx [frame]: "phy_blind f \<Longrightarrow> keeps f (intelgbe_phy_initialize_gpyxxx)"
  unfolding intelgbe_phy_initialize_gpyxxx_def by (auto intro!: frame simp: phy_blind_def host_def)

lemma keeps_call_phy_init [frame]: "phy_blind f \<Longrightarrow> keeps f (call_phy_init E t)"
  unfolding call_phy_init_def by (auto intro!: frame simp: phy_blind_def host_def)

lemma keeps_call_phy_cfg_link [frame]: "phy_blind f \<Longrightarrow> keeps f (call_phy_cfg_link E t)"
  unfolding call_phy_cfg_link_def by (auto intro!: frame simp: phy_blind_def host_def)

lemma keeps_call_phy_link_status_change [frame]: "steady f \<Longrightarrow> keeps f (call_phy_link_status_change E t b)"
  unfolding call_phy_link_status_change_def by (auto intro!: frame simp: steady_def phy_blind_def host_def)

lemma keeps_call_phy_status [frame]: "steady f \<Longrightarrow> keeps f (call_phy_status E t x)"
  unfolding call_phy_status_def by (auto intro!: frame simp: steady_def phy_blind_def host_def)

lemma keeps_intelgbe_phy_init [frame]: "phy_blind f \<Longrightarrow> keeps f (intelgbe_phy_init E)"
  unfolding intelgbe_phy_init_def by (auto intro!: frame simp: phy_blind_def host_def)

section \<open>Identification\<close>

lemma phy_read_c22_run:
  assumes "phy_ready E V a w"
  shows "\<exists>d. run_state (intelgbe_phy_read_c22 E r x) w =
      ((0, ucast (bus_regs V w (phy_target a 0 (ucast r) False))), w\<lparr>dev := d\<rparr>) \<and>
    phy_regs V d = bus_regs V w \<and> phy_ready E V a (w\<lparr>dev := d\<rparr>)"
  using mdio_read_ready [of E V w a 0 "ucast r" x False] assms phy_ready_dev [OF assms]
  by (auto simp: intelgbe_phy_read_c22_def phy_ready_def mdio_target_data_def)

lemma phy_read_c45_run:
  assumes "phy_ready E V a w"
  shows "\<exists>d. run_state (intelgbe_phy_read_c45 E dv r x) w =
      ((0, push_bit 16 (ucast r) OR ucast (bus_regs V w (phy_target a dv r True))), w\<lparr>dev := d\<rparr>) \<and>
    phy_regs V d = bus_regs V w \<and> phy_ready E V a (w\<lparr>dev := d\<rparr>)"
  using mdio_read_ready [of E V w a dv r x True] assms phy_ready_dev [OF assms]
  by (auto simp: intelgbe_phy_read_c45_def phy_ready_def target_tag)

text \<open>The identifier a register file shows at an address, clause 22 before clause 45.\<close>

definition join_id :: "u16 \<Rightarrow> u16 \<Rightarrow> u32" where
  "join_id h l = push_bit 16 (ucast h) OR ucast l"

definition phy_id_at :: "(phy_key \<Rightarrow> u16) \<Rightarrow> nat \<Rightarrow> u32 \<times> bool" where
  "phy_id_at R a =
     (let i22 = join_id (R (phy_target (of_nat a) 0 2 False)) (R (phy_target (of_nat a) 0 3 False));
          i45 = join_id (R (phy_target (of_nat a) 1 2 True)) (R (phy_target (of_nat a) 1 3 True))
      in if no_phy_id i22 then (i45, True) else (i22, False))"

definition phy_present :: "(phy_key \<Rightarrow> u16) \<Rightarrow> nat \<Rightarrow> bool" where
  "phy_present R a \<longleftrightarrow> \<not> no_phy_id (fst (phy_id_at R a))"

lemma low_word [simp]:
  "(ucast (v :: u16) AND BIT_MASK 16 :: u32) = ucast v"
  "((push_bit 16 t OR ucast (v :: u16)) AND BIT_MASK 16 :: u32) = ucast v"
proof -
  have "BIT_MASK 16 = (Bit_Operations.mask 16 :: u32)"
    by (simp add: BIT_MASK_def BIT_def mask_eq_exp_minus_1)
  then show "(ucast v AND BIT_MASK 16 :: u32) = ucast v"
    "((push_bit 16 t OR ucast v) AND BIT_MASK 16 :: u32) = ucast v"
    by (auto intro!: bit_word_eqI simp: bit_simps simp del: bit_numeral_word_iff)
      (use bit_imp_le_length [of v] in auto)
qed

lemma mii_probe_c22_run:
  assumes "phy_ready E V a w"
  shows "\<exists>d. run_state (mii_probe_c22 E) w =
      (Inr (join_id (bus_regs V w (phy_target a 0 2 False)) (bus_regs V w (phy_target a 0 3 False))), w\<lparr>dev := d\<rparr>) \<and>
    phy_regs V d = bus_regs V w \<and> phy_ready E V a (w\<lparr>dev := d\<rparr>)"
proof -
  obtain d where 1: "run_state (intelgbe_phy_read_c22 E MII_STD_PHYID1 (uninit_u32 E)) w =
      ((0, ucast (bus_regs V w (phy_target a 0 2 False))), w\<lparr>dev := d\<rparr>)"
    "phy_regs V d = bus_regs V w" "phy_ready E V a (w\<lparr>dev := d\<rparr>)"
    using phy_read_c22_run [OF assms, of MII_STD_PHYID1 "uninit_u32 E"] by auto
  then obtain d' where 2: "run_state (intelgbe_phy_read_c22 E MII_STD_PHYID2
        (ucast (bus_regs V w (phy_target a 0 2 False)))) (w\<lparr>dev := d\<rparr>) =
      ((0, ucast (bus_regs V w (phy_target a 0 3 False))), w\<lparr>dev := d'\<rparr>)"
    "phy_regs V d' = bus_regs V w" "phy_ready E V a (w\<lparr>dev := d'\<rparr>)"
    using phy_read_c22_run [OF 1(3), of MII_STD_PHYID2] by fastforce
  show ?thesis
    by (rule exI [of _ d']) (simp add: 1 2 mii_probe_c22_def join_id_def del: push_bit_and)
qed

lemma mii_probe_c45_run:
  assumes "phy_ready E V a w"
  shows "\<exists>d. run_state (mii_probe_c45 E) w =
      (Inr (join_id (bus_regs V w (phy_target a 1 2 True)) (bus_regs V w (phy_target a 1 3 True))), w\<lparr>dev := d\<rparr>) \<and>
    phy_regs V d = bus_regs V w \<and> phy_ready E V a (w\<lparr>dev := d\<rparr>)"
proof -
  obtain d where 1: "run_state (intelgbe_phy_read_c45 E MMD_PMA_PMD MMD_PMA_PHYID1 (uninit_u32 E)) w =
      ((0, push_bit 16 2 OR ucast (bus_regs V w (phy_target a 1 2 True))), w\<lparr>dev := d\<rparr>)"
    "phy_regs V d = bus_regs V w" "phy_ready E V a (w\<lparr>dev := d\<rparr>)"
    using phy_read_c45_run [OF assms, of MMD_PMA_PMD MMD_PMA_PHYID1 "uninit_u32 E"] by auto
  then obtain d' where 2: "run_state (intelgbe_phy_read_c45 E MMD_PMA_PMD MMD_PMA_PHYID2
        (push_bit 16 2 OR ucast (bus_regs V w (phy_target a 1 2 True)))) (w\<lparr>dev := d\<rparr>) =
      ((0, push_bit 16 3 OR ucast (bus_regs V w (phy_target a 1 3 True))), w\<lparr>dev := d'\<rparr>)"
    "phy_regs V d' = bus_regs V w" "phy_ready E V a (w\<lparr>dev := d'\<rparr>)"
    using phy_read_c45_run [OF 1(3), of MMD_PMA_PMD MMD_PMA_PHYID2] by fastforce
  show ?thesis
    by (rule exI [of _ d']) (simp add: 1 2 mii_probe_c45_def join_id_def del: push_bit_numeral push_bit_and)
qed


lemma mii_phy_scan_stop: "\<not> no_phy_id i \<or> \<not> a < 32 \<Longrightarrow> mii_phy_scan E i a b = ret (Inr (i, a, b))"
  by (subst mii_phy_scan.simps) auto

text \<open>One round of the address loop: the identifier it leaves is the one the registers show.\<close>

lemma mii_phy_scan_round:
  assumes "phy_ready E V x w" and "no_phy_id i" and "a < 32"
  shows "\<exists>i' b' w'. run_state (mii_phy_scan E i a b) w = run_state (mii_phy_scan E i' (a + 1) b') w' \<and>
    (i', b') = phy_id_at (bus_regs V w) (unat a) \<and> bus_regs V w' = bus_regs V w \<and>
    phy_ready E V (ucast a) w'"
proof -
  define w1 where "w1 = snd (run_state (upd_phy (\<lambda>p. p\<lparr>phy_addr := ucast a\<rparr>) :: ('a, unit) op) w)"
  have w1: "run_state (upd_phy (\<lambda>p. p\<lparr>phy_addr := ucast a\<rparr>)) w = ((), w1)" "bus_regs V w1 = bus_regs V w"
    "phy_ready E V (ucast a) w1"
    using assms(1) by (simp_all add: w1_def phy_ready_def mdio_ready_def)
  have a: "(of_nat (unat a) :: u32) = ucast a" by (simp add: unsigned_of_nat flip: unat_ucast_up)
  obtain d where 2: "run_state (mii_probe_c22 E) w1 =
      (Inr (join_id (bus_regs V w (phy_target (ucast a) 0 2 False))
         (bus_regs V w (phy_target (ucast a) 0 3 False))), w1\<lparr>dev := d\<rparr>)"
    "phy_regs V d = bus_regs V w" "phy_ready E V (ucast a) (w1\<lparr>dev := d\<rparr>)"
    using mii_probe_c22_run [OF w1(3)] w1(2) by auto
  then obtain d' where 3: "run_state (mii_probe_c45 E) (w1\<lparr>dev := d\<rparr>) =
      (Inr (join_id (bus_regs V w (phy_target (ucast a) 1 2 True))
         (bus_regs V w (phy_target (ucast a) 1 3 True))), w1\<lparr>dev := d'\<rparr>)"
    "phy_regs V d' = bus_regs V w" "phy_ready E V (ucast a) (w1\<lparr>dev := d'\<rparr>)"
    using mii_probe_c45_run [OF 2(3)] by auto
  show ?thesis
  proof (cases "no_phy_id (join_id (bus_regs V w (phy_target (ucast a) 0 2 False))
         (bus_regs V w (phy_target (ucast a) 0 3 False)))")
    case True
    then have "run_state (mii_phy_scan E i a b) w =
        run_state (mii_phy_scan E (fst (phy_id_at (bus_regs V w) (unat a))) (a + 1) True) (w1\<lparr>dev := d'\<rparr>)"
      using 2 3 w1 assms(2,3) by (subst mii_phy_scan.simps) (simp add: phy_id_at_def a)
    moreover have "snd (phy_id_at (bus_regs V w) (unat a))"
      using True by (simp add: phy_id_at_def a)
    ultimately show ?thesis using 3
      by (intro exI [of _ "fst (phy_id_at (bus_regs V w) (unat a))"] exI [of _ True]
          exI [of _ "w1\<lparr>dev := d'\<rparr>"]) (simp add: prod_eq_iff)
  next
    case False
    then have "run_state (mii_phy_scan E i a b) w =
        run_state (mii_phy_scan E (fst (phy_id_at (bus_regs V w) (unat a))) (a + 1) False) (w1\<lparr>dev := d\<rparr>)"
      using 2 w1 assms(2,3) by (subst mii_phy_scan.simps) (simp add: phy_id_at_def a)
    moreover have "\<not> snd (phy_id_at (bus_regs V w) (unat a))"
      using False by (simp add: phy_id_at_def a)
    ultimately show ?thesis using 2
      by (intro exI [of _ "fst (phy_id_at (bus_regs V w) (unat a))"] exI [of _ False]
          exI [of _ "w1\<lparr>dev := d\<rparr>"]) (simp add: prod_eq_iff)
  qed
qed

text \<open>
  The address loop, from \<open>a\<close> on: it stops behind the first address with a PHY, or at 32.
\<close>

lemma mii_phy_scan_run:
  assumes "phy_ready E V x w" and "no_phy_id i" and "n + unat a = 32"
  shows "\<exists>i' a' b' w'. run_state (mii_phy_scan E i a b) w = (Inr (i', a', b'), w') \<and>
    bus_regs V w' = bus_regs V w \<and> phy_ready E V (phy_addr (phy (Hw (GigAdapter w')))) w' \<and>
    (case find (phy_present (bus_regs V w)) [unat a..<32] of
       None \<Rightarrow> a' = 32 \<and> no_phy_id i'
     | Some k \<Rightarrow> unat a' = Suc k \<and> (i', b') = phy_id_at (bus_regs V w) k \<and>
         phy_addr (phy (Hw (GigAdapter w'))) = of_nat k)"
  using assms
proof (induction n arbitrary: i a b w x)
  case 0
  then have "a = 32" by (simp add: word_unat_eq_iff)
  with 0 show ?case by (auto simp: mii_phy_scan_stop phy_ready_def)
next
  case (Suc n)
  from Suc.prems have lt: "a < 32" and ua: "unat (a + 1) = Suc (unat a)"
    by (simp_all add: word_less_nat_alt unat_word_ariths)
  have upt: "[unat a..<32] = unat a # [Suc (unat a)..<32]"
    using Suc.prems by (subst upt_conv_Cons) auto
  obtain i' b' w' where r: "run_state (mii_phy_scan E i a b) w = run_state (mii_phy_scan E i' (a + 1) b') w'"
    "(i', b') = phy_id_at (bus_regs V w) (unat a)" "bus_regs V w' = bus_regs V w"
    "phy_ready E V (ucast a) w'"
    using mii_phy_scan_round [OF Suc.prems(1,2) lt] by metis
  have p: "phy_present (bus_regs V w) (unat a) \<longleftrightarrow> \<not> no_phy_id i'"
    by (simp add: phy_present_def flip: r(2))
  show ?case
  proof (cases "no_phy_id i'")
    case True
    have "n + unat (a + 1) = 32" using Suc.prems(3) ua by simp
    from Suc.IH [OF r(4) True this, of b', unfolded r(3) ua] True show ?thesis
      by (simp only: upt p r(1) find.simps if_not_P not_not if_False simp_thms)
  next
    case False
    then show ?thesis using r ua
      by (simp add: upt p mii_phy_scan_stop) (auto simp: phy_ready_def)
  qed
qed


text \<open>
  C29.  \<^verbatim>\<open>mii_phy_id_get\<close>, over a management bus that follows its handshake, identifies the PHY with the
  lowest address: it records that address, its identifier and the clause it answers (22 before 45), and
  disturbs no PHY register.  It fails when no address of the bus has a PHY, and also when the only one
  sits at address 31, which the loop has passed when it ends.
\<close>

theorem phy_id_get_finds_lowest:
  assumes "phy_ready E V x w" and "run_state (mii_phy_id_get E) w = (r, w')"
    and "p = phy (Hw (GigAdapter w'))"
  shows "bus_regs V w' = bus_regs V w \<and>
    (case find (phy_present (bus_regs V w)) [0..<32] of
       None \<Rightarrow> r = - INTELGBE_ERR_PHY \<and> no_phy_id (phy_id p)
     | Some a \<Rightarrow> r = (if a < 31 then INTELGBE_SUCCESS else - INTELGBE_ERR_PHY) \<and>
         phy_addr p = of_nat a \<and> (phy_id p, c45 p) = phy_id_at (bus_regs V w) a)"
proof -
  obtain i a b v where "run_state (mii_phy_scan E 0 0 (uninit_bool E)) w = (Inr (i, a, b), v)"
    "bus_regs V v = bus_regs V w"
    "case find (phy_present (bus_regs V w)) [0..<32] of
       None \<Rightarrow> a = 32 \<and> no_phy_id i
     | Some k \<Rightarrow> unat a = Suc k \<and> (i, b) = phy_id_at (bus_regs V w) k \<and>
         phy_addr (phy (Hw (GigAdapter v))) = of_nat k"
    using mii_phy_scan_run [OF assms(1), of 0 32 0 "uninit_bool E"] by (auto simp: no_phy_id_def)
  then show ?thesis using assms(2,3)
    by (auto simp: mii_phy_id_get_def word_less_nat_alt split: option.splits)
qed


text \<open>A bus with one PHY, which answers clause 22 at address \<open>n\<close> with identifier \<^verbatim>\<open>0x00070007\<close>.\<close>

definition one_phy :: "u32 \<Rightarrow> phy_key \<Rightarrow> u16" where
  "one_phy n = (\<lambda>(is45, a, _, _). if a = n \<and> \<not> is45 then 7 else 0)"

definition one_phy_world :: "u32 \<Rightarrow> sim_bus world" where
  "one_phy_world n = (sim_world 0)\<lparr>dev := \<lparr>sim_regs = one_phy n, sim_busy = 0, sim_data = 0\<rparr>\<rparr>"

lemma one_phy_ready: "phy_ready (sim_env 5 0x1000) sim_view 0 (one_phy_world n)"
  using sim_phy_ready [of 5 0]
  by (simp add: one_phy_world_def phy_ready_def mdio_ready_def) (simp add: sim_view_def)

lemma one_phy_regs: "bus_regs sim_view (one_phy_world n) = one_phy n"
  by (simp add: one_phy_world_def sim_view_def)

lemma take_bit_5: "k < 32 \<Longrightarrow> take_bit 5 (word_of_nat k :: u32) = word_of_nat k"
  by (simp add: word_unat_eq_iff unat_of_nat take_bit_eq_mod unat_mod)

lemma one_phy_id:
  assumes "k < 32"
  shows "phy_id_at (one_phy (of_nat n)) k = (if of_nat k = (of_nat n :: u32) then (0x00070007, False) else (0, True))"
  using assms by (simp add: phy_id_at_def one_phy_def phy_target_def take_bit_5 join_id_def no_phy_id_def)

theorem phy_id_get_finds_lowest_witness:
  "\<exists>r w'. run_state (mii_phy_id_get (sim_env 5 0x1000)) (one_phy_world 5) = (r, w') \<and>
     r = INTELGBE_SUCCESS \<and> phy_id (phy (Hw (GigAdapter w'))) = 0x00070007 \<and>
     phy_addr (phy (Hw (GigAdapter w'))) = 5"
proof -
  obtain r w' where run: "run_state (mii_phy_id_get (sim_env 5 0x1000)) (one_phy_world 5) = (r, w')"
    by fastforce
  have id: "k < 32 \<Longrightarrow> phy_id_at (one_phy 5) k = (if of_nat k = (5 :: u32) then (0x00070007, False) else (0, True))" for k
    using one_phy_id [of k 5] by simp
  have "find (phy_present (one_phy 5)) [0..<32] = Some 5"
    by (simp add: upt_rec id phy_present_def no_phy_id_def)
  with phy_id_get_finds_lowest [OF one_phy_ready run refl] run show ?thesis
    by (simp add: one_phy_regs id)
qed

section \<open>PHY operations over a ready bus\<close>

text \<open>The bus answers, the PHY sits at address \<open>a\<close> and its operation slots are \<open>ops\<close>.\<close>

definition bus_up :: "'d env \<Rightarrow> 'd mdio_view \<Rightarrow> u32 \<Rightarrow> intelgbe_phy_operations \<Rightarrow> 'd world \<Rightarrow> bool" where
  "bus_up E V a ops w \<longleftrightarrow> phy_ready E V a w \<and> phy_ops (phy (Hw (GigAdapter w))) = ops"

lemma bus_up_dev: "bus_up E V a ops w \<Longrightarrow> phy_ready E V a (w\<lparr>dev := d\<rparr>) \<Longrightarrow> bus_up E V a ops (w\<lparr>dev := d\<rparr>)"
  by (simp add: bus_up_def)

lemma ensures_read_c22 [outcome]: "ensures (bus_up E V a ops) (intelgbe_phy_read_c22 E r x) (\<lambda>y. fst y = 0)"
  using phy_read_c22_run [of E V a _ r x] bus_up_dev by (fastforce simp: ensures_def bus_up_def)

lemma ensures_read_c45 [outcome]: "ensures (bus_up E V a ops) (intelgbe_phy_read_c45 E dv r x) (\<lambda>y. fst y = 0)"
  using phy_read_c45_run [of E V a _ dv r x] bus_up_dev by (fastforce simp: ensures_def bus_up_def)

lemma ensures_delay [outcome]: "ensures (bus_up E V a ops) (msec_delay E n) (\<lambda>_. True)"
  by (auto simp: ensures_def bus_up_def phy_ready_def mdio_ready_def stall_view)

lemma ensures_write_c22 [outcome]: "ensures (bus_up E V a ops) (intelgbe_phy_write_c22 E r v) (\<lambda>y. y = 0)"
  unfolding ensures_def
proof (intro allI impI)
  fix w assume up: "bus_up E V a ops w"
  then have r: "mdio_ready E V w" by (simp add: bus_up_def phy_ready_def)
  show "case run_state (intelgbe_phy_write_c22 E r v) w of (y, t) \<Rightarrow> y = 0 \<and> bus_up E V a ops t"
    using mdio_write_ready [OF r, of a 0 "ucast r" v False] up
    by (auto simp: intelgbe_phy_write_c22_def bus_up_def phy_ready_def)
qed

lemma ensures_write_c45 [outcome]: "ensures (bus_up E V a ops) (intelgbe_phy_write_c45 E dv r v) (\<lambda>y. y = 0)"
  unfolding ensures_def
proof (intro allI impI)
  fix w assume up: "bus_up E V a ops w"
  then have r: "mdio_ready E V w" by (simp add: bus_up_def phy_ready_def)
  show "case run_state (intelgbe_phy_write_c45 E dv r v) w of (y, t) \<Rightarrow> y = 0 \<and> bus_up E V a ops t"
    using mdio_write_ready [OF r, of a dv r v True] up
    by (auto simp: intelgbe_phy_write_c45_def bus_up_def phy_ready_def)
qed

lemma ensures_modify_c22 [outcome]: "ensures (bus_up E V a ops) (intelgbe_phy_modify_c22 E r m v) (\<lambda>y. y = 0)"
  unfolding intelgbe_phy_modify_c22_def by (rule outcome | clarsimp)+

lemma ensures_modify_c22_if_changed [outcome]:
  "ensures (bus_up E V a ops) (intelgbe_phy_modify_c22_if_changed E r m v) (\<lambda>y. y \<in> {0, 1})"
  unfolding intelgbe_phy_modify_c22_if_changed_def by (rule outcome | clarsimp)+

lemma ensures_modify_c45_if_changed [outcome]:
  "ensures (bus_up E V a ops) (intelgbe_phy_modify_c45_if_changed E dv r m v) (\<lambda>y. y \<in> {0, 1})"
  unfolding intelgbe_phy_modify_c45_if_changed_def by (rule outcome | clarsimp)+

lemma ensures_add_support [outcome]: "ensures (bus_up E V a ops) (add_support b x) (\<lambda>_. True)"
  unfolding add_support_def by (rule outcome | clarsimp simp: bus_up_def phy_ready_def mdio_ready_def)+

lemma ensures_get_supported [outcome]: "ensures (bus_up E V a ops) (mii_phy_get_supported E) (\<lambda>y. y = 0)"
  unfolding mii_phy_get_supported_def by (rule outcome | (clarsimp; fail))+


lemma ensures_soft_reset_wait [outcome]: "ensures (bus_up E V a ops) (soft_reset_wait E n st) (\<lambda>_. True)"
  by (induction n arbitrary: st) (rule outcome | assumption | (simp; fail) | simp (no_asm))+

lemma ensures_soft_reset [outcome]: "ensures (bus_up E V a ops) (mii_phy_soft_reset E b) (\<lambda>_. True)"
  unfolding mii_phy_soft_reset_def by (rule outcome | (clarsimp; fail))+

lemma ensures_read_partner [outcome]: "ensures (bus_up E V a ops) (mii_phy_read_partner E b) (\<lambda>y. y = 0)"
  unfolding mii_phy_read_partner_def by (rule outcome | (clarsimp; fail))+

lemma ensures_restart_aneg [outcome]:
  "x \<in> {0, 1} \<Longrightarrow> ensures (bus_up E V a ops) (mii_phy_restart_aneg E b x) (\<lambda>y. y = 0)"
  unfolding mii_phy_restart_aneg_def
  by (rule ensures_bind [where S = "\<lambda>y. y \<in> {0, 1}"]; (rule outcome ensures_mono [OF ensures_modify_c22] | (auto; fail))+)

text \<open>A read that is skipped keeps the change code and value of the step before.\<close>

lemma ensures_read_ctrl:
  "x \<in> {0, 1} \<Longrightarrow> ensures (bus_up E V a ops)
     (if c then (if b then intelgbe_phy_read_c45 E dv r v else intelgbe_phy_read_c22 E r' v) else ret (x, v))
     (\<lambda>y. fst y \<in> {0, 1})"
  by (rule outcome ensures_mono [OF ensures_read_c45] ensures_mono [OF ensures_read_c22] | (auto; fail))+

lemma ensures_1000:
  "x \<in> {0, 1} \<Longrightarrow> ensures (bus_up E V a ops)
     (if c then (if b then intelgbe_phy_modify_c45_if_changed E dv r m v
                 else intelgbe_phy_modify_c22_if_changed E r' m v) else ret x) (\<lambda>y. y \<in> {0, 1})"
  by (rule outcome | (auto; fail))+

lemma ensures_config_link [outcome]: "ensures (bus_up E V a ops) (mii_phy_config_link E b) (\<lambda>y. y = 0)"
  unfolding mii_phy_config_link_def
  by (rule ensures_1000 ensures_read_ctrl outcome | (auto; fail))+

lemma ensures_initialize_88e1512 [outcome]:
  "ensures (bus_up E V a ops) (intelgbe_phy_initialize_88e1512 E) (\<lambda>y. y = 0)"
  unfolding intelgbe_phy_initialize_88e1512_def
  by (rule ensures_bind, rule outcome, rule ensures_bind [where S = "\<lambda>y. y = 0"])
    (rule outcome | (clarsimp; fail))+

lemma ensures_cfg_link_88e1512 [outcome]:
  "ensures (bus_up E V a ops) (intelgbe_phy_cfg_link_88e1512 E) (\<lambda>y. y = 0)"
  unfolding intelgbe_phy_cfg_link_88e1512_def by (rule outcome | (clarsimp; fail))+


lemma ensures_gpyxxx [outcome]:
  "ensures (bus_up E V a ops) intelgbe_phy_initialize_gpyxxx (\<lambda>y. y = 0)"
  "ensures (bus_up E V a ops) (intelgbe_phy_cfg_link_gpyxxx E) (\<lambda>y. y = 0)"
  unfolding intelgbe_phy_initialize_gpyxxx_def intelgbe_phy_cfg_link_gpyxxx_def
  by (rule outcome | (clarsimp; fail))+

lemma ensures_cfg_link_2110 [outcome]:
  "ensures (bus_up E V a ops) (m88e2110_phy_cfg_link E) (\<lambda>y. y = 0)"
  unfolding m88e2110_phy_cfg_link_def by (rule outcome | (clarsimp; fail))+

lemma ensures_call_cfg_link [outcome]:
  "ensures (bus_up E V a ops) (call_phy_cfg_link E t) (\<lambda>y. y = 0)"
  by (cases t) (simp_all add: call_phy_cfg_link_def outcome)

text \<open>The 88E2110 refuses to start while its boot status says it waits for firmware.\<close>

abbreviation booted :: "'d mdio_view \<Rightarrow> u32 \<Rightarrow> 'd world \<Rightarrow> bool" where
  "booted V a w \<equiv> \<not> bit (bus_regs V w (phy_target a MMD_PMA_PMD MMD_PMA_BOOT True)) 0"

lemma initialize_2110_run:
  assumes up: "bus_up E V a ops w" and run: "run_state (m88e2110_phy_initialize E) w = (r, w')"
  shows "r = (if booted V a w then 0 else - INTELGBE_ERR_PHY) \<and> bus_up E V a ops w'"
proof -
  have "phy_ready E V a w" using up by (simp add: bus_up_def)
  from phy_read_c45_run [OF this, of MMD_PMA_PMD MMD_PMA_BOOT "uninit_u32 E"]
  obtain d y where d: "run_state (intelgbe_phy_read_c45 E MMD_PMA_PMD MMD_PMA_BOOT (uninit_u32 E)) w =
      ((0, y), w\<lparr>dev := d\<rparr>)" "phy_ready E V a (w\<lparr>dev := d\<rparr>)"
    and y: "y = push_bit 16 (ucast MMD_PMA_BOOT) OR ucast (bus_regs V w (phy_target a MMD_PMA_PMD MMD_PMA_BOOT True))"
    by blast
  have b: "bit y 0 \<longleftrightarrow> \<not> booted V a w" by (simp add: y bit_simps)
  have up': "bus_up E V a ops (w\<lparr>dev := d\<rparr>)" using up d(2) by (simp add: bus_up_def)
  let ?tail = "\<lambda>x. do {
       (r1, phyreg) \<leftarrow> intelgbe_phy_read_c45 E MMD_PMA_PMD MMD_PMA_FW_VER1 x;
       (r2, phyreg) \<leftarrow> intelgbe_phy_read_c45 E MMD_PMA_PMD MMD_PMA_FW_VER0 phyreg;
       ret (0 OR r1 OR r2) }"
  have e: "ensures (bus_up E V a ops) (?tail x) (\<lambda>y. y = 0)" for x
    by (rule outcome | (clarsimp; fail))+
  note tail = ensuresD [OF e up']
  show ?thesis
  proof (cases "booted V a w")
    case True
    with run d(1) have "run_state (?tail y) (w\<lparr>dev := d\<rparr>) = (r, w')"
      by (simp add: m88e2110_phy_initialize_def b del: bit_0)
    with tail [of y] True show ?thesis by simp
  next
    case False
    with run d(1) up' show ?thesis
      by (auto simp: m88e2110_phy_initialize_def b simp del: bit_0)
  qed
qed

lemma phy_init_run:
  assumes "bus_up E V a ops w" and "phy_init_op ops = Some t" and "cfg_link ops = Some t'"
    and "t = PHY_MARVELL_88E2110 \<Longrightarrow> booted V a w" and "run_state (intelgbe_phy_init E) w = (r, w')"
  shows "r = INTELGBE_SUCCESS \<and> bus_up E V a ops w'"
proof -
  obtain r1 w1 where r1: "run_state (call_phy_init E t) w = (r1, w1)" by fastforce
  have 1: "r1 = 0 \<and> bus_up E V a ops w1"
    using r1 assms(1,4) initialize_2110_run [OF assms(1)] ensuresD [OF ensures_gpyxxx(1) assms(1)]
      ensuresD [OF ensures_initialize_88e1512 assms(1)]
    by (cases t) (simp_all add: call_phy_init_def)
  obtain r2 w2 where r2: "run_state (call_phy_cfg_link E t') w1 = (r2, w2)" by fastforce
  from ensuresD [OF ensures_call_cfg_link _ r2] 1 have "r2 = 0 \<and> bus_up E V a ops w2" by blast
  with 1 r1 r2 assms show ?thesis by (auto simp: intelgbe_phy_init_def bus_up_def)
qed

text \<open>
  C30.  Over a management bus that follows its handshake, with a PHY driver installed and, when that is the driver
  of the 88E2110, a PHY that has booted (otherwise the driver reports an error), the PHY initialisation succeeds: the
  installed driver runs its initialisation and the auto-negotiation set-up to the end without an error,
  whatever the PHY's other registers hold, even when the negotiation itself never completes.
\<close>

theorem phy_init_succeeds:
  assumes "phy_ready E V a w" and "phy_init_op (phy_ops (phy (Hw (GigAdapter w)))) = Some t"
    and "cfg_link (phy_ops (phy (Hw (GigAdapter w)))) = Some t'"
    and "t = PHY_MARVELL_88E2110 \<longrightarrow> booted V a w" and "run_state (intelgbe_phy_init E) w = (r, w')"
  shows "r = INTELGBE_SUCCESS \<and> phy_ready E V a w'"
  using phy_init_run [OF _ assms(2,3) _ assms(5)] assms(1,4) by (simp add: bus_up_def)

theorem phy_init_succeeds_witness:
  "let w = snd (run_state intelgbe_init_phy_ops_marvell_88e2110 (sim_world 1)) in
   let w = w\<lparr>dev := (dev w)\<lparr>sim_regs := \<lambda>_. 6\<rparr>\<rparr> in
   \<exists>r w'. run_state (intelgbe_phy_init (sim_env 5 0x1000)) w = (r, w') \<and> r = INTELGBE_SUCCESS"
proof -
  define w where "w = (let v = snd (run_state intelgbe_init_phy_ops_marvell_88e2110 (sim_world 1))
    in v\<lparr>dev := (dev v)\<lparr>sim_regs := \<lambda>_. 6\<rparr>\<rparr>)"
  obtain r w' where run: "run_state (intelgbe_phy_init (sim_env 5 0x1000)) w = (r, w')" by fastforce
  have "phy_ready (sim_env 5 0x1000) sim_view 1 w"
    using sim_phy_ready [of 5 1]
    by (simp add: w_def intelgbe_init_phy_ops_marvell_88e2110_def install_phy_ops_def phy_ready_def
        mdio_ready_def) (simp add: sim_view_def)
  moreover have "phy_init_op (phy_ops (phy (Hw (GigAdapter w)))) = Some PHY_MARVELL_88E2110"
    "cfg_link (phy_ops (phy (Hw (GigAdapter w)))) = Some PHY_MARVELL_88E2110"
    by (simp_all add: w_def intelgbe_init_phy_ops_marvell_88e2110_def install_phy_ops_def)
  moreover have "booted sim_view 1 w" by (simp add: w_def Let_def sim_view_def)
  ultimately have "r = INTELGBE_SUCCESS" using phy_init_succeeds [OF _ _ _ _ run] by blast
  with run show ?thesis by (simp add: w_def Let_def)
qed

end
