(* ===== verification/Undi_Mac.thy ===== *)
theory Undi_Mac
  imports Undi_Phy
begin

text \<open>
  The MAC layer of \<^verbatim>\<open>intelgbe_stmmac.c\<close> and the entry points of \<^verbatim>\<open>intelgbe_api.c\<close>: controller
  reset, station address, the initialisation of the DMA, MTL and MAC blocks, start and stop of the
  transfers, link status, the XPCS and SERDES bring-up, and the selection of MAC and PHY operations
  from the device and PHY identifiers.
\<close>

section \<open>Registers of intelgbe_defines.h\<close>

abbreviation INTELGBE_ADDR_HIGH :: "u32 \<Rightarrow> u32" where "INTELGBE_ADDR_HIGH reg \<equiv> 0x300 + reg * 8"
abbreviation INTELGBE_ADDR_LOW :: "u32 \<Rightarrow> u32" where "INTELGBE_ADDR_LOW reg \<equiv> 0x304 + reg * 8"
abbreviation INTELGBE_VERSION :: u32 where "INTELGBE_VERSION \<equiv> 0x0110"
abbreviation INTELGBE_VERSION_MASK :: u32 where "INTELGBE_VERSION_MASK \<equiv> 0x00ff"
abbreviation INTELGBE_FIFO_SZ_PER_QUEUE :: u32 where "INTELGBE_FIFO_SZ_PER_QUEUE \<equiv> 0x1000"

abbreviation INTELGBE_DMA_MODE :: u32 where "INTELGBE_DMA_MODE \<equiv> 0x1000"
abbreviation INTELGBE_DMA_MD_SWR :: u32 where "INTELGBE_DMA_MD_SWR \<equiv> BIT 0"
abbreviation DMA_SYSBUS_MODE :: u32 where "DMA_SYSBUS_MODE \<equiv> 0x1004"
abbreviation DMA_SYSBUS_MD_EN_LPI :: u32 where "DMA_SYSBUS_MD_EN_LPI \<equiv> BIT 31"
abbreviation DMA_SYSBUS_MD_BLEN16 :: u32 where "DMA_SYSBUS_MD_BLEN16 \<equiv> BIT 3"
abbreviation DMA_SYSBUS_MD_BLEN8 :: u32 where "DMA_SYSBUS_MD_BLEN8 \<equiv> BIT 2"
abbreviation DMA_SYSBUS_MD_BLEN4 :: u32 where "DMA_SYSBUS_MD_BLEN4 \<equiv> BIT 1"
abbreviation DMA_CONTROL_CH :: "u32 \<Rightarrow> u32" where "DMA_CONTROL_CH x \<equiv> 0x1100 + x * 0x80"
abbreviation DMA_CH_CTRL_PBLX8 :: u32 where "DMA_CH_CTRL_PBLX8 \<equiv> BIT 16"
abbreviation DMA_TX_CONTROL_CH :: "u32 \<Rightarrow> u32" where "DMA_TX_CONTROL_CH x \<equiv> 0x1104 + x * 0x80"
abbreviation DMA_CH_TX_CTRL_TXPBL_MASK :: u32 where "DMA_CH_TX_CTRL_TXPBL_MASK \<equiv> 0x003F0000"
abbreviation DMA_CH_TX_CTRL_ST :: u32 where "DMA_CH_TX_CTRL_ST \<equiv> BIT 0"
abbreviation DMA_RX_CONTROL_CH :: "u32 \<Rightarrow> u32" where "DMA_RX_CONTROL_CH x \<equiv> 0x1108 + x * 0x80"
abbreviation DMA_CH_RX_CTRL_RXPBL_MASK :: u32 where "DMA_CH_RX_CTRL_RXPBL_MASK \<equiv> 0x003F0000"
abbreviation DMA_CH_RX_CTRL_RBSZ_MASK :: u32 where "DMA_CH_RX_CTRL_RBSZ_MASK \<equiv> 0x00007FFE"
abbreviation DMA_CH_RX_CTRL_SR :: u32 where "DMA_CH_RX_CTRL_SR \<equiv> BIT 0"
abbreviation DMA_TXDESC_LIST_ADDR_CH :: "u32 \<Rightarrow> u32" where
  "DMA_TXDESC_LIST_ADDR_CH x \<equiv> 0x1114 + x * 0x80"
abbreviation DMA_RXDESC_LIST_ADDR_CH :: "u32 \<Rightarrow> u32" where
  "DMA_RXDESC_LIST_ADDR_CH x \<equiv> 0x111C + x * 0x80"
abbreviation DMA_TXDESC_TAIL_PTR_CH :: "u32 \<Rightarrow> u32" where
  "DMA_TXDESC_TAIL_PTR_CH x \<equiv> 0x1120 + x * 0x80"
abbreviation DMA_RXDESC_TAIL_PTR_CH :: "u32 \<Rightarrow> u32" where
  "DMA_RXDESC_TAIL_PTR_CH x \<equiv> 0x1128 + x * 0x80"
abbreviation DMA_TXDESC_RING_LENGTH_CH :: "u32 \<Rightarrow> u32" where
  "DMA_TXDESC_RING_LENGTH_CH x \<equiv> 0x112C + x * 0x80"
abbreviation DMA_RXDESC_RING_LENGTH_CH :: "u32 \<Rightarrow> u32" where
  "DMA_RXDESC_RING_LENGTH_CH x \<equiv> 0x1130 + x * 0x80"
abbreviation DMA_INTR_EN_CH :: "u32 \<Rightarrow> u32" where "DMA_INTR_EN_CH x \<equiv> 0x1134 + x * 0x80"
abbreviation DMA_CH_INTR_EN_NIE :: u32 where "DMA_CH_INTR_EN_NIE \<equiv> BIT 15"
abbreviation DMA_CH_INTR_EN_RIE :: u32 where "DMA_CH_INTR_EN_RIE \<equiv> BIT 6"
abbreviation DMA_CH_INTR_EN_TIE :: u32 where "DMA_CH_INTR_EN_TIE \<equiv> BIT 0"

abbreviation MTL_OPERATION_MODE :: u32 where "MTL_OPERATION_MODE \<equiv> 0x0C00"
abbreviation MTL_OPR_MD_SCHALG_SP :: u32 where "MTL_OPR_MD_SCHALG_SP \<equiv> 0x00000060"
abbreviation MTL_RXQ_DMA_MAP0 :: u32 where "MTL_RXQ_DMA_MAP0 \<equiv> 0x0C30"
abbreviation MTL_RXQ_DMA_MAP1 :: u32 where "MTL_RXQ_DMA_MAP1 \<equiv> 0x0C34"
abbreviation MTL_TXQ_OPERATION_MODE :: "u32 \<Rightarrow> u32" where
  "MTL_TXQ_OPERATION_MODE x \<equiv> 0x0D00 + x * 0x40"
abbreviation MTL_TXQ_OPR_TQS_MASK :: u32 where "MTL_TXQ_OPR_TQS_MASK \<equiv> 0x007F0000"
abbreviation MTL_TXQSZ_BLOCK :: u32 where "MTL_TXQSZ_BLOCK \<equiv> 256"
abbreviation MTL_TXQ_OPR_TSF :: u32 where "MTL_TXQ_OPR_TSF \<equiv> BIT 1"
abbreviation INV_MTL_TXQ_OPR_TXQEN :: u32 where "INV_MTL_TXQ_OPR_TXQEN \<equiv> 0xFFFFFFF3"
abbreviation MTL_TXQ_OPR_TXQEN_EN :: u32 where "MTL_TXQ_OPR_TXQEN_EN \<equiv> 0x00000008"
abbreviation MTL_RXQ_OPERATION_MODE :: "u32 \<Rightarrow> u32" where
  "MTL_RXQ_OPERATION_MODE x \<equiv> 0x0D30 + x * 0x40"
abbreviation MTL_RXQ_OPR_RQS_MASK :: u32 where "MTL_RXQ_OPR_RQS_MASK \<equiv> 0x07F00000"
abbreviation MTL_RXQSZ_BLOCK :: u32 where "MTL_RXQSZ_BLOCK \<equiv> 256"
abbreviation MTL_RXQ_OPR_RSF :: u32 where "MTL_RXQ_OPR_RSF \<equiv> BIT 5"

abbreviation MAC_CONFIGURATION :: u32 where "MAC_CONFIGURATION \<equiv> 0x0000"
abbreviation MAC_CONF_IPC :: u32 where "MAC_CONF_IPC \<equiv> BIT 27"
abbreviation MAC_CONF_CST :: u32 where "MAC_CONF_CST \<equiv> BIT 21"
abbreviation MAC_CONF_ACS :: u32 where "MAC_CONF_ACS \<equiv> BIT 20"
abbreviation INV_MAC_CONF_SPD :: u32 where "INV_MAC_CONF_SPD \<equiv> 0xFFFF3FFF"
abbreviation MAC_CONF_SPD_10MHZ :: u32 where "MAC_CONF_SPD_10MHZ \<equiv> 0x00008000"
abbreviation MAC_CONF_SPD_100MHZ :: u32 where "MAC_CONF_SPD_100MHZ \<equiv> 0x0000C000"
abbreviation MAC_CONF_SPD_1000MHZ :: u32 where "MAC_CONF_SPD_1000MHZ \<equiv> 0x00000000"
abbreviation MAC_CONF_SPD_2500MHZ :: u32 where "MAC_CONF_SPD_2500MHZ \<equiv> 0x00004000"
abbreviation MAC_CONF_DM :: u32 where "MAC_CONF_DM \<equiv> BIT 13"
abbreviation MAC_CONF_TE :: u32 where "MAC_CONF_TE \<equiv> BIT 1"
abbreviation MAC_CONF_RE :: u32 where "MAC_CONF_RE \<equiv> BIT 0"
abbreviation MAC_RXQ_CTRL0 :: u32 where "MAC_RXQ_CTRL0 \<equiv> 0x00A0"
abbreviation MAC_EN_DCB_GEN_RXQ :: "nat \<Rightarrow> u32" where
  "MAC_EN_DCB_GEN_RXQ x \<equiv> push_bit (x * 2) (BIT 1)"

abbreviation VENDOR_SPECIFIC_MII_MMD :: u8 where "VENDOR_SPECIFIC_MII_MMD \<equiv> 0x1F"
abbreviation SR_MII_MMD_CTRL_REG :: u16 where "SR_MII_MMD_CTRL_REG \<equiv> 0x0000"
abbreviation SR_MII_CTRL_RST :: u16 where "SR_MII_CTRL_RST \<equiv> BIT 15"
abbreviation SR_MII_CTRL_RESTART_AN :: u16 where "SR_MII_CTRL_RESTART_AN \<equiv> BIT 9"
abbreviation SR_MII_CTRL_AN_EN :: u16 where "SR_MII_CTRL_AN_EN \<equiv> BIT 12"
abbreviation SR_MII_CTRL_2500 :: u16 where "SR_MII_CTRL_2500 \<equiv> BIT 13 AND NOT (BIT 6)"
abbreviation VR_MII_MMD_DIG_CTRL1_REG :: u16 where "VR_MII_MMD_DIG_CTRL1_REG \<equiv> 0x8000"
abbreviation VR_MII_DIG_CTRL1_25G_EN :: u16 where "VR_MII_DIG_CTRL1_25G_EN \<equiv> BIT 2"
abbreviation VR_MII_DIG_CTRL1_PRE_EMP :: u16 where "VR_MII_DIG_CTRL1_PRE_EMP \<equiv> BIT 6"
abbreviation VR_MII_DIG_CTRL1_MAC_AUTO_SW :: u16 where "VR_MII_DIG_CTRL1_MAC_AUTO_SW \<equiv> BIT 9"
abbreviation VR_MII_MMD_AN_CTRL_REG :: u16 where "VR_MII_MMD_AN_CTRL_REG \<equiv> 0x8001"
abbreviation VR_MII_AN_CTRL_TX_CFG :: u16 where "VR_MII_AN_CTRL_TX_CFG \<equiv> BIT 3"
abbreviation VR_MII_AN_CTRL_PCS_MODE_MASK :: u16 where "VR_MII_AN_CTRL_PCS_MODE_MASK \<equiv> 0x0006"
abbreviation VR_MII_AN_CTRL_AN_INTR_EN :: u16 where "VR_MII_AN_CTRL_AN_INTR_EN \<equiv> BIT 0"
abbreviation VR_MII_AN_CTRL_PCS_MODE_SGMII :: u16 where "VR_MII_AN_CTRL_PCS_MODE_SGMII \<equiv> 0x0004"

abbreviation MODPHY_ADDR :: u32 where "MODPHY_ADDR \<equiv> 0x15"
abbreviation SERDES_GCR :: u16 where "SERDES_GCR \<equiv> 0x0"
abbreviation SERDES_GSR0 :: u16 where "SERDES_GSR0 \<equiv> 0x5"
abbreviation SERDES_GCR0 :: u16 where "SERDES_GCR0 \<equiv> 0xB"
abbreviation SERDES_PLL_CLK :: u16 where "SERDES_PLL_CLK \<equiv> BIT 0"
abbreviation SERDES_PHY_RX_CLK :: u16 where "SERDES_PHY_RX_CLK \<equiv> BIT 1"
abbreviation SERDES_RST :: u16 where "SERDES_RST \<equiv> BIT 2"
abbreviation SERDES_PWR_ST_MASK :: u16 where "SERDES_PWR_ST_MASK \<equiv> 0x70"
abbreviation SERDES_RATE_MASK :: u16 where "SERDES_RATE_MASK \<equiv> 0x300"
abbreviation SERDES_PCLK_MASK :: u16 where "SERDES_PCLK_MASK \<equiv> 0x7000"
abbreviation SERDES_LINK_MODE_MASK :: u32 where "SERDES_LINK_MODE_MASK \<equiv> 0x6"
abbreviation SERDES_LINK_MODE_2G5 :: u8 where "SERDES_LINK_MODE_2G5 \<equiv> 0x3"
abbreviation SERDES_PWR_ST_P0 :: u16 where "SERDES_PWR_ST_P0 \<equiv> 0x0"
abbreviation SERDES_PCLK_37p5MHZ :: u16 where "SERDES_PCLK_37p5MHZ \<equiv> 0x0"
abbreviation SERDES_PCLK_70MHZ :: u16 where "SERDES_PCLK_70MHZ \<equiv> 0x1"
abbreviation SERDES_RATE_PCIE_GEN1 :: u16 where "SERDES_RATE_PCIE_GEN1 \<equiv> 0x0"
abbreviation SERDES_RATE_PCIE_GEN2 :: u16 where "SERDES_RATE_PCIE_GEN2 \<equiv> 0x1"

section \<open>Device identifiers of Intelgbe.h\<close>

abbreviation INTEL_VENDOR_ID :: u16 where "INTEL_VENDOR_ID \<equiv> 0x8086"
abbreviation EHL_PCH_STMMAC_SGMII_DID :: u16 where "EHL_PCH_STMMAC_SGMII_DID \<equiv> 0x4B32"
abbreviation EHL_PSE0_STMMAC_RGMII1G_DID :: u16 where "EHL_PSE0_STMMAC_RGMII1G_DID \<equiv> 0x4BA0"
abbreviation EHL_PSE0_STMMAC_SGMII1G_DID :: u16 where "EHL_PSE0_STMMAC_SGMII1G_DID \<equiv> 0x4BA1"
abbreviation EHL_PSE0_STMMAC_SGMII2G5_DID :: u16 where "EHL_PSE0_STMMAC_SGMII2G5_DID \<equiv> 0x4BA2"
abbreviation EHL_PSE1_STMMAC_RGMII1G_DID :: u16 where "EHL_PSE1_STMMAC_RGMII1G_DID \<equiv> 0x4BB0"
abbreviation EHL_PSE1_STMMAC_SGMII1G_DID :: u16 where "EHL_PSE1_STMMAC_SGMII1G_DID \<equiv> 0x4BB1"
abbreviation EHL_PSE1_STMMAC_SGMII2G5_DID :: u16 where "EHL_PSE1_STMMAC_SGMII2G5_DID \<equiv> 0x4BB2"
abbreviation TGLH_PCH1_STMMAC_SGMII_DID :: u16 where "TGLH_PCH1_STMMAC_SGMII_DID \<equiv> 0x43AC"
abbreviation TGLH_PCH2_STMMAC_SGMII_DID :: u16 where "TGLH_PCH2_STMMAC_SGMII_DID \<equiv> 0x43A2"
abbreviation TGLU_PCH1_STMMAC_SGMII_DID :: u16 where "TGLU_PCH1_STMMAC_SGMII_DID \<equiv> 0xA0AC"

section \<open>Queues of the adapter\<close>

text \<open>
  \<^verbatim>\<open>&GigAdapterInfo->rx_queue[i]\<close> and \<^verbatim>\<open>&GigAdapterInfo->tx_queue[i]\<close>.  An index outside the array
  is an error of the program, recorded in \<open>fault\<close>.
\<close>

definition get_tx_queue :: "nat \<Rightarrow> ('d, intelgbe_tx_queue) op" where
  "get_tx_queue i = do {
     qs \<leftarrow> gets (\<lambda>w. tx_queue (GigAdapter w));
     if i < length qs then ret (qs ! i) else do { _ \<leftarrow> raise_fault; ret zero_tx_queue } }"

definition get_rx_queue :: "nat \<Rightarrow> ('d, intelgbe_rx_queue) op" where
  "get_rx_queue i = do {
     qs \<leftarrow> gets (\<lambda>w. rx_queue (GigAdapter w));
     if i < length qs then ret (qs ! i) else do { _ \<leftarrow> raise_fault; ret zero_rx_queue } }"

definition set_tx_queue :: "nat \<Rightarrow> intelgbe_tx_queue \<Rightarrow> ('d, unit) op" where
  "set_tx_queue i q = upd_adapter (\<lambda>g. g\<lparr>tx_queue := (tx_queue g)[i := q]\<rparr>)"

definition set_rx_queue :: "nat \<Rightarrow> intelgbe_rx_queue \<Rightarrow> ('d, unit) op" where
  "set_rx_queue i q = upd_adapter (\<lambda>g. g\<lparr>rx_queue := (rx_queue g)[i := q]\<rparr>)"

section \<open>Controller reset, identification, station address\<close>

definition intelgbe_reset_controller :: "'d env \<Rightarrow> ('d, int) op" where
  "intelgbe_reset_controller E = do {
     val \<leftarrow> INTELGBEInDword E INTELGBE_DMA_MODE;
     _ \<leftarrow> INTELGBEOutDword E INTELGBE_DMA_MODE (val OR INTELGBE_DMA_MD_SWR);
     _ \<leftarrow> msec_delay E 10;
     limit \<leftarrow> poll_while 10
       (do { val \<leftarrow> INTELGBEInDword E INTELGBE_DMA_MODE; ret (val AND INTELGBE_DMA_MD_SWR = 0) })
       (msec_delay E 10);
     ret (if limit < 0 then INTELGBE_ERR_RESET else INTELGBE_SUCCESS) }"

definition intelgbe_get_mac_version :: "'d env \<Rightarrow> ('d, int) op" where
  "intelgbe_get_mac_version E = do {
     v \<leftarrow> INTELGBEInDword E INTELGBE_VERSION;
     ret (uint (v AND INTELGBE_VERSION_MASK)) }"

text \<open>The six bytes read from the address registers, and the two words written to them.\<close>

definition mac_addr_bytes :: "u32 \<Rightarrow> u32 \<Rightarrow> u8 list" where
  "mac_addr_bytes rar_high rar_low =
     map (\<lambda>i. ucast (drop_bit (i * 8) rar_low)) [0..<4]
     @ map (\<lambda>i. ucast (drop_bit (i * 8) rar_high)) [0..<2]"

definition mac_addr_high :: "u8 list \<Rightarrow> u32" where
  "mac_addr_high a = push_bit 8 (ucast (a ! 5)) OR ucast (a ! 4)"

definition mac_addr_low :: "u8 list \<Rightarrow> u32" where
  "mac_addr_low a = push_bit 24 (ucast (a ! 3)) OR push_bit 16 (ucast (a ! 2))
                    OR push_bit 8 (ucast (a ! 1)) OR ucast (a ! 0)"

definition intelgbe_read_mac_addr :: "'d env \<Rightarrow> ('d, int) op" where
  "intelgbe_read_mac_addr E = do {
     rar_high \<leftarrow> INTELGBEInDword E (INTELGBE_ADDR_HIGH 0);
     rar_low \<leftarrow> INTELGBEInDword E (INTELGBE_ADDR_LOW 0);
     _ \<leftarrow> upd_mac (\<lambda>m. m\<lparr>perm_addr := mac_addr_bytes rar_high rar_low\<rparr>);
     _ \<leftarrow> upd_mac (\<lambda>m. m\<lparr>mac_addr := perm_addr m\<rparr>);
     ret INTELGBE_SUCCESS }"

definition intelgbe_write_mac_addr :: "'d env \<Rightarrow> ('d, int) op" where
  "intelgbe_write_mac_addr E = do {
     addr \<leftarrow> gets (\<lambda>w. mac_addr (mac (Hw (GigAdapter w))));
     let data = mac_addr_high addr OR push_bit 16 0;
     _ \<leftarrow> INTELGBEOutDword E (INTELGBE_ADDR_HIGH 0) (data OR BIT 31);
     _ \<leftarrow> INTELGBEOutDword E (INTELGBE_ADDR_LOW 0) (mac_addr_low addr);
     ret INTELGBE_SUCCESS }"

section \<open>Initialisation of the DMA, MTL and MAC blocks\<close>

definition intelgbe_dma_rx_desc_init :: "intelgbe_rx_queue \<Rightarrow> intelgbe_rx_queue" where
  "intelgbe_dma_rx_desc_init q =
     q\<lparr>rx_ring := map (\<lambda>i. \<lparr>des0 = ucast (dma_rx_buff q + of_nat (i * sizeof_LOCAL_RX_BUFFER)),
                            des1 = 0, des2 = 0, des3 = (BIT 30 OR BIT 24) OR BIT 31\<rparr>)
                      [0..<DEFAULT_RX_DESCRIPTORS]\<rparr>"

definition intelgbe_mac_enable_interrupts :: "'d env \<Rightarrow> ('d, int) op" where
  "intelgbe_mac_enable_interrupts E = do {
     g \<leftarrow> adapter;
     _ \<leftarrow> for_each [0..<unat (max (txqnum g) (rxqnum g))] (\<lambda>i.
       INTELGBEOutDword E (DMA_INTR_EN_CH (of_nat i))
         (DMA_CH_INTR_EN_NIE OR DMA_CH_INTR_EN_RIE OR DMA_CH_INTR_EN_TIE OR BIT 14 OR BIT 12));
     ret 0 }"

definition intelgbe_mac_start_transaction :: "'d env \<Rightarrow> ('d, int) op" where
  "intelgbe_mac_start_transaction E = do {
     g \<leftarrow> adapter;
     _ \<leftarrow> for_each [0..<unat (rxqnum g)] (\<lambda>i. do {
       q \<leftarrow> get_rx_queue i;
       v \<leftarrow> INTELGBEInDword E (DMA_RX_CONTROL_CH (chan q));
       INTELGBEOutDword E (DMA_RX_CONTROL_CH (chan q)) (v OR DMA_CH_RX_CTRL_SR) });
     _ \<leftarrow> for_each [0..<unat (txqnum g)] (\<lambda>i. do {
       v \<leftarrow> INTELGBEInDword E (MTL_TXQ_OPERATION_MODE (of_nat i));
       _ \<leftarrow> INTELGBEOutDword E (MTL_TXQ_OPERATION_MODE (of_nat i))
              ((v AND INV_MTL_TXQ_OPR_TXQEN) OR MTL_TXQ_OPR_TXQEN_EN);
       v \<leftarrow> INTELGBEInDword E (DMA_TX_CONTROL_CH (of_nat i));
       INTELGBEOutDword E (DMA_TX_CONTROL_CH (of_nat i)) (v OR DMA_CH_TX_CTRL_ST) });
     v \<leftarrow> INTELGBEInDword E MAC_CONFIGURATION;
     _ \<leftarrow> INTELGBEOutDword E MAC_CONFIGURATION ((v OR MAC_CONF_RE) OR MAC_CONF_TE);
     _ \<leftarrow> upd_adapter (\<lambda>g. g\<lparr>ReceiveStarted := True\<rparr>);
     ret 0 }"

text \<open>The speed and duplex bits of \<^verbatim>\<open>MAC_CONFIGURATION\<close>, set alike by two functions.\<close>

definition mac_conf_speed :: "u32 \<Rightarrow> u32" where
  "mac_conf_speed speed =
     (if speed = 100 then MAC_CONF_SPD_100MHZ
      else if speed = 1000 then MAC_CONF_SPD_1000MHZ
      else if speed = 2500 then MAC_CONF_SPD_2500MHZ
      else MAC_CONF_SPD_10MHZ)"

definition mac_conf_link :: "u32 \<Rightarrow> u32 \<Rightarrow> u32 \<Rightarrow> u32" where
  "mac_conf_link speed duplex reg_val =
     (let v = (reg_val AND INV_MAC_CONF_SPD) OR mac_conf_speed speed
      in if duplex \<noteq> 0 then v OR MAC_CONF_DM else v AND NOT MAC_CONF_DM)"

definition intelgbe_mac_init :: "'d env \<Rightarrow> ('d, int) op" where
  "intelgbe_mac_init E = do {
     _ \<leftarrow> INTELGBEOutDword E MAC_CONFIGURATION (MAC_CONF_CST OR MAC_CONF_ACS OR MAC_CONF_IPC);
     st \<leftarrow> gets (\<lambda>w. phy_status (phy_ops (phy (Hw (GigAdapter w)))));
     (_, link, speed, duplex) \<leftarrow>
       call_phy_status E st (uninit_bool E, uninit_s32 E, uninit_s32 E);
     _ \<leftarrow> (if link then do {
            _ \<leftarrow> upd_mac (\<lambda>m. m\<lparr>link_speed := of_int speed, full_duplex := of_int duplex\<rparr>);
            upd_phy (\<lambda>p. p\<lparr>link_up := True\<rparr>) }
          else upd_phy (\<lambda>p. p\<lparr>link_up := False\<rparr>));
     reg_val \<leftarrow> INTELGBEInDword E MAC_CONFIGURATION;
     m \<leftarrow> gets (\<lambda>w. mac (Hw (GigAdapter w)));
     _ \<leftarrow> INTELGBEOutDword E MAC_CONFIGURATION
            (mac_conf_link (link_speed m) (full_duplex m) reg_val);
     n \<leftarrow> gets (\<lambda>w. unat (rxqnum (GigAdapter w)));
     _ \<leftarrow> INTELGBEOutDword E MAC_RXQ_CTRL0 (fold (\<lambda>i v. v OR MAC_EN_DCB_GEN_RXQ i) [0..<n] 0);
     ret 0 }"

definition mtl_map_rx_queue :: "'d env \<Rightarrow> nat \<Rightarrow> ('d, unit) op" where
  "mtl_map_rx_queue E i = do {
     q \<leftarrow> get_rx_queue i;
     reg_val \<leftarrow> INTELGBEInDword E (if i < 4 then MTL_RXQ_DMA_MAP0 else MTL_RXQ_DMA_MAP1);
     let reg_val = (if i = 0 \<or> i = 4 then reg_val OR chan q
                    else reg_val OR push_bit (8 * i) (chan q));
     INTELGBEOutDword E (if i < 4 then MTL_RXQ_DMA_MAP0 else MTL_RXQ_DMA_MAP1) reg_val }"

definition intelgbe_mtl_init :: "'d env \<Rightarrow> ('d, int) op" where
  "intelgbe_mtl_init E = do {
     g \<leftarrow> adapter;
     _ \<leftarrow> INTELGBEOutDword E MTL_OPERATION_MODE MTL_OPR_MD_SCHALG_SP;
     _ \<leftarrow> for_each [0..<unat (rxqnum g)] (mtl_map_rx_queue E);
     _ \<leftarrow> (if txqnum g = 0 \<or> rxqnum g = 0 then raise_fault else ret ());
     let txqsz = txfifosz (mac (Hw g)) div (ucast (txqnum g) * MTL_TXQSZ_BLOCK) - 1;
     let rxqsz = rxfifosz (mac (Hw g)) div (ucast (rxqnum g) * MTL_RXQSZ_BLOCK) - 1;
     _ \<leftarrow> for_each [0..<unat (txqnum g)] (\<lambda>i.
       INTELGBEOutDword E (MTL_TXQ_OPERATION_MODE (of_nat i))
         (MTL_TXQ_OPR_TSF OR (push_bit 16 txqsz AND MTL_TXQ_OPR_TQS_MASK)));
     _ \<leftarrow> for_each [0..<unat (rxqnum g)] (\<lambda>i.
       INTELGBEOutDword E (MTL_RXQ_OPERATION_MODE (of_nat i))
         (MTL_RXQ_OPR_RSF OR (push_bit 20 rxqsz AND MTL_RXQ_OPR_RQS_MASK)));
     ret 0 }"

definition dma_init_tx_queue :: "'d env \<Rightarrow> nat \<Rightarrow> ('d, unit) op" where
  "dma_init_tx_queue E i = do {
     q \<leftarrow> get_tx_queue i;
     g \<leftarrow> adapter;
     let off = of_nat (i * sizeof_DESCRIPTOR * DEFAULT_TX_DESCRIPTORS);
     let q = q\<lparr>tx_queue_index := of_nat i,
               tx_desc := UnmappedAddress (TxRing g) + off,
               dma_tx := PhysicalAddress (TxRing g) + off\<rparr>;
     _ \<leftarrow> INTELGBEOutDword E (DMA_TXDESC_RING_LENGTH_CH (of_nat i))
            (of_nat (DEFAULT_TX_DESCRIPTORS - 1));
     _ \<leftarrow> INTELGBEOutDword E (DMA_TXDESC_LIST_ADDR_CH (of_nat i)) (ucast (tx_desc q));
     _ \<leftarrow> INTELGBEOutDword E (DMA_TXDESC_TAIL_PTR_CH (of_nat i)) (ucast (tx_desc q));
     let q = q\<lparr>tx_tail_addr := ucast (tx_desc q)\<rparr>;
     _ \<leftarrow> INTELGBEOutDword E (DMA_TX_CONTROL_CH (of_nat i))
            (push_bit 16 32 AND DMA_CH_TX_CTRL_TXPBL_MASK);
     set_tx_queue i (q\<lparr>tx_ring := replicate DEFAULT_TX_DESCRIPTORS zero_desc\<rparr>) }"

definition dma_init_rx_queue :: "'d env \<Rightarrow> nat \<Rightarrow> ('d, unit) op" where
  "dma_init_rx_queue E i = do {
     q \<leftarrow> get_rx_queue i;
     g \<leftarrow> adapter;
     let off = of_nat (i * sizeof_DESCRIPTOR * DEFAULT_RX_DESCRIPTORS);
     let boff = of_nat (i * sizeof_LOCAL_RX_BUFFER * DEFAULT_RX_DESCRIPTORS);
     let q = q\<lparr>rx_queue_index := of_nat i,
               rx_desc := UnmappedAddress (RxRing g) + off,
               dma_rx := PhysicalAddress (RxRing g) + off,
               rx_buff := UnmappedAddress (RxBufferMapping g) + boff,
               dma_rx_buff := PhysicalAddress (RxBufferMapping g) + boff\<rparr>;
     let q = intelgbe_dma_rx_desc_init q;
     _ \<leftarrow> INTELGBEOutDword E (DMA_RXDESC_RING_LENGTH_CH (chan q))
            (of_nat (DEFAULT_RX_DESCRIPTORS - 1));
     _ \<leftarrow> INTELGBEOutDword E (DMA_RX_CONTROL_CH (chan q))
            ((push_bit 16 32 OR push_bit 1 1536)
             AND (DMA_CH_RX_CTRL_RXPBL_MASK OR DMA_CH_RX_CTRL_RBSZ_MASK));
     _ \<leftarrow> INTELGBEOutDword E (DMA_RXDESC_LIST_ADDR_CH (chan q)) (ucast (dma_rx q));
     let q = q\<lparr>rx_tail_addr := ucast (dma_rx q)
                               + of_nat (sizeof_DESCRIPTOR * DEFAULT_RX_DESCRIPTORS)\<rparr>;
     _ \<leftarrow> INTELGBEOutDword E (DMA_RXDESC_TAIL_PTR_CH (chan q)) (rx_tail_addr q);
     _ \<leftarrow> INTELGBEOutDword E (DMA_CONTROL_CH (chan q)) DMA_CH_CTRL_PBLX8;
     set_rx_queue i q }"

definition intelgbe_dma_init :: "'d env \<Rightarrow> ('d, int) op" where
  "intelgbe_dma_init E = do {
     g \<leftarrow> adapter;
     _ \<leftarrow> INTELGBEOutDword E DMA_SYSBUS_MODE
            (DMA_SYSBUS_MD_EN_LPI OR DMA_SYSBUS_MD_BLEN16 OR DMA_SYSBUS_MD_BLEN8
             OR DMA_SYSBUS_MD_BLEN4);
     _ \<leftarrow> for_each [0..<unat (txqnum g)] (dma_init_tx_queue E);
     _ \<leftarrow> for_each [0..<unat (rxqnum g)] (dma_init_rx_queue E);
     _ \<leftarrow> for_each [0..<unat (txqnum g)] (\<lambda>i.
            INTELGBEOutDword E (DMA_CONTROL_CH (of_nat i)) DMA_CH_CTRL_PBLX8);
     ret 0 }"

section \<open>Link status and stop\<close>

text \<open>
  The source tests \<^verbatim>\<open>if (link)\<close>, the pointer, which its callers never pass as \<^verbatim>\<open>NULL\<close>; the
  \<^verbatim>\<open>else\<close> branch is not reached.
\<close>

definition intelgbe_link_status :: "'d env \<Rightarrow> bool \<Rightarrow> ('d, int \<times> bool) op" where
  "intelgbe_link_status E link = do {
     p \<leftarrow> gets (\<lambda>w. phy (Hw (GigAdapter w)));
     (retval, link_sts_chg) \<leftarrow>
       call_phy_link_status_change E (link_status_change (phy_ops p)) False;
     if retval < 0 then ret (retval, link)
     else if \<not> link_sts_chg then do {
       up \<leftarrow> gets (\<lambda>w. link_up (phy (Hw (GigAdapter w))));
       ret (0, up) }
     else do {
       (retval, link, speed, duplex) \<leftarrow>
         call_phy_status E (phy_status (phy_ops p)) (link, uninit_s32 E, uninit_s32 E);
       if retval < 0 then ret (retval, link)
       else do {
         _ \<leftarrow> upd_mac (\<lambda>m. m\<lparr>link_speed := of_int speed, full_duplex := of_int duplex\<rparr>);
         reg_val \<leftarrow> INTELGBEInDword E MAC_CONFIGURATION;
         m \<leftarrow> gets (\<lambda>w. mac (Hw (GigAdapter w)));
         _ \<leftarrow> INTELGBEOutDword E MAC_CONFIGURATION
                (mac_conf_link (link_speed m) (full_duplex m) reg_val);
         _ \<leftarrow> upd_phy (\<lambda>p. p\<lparr>link_up := True\<rparr>);
         ret (0, link) } } }"

definition intelgbe_uninit_controller :: "'d env \<Rightarrow> ('d, int) op" where
  "intelgbe_uninit_controller E = do {
     g \<leftarrow> adapter;
     _ \<leftarrow> for_each [0..<unat (rxqnum g)] (\<lambda>i. do {
       q \<leftarrow> get_rx_queue i;
       v \<leftarrow> INTELGBEInDword E (DMA_RX_CONTROL_CH (chan q));
       INTELGBEOutDword E (DMA_RX_CONTROL_CH (chan q)) (v AND NOT DMA_CH_RX_CTRL_SR) });
     _ \<leftarrow> for_each [0..<unat (txqnum g)] (\<lambda>i. do {
       v \<leftarrow> INTELGBEInDword E (MTL_TXQ_OPERATION_MODE (of_nat i));
       _ \<leftarrow> INTELGBEOutDword E (MTL_TXQ_OPERATION_MODE (of_nat i)) (v AND INV_MTL_TXQ_OPR_TXQEN);
       v \<leftarrow> INTELGBEInDword E (DMA_TX_CONTROL_CH (of_nat i));
       INTELGBEOutDword E (DMA_TX_CONTROL_CH (of_nat i)) (v AND NOT DMA_CH_TX_CTRL_ST) });
     v \<leftarrow> INTELGBEInDword E MAC_CONFIGURATION;
     _ \<leftarrow> INTELGBEOutDword E MAC_CONFIGURATION ((v AND NOT MAC_CONF_RE) AND NOT MAC_CONF_TE);
     ret 0 }"

section \<open>XPCS and SERDES\<close>

text \<open>
  The reset poll of \<^verbatim>\<open>intelgbe_xpcs_init\<close>; \<open>phy_reg\<close> keeps its value when a read fails.  The
  result is \<^verbatim>\<open>xpcs_retry\<close> after the loop.  \<^verbatim>\<open>retval\<close> is accumulated by the function but never
  read, so it has no counterpart here.
\<close>

fun xpcs_reset_wait :: "'d env \<Rightarrow> nat \<Rightarrow> u16 \<Rightarrow> ('d, nat) op" where
  "xpcs_reset_wait E 0 phy_reg = ret 0"
| "xpcs_reset_wait E (Suc n) phy_reg = do {
     (_, phy_reg) \<leftarrow> intelgbe_mdio_c45_read E VENDOR_SPECIFIC_MII_MMD SR_MII_MMD_CTRL_REG phy_reg;
     if phy_reg AND SR_MII_CTRL_RST = 0 then ret (Suc n)
     else do { _ \<leftarrow> msec_delay E 1; xpcs_reset_wait E n phy_reg } }"

definition intelgbe_xpcs_init :: "'d env \<Rightarrow> ('d, int) op" where
  "intelgbe_xpcs_init E = do {
     _ \<leftarrow> intelgbe_mdio_c45_modify E VENDOR_SPECIFIC_MII_MMD SR_MII_MMD_CTRL_REG
            SR_MII_CTRL_RST SR_MII_CTRL_RST;
     xpcs_retry \<leftarrow> xpcs_reset_wait E 10 0;
     if xpcs_retry = 0 then ret (- INTELGBE_ERR_TIMEOUT)
     else do {
       fast \<leftarrow> gets (\<lambda>w. speed_2500_en (mac (Hw (GigAdapter w))));
       _ \<leftarrow> (if fast then do {
              _ \<leftarrow> intelgbe_mdio_c45_modify E VENDOR_SPECIFIC_MII_MMD VR_MII_MMD_DIG_CTRL1_REG
                     VR_MII_DIG_CTRL1_MAC_AUTO_SW (VR_MII_DIG_CTRL1_25G_EN OR VR_MII_DIG_CTRL1_PRE_EMP);
              intelgbe_mdio_c45_modify E VENDOR_SPECIFIC_MII_MMD SR_MII_MMD_CTRL_REG
                SR_MII_CTRL_AN_EN SR_MII_CTRL_2500 }
            else do {
              _ \<leftarrow> intelgbe_mdio_c45_modify E VENDOR_SPECIFIC_MII_MMD VR_MII_MMD_DIG_CTRL1_REG
                     (VR_MII_DIG_CTRL1_MAC_AUTO_SW OR VR_MII_DIG_CTRL1_PRE_EMP)
                     (VR_MII_DIG_CTRL1_MAC_AUTO_SW OR VR_MII_DIG_CTRL1_PRE_EMP);
              _ \<leftarrow> intelgbe_mdio_c45_modify E VENDOR_SPECIFIC_MII_MMD VR_MII_MMD_AN_CTRL_REG
                     (VR_MII_AN_CTRL_TX_CFG OR VR_MII_AN_CTRL_PCS_MODE_MASK
                      OR VR_MII_AN_CTRL_AN_INTR_EN)
                     (0 OR VR_MII_AN_CTRL_PCS_MODE_SGMII OR VR_MII_AN_CTRL_AN_INTR_EN);
              intelgbe_mdio_c45_modify E VENDOR_SPECIFIC_MII_MMD SR_MII_MMD_CTRL_REG
                (SR_MII_CTRL_AN_EN OR SR_MII_CTRL_RESTART_AN)
                (SR_MII_CTRL_AN_EN OR SR_MII_CTRL_RESTART_AN) });
       ret INTELGBE_SUCCESS } }"

text \<open>
  One SERDES step of \<^verbatim>\<open>intelgbe_modphy_init\<close>: read \<^verbatim>\<open>SERDES_GCR0\<close>, write it back changed by
  \<open>f\<close>, then poll \<^verbatim>\<open>SERDES_GSR0\<close> until \<open>done\<close>.  \<open>Inl\<close> is an early return, \<open>Inr\<close> the
  value of \<^verbatim>\<open>data\<close>.  \<^verbatim>\<open>retries\<close> never falls below 0, so the \<^verbatim>\<open>return -1\<close> is not reached.
\<close>

definition modphy_step ::
  "'d env \<Rightarrow> (u16 \<Rightarrow> u16) \<Rightarrow> (u32 \<Rightarrow> bool) \<Rightarrow> ('d, int + u16) op" where
  "modphy_step E f ready = do {
     (retval, data_addr) \<leftarrow> intelgbe_mdio_read E MODPHY_ADDR 0 SERDES_GCR0 (uninit_u32 E) False;
     if retval < 0 then ret (Inl retval)
     else do {
       let data = f (ucast data_addr);
       retval \<leftarrow> intelgbe_mdio_write E MODPHY_ADDR 0 SERDES_GCR0 data False;
       if retval < 0 then ret (Inl retval)
       else do {
         r \<leftarrow> poll_do 10
               (do { (retval, data_addr) \<leftarrow>
                       intelgbe_mdio_read E MODPHY_ADDR 0 SERDES_GSR0 (uninit_u32 E) False;
                     ret (if retval < 0 then Inl retval else Inr (ready data_addr)) })
               (msec_delay E 1);
         (case r of
            Inl e \<Rightarrow> ret (Inl e)
          | Inr retries \<Rightarrow> if retries < 0 then ret (Inl (-1)) else ret (Inr data)) } } }"

text \<open>The head of \<^verbatim>\<open>intelgbe_modphy_init\<close>: link mode and the rate and clock fields.\<close>

definition serdes_rate :: "bool \<Rightarrow> u16 \<Rightarrow> u16" where
  "serdes_rate fast data =
     ((data AND NOT SERDES_RATE_MASK) AND NOT SERDES_PCLK_MASK) OR
     (if fast then push_bit 8 SERDES_RATE_PCIE_GEN2 OR push_bit 12 SERDES_PCLK_37p5MHZ
      else push_bit 8 SERDES_RATE_PCIE_GEN1 OR push_bit 12 SERDES_PCLK_70MHZ)"

definition modphy_rate :: "'d env \<Rightarrow> ('d, int) op" where
  "modphy_rate E = do {
     (retval, data_addr) \<leftarrow> intelgbe_mdio_read E MODPHY_ADDR 0 SERDES_GCR 0 False;
     if retval < 0 then ret retval
     else do {
       let link_mode = (ucast (drop_bit 1 (data_addr AND SERDES_LINK_MODE_MASK)) :: u8);
       (retval, data_addr) \<leftarrow> intelgbe_mdio_read E MODPHY_ADDR 0 SERDES_GCR0 0 False;
       if retval < 0 then ret retval
       else do {
         let fast = (link_mode = SERDES_LINK_MODE_2G5);
         _ \<leftarrow> upd_mac (\<lambda>m. m\<lparr>speed_2500_en := fast\<rparr>);
         intelgbe_mdio_write E MODPHY_ADDR 0 SERDES_GCR0 (serdes_rate fast (ucast data_addr)) False } } }"

definition intelgbe_modphy_init :: "'d env \<Rightarrow> ('d, int) op" where
  "intelgbe_modphy_init E = do {
     retval \<leftarrow> modphy_rate E;
     if retval < 0 then ret retval
     else do {
       r \<leftarrow> modphy_step E (\<lambda>d. d OR SERDES_PLL_CLK)
              (\<lambda>v. v AND ucast SERDES_PLL_CLK = ucast (SERDES_PLL_CLK AND SERDES_PLL_CLK));
       (case r of Inl e \<Rightarrow> ret e | Inr _ \<Rightarrow> do {
       r \<leftarrow> modphy_step E (\<lambda>d. d OR SERDES_RST)
              (\<lambda>v. v AND ucast SERDES_RST = ucast (SERDES_RST AND SERDES_RST));
       (case r of Inl e \<Rightarrow> ret e | Inr _ \<Rightarrow> do {
       r \<leftarrow> modphy_step E (\<lambda>d. (d AND NOT SERDES_PWR_ST_MASK) OR push_bit 4 SERDES_PWR_ST_P0)
              (\<lambda>v. v AND ucast SERDES_PWR_ST_MASK
                   = ucast (push_bit 4 SERDES_PWR_ST_P0 AND SERDES_PWR_ST_MASK));
       (case r of Inl e \<Rightarrow> ret e | Inr data \<Rightarrow> do {
       pse \<leftarrow> gets (\<lambda>w. pse_gbe (mac (Hw (GigAdapter w))));
       if pse then do {
         (retval, data_addr) \<leftarrow> intelgbe_mdio_read E MODPHY_ADDR 0 SERDES_GCR0 (uninit_u32 E) False;
         if retval < 0 then ret retval
         else do {
           retval \<leftarrow> intelgbe_mdio_write E MODPHY_ADDR 0 SERDES_GCR0 (data OR SERDES_PHY_RX_CLK) False;
           if retval < 0 then ret retval else ret INTELGBE_SUCCESS } }
       else ret INTELGBE_SUCCESS }) }) }) } }"

section \<open>Controller initialisation\<close>

definition intelgbe_init_controller :: "'d env \<Rightarrow> ('d, int) op" where
  "intelgbe_init_controller E = do {
     retval \<leftarrow> intelgbe_dma_init E;
     if retval < 0 then ret retval else do {
     retval \<leftarrow> intelgbe_mtl_init E;
     if retval < 0 then ret retval else do {
     retval \<leftarrow> intelgbe_mac_init E;
     if retval < 0 then ret retval else do {
     retval \<leftarrow> intelgbe_mac_enable_interrupts E;
     if retval < 0 then ret retval else do {
     retval \<leftarrow> intelgbe_mac_start_transaction E;
     if retval < 0 then ret retval else ret INTELGBE_SUCCESS } } } } }"

section \<open>Selection of the operations\<close>

text \<open>The numbers of transmit and receive queues by device identifier; \<open>None\<close> is the default case.\<close>

definition device_queues :: "u16 \<Rightarrow> (u32 \<times> u32) option" where
  "device_queues did =
     (if did \<in> set [EHL_PSE0_STMMAC_RGMII1G_DID, EHL_PSE1_STMMAC_RGMII1G_DID,
                    EHL_PCH_STMMAC_SGMII_DID, EHL_PSE0_STMMAC_SGMII1G_DID,
                    EHL_PSE1_STMMAC_SGMII1G_DID, EHL_PSE0_STMMAC_SGMII2G5_DID,
                    EHL_PSE1_STMMAC_SGMII2G5_DID]
      then Some (8, 8)
      else if did \<in> set [TGLH_PCH1_STMMAC_SGMII_DID, TGLH_PCH2_STMMAC_SGMII_DID,
                         TGLU_PCH1_STMMAC_SGMII_DID]
      then Some (4, 6) else None)"

definition intelgbe_init_mac_ops :: "('d, int) op" where
  "intelgbe_init_mac_ops = do {
     _ \<leftarrow> upd_mac (\<lambda>m. m\<lparr>mac_ops := (mac_ops m)\<lparr>read_mac_addr := True, write_mac_addr := True,
                           get_id := True, reset_hw := True, init_hw := True, uninit_hw := True,
                           check_for_link := True\<rparr>,
                         link_speed := 100, full_duplex := 1\<rparr>);
     did \<leftarrow> gets (\<lambda>w. device_id (Hw (GigAdapter w)));
     (case device_queues did of
        None \<Rightarrow> ret (- INTELGBE_ERR_MAC_INIT)
      | Some (tx_queues, rx_queues) \<Rightarrow> do {
          _ \<leftarrow> upd_mac (\<lambda>m. m\<lparr>txfifosz := tx_queues * INTELGBE_FIFO_SZ_PER_QUEUE,
                              rxfifosz := rx_queues * INTELGBE_FIFO_SZ_PER_QUEUE\<rparr>);
          ret INTELGBE_SUCCESS }) }"

text \<open>The nested switches on vendor and model; \<open>None\<close> stands for \<^verbatim>\<open>-INTELGBE_ERR_PHY\<close>.\<close>

definition select_phy :: "u32 \<Rightarrow> phy_interface \<Rightarrow> phy_type option" where
  "select_phy i ifc =
     (let vendor = MII_PHY_VENDOR i; model = MII_PHY_MODEL i in
      if vendor = MII_PHY_VENDOR MARVELL_PHY_ID_88E1512 then
        (if model = MII_PHY_MODEL MARVELL_PHY_ID_88E1512 then Some PHY_MARVELL_88E1512 else None)
      else if vendor = MII_PHY_VENDOR MAXLINEAR_PHY_ID_GPY then
        (if ifc = PHY_INTERFACE_SGMII then Some PHY_MAXLINEAR_GPY211 else None)
      else if vendor = MII_PHY_VENDOR MARVELL_PHY_ID_88E2110 then
        (if ifc = PHY_INTERFACE_SGMII then Some PHY_MARVELL_88E2110 else None)
      else None)"

definition intelgbe_init_phy_ops :: "phy_type \<Rightarrow> ('d, int) op" where
  "intelgbe_init_phy_ops t = (case t of
     PHY_MARVELL_88E1512 \<Rightarrow> intelgbe_init_phy_ops_marvell_88e1512
   | PHY_MAXLINEAR_GPY211 \<Rightarrow> intelgbe_init_phy_ops_maxlinear_gpyxxx
   | PHY_MARVELL_88E2110 \<Rightarrow> intelgbe_init_phy_ops_marvell_88e2110)"

definition mac_phy_interface :: "intelgbe_mac_type \<Rightarrow> phy_interface option" where
  "mac_phy_interface t = (case t of
     intelgbe_stmmac_rgmii \<Rightarrow> Some PHY_INTERFACE_RGMII
   | intelgbe_stmmac_sgmii \<Rightarrow> Some PHY_INTERFACE_SGMII
   | intelgbe_undefined \<Rightarrow> None)"

definition intelgbe_init_phy_params_stmmac :: "'d env \<Rightarrow> ('d, int) op" where
  "intelgbe_init_phy_params_stmmac E = do {
     _ \<leftarrow> upd_phy (\<lambda>p. p\<lparr>mdio_csr_clk := MAC_MDIO_CSR_CLOCK_250_300MHZ,
                         phy_ops := (phy_ops p)\<lparr>mdio_write := True, mdio_read := True\<rparr>\<rparr>);
     t \<leftarrow> gets (\<lambda>w. mac_type (mac (Hw (GigAdapter w))));
     (case mac_phy_interface t of
        None \<Rightarrow> ret (- INTELGBE_ERR_PHY)
      | Some ifc \<Rightarrow> do {
          _ \<leftarrow> upd_phy (\<lambda>p. p\<lparr>interface := ifc\<rparr>);
          ret_val \<leftarrow> mii_phy_id_get E;
          if ret_val < 0 then ret (- INTELGBE_ERR_PHY)
          else do {
            p \<leftarrow> gets (\<lambda>w. phy (Hw (GigAdapter w)));
            (case select_phy (phy_id p) (interface p) of
               None \<Rightarrow> ret (- INTELGBE_ERR_PHY)
             | Some t \<Rightarrow> do { _ \<leftarrow> intelgbe_init_phy_ops t; ret INTELGBE_SUCCESS }) } }) }"

definition intelgbe_init_function_pointers_stmmac :: "('d, unit) op" where
  "intelgbe_init_function_pointers_stmmac = do {
     _ \<leftarrow> upd_mac (\<lambda>m. m\<lparr>mac_ops := (mac_ops m)\<lparr>mac_init_params := True\<rparr>\<rparr>);
     upd_phy (\<lambda>p. p\<lparr>phy_ops := (phy_ops p)\<lparr>phy_init_params := True\<rparr>\<rparr>) }"

section \<open>Entry points of intelgbe_api.c\<close>

definition intelgbe_reset :: "'d env \<Rightarrow> ('d, int) op" where
  "intelgbe_reset E = do {
     o1 \<leftarrow> gets (\<lambda>w. reset_hw (mac_ops (mac (Hw (GigAdapter w)))));
     if o1 then intelgbe_reset_controller E else ret INTELGBE_NOT_IMPLEMENTED }"

definition intelgbe_get_id :: "'d env \<Rightarrow> ('d, int) op" where
  "intelgbe_get_id E = do {
     o1 \<leftarrow> gets (\<lambda>w. get_id (mac_ops (mac (Hw (GigAdapter w)))));
     if o1 then intelgbe_get_mac_version E else ret INTELGBE_NOT_IMPLEMENTED }"

definition intelgbe_init_hw :: "'d env \<Rightarrow> ('d, int) op" where
  "intelgbe_init_hw E = do {
     o1 \<leftarrow> gets (\<lambda>w. init_hw (mac_ops (mac (Hw (GigAdapter w)))));
     if o1 then intelgbe_init_controller E else ret INTELGBE_NOT_IMPLEMENTED }"

definition intelgbe_uninit_hw :: "'d env \<Rightarrow> ('d, int) op" where
  "intelgbe_uninit_hw E = do {
     o1 \<leftarrow> gets (\<lambda>w. uninit_hw (mac_ops (mac (Hw (GigAdapter w)))));
     if o1 then intelgbe_uninit_controller E else ret INTELGBE_NOT_IMPLEMENTED }"

definition intelgbe_read_mac_addr_generic :: "'d env \<Rightarrow> ('d, int) op" where
  "intelgbe_read_mac_addr_generic E = do {
     o1 \<leftarrow> gets (\<lambda>w. read_mac_addr (mac_ops (mac (Hw (GigAdapter w)))));
     if o1 then intelgbe_read_mac_addr E else ret INTELGBE_NOT_IMPLEMENTED }"

definition intelgbe_write_mac_addr_generic :: "'d env \<Rightarrow> ('d, int) op" where
  "intelgbe_write_mac_addr_generic E = do {
     o1 \<leftarrow> gets (\<lambda>w. write_mac_addr (mac_ops (mac (Hw (GigAdapter w)))));
     if o1 then intelgbe_write_mac_addr E else ret INTELGBE_NOT_IMPLEMENTED }"

definition intelgbe_init_mac_params :: "('d, int) op" where
  "intelgbe_init_mac_params = do {
     o1 \<leftarrow> gets (\<lambda>w. mac_init_params (mac_ops (mac (Hw (GigAdapter w)))));
     if o1 then intelgbe_init_mac_ops else ret (- INTELGBE_ERR_CONFIG) }"

definition intelgbe_init_phy_params :: "'d env \<Rightarrow> ('d, int) op" where
  "intelgbe_init_phy_params E = do {
     o1 \<leftarrow> gets (\<lambda>w. phy_init_params (phy_ops (phy (Hw (GigAdapter w)))));
     if o1 then intelgbe_init_phy_params_stmmac E else ret (- INTELGBE_ERR_CONFIG) }"

text \<open>
  The switch of \<^verbatim>\<open>intelgbe_set_mac_type\<close>: the MAC type and, where the case assigns it,
  \<^verbatim>\<open>pse_gbe\<close>; \<open>None\<close> is the default case.
\<close>

definition device_mac_type :: "u16 \<Rightarrow> (intelgbe_mac_type \<times> bool option) option" where
  "device_mac_type did =
     (if did \<in> set [EHL_PSE0_STMMAC_RGMII1G_DID, EHL_PSE1_STMMAC_RGMII1G_DID]
      then Some (intelgbe_stmmac_rgmii, None)
      else if did = EHL_PCH_STMMAC_SGMII_DID then Some (intelgbe_stmmac_sgmii, Some False)
      else if did \<in> set [EHL_PSE0_STMMAC_SGMII1G_DID, EHL_PSE1_STMMAC_SGMII1G_DID,
                         EHL_PSE0_STMMAC_SGMII2G5_DID, EHL_PSE1_STMMAC_SGMII2G5_DID]
      then Some (intelgbe_stmmac_sgmii, Some True)
      else if did \<in> set [TGLH_PCH1_STMMAC_SGMII_DID, TGLH_PCH2_STMMAC_SGMII_DID,
                         TGLU_PCH1_STMMAC_SGMII_DID]
      then Some (intelgbe_stmmac_sgmii, None)
      else None)"

definition intelgbe_set_mac_type :: "('d, int) op" where
  "intelgbe_set_mac_type = do {
     did \<leftarrow> gets (\<lambda>w. device_id (Hw (GigAdapter w)));
     (case device_mac_type did of
        None \<Rightarrow> ret (- INTELGBE_ERR_MAC_INIT)
      | Some (t, None) \<Rightarrow> do { _ \<leftarrow> upd_mac (\<lambda>m. m\<lparr>mac_type := t\<rparr>); ret INTELGBE_SUCCESS }
      | Some (t, Some b) \<Rightarrow> do {
          _ \<leftarrow> upd_mac (\<lambda>m. m\<lparr>mac_type := t, pse_gbe := b\<rparr>); ret INTELGBE_SUCCESS }) }"

definition intelgbe_setup_init_funcs :: "'d env \<Rightarrow> bool \<Rightarrow> ('d, int) op" where
  "intelgbe_setup_init_funcs E init_device = do {
     ret_val \<leftarrow> intelgbe_set_mac_type;
     if ret_val < 0 then ret ret_val
     else do {
       h \<leftarrow> gets (\<lambda>w. Hw (GigAdapter w));
       if hw_addr h = 0 then ret (- INTELGBE_ERR_CONFIG)
       else if mac_type (mac h) = intelgbe_undefined then ret (- INTELGBE_ERR_CONFIG)
       else do {
         _ \<leftarrow> intelgbe_init_function_pointers_stmmac;
         if init_device then do {
           ret_val \<leftarrow> intelgbe_init_mac_params;
           if ret_val \<noteq> 0 then ret ret_val
           else do {
             ret_val \<leftarrow> intelgbe_init_phy_params E;
             if ret_val \<noteq> 0 then ret ret_val else ret ret_val } }
         else ret ret_val } } }"

section \<open>Frames of the controller\<close>

lemma keeps_get_tx_queue [frame]: "steady f \<Longrightarrow> keeps f (get_tx_queue i)"
  unfolding get_tx_queue_def by (auto intro!: frame simp: steady_def phy_blind_def host_def)

lemma keeps_get_rx_queue [frame]: "steady f \<Longrightarrow> keeps f (get_rx_queue i)"
  unfolding get_rx_queue_def by (auto intro!: frame simp: steady_def phy_blind_def host_def)

lemma keeps_set_tx_queue [frame]: "keeps core (set_tx_queue i q)"
  unfolding set_tx_queue_def by (auto intro!: frame)

lemma keeps_set_rx_queue [frame]: "keeps core (set_rx_queue i q)"
  unfolding set_rx_queue_def by (auto intro!: frame)

lemma keeps_intelgbe_reset_controller [frame]: "host f \<Longrightarrow> keeps f (intelgbe_reset_controller E)"
  unfolding intelgbe_reset_controller_def by (auto intro!: frame)

lemma keeps_intelgbe_get_mac_version [frame]: "host f \<Longrightarrow> keeps f (intelgbe_get_mac_version E)"
  unfolding intelgbe_get_mac_version_def by (auto intro!: frame)

lemma keeps_intelgbe_read_mac_addr [frame]: "steady f \<Longrightarrow> keeps f (intelgbe_read_mac_addr E)"
  unfolding intelgbe_read_mac_addr_def by (auto intro!: frame simp: steady_def phy_blind_def host_def)

lemma keeps_intelgbe_write_mac_addr [frame]: "host f \<Longrightarrow> keeps f (intelgbe_write_mac_addr E)"
  unfolding intelgbe_write_mac_addr_def by (auto intro!: frame)

lemma keeps_intelgbe_mac_enable_interrupts [frame]: "steady f \<Longrightarrow> keeps f (intelgbe_mac_enable_interrupts E)"
  unfolding intelgbe_mac_enable_interrupts_def by (auto intro!: frame simp: steady_def phy_blind_def host_def)

lemma keeps_intelgbe_mac_start_transaction [frame]: "keeps core (intelgbe_mac_start_transaction E)"
  unfolding intelgbe_mac_start_transaction_def by (auto intro!: frame)

lemma keeps_intelgbe_mac_init [frame]: "steady f \<Longrightarrow> keeps f (intelgbe_mac_init E)"
  unfolding intelgbe_mac_init_def by (auto intro!: frame simp: steady_def phy_blind_def host_def)

lemma keeps_mtl_map_rx_queue [frame]: "steady f \<Longrightarrow> keeps f (mtl_map_rx_queue E i)"
  unfolding mtl_map_rx_queue_def by (auto intro!: frame simp: steady_def phy_blind_def host_def)

lemma keeps_intelgbe_mtl_init [frame]: "steady f \<Longrightarrow> keeps f (intelgbe_mtl_init E)"
  unfolding intelgbe_mtl_init_def by (auto intro!: frame simp: steady_def phy_blind_def host_def)

lemma keeps_dma_init_tx_queue [frame]: "keeps core (dma_init_tx_queue E i)"
  unfolding dma_init_tx_queue_def by (auto intro!: frame)

lemma keeps_dma_init_rx_queue [frame]: "keeps core (dma_init_rx_queue E i)"
  unfolding dma_init_rx_queue_def by (auto intro!: frame)

lemma keeps_intelgbe_dma_init [frame]: "keeps core (intelgbe_dma_init E)"
  unfolding intelgbe_dma_init_def by (auto intro!: frame)

lemma keeps_intelgbe_link_status [frame]: "steady f \<Longrightarrow> keeps f (intelgbe_link_status E b)"
  unfolding intelgbe_link_status_def by (auto intro!: frame simp: steady_def phy_blind_def host_def)

lemma keeps_intelgbe_uninit_controller [frame]: "steady f \<Longrightarrow> keeps f (intelgbe_uninit_controller E)"
  unfolding intelgbe_uninit_controller_def by (auto intro!: frame simp: steady_def phy_blind_def host_def)

lemma keeps_xpcs_reset_wait [frame]: "host f \<Longrightarrow> keeps f (xpcs_reset_wait E n r)"
  by (induction n arbitrary: r) (auto intro!: frame)

lemma keeps_intelgbe_xpcs_init [frame]: "host f \<Longrightarrow> keeps f (intelgbe_xpcs_init E)"
  unfolding intelgbe_xpcs_init_def by (auto intro!: frame)

lemma keeps_modphy_step [frame]: "host f \<Longrightarrow> keeps f (modphy_step E g r)"
  unfolding modphy_step_def by (auto intro!: frame)

lemma keeps_modphy_rate [frame]: "steady f \<Longrightarrow> keeps f (modphy_rate E)"
  unfolding modphy_rate_def by (auto intro!: frame simp: steady_def phy_blind_def host_def)

lemma keeps_intelgbe_modphy_init [frame]: "steady f \<Longrightarrow> keeps f (intelgbe_modphy_init E)"
  unfolding intelgbe_modphy_init_def by (auto intro!: frame simp: steady_def phy_blind_def host_def)

lemma keeps_intelgbe_init_controller [frame]: "keeps core (intelgbe_init_controller E)"
  unfolding intelgbe_init_controller_def by (auto intro!: frame)

lemma keeps_intelgbe_init_mac_ops [frame]: "steady f \<Longrightarrow> keeps f (intelgbe_init_mac_ops)"
  unfolding intelgbe_init_mac_ops_def by (auto intro!: frame simp: steady_def phy_blind_def host_def)

lemma keeps_intelgbe_init_phy_ops [frame]: "steady f \<Longrightarrow> keeps f (intelgbe_init_phy_ops t)"
  unfolding intelgbe_init_phy_ops_def intelgbe_init_phy_ops_marvell_88e1512_def
    intelgbe_init_phy_ops_maxlinear_gpyxxx_def intelgbe_init_phy_ops_marvell_88e2110_def by (auto intro!: frame simp: steady_def phy_blind_def host_def)

lemma keeps_intelgbe_init_phy_params_stmmac [frame]: "steady f \<Longrightarrow> keeps f (intelgbe_init_phy_params_stmmac E)"
  unfolding intelgbe_init_phy_params_stmmac_def by (auto intro!: frame simp: steady_def phy_blind_def host_def)

lemma keeps_intelgbe_init_function_pointers_stmmac [frame]: "steady f \<Longrightarrow> keeps f (intelgbe_init_function_pointers_stmmac)"
  unfolding intelgbe_init_function_pointers_stmmac_def by (auto intro!: frame simp: steady_def phy_blind_def host_def)

lemma keeps_intelgbe_reset [frame]: "host f \<Longrightarrow> keeps f (intelgbe_reset E)"
  unfolding intelgbe_reset_def by (auto intro!: frame)

lemma keeps_intelgbe_get_id [frame]: "host f \<Longrightarrow> keeps f (intelgbe_get_id E)"
  unfolding intelgbe_get_id_def by (auto intro!: frame)

lemma keeps_intelgbe_init_hw [frame]: "keeps core (intelgbe_init_hw E)"
  unfolding intelgbe_init_hw_def by (auto intro!: frame)

lemma keeps_intelgbe_uninit_hw [frame]: "steady f \<Longrightarrow> keeps f (intelgbe_uninit_hw E)"
  unfolding intelgbe_uninit_hw_def by (auto intro!: frame simp: steady_def phy_blind_def host_def)

lemma keeps_intelgbe_read_mac_addr_generic [frame]: "steady f \<Longrightarrow> keeps f (intelgbe_read_mac_addr_generic E)"
  unfolding intelgbe_read_mac_addr_generic_def by (auto intro!: frame simp: steady_def phy_blind_def host_def)

lemma keeps_intelgbe_write_mac_addr_generic [frame]: "host f \<Longrightarrow> keeps f (intelgbe_write_mac_addr_generic E)"
  unfolding intelgbe_write_mac_addr_generic_def by (auto intro!: frame)

lemma keeps_intelgbe_init_mac_params [frame]: "steady f \<Longrightarrow> keeps f (intelgbe_init_mac_params)"
  unfolding intelgbe_init_mac_params_def by (auto intro!: frame simp: steady_def phy_blind_def host_def)

lemma keeps_intelgbe_init_phy_params [frame]: "steady f \<Longrightarrow> keeps f (intelgbe_init_phy_params E)"
  unfolding intelgbe_init_phy_params_def by (auto intro!: frame simp: steady_def phy_blind_def host_def)

lemma keeps_intelgbe_set_mac_type [frame]: "steady f \<Longrightarrow> keeps f (intelgbe_set_mac_type)"
  unfolding intelgbe_set_mac_type_def by (auto intro!: frame simp: steady_def phy_blind_def host_def)

lemma keeps_intelgbe_setup_init_funcs [frame]: "steady f \<Longrightarrow> keeps f (intelgbe_setup_init_funcs E b)"
  unfolding intelgbe_setup_init_funcs_def by (auto intro!: frame simp: steady_def phy_blind_def host_def)

section \<open>The station address\<close>

lemma six_bytes: "length a = 6 \<Longrightarrow> a = [a ! 0, a ! 1, a ! 2, a ! 3, a ! 4, a ! 5]"
  by (rule nth_equalityI) (auto simp: nth_Cons numeral_eq_Suc less_Suc_eq)

lemma mac_addr_bytes_of_words:
  assumes "length a = 6"
  shows "mac_addr_bytes (mac_addr_high a OR BIT 31) (mac_addr_low a) = a"
proof -
  have high: "ucast (drop_bit 0 (mac_addr_high a OR BIT 31)) = a ! 4"
    "ucast (drop_bit 8 (mac_addr_high a OR BIT 31)) = a ! 5"
    unfolding mac_addr_high_def
    by (rule bit_word_eqI; auto simp: bit_simps mdio_bits dest: bit_imp_le_length simp del: bit_numeral_word_iff)+
  have low: "ucast (drop_bit 0 (mac_addr_low a)) = a ! 0" "ucast (drop_bit 8 (mac_addr_low a)) = a ! 1"
    "ucast (drop_bit 16 (mac_addr_low a)) = a ! 2" "ucast (drop_bit 24 (mac_addr_low a)) = a ! 3"
    unfolding mac_addr_low_def
    by (rule bit_word_eqI; auto simp: bit_simps dest: bit_imp_le_length simp del: bit_numeral_word_iff)+
  show ?thesis
    using six_bytes [OF assms] high low by (simp add: mac_addr_bytes_def upt_rec)
qed

text \<open>The two address registers hold what is written to them.\<close>

definition address_cells :: "'d env \<Rightarrow> u64 \<Rightarrow> bool" where
  "address_cells E base \<longleftrightarrow> (\<forall>d h l.
     let d2 = mmio_write E (base + 0x304) l (mmio_write E (base + 0x300) h d);
         (h', d3) = mmio_read E (base + 0x300) d2
     in h' = h \<and> fst (mmio_read E (base + 0x304) d3) = l)"

text \<open>
  Writing the station address to the controller and reading it back gives the same six bytes, as the
  current and as the permanent address: the address-enable bit that is set with it does not come back.
\<close>

theorem mac_addr_roundtrip:
  assumes "address_cells E (hw_addr (Hw (GigAdapter w)))"
    and "length (mac_addr (mac (Hw (GigAdapter w)))) = 6"
    and "run_state (do { _ \<leftarrow> intelgbe_write_mac_addr E; intelgbe_read_mac_addr E }) w = (r, w')"
  shows "r = INTELGBE_SUCCESS \<and> mac_addr (mac (Hw (GigAdapter w'))) = mac_addr (mac (Hw (GigAdapter w))) \<and>
    perm_addr (mac (Hw (GigAdapter w'))) = mac_addr (mac (Hw (GigAdapter w)))"
proof -
  let ?b = "hw_addr (Hw (GigAdapter w))" and ?a = "mac_addr (mac (Hw (GigAdapter w)))"
  let ?d = "mmio_write E (?b + 0x304) (mac_addr_low ?a)
    (mmio_write E (?b + 0x300) (mac_addr_high ?a OR BIT 31) (dev w))"
  obtain h d3 where h: "mmio_read E (?b + 0x300) ?d = (h, d3)" by fastforce
  obtain l d4 where l: "mmio_read E (?b + 0x304) d3 = (l, d4)" by fastforce
  have "case mmio_read E (?b + 0x300) ?d of (h', d3) \<Rightarrow> h' = mac_addr_high ?a OR BIT 31 \<and>
      fst (mmio_read E (?b + 0x304) d3) = mac_addr_low ?a"
    by (rule assms(1) [unfolded address_cells_def Let_def, THEN spec, THEN spec, THEN spec])
  then have "h = mac_addr_high ?a OR BIT 31" "l = mac_addr_low ?a" using h l by simp_all
  with assms(3) h l mac_addr_bytes_of_words [OF assms(2)] show ?thesis
    by (auto simp: intelgbe_write_mac_addr_def intelgbe_read_mac_addr_def)
qed

definition cell_env :: "(u64 \<Rightarrow> u32) env" where
  "cell_env = dead_env\<lparr>mmio_read := \<lambda>a d. (d a, d), mmio_write := \<lambda>a v d. d(a := v)\<rparr>"

theorem mac_addr_roundtrip_witness:
  "let w = \<lparr>GigAdapter = zero_adapter\<lparr>Hw := zero_hw\<lparr>mac := (mac zero_hw)\<lparr>mac_addr := [0x88, 1, 2, 3, 4, 5]\<rparr>\<rparr>\<rparr>,
     dev = \<lambda>_. 0, mem = \<lambda>_. 0, fault = False\<rparr> in
   \<exists>r w'. run_state (do { _ \<leftarrow> intelgbe_write_mac_addr cell_env; intelgbe_read_mac_addr cell_env }) w = (r, w') \<and>
     perm_addr (mac (Hw (GigAdapter w'))) = [0x88, 1, 2, 3, 4, 5]"
proof -
  define w :: "(u64 \<Rightarrow> u32) world" where "w = \<lparr>GigAdapter = zero_adapter\<lparr>Hw := zero_hw\<lparr>mac := (mac zero_hw)
      \<lparr>mac_addr := [0x88, 1, 2, 3, 4, 5]\<rparr>\<rparr>\<rparr>, dev = \<lambda>_. 0, mem = \<lambda>_. 0, fault = False\<rparr>"
  obtain r w' where run: "run_state (do { _ \<leftarrow> intelgbe_write_mac_addr cell_env; intelgbe_read_mac_addr cell_env }) w = (r, w')"
    by fastforce
  have "address_cells cell_env (hw_addr (Hw (GigAdapter w)))"
    by (simp add: address_cells_def cell_env_def)
  from mac_addr_roundtrip [OF this _ run] run show ?thesis by (simp add: w_def)
qed

end
