(* ===== verification/Undi_Dma.thy ===== *)
theory Undi_Dma
  imports Undi_Types
begin

text \<open>
  \<^verbatim>\<open>Dma.c\<close>: allocation, mapping and release of DMA memory through \<^verbatim>\<open>EFI_PCI_IO_PROTOCOL\<close>.  The
  mapping structure is passed by value and returned; the callers of these functions only pass the
  address of a structure of their own, so the test \<^verbatim>\<open>DmaMapping == NULL\<close> never holds.  \<open>PciIo\<close>
  is the protocol's address, and 0 is \<^verbatim>\<open>NULL\<close>.
\<close>

section \<open>Operations\<close>

definition BytesToPages :: "u64 \<Rightarrow> u64" where
  "BytesToPages Bytes = (if Bytes AND 0xFFF \<noteq> 0 then 1 else 0) + drop_bit 12 Bytes"

definition UndiDmaMapCommonBuffer ::
  "'d env \<Rightarrow> u64 \<Rightarrow> UNDI_DMA_MAPPING \<Rightarrow> ('d, EFI_STATUS \<times> UNDI_DMA_MAPPING) op" where
  "UndiDmaMapCommonBuffer E pciio m =
     (if pciio = 0 then ret (EFI_INVALID_PARAMETER, m)
      else if Size m = 0 \<or> UnmappedAddress m = 0 then ret (EFI_INVALID_PARAMETER, m)
      else do {
        (st, sz, pa, mp) \<leftarrow>
          call_env (pci_map E pciio EfiPciIoOperationBusMasterCommonBuffer (UnmappedAddress m)
                      (Size m) (PhysicalAddress m) (Mapping m));
        ret (st, m\<lparr>Size := sz, PhysicalAddress := pa, Mapping := mp\<rparr>) })"

definition UndiDmaMapMemoryRead ::
  "'d env \<Rightarrow> u64 \<Rightarrow> UNDI_DMA_MAPPING \<Rightarrow> ('d, EFI_STATUS \<times> UNDI_DMA_MAPPING) op" where
  "UndiDmaMapMemoryRead E pciio m =
     (if pciio = 0 then ret (EFI_INVALID_PARAMETER, m)
      else if Size m = 0 \<or> UnmappedAddress m = 0 then ret (EFI_INVALID_PARAMETER, m)
      else do {
        (st, sz, pa, mp) \<leftarrow>
          call_env (pci_map E pciio EfiPciIoOperationBusMasterRead (UnmappedAddress m)
                      (Size m) (PhysicalAddress m) (Mapping m));
        ret (st, m\<lparr>Size := sz, PhysicalAddress := pa, Mapping := mp\<rparr>) })"

definition UndiDmaUnmapMemory ::
  "'d env \<Rightarrow> u64 \<Rightarrow> UNDI_DMA_MAPPING \<Rightarrow> ('d, EFI_STATUS \<times> UNDI_DMA_MAPPING) op" where
  "UndiDmaUnmapMemory E pciio m =
     (if pciio = 0 then ret (EFI_INVALID_PARAMETER, m)
      else do {
        st \<leftarrow> call_env (pci_unmap E pciio (Mapping m));
        ret (st, if st = EFI_SUCCESS then m\<lparr>PhysicalAddress := 0, Mapping := 0\<rparr> else m) })"

text \<open>The two error labels of \<^verbatim>\<open>UndiDmaAllocateCommonBuffer\<close>.\<close>

definition free_buf_on_error ::
  "'d env \<Rightarrow> u64 \<Rightarrow> EFI_STATUS \<Rightarrow> UNDI_DMA_MAPPING \<Rightarrow> ('d, EFI_STATUS \<times> UNDI_DMA_MAPPING) op" where
  "free_buf_on_error E pciio st m = do {
     _ \<leftarrow> call_env (pci_free_buffer E pciio (BytesToPages (Size m)) (UnmappedAddress m));
     ret (st, m\<lparr>Size := 0, UnmappedAddress := 0\<rparr>) }"

definition UndiDmaAllocateCommonBuffer ::
  "'d env \<Rightarrow> u64 \<Rightarrow> UNDI_DMA_MAPPING \<Rightarrow> ('d, EFI_STATUS \<times> UNDI_DMA_MAPPING) op" where
  "UndiDmaAllocateCommonBuffer E pciio m =
     (if pciio = 0 then ret (EFI_INVALID_PARAMETER, m)
      else if Size m = 0 then ret (EFI_INVALID_PARAMETER, m)
      else do {
        (st, a) \<leftarrow> call_env (pci_allocate_buffer E pciio (BytesToPages (Size m)) (UnmappedAddress m));
        let m = m\<lparr>UnmappedAddress := a\<rparr>;
        let m = (if EFI_ERROR st then m\<lparr>Size := 0\<rparr> else m);
        let RequestedSize = Size m;
        (st, m) \<leftarrow> UndiDmaMapCommonBuffer E pciio m;
        if EFI_ERROR st then free_buf_on_error E pciio st m
        else if Size m \<noteq> RequestedSize then do {
          (_, m) \<leftarrow> UndiDmaUnmapMemory E pciio m;
          free_buf_on_error E pciio EFI_OUT_OF_RESOURCES m }
        else ret (EFI_SUCCESS, m) })"

definition UndiDmaFreeCommonBuffer ::
  "'d env \<Rightarrow> u64 \<Rightarrow> UNDI_DMA_MAPPING \<Rightarrow> ('d, EFI_STATUS \<times> UNDI_DMA_MAPPING) op" where
  "UndiDmaFreeCommonBuffer E pciio m =
     (if pciio = 0 then ret (EFI_INVALID_PARAMETER, m)
      else if Size m = 0 \<or> UnmappedAddress m = 0 \<or> PhysicalAddress m = 0
      then ret (EFI_INVALID_PARAMETER, m)
      else do {
        (st, m) \<leftarrow> UndiDmaUnmapMemory E pciio m;
        if EFI_ERROR st then ret (st, m)
        else do {
          _ \<leftarrow> call_env (pci_free_buffer E pciio (BytesToPages (Size m)) (UnmappedAddress m));
          ret (EFI_SUCCESS, m\<lparr>UnmappedAddress := 0, Size := 0\<rparr>) } })"

end
