(* ===== verification/Undi_Ring.thy ===== *)
theory Undi_Ring
  imports Undi_Mac Undi_Dma
begin

text \<open>
  The data path of \<^verbatim>\<open>Intelgbe.c\<close>: the transmit ring (\<^verbatim>\<open>IntelgbeTransmit\<close>,
  \<^verbatim>\<open>IntelgbeFreeTxBuffers\<close>), the receive ring (\<^verbatim>\<open>IntelgbeReceive\<close>) and the driver's memory
  copy.  Command parameter blocks, data blocks, frames and receive buffers are byte memory, read and
  written at the offsets of the packed structures of \<^verbatim>\<open>UefiPxe.h\<close>.  What the network controller
  does to a descriptor is no part of these operations: it happens between them.
\<close>

section \<open>Constants of UefiPxe.h\<close>

abbreviation PXE_STATCODE_SUCCESS :: u16 where "PXE_STATCODE_SUCCESS \<equiv> 0x0000"
abbreviation PXE_STATCODE_QUEUE_FULL :: u16 where "PXE_STATCODE_QUEUE_FULL \<equiv> 0x0004"
abbreviation PXE_STATCODE_NOT_STARTED :: u16 where "PXE_STATCODE_NOT_STARTED \<equiv> 0x0006"
abbreviation PXE_STATCODE_NO_DATA :: u16 where "PXE_STATCODE_NO_DATA \<equiv> 0x0013"
abbreviation PXE_OPFLAGS_TRANSMIT_FRAGMENTED :: u16 where
  "PXE_OPFLAGS_TRANSMIT_FRAGMENTED \<equiv> 0x0002"
abbreviation TO_DEVICE :: u32 where "TO_DEVICE \<equiv> 2"
abbreviation PXE_HWADDR_LEN_ETHER :: nat where "PXE_HWADDR_LEN_ETHER \<equiv> 6"
abbreviation PXE_MAC_LENGTH :: nat where "PXE_MAC_LENGTH \<equiv> 32"
abbreviation PXE_MAC_HEADER_LEN_ETHER :: u16 where "PXE_MAC_HEADER_LEN_ETHER \<equiv> 14"
abbreviation PXE_FRAME_TYPE_UNICAST :: u8 where "PXE_FRAME_TYPE_UNICAST \<equiv> 1"
abbreviation PXE_FRAME_TYPE_BROADCAST :: u8 where "PXE_FRAME_TYPE_BROADCAST \<equiv> 2"
abbreviation PXE_FRAME_TYPE_MULTICAST :: u8 where "PXE_FRAME_TYPE_MULTICAST \<equiv> 3"
abbreviation PXE_FRAME_TYPE_PROMISCUOUS :: u8 where "PXE_FRAME_TYPE_PROMISCUOUS \<equiv> 4"

text \<open>Fields of \<^verbatim>\<open>PXE_CPB_TRANSMIT\<close>, \<^verbatim>\<open>PXE_CPB_TRANSMIT_FRAGMENTS\<close> and \<^verbatim>\<open>PXE_CPB_RECEIVE\<close>.\<close>

definition TxBuffer_FrameAddr :: "memory \<Rightarrow> u64 \<Rightarrow> u64" where
  "TxBuffer_FrameAddr m cpb = load64 m cpb"
definition TxBuffer_DataLen :: "memory \<Rightarrow> u64 \<Rightarrow> u32" where
  "TxBuffer_DataLen m cpb = load32 m (cpb + 8)"
definition TxBuffer_MediaheaderLen :: "memory \<Rightarrow> u64 \<Rightarrow> u16" where
  "TxBuffer_MediaheaderLen m cpb = load16 m (cpb + 12)"
definition TxFrags_FrameLen :: "memory \<Rightarrow> u64 \<Rightarrow> u32" where
  "TxFrags_FrameLen m cpb = load32 m cpb"
definition TxFrags_MediaheaderLen :: "memory \<Rightarrow> u64 \<Rightarrow> u16" where
  "TxFrags_MediaheaderLen m cpb = load16 m (cpb + 4)"
definition TxFrags_FragCnt :: "memory \<Rightarrow> u64 \<Rightarrow> u16" where
  "TxFrags_FragCnt m cpb = load16 m (cpb + 6)"
definition TxFrags_FragAddr :: "memory \<Rightarrow> u64 \<Rightarrow> nat \<Rightarrow> u64" where
  "TxFrags_FragAddr m cpb i = load64 m (cpb + 8 + 16 * of_nat i)"
definition TxFrags_FragLen :: "memory \<Rightarrow> u64 \<Rightarrow> nat \<Rightarrow> u32" where
  "TxFrags_FragLen m cpb i = load32 m (cpb + 8 + 16 * of_nat i + 8)"
definition CpbReceive_BufferAddr :: "memory \<Rightarrow> u64 \<Rightarrow> u64" where
  "CpbReceive_BufferAddr m cpb = load64 m cpb"
definition CpbReceive_BufferLen :: "memory \<Rightarrow> u64 \<Rightarrow> u32" where
  "CpbReceive_BufferLen m cpb = load32 m (cpb + 8)"

section \<open>Access to descriptors and mappings\<close>

definition get_tx_desc :: "u32 \<Rightarrow> ('d, intelgbe_tx_desc) op" where
  "get_tx_desc e = do {
     q \<leftarrow> get_tx_queue 0;
     if unat e < length (tx_ring q) then ret (tx_ring q ! unat e)
     else do { _ \<leftarrow> raise_fault; ret zero_desc } }"

definition set_tx_desc :: "u32 \<Rightarrow> intelgbe_tx_desc \<Rightarrow> ('d, unit) op" where
  "set_tx_desc e d = do {
     q \<leftarrow> get_tx_queue 0;
     set_tx_queue 0 (q\<lparr>tx_ring := (tx_ring q)[unat e := d]\<rparr>) }"

definition get_tx_mapping :: "u32 \<Rightarrow> ('d, UNDI_DMA_MAPPING) op" where
  "get_tx_mapping e = do {
     g \<leftarrow> adapter;
     if unat e < length (TxBufferMappings g) then ret (TxBufferMappings g ! unat e)
     else do { _ \<leftarrow> raise_fault; ret zero_mapping } }"

definition set_tx_mapping :: "u32 \<Rightarrow> UNDI_DMA_MAPPING \<Rightarrow> ('d, unit) op" where
  "set_tx_mapping e m =
     upd_adapter (\<lambda>g. g\<lparr>TxBufferMappings := (TxBufferMappings g)[unat e := m]\<rparr>)"

section \<open>Transmit\<close>

definition IntelgbeMapMem :: "'d env \<Rightarrow> u64 \<Rightarrow> u32 \<Rightarrow> u64 \<Rightarrow> ('d, u64) op" where
  "IntelgbeMapMem E VirtualAddress sz MappedAddress = do {
     g \<leftarrow> adapter;
     if MapMem g \<noteq> 0 then do {
       a \<leftarrow> call_env (map_mem_callback E (MapMem g) (UniqueId g) VirtualAddress sz TO_DEVICE
                        MappedAddress);
       ret (if a = 0 then VirtualAddress else a) }
     else ret VirtualAddress }"

text \<open>
  The loop of \<^verbatim>\<open>IntelgbeFreeTxBuffers\<close>; \<open>n\<close> is \<^verbatim>\<open>NumEntries - count\<close> and the result the final
  \<^verbatim>\<open>entry\<close> and \<^verbatim>\<open>count\<close>.
\<close>

fun free_tx_loop :: "'d env \<Rightarrow> u64 \<Rightarrow> nat \<Rightarrow> u32 \<Rightarrow> u16 \<Rightarrow> ('d, u32 \<times> u16) op" where
  "free_tx_loop E TxBuffer 0 entry count = ret (entry, count)"
| "free_tx_loop E TxBuffer (Suc n) entry count = do {
     q \<leftarrow> get_tx_queue 0;
     if entry = cur_tx q then ret (entry, count)
     else do {
       d \<leftarrow> get_tx_desc entry;
       m \<leftarrow> get_tx_mapping entry;
       if bit (des3 d) 31 then ret (entry, count)
       else if UnmappedAddress m = 0 then ret (entry, count)
       else do {
         g \<leftarrow> adapter;
         (_, m) \<leftarrow> UndiDmaUnmapMemory E (PciIo g) m;
         _ \<leftarrow> upd_mem (\<lambda>mm. store64 mm (TxBuffer + 8 * ucast count) (UnmappedAddress m));
         _ \<leftarrow> set_tx_mapping entry zero_mapping;
         _ \<leftarrow> set_tx_desc entry zero_desc;
         free_tx_loop E TxBuffer n
           ((entry + 1) AND (of_nat DEFAULT_TX_DESCRIPTORS - 1)) (count + 1) } } }"

definition IntelgbeFreeTxBuffers :: "'d env \<Rightarrow> u16 \<Rightarrow> u64 \<Rightarrow> ('d, u16) op" where
  "IntelgbeFreeTxBuffers E NumEntries TxBuffer = do {
     q \<leftarrow> get_tx_queue 0;
     (entry, count) \<leftarrow> free_tx_loop E TxBuffer (unat NumEntries) (dirty_tx q) 0;
     q \<leftarrow> get_tx_queue 0;
     _ \<leftarrow> set_tx_queue 0 (q\<lparr>dirty_tx := entry\<rparr>);
     ret count }"

text \<open>Free descriptors, and the increment of \<^verbatim>\<open>cur_tx\<close> with its wrap-around.\<close>

definition tx_avail :: "u32 \<Rightarrow> u32 \<Rightarrow> u32" where
  "tx_avail dirty cur =
     (if dirty > cur then dirty - cur - 1
      else of_nat DEFAULT_TX_DESCRIPTORS - cur + dirty - 1)"

definition ring_next :: "u32 \<Rightarrow> u32" where
  "ring_next c = (if c + 1 \<ge> of_nat DEFAULT_TX_DESCRIPTORS then 0 else c + 1)"

definition advance_cur_tx :: "('d, unit) op" where
  "advance_cur_tx = do {
     q \<leftarrow> get_tx_queue 0;
     set_tx_queue 0 (q\<lparr>cur_tx := ring_next (cur_tx q)\<rparr>) }"

definition update_tx_tail :: "'d env \<Rightarrow> ('d, unit) op" where
  "update_tx_tail E = do {
     q \<leftarrow> get_tx_queue 0;
     let tail = ucast (dma_tx q) + cur_tx q * of_nat sizeof_DESCRIPTOR;
     _ \<leftarrow> set_tx_queue 0 (q\<lparr>tx_tail_addr := tail\<rparr>);
     INTELGBEOutDword E (DMA_TXDESC_TAIL_PTR_CH 0) tail }"

text \<open>
  One fragment: \<^verbatim>\<open>IntelgbeMapMem\<close> stores eight bytes over \<^verbatim>\<open>des0\<close> and \<^verbatim>\<open>des1\<close>; the bits 28 and
  29 set in the local \<^verbatim>\<open>tdes3\<close> are overwritten before they are stored.
\<close>

definition fill_fragment :: "'d env \<Rightarrow> u64 \<Rightarrow> nat \<Rightarrow> u32 \<Rightarrow> bool \<Rightarrow> ('d, unit) op" where
  "fill_fragment E Cpb i entry is_last = do {
     m \<leftarrow> gets mem;
     d \<leftarrow> get_tx_desc entry;
     a \<leftarrow> IntelgbeMapMem E (TxFrags_FragAddr m Cpb i) (TxFrags_FragLen m Cpb i)
            (push_bit 32 (ucast (des1 d)) OR ucast (des0 d));
     let tdes3 = TxFrags_FrameLen m Cpb + ucast (TxFrags_MediaheaderLen m Cpb);
     set_tx_desc entry
       \<lparr>des0 = ucast a, des1 = 0,
        des2 = (if is_last then TxFrags_FragLen m Cpb i OR BIT 31 else TxFrags_FragLen m Cpb i),
        des3 = tdes3 OR BIT 31\<rparr> }"

definition transmit_fragments :: "'d env \<Rightarrow> u64 \<Rightarrow> u32 \<Rightarrow> ('d, unit) op" where
  "transmit_fragments E Cpb first = do {
     n \<leftarrow> gets (\<lambda>w. unat (TxFrags_FragCnt (mem w) Cpb));
     _ \<leftarrow> for_each [1..<n] (\<lambda>i. do {
       q \<leftarrow> get_tx_queue 0;
       let entry = cur_tx q;
       _ \<leftarrow> advance_cur_tx;
       fill_fragment E Cpb i entry (i + 1 = n) });
     _ \<leftarrow> fill_fragment E Cpb 0 first False;
     update_tx_tail E }"

definition transmit_linear :: "'d env \<Rightarrow> u64 \<Rightarrow> u32 \<Rightarrow> ('d, unit) op" where
  "transmit_linear E Cpb entry = do {
     mm \<leftarrow> gets mem;
     m \<leftarrow> get_tx_mapping entry;
     let m = m\<lparr>UnmappedAddress := TxBuffer_FrameAddr mm Cpb,
               Size := ucast (TxBuffer_DataLen mm Cpb + ucast (TxBuffer_MediaheaderLen mm Cpb))\<rparr>;
     g \<leftarrow> adapter;
     (_, m) \<leftarrow> UndiDmaMapMemoryRead E (PciIo g) m;
     _ \<leftarrow> set_tx_mapping entry m;
     _ \<leftarrow> get_tx_desc entry;
     _ \<leftarrow> set_tx_desc entry
            \<lparr>des0 = ucast (PhysicalAddress m), des1 = 0,
             des2 = ucast (Size m) OR BIT 31,
             des3 = ((ucast (Size m) OR BIT 29) OR BIT 28) OR BIT 31\<rparr>;
     update_tx_tail E }"

definition IntelgbeTransmit :: "'d env \<Rightarrow> u64 \<Rightarrow> u16 \<Rightarrow> ('d, u16) op" where
  "IntelgbeTransmit E Cpb OpFlags = do {
     q \<leftarrow> get_tx_queue 0;
     cnt \<leftarrow> gets (\<lambda>w. TxFrags_FragCnt (mem w) Cpb);
     let avail = tx_avail (dirty_tx q) (cur_tx q);
     let needed_descs = (if cnt = 0 then 1 else ucast cnt);
     if avail < needed_descs then ret PXE_STATCODE_QUEUE_FULL
     else do {
       let entry = cur_tx q;
       _ \<leftarrow> advance_cur_tx;
       _ \<leftarrow> (if OpFlags AND PXE_OPFLAGS_TRANSMIT_FRAGMENTED \<noteq> 0
            then transmit_fragments E Cpb entry
            else transmit_linear E Cpb entry);
       ret PXE_STATCODE_SUCCESS } }"

section \<open>Memory copy\<close>

fun copy_words :: "nat \<Rightarrow> u64 \<Rightarrow> u64 \<Rightarrow> memory \<Rightarrow> memory" where
  "copy_words 0 d s m = m"
| "copy_words (Suc n) d s m = copy_words n (d + 8) (s + 8) (store64 m d (load64 m s))"

fun copy_bytes :: "nat \<Rightarrow> u64 \<Rightarrow> u64 \<Rightarrow> memory \<Rightarrow> memory" where
  "copy_bytes 0 d s m = m"
| "copy_bytes (Suc n) d s m = copy_bytes n (d + 1) (s + 1) (store8 m d (m s))"

definition IntelgbeMemCopy :: "u64 \<Rightarrow> u64 \<Rightarrow> u32 \<Rightarrow> memory \<Rightarrow> memory" where
  "IntelgbeMemCopy Dest Source Count m =
     (let IntsToCopy = unat (Count div 8); BytesToCopy = unat (Count mod 8)
      in copy_bytes BytesToCopy (Dest + 8 * of_nat IntsToCopy) (Source + 8 * of_nat IntsToCopy)
           (copy_words IntsToCopy Dest Source m))"

text \<open>\<^verbatim>\<open>INTELGBE_COPY_MAC\<close>: four bytes, then two.\<close>

definition INTELGBE_COPY_MAC :: "u64 \<Rightarrow> u64 \<Rightarrow> memory \<Rightarrow> memory" where
  "INTELGBE_COPY_MAC a b m =
     (let m = store32 m a (load32 m b) in store16 m (a + 4) (load16 m (b + 4)))"

section \<open>Receive\<close>

text \<open>The three checks on a received descriptor; \<open>True\<close> when \<^verbatim>\<open>ret\<close> stays 0.\<close>

definition rx_desc_good :: "intelgbe_rx_desc \<Rightarrow> bool" where
  "rx_desc_good d \<longleftrightarrow>
     bit (des3 d) 28 \<and> des3 d AND (BIT 23 OR BIT 24) = 0 \<and> des2 d AND (BIT 16 OR BIT 17) = 0"

text \<open>The number of bytes handed over: \<^verbatim>\<open>(INT16) BufferLen\<close> is signed, \<^verbatim>\<open>(UINT16) BufferLen\<close> is not.\<close>

definition rx_frame_len :: "u32 \<Rightarrow> u32 \<Rightarrow> int" where
  "rx_frame_len rdes3 BufferLen =
     (let frame_len = uint (rdes3 AND 0x7FFF)
      in if frame_len > sint (ucast BufferLen :: u16) then uint (ucast BufferLen :: u16)
         else frame_len)"

definition rx_packet_type :: "GIG_DRIVER_DATA \<Rightarrow> u8 list \<Rightarrow> u8" where
  "rx_packet_type g dest =
     (if dest = take PXE_HWADDR_LEN_ETHER (perm_addr (mac (Hw g))) then PXE_FRAME_TYPE_UNICAST
      else if dest = take PXE_HWADDR_LEN_ETHER (BroadcastNodeAddress g) then PXE_FRAME_TYPE_BROADCAST
      else if bit (dest ! 0) 0 then PXE_FRAME_TYPE_MULTICAST
      else PXE_FRAME_TYPE_PROMISCUOUS)"

text \<open>The copy of a good frame and the fields of \<^verbatim>\<open>PXE_DB_RECEIVE\<close>.\<close>

definition receive_frame :: "u64 \<Rightarrow> u64 \<Rightarrow> u64 \<Rightarrow> u32 \<Rightarrow> GIG_DRIVER_DATA \<Rightarrow> memory \<Rightarrow> memory" where
  "receive_frame Cpb Db Ether rdes3 g m =
     (let len = of_int (rx_frame_len rdes3 (CpbReceive_BufferLen m Cpb));
          m = IntelgbeMemCopy (CpbReceive_BufferAddr m Cpb) Ether len m;
          m = store32 m (Db + 64) len;
          m = store16 m (Db + 70) PXE_MAC_HEADER_LEN_ETHER;
          m = store8 m (Db + 72) (rx_packet_type g (load_bytes m Ether PXE_HWADDR_LEN_ETHER));
          m = store16 m (Db + 68) (load16 m (Ether + 12));
          m = INTELGBE_COPY_MAC Db (Ether + 6) m
      in INTELGBE_COPY_MAC (Db + 32) Ether m)"

definition get_rx_desc :: "u32 \<Rightarrow> ('d, intelgbe_rx_desc) op" where
  "get_rx_desc e = do {
     q \<leftarrow> get_rx_queue 0;
     if unat e < length (rx_ring q) then ret (rx_ring q ! unat e)
     else do { _ \<leftarrow> raise_fault; ret zero_desc } }"

definition IntelgbeReceive :: "'d env \<Rightarrow> u64 \<Rightarrow> u64 \<Rightarrow> ('d, u16) op" where
  "IntelgbeReceive E Cpb Db = do {
     q \<leftarrow> get_rx_queue 0;
     let entry = cur_rx q;
     d \<leftarrow> get_rx_desc entry;
     if bit (des3 d) 31 then ret PXE_STATCODE_NO_DATA
     else do {
       let q = q\<lparr>cur_rx := (if cur_rx q + 1 \<ge> of_nat DEFAULT_RX_DESCRIPTORS then 0
                            else cur_rx q + 1)\<rparr>;
       g \<leftarrow> adapter;
       _ \<leftarrow> (if rx_desc_good d then
              upd_mem (receive_frame Cpb Db
                         (rx_buff q + of_nat sizeof_LOCAL_RX_BUFFER * ucast entry) (des3 d) g)
            else ret ());
       let tail = ucast (rx_desc q + of_nat sizeof_DESCRIPTOR * ucast entry);
       _ \<leftarrow> set_rx_queue 0
              (q\<lparr>rx_ring := (rx_ring q)[unat entry :=
                   \<lparr>des0 = ucast (dma_rx_buff q + of_nat sizeof_LOCAL_RX_BUFFER * ucast entry),
                    des1 = 0, des2 = 0, des3 = BIT 31 OR BIT 30 OR BIT 24\<rparr>],
                 rx_tail_addr := tail\<rparr>);
       _ \<leftarrow> INTELGBEOutDword E (DMA_RXDESC_TAIL_PTR_CH 0) tail;
       ret PXE_STATCODE_SUCCESS } }"

section \<open>Ring arithmetic\<close>

text \<open>
  The transmit ring holds the descriptors from \<open>dirty\<close> up to but excluding \<open>cur\<close>, around the
  end of the array; one slot is always left free.
\<close>

abbreviation ring_size :: nat where "ring_size \<equiv> 512"

definition in_flight :: "u32 \<Rightarrow> u32 \<Rightarrow> nat" where
  "in_flight dirty cur =
     (if dirty \<le> cur then unat cur - unat dirty else ring_size + unat cur - unat dirty)"

definition ring_slot :: "u32 \<Rightarrow> nat \<Rightarrow> nat" where
  "ring_slot dirty i = (unat dirty + i) mod ring_size"

lemma in_flight_less: "unat d < ring_size \<Longrightarrow> unat c < ring_size \<Longrightarrow> in_flight d c < ring_size"
  by (auto simp: in_flight_def word_le_nat_alt)

lemma unat_tx_avail:
  assumes "unat d < ring_size" and "unat c < ring_size"
  shows "unat (tx_avail d c) = ring_size - 1 - in_flight d c"
proof (cases "c < d")
  case True
  then have "unat (d - c) = unat d - unat c" by (simp add: unat_sub word_le_nat_alt word_less_nat_alt)
  moreover from True have "1 \<le> d - c" by (simp add: word_le_nat_alt calculation word_less_nat_alt)
  ultimately have "unat (d - c - 1) = unat d - unat c - 1" by (simp add: unat_sub)
  with True assms show ?thesis
    by (auto simp: tx_avail_def in_flight_def word_le_nat_alt word_less_nat_alt)
next
  case False
  have "512 - c + d - 1 = of_nat (511 - (unat c - unat d))"
    using False assms by (simp add: of_nat_diff word_le_nat_alt word_less_nat_alt)
  then have "unat (512 - c + d - 1) = 511 - (unat c - unat d)"
    by (simp add: unat_of_nat take_bit_nat_eq_self)
  with False assms show ?thesis
    by (auto simp: tx_avail_def in_flight_def word_le_nat_alt word_less_nat_alt)
qed

lemma unat_ring_next: "unat c < ring_size \<Longrightarrow> unat (ring_next c) = (unat c + 1) mod ring_size"
proof -
  assume c: "unat c < ring_size"
  then have "unat (c + 1) = unat c + 1" by (simp add: unat_word_ariths)
  with c show ?thesis by (auto simp: ring_next_def word_le_nat_alt mod_if)
qed

lemma and_511: "unat (((c::u32) + 1) AND 511) = (unat c + 1) mod ring_size" if "unat c < ring_size"
proof -
  have "(511::u32) = Bit_Operations.mask 9" by (simp add: mask_eq_exp_minus_1)
  then have "unat ((c + 1) AND 511) = unat (c + 1) mod 512"
    by (simp only: take_bit_eq_mask [symmetric] unsigned_take_bit_eq take_bit_eq_mod) (simp add: unat_mod)
  moreover have "unat (c + 1) = unat c + 1" using that by (simp add: unat_word_ariths)
  ultimately show ?thesis by simp
qed

lemma mask_next: "unat c < ring_size \<Longrightarrow> (c + 1) AND 511 = ring_next c"
  by (simp add: word_unat_eq_iff unat_ring_next and_511)

lemma ring_next_less: "unat c < ring_size \<Longrightarrow> unat (ring_next c) < ring_size"
  by (simp add: unat_ring_next)

lemma in_flight_push:
  assumes "unat d < ring_size" "unat c < ring_size" "in_flight d c < ring_size - 1"
  shows "in_flight d (ring_next c) = Suc (in_flight d c)"
  using assms unat_ring_next [of c]
  by (auto simp: in_flight_def word_le_nat_alt mod_if split: if_splits)

lemma in_flight_pop:
  assumes "unat d < ring_size" "unat c < ring_size" "d \<noteq> c"
  shows "in_flight d c = Suc (in_flight (ring_next d) c)"
proof -
  from assms(3) have "unat d \<noteq> unat c" by (simp add: word_unat_eq_iff)
  with assms unat_ring_next [of d] show ?thesis
    by (auto simp: in_flight_def word_le_nat_alt mod_if split: if_splits)
qed

lemma in_flight_0: "unat d < ring_size \<Longrightarrow> unat c < ring_size \<Longrightarrow> in_flight d c = 0 \<longleftrightarrow> d = c"
  by (auto simp: in_flight_def word_le_nat_alt word_unat_eq_iff)

lemma slot_cur: "unat d < ring_size \<Longrightarrow> unat c < ring_size \<Longrightarrow> ring_slot d (in_flight d c) = unat c"
  by (auto simp: ring_slot_def in_flight_def word_le_nat_alt)

lemma slot_Suc: "unat d < ring_size \<Longrightarrow> ring_slot d (Suc i) = ring_slot (ring_next d) i"
  by (simp add: ring_slot_def unat_ring_next mod_simps)

lemma slot_inj:
  assumes "unat d < ring_size" "i < ring_size" "j < ring_size"
  shows "ring_slot d i = ring_slot d j \<longleftrightarrow> i = j"
  using assms
  by (cases "unat d + i < 512"; cases "unat d + j < 512") (auto simp: ring_slot_def mod_if)


section \<open>The transmit queue as a list\<close>

text \<open>
  What the ring stands for: for each descriptor in flight, oldest first, the address of the frame
  buffer recorded for it and whether the controller has given the descriptor back.
\<close>

definition ring_view ::
  "intelgbe_tx_desc list \<Rightarrow> UNDI_DMA_MAPPING list \<Rightarrow> u32 \<Rightarrow> u32 \<Rightarrow> (u64 \<times> bool) list" where
  "ring_view ring maps dirty cur =
     map (\<lambda>i. (UnmappedAddress (maps ! ring_slot dirty i), \<not> bit (des3 (ring ! ring_slot dirty i)) 31))
       [0..<in_flight dirty cur]"

lemma length_ring_view [simp]: "length (ring_view r m d c) = in_flight d c"
  by (simp add: ring_view_def)

lemma ring_view_empty: "ring_view r m c c = []"
  by (simp add: ring_view_def in_flight_def)

lemma ring_view_pop:
  assumes "unat d < ring_size" "unat c < ring_size" "d \<noteq> c"
  shows "ring_view r m d c =
    (UnmappedAddress (m ! unat d), \<not> bit (des3 (r ! unat d)) 31) # ring_view r m (ring_next d) c"
  using assms
  by (simp add: ring_view_def in_flight_pop upt_conv_Cons map_Suc_upt [symmetric] slot_Suc comp_def
      del: upt_Suc) (simp add: ring_slot_def)

lemma ring_view_clear:
  assumes "unat d < ring_size" "unat c < ring_size" "d \<noteq> c"
  shows "ring_view (r[unat d := x]) (m[unat d := y]) (ring_next d) c = ring_view r m (ring_next d) c"
proof -
  have "unat d \<noteq> ring_slot (ring_next d) i" if "i < in_flight (ring_next d) c" for i
    using slot_inj [of d "Suc i" 0] in_flight_pop [OF assms] in_flight_less [OF assms(1,2)] that assms
    by (simp add: slot_Suc) (simp add: ring_slot_def)
  then show ?thesis by (auto simp: ring_view_def)
qed

lemma ring_view_push:
  assumes d: "unat d < ring_size" and c: "unat c < ring_size" and room: "in_flight d c < ring_size - 1"
    and len: "length r = ring_size" "length m = ring_size"
  shows "ring_view (r[unat c := x]) (m[unat c := y]) d (ring_next c) =
    ring_view r m d c @ [(UnmappedAddress y, \<not> bit (des3 x) 31)]"
proof -
  have "unat c \<noteq> ring_slot d i" if "i < in_flight d c" for i
    using slot_inj [OF d, of "in_flight d c" i] room that by (simp add: slot_cur [OF d c])
  then show ?thesis
    using len c by (auto simp: ring_view_def in_flight_push [OF d c room] slot_cur [OF d c])
qed

abbreviation txq :: "'d world \<Rightarrow> intelgbe_tx_queue" where
  "txq w \<equiv> tx_queue (GigAdapter w) ! 0"

definition tx_inv :: "'d world \<Rightarrow> bool" where
  "tx_inv w \<longleftrightarrow> tx_queue (GigAdapter w) \<noteq> [] \<and>
     unat (dirty_tx (txq w)) < ring_size \<and> unat (cur_tx (txq w)) < ring_size \<and>
     length (tx_ring (txq w)) = ring_size \<and> length (TxBufferMappings (GigAdapter w)) = ring_size"

definition tx_abs :: "'d world \<Rightarrow> (u64 \<times> bool) list" where
  "tx_abs w = ring_view (tx_ring (txq w)) (TxBufferMappings (GigAdapter w)) (dirty_tx (txq w))
     (cur_tx (txq w))"

abbreviation upd_txq :: "(intelgbe_tx_queue \<Rightarrow> intelgbe_tx_queue) \<Rightarrow> GIG_DRIVER_DATA \<Rightarrow> GIG_DRIVER_DATA" where
  "upd_txq f g \<equiv> g\<lparr>tx_queue := (tx_queue g)[0 := f (tx_queue g ! 0)]\<rparr>"

lemma run_get_tx_queue:
  "tx_queue (GigAdapter w) \<noteq> [] \<Longrightarrow> run_state (get_tx_queue 0) w = (txq w, w)"
  by (simp add: get_tx_queue_def)

lemma run_set_tx_queue:
  "run_state (set_tx_queue 0 q) w = ((), w\<lparr>GigAdapter := upd_txq (\<lambda>_. q) (GigAdapter w)\<rparr>)"
  by (simp add: set_tx_queue_def)

lemma run_get_tx_desc:
  "tx_inv w \<Longrightarrow> unat e < ring_size \<Longrightarrow> run_state (get_tx_desc e) w = (tx_ring (txq w) ! unat e, w)"
  by (simp add: get_tx_desc_def run_get_tx_queue tx_inv_def)

lemma run_set_tx_desc:
  "tx_inv w \<Longrightarrow> run_state (set_tx_desc e d) w =
     ((), w\<lparr>GigAdapter := upd_txq (\<lambda>q. q\<lparr>tx_ring := (tx_ring q)[unat e := d]\<rparr>) (GigAdapter w)\<rparr>)"
  by (simp add: set_tx_desc_def run_get_tx_queue run_set_tx_queue tx_inv_def)

lemma run_get_tx_mapping:
  "tx_inv w \<Longrightarrow> unat e < ring_size \<Longrightarrow>
     run_state (get_tx_mapping e) w = (TxBufferMappings (GigAdapter w) ! unat e, w)"
  by (simp add: get_tx_mapping_def tx_inv_def)

lemma run_set_tx_mapping:
  "run_state (set_tx_mapping e m) w =
     ((), w\<lparr>GigAdapter := (GigAdapter w)\<lparr>TxBufferMappings := (TxBufferMappings (GigAdapter w))[unat e := m]\<rparr>\<rparr>)"
  by (simp add: set_tx_mapping_def)

lemma run_unmap:
  "\<exists>st m' d'. run_state (UndiDmaUnmapMemory E p m) w = ((st, m'), w\<lparr>dev := d'\<rparr>) \<and>
     UnmappedAddress m' = UnmappedAddress m"
proof (cases "p = 0")
  case True
  then show ?thesis by (auto simp: UndiDmaUnmapMemory_def intro: exI [of _ "dev w"])
next
  case False
  then show ?thesis by (auto simp: UndiDmaUnmapMemory_def)
qed

lemma run_map_read:
  "\<exists>st m' d'. run_state (UndiDmaMapMemoryRead E p m) w = ((st, m'), w\<lparr>dev := d'\<rparr>) \<and>
     UnmappedAddress m' = UnmappedAddress m"
proof (cases "p = 0 \<or> Size m = 0 \<or> UnmappedAddress m = 0")
  case True
  then show ?thesis by (auto simp: UndiDmaMapMemoryRead_def intro: exI [of _ "dev w"])
next
  case False
  then show ?thesis by (auto simp: UndiDmaMapMemoryRead_def case_prod_unfold)
qed


text \<open>The slots that are not in flight record no buffer; every operation keeps it so.\<close>

definition ring_clean :: "UNDI_DMA_MAPPING list \<Rightarrow> u32 \<Rightarrow> u32 \<Rightarrow> bool" where
  "ring_clean maps dirty cur \<longleftrightarrow>
     (\<forall>i. in_flight dirty cur \<le> i \<and> i < ring_size \<longrightarrow> UnmappedAddress (maps ! ring_slot dirty i) = 0)"

definition tx_clean :: "'d world \<Rightarrow> bool" where
  "tx_clean w \<longleftrightarrow> (\<forall>i. length (tx_abs w) \<le> i \<and> i < ring_size \<longrightarrow>
     UnmappedAddress (TxBufferMappings (GigAdapter w) ! ring_slot (dirty_tx (txq w)) i) = 0)"

lemma tx_clean_ring:
  "tx_clean w \<longleftrightarrow> ring_clean (TxBufferMappings (GigAdapter w)) (dirty_tx (txq w)) (cur_tx (txq w))"
  by (simp add: tx_clean_def ring_clean_def tx_abs_def)

lemma ring_clean_pop:
  assumes d: "unat d < ring_size" and c: "unat c < ring_size" "d \<noteq> c" and len: "length maps = ring_size"
    and clean: "ring_clean maps d c"
  shows "ring_clean (maps[unat d := zero_mapping]) (ring_next d) c"
  unfolding ring_clean_def
proof (intro allI impI)
  fix i assume i: "in_flight (ring_next d) c \<le> i \<and> i < ring_size"
  show "UnmappedAddress (maps[unat d := zero_mapping] ! ring_slot (ring_next d) i) = 0"
  proof (cases "Suc i < ring_size")
    case True
    then have "UnmappedAddress (maps ! ring_slot d (Suc i)) = 0"
      using clean i in_flight_pop [OF d c] by (simp add: ring_clean_def)
    then show ?thesis using len d
      by (cases "ring_slot d (Suc i) = unat d") (simp_all add: slot_Suc [OF d, symmetric] zero_mapping_def)
  next
    case False
    then have "Suc i = ring_size" using i by simp
    then have "ring_slot d (Suc i) = unat d" using d by (simp add: ring_slot_def)
    then show ?thesis using len d by (simp add: slot_Suc [OF d, symmetric] zero_mapping_def)
  qed
qed

lemma ring_clean_push:
  assumes d: "unat d < ring_size" and c: "unat c < ring_size" and room: "in_flight d c < ring_size - 1"
    and clean: "ring_clean maps d c"
  shows "ring_clean (maps[unat c := y]) d (ring_next c)"
  unfolding ring_clean_def
proof (intro allI impI)
  fix i assume i: "in_flight d (ring_next c) \<le> i \<and> i < ring_size"
  then have i': "in_flight d c < i" using in_flight_push [OF d c room] by simp
  then have "ring_slot d i \<noteq> unat c"
    using slot_inj [OF d, of i "in_flight d c"] i by (auto simp: slot_cur [OF d c])
  then show "UnmappedAddress (maps[unat c := y] ! ring_slot d i) = 0"
    using clean i i' by (simp add: ring_clean_def)
qed

section \<open>IntelgbeFreeTxBuffers\<close>

text \<open>The entries the loop releases: given back by the controller, with a recorded buffer.\<close>

definition tx_released :: "nat \<Rightarrow> (u64 \<times> bool) list \<Rightarrow> nat" where
  "tx_released n q = length (takeWhile (\<lambda>(a, done). done \<and> a \<noteq> 0) (take n q))"

definition le_addrs :: "u64 list \<Rightarrow> u8 list" where
  "le_addrs as = concat (map (le_bytes 8) as)"

lemma length_le_addrs [simp]: "length (le_addrs as) = 8 * length as"
  by (induction as) (simp_all add: le_addrs_def)

lemma le_addrs_simps [simp]: "le_addrs [] = []" "le_addrs (a # as) = le_bytes 8 a @ le_addrs as"
  by (simp_all add: le_addrs_def)

lemma tx_released_le: "tx_released n q \<le> n" "tx_released n q \<le> length q"
  using length_takeWhile_le [of "\<lambda>(a, done). done \<and> a \<noteq> 0" "take n q"] by (auto simp: tx_released_def)

lemma tx_released_Cons:
  "tx_released (Suc n) ((a, done) # q) = (if done \<and> a \<noteq> 0 then Suc (tx_released n q) else 0)"
  by (simp add: tx_released_def)

lemma tx_released_0 [simp]: "tx_released 0 q = 0" "tx_released n [] = 0"
  by (simp_all add: tx_released_def)

lemma next_slot:
  assumes "unat (count :: u16) + Suc n < 2 ^ 16"
  shows "unat (count + 1) + n < 2 ^ 16"
    and "TB + 8 * ucast (count + 1) = TB + 8 * ucast count + (of_nat 8 :: u64)"
proof -
  have cnt: "unat (count + 1) = unat count + 1" using assms by (simp add: unat_word_ariths)
  then show "unat (count + 1) + n < 2 ^ 16" using assms by simp
  have "ucast (count + 1) = (of_nat (unat (count + 1)) :: u64)" by simp
  also have "\<dots> = ucast count + 1" by (simp only: cnt) simp
  finally show "TB + 8 * ucast (count + 1) = TB + 8 * ucast count + (of_nat 8 :: u64)" by simp
qed

text \<open>One round of the reclaim: the slot is released, and the rest of the ring is untouched.\<close>

lemma free_tx_round:
  assumes inv: "tx_inv w" and e: "unat e < ring_size"
    and "e \<noteq> cur_tx (txq w)" and "\<not> bit (des3 (tx_ring (txq w) ! unat e)) 31"
    and "UnmappedAddress (TxBufferMappings (GigAdapter w) ! unat e) = a" and "a \<noteq> 0"
  shows "\<exists>d' g1. run_state (free_tx_loop E TB (Suc n) e count) w =
      run_state (free_tx_loop E TB n (ring_next e) (count + 1))
        (w\<lparr>dev := d', mem := store64 (mem w) (TB + 8 * ucast count) a, GigAdapter := g1\<rparr>) \<and>
    tx_inv (w\<lparr>GigAdapter := g1\<rparr>) \<and> cur_tx (tx_queue g1 ! 0) = cur_tx (txq w) \<and>
    ring_view (tx_ring (tx_queue g1 ! 0)) (TxBufferMappings g1) (ring_next e) (cur_tx (tx_queue g1 ! 0)) =
      ring_view (tx_ring (txq w)) (TxBufferMappings (GigAdapter w)) (ring_next e) (cur_tx (txq w)) \<and>
    (ring_clean (TxBufferMappings (GigAdapter w)) e (cur_tx (txq w)) \<longrightarrow>
       ring_clean (TxBufferMappings g1) (ring_next e) (cur_tx (txq w)))"
proof -
  let ?G = "GigAdapter w"
  have ne: "tx_queue ?G \<noteq> []" "unat (cur_tx (txq w)) < ring_size" using inv by (simp_all add: tx_inv_def)
  obtain st m' d' where um:
    "run_state (UndiDmaUnmapMemory E (PciIo ?G) (TxBufferMappings ?G ! unat e)) w = ((st, m'), w\<lparr>dev := d'\<rparr>)"
    "UnmappedAddress m' = a"
    using run_unmap [of E "PciIo ?G" "TxBufferMappings ?G ! unat e" w] assms(5) by auto
  define g1 where "g1 = upd_txq (\<lambda>q. q\<lparr>tx_ring := (tx_ring q)[unat e := zero_desc]\<rparr>)
    (?G\<lparr>TxBufferMappings := (TxBufferMappings ?G)[unat e := zero_mapping]\<rparr>)"
  have "run_state (free_tx_loop E TB (Suc n) e count) w =
      run_state (free_tx_loop E TB n (ring_next e) (count + 1))
        (w\<lparr>dev := d', mem := store64 (mem w) (TB + 8 * ucast count) a, GigAdapter := g1\<rparr>)"
    using assms um ne
    by (simp add: run_get_tx_queue run_get_tx_desc [OF inv e] run_get_tx_mapping [OF inv e] run_set_tx_mapping
        run_set_tx_desc tx_inv_def mask_next [OF e] g1_def)
  moreover have "tx_inv (w\<lparr>GigAdapter := g1\<rparr>)" using inv by (simp add: tx_inv_def g1_def)
  moreover have "ring_view (tx_ring (tx_queue g1 ! 0)) (TxBufferMappings g1) (ring_next e) (cur_tx (tx_queue g1 ! 0)) =
      ring_view (tx_ring (txq w)) (TxBufferMappings ?G) (ring_next e) (cur_tx (txq w))"
    using ne assms(3) by (simp add: g1_def ring_view_clear [OF e])
  moreover have "cur_tx (tx_queue g1 ! 0) = cur_tx (txq w)" using ne by (simp add: g1_def)
  moreover have "ring_clean (TxBufferMappings ?G) e (cur_tx (txq w)) \<Longrightarrow>
      ring_clean (TxBufferMappings g1) (ring_next e) (cur_tx (txq w))"
    using ring_clean_pop [OF e ne(2) assms(3)] inv by (simp add: g1_def tx_inv_def)
  ultimately show ?thesis by blast
qed

lemma free_tx_loop_run:
  assumes "tx_inv w" and "unat e < ring_size" and "unat count + n < 2 ^ 16"
    and "q = ring_view (tx_ring (txq w)) (TxBufferMappings (GigAdapter w)) e (cur_tx (txq w))"
    and "k = tx_released n q"
  shows "\<exists>e' g d m. run_state (free_tx_loop E TB n e count) w =
      ((e', count + of_nat k), w\<lparr>GigAdapter := g, dev := d, mem := m\<rparr>) \<and>
    tx_inv (w\<lparr>GigAdapter := g\<rparr>) \<and> unat e' < ring_size \<and>
    cur_tx (tx_queue g ! 0) = cur_tx (txq w) \<and>
    ring_view (tx_ring (tx_queue g ! 0)) (TxBufferMappings g) e' (cur_tx (tx_queue g ! 0)) = drop k q \<and>
    m = store_bytes (mem w) (TB + 8 * ucast count) (le_addrs (map fst (take k q))) \<and>
    (ring_clean (TxBufferMappings (GigAdapter w)) e (cur_tx (txq w)) \<longrightarrow>
       ring_clean (TxBufferMappings g) e' (cur_tx (txq w)))"
  using assms
proof (induction n arbitrary: w e count q k)
  case 0
  then show ?case
    by (intro exI [of _ e] exI [of _ "GigAdapter w"] exI [of _ "dev w"] exI [of _ "mem w"])
      (simp add: le_addrs_def store_bytes_def)
next
  case (Suc n)
  let ?c = "cur_tx (txq w)" and ?a = "UnmappedAddress (TxBufferMappings (GigAdapter w) ! unat e)"
  have inv: "tx_queue (GigAdapter w) \<noteq> []" "unat ?c < ring_size" using Suc.prems(1) by (simp_all add: tx_inv_def)
  show ?case
  proof (cases "e \<noteq> ?c \<and> \<not> bit (des3 (tx_ring (txq w) ! unat e)) 31 \<and> ?a \<noteq> 0")
    case False
    then have "k = 0"
      using Suc.prems(4,5) ring_view_pop [OF Suc.prems(2) inv(2)]
      by (cases "e = ?c") (auto simp: ring_view_empty tx_released_Cons)
    with False Suc.prems show ?thesis
      by (intro exI [of _ e] exI [of _ "GigAdapter w"] exI [of _ "dev w"] exI [of _ "mem w"])
        (auto simp: run_get_tx_queue [OF inv(1)] run_get_tx_desc [OF Suc.prems(1,2)]
          run_get_tx_mapping [OF Suc.prems(1,2)] le_addrs_def store_bytes_def)
  next
    case True
    define q' where "q' = ring_view (tx_ring (txq w)) (TxBufferMappings (GigAdapter w)) (ring_next e) ?c"
    define k' where "k' = tx_released n q'"
    have q: "q = (?a, True) # q'"
      using True Suc.prems(4) by (simp add: q'_def ring_view_pop [OF Suc.prems(2) inv(2)])
    then have k: "k = Suc k'" using True Suc.prems(5) by (simp add: tx_released_Cons k'_def)
    obtain d' g1 where step: "run_state (free_tx_loop E TB (Suc n) e count) w =
        run_state (free_tx_loop E TB n (ring_next e) (count + 1))
          (w\<lparr>dev := d', mem := store64 (mem w) (TB + 8 * ucast count) ?a, GigAdapter := g1\<rparr>)"
      and g1: "tx_inv (w\<lparr>GigAdapter := g1\<rparr>)" "cur_tx (tx_queue g1 ! 0) = ?c"
        "ring_view (tx_ring (tx_queue g1 ! 0)) (TxBufferMappings g1) (ring_next e) (cur_tx (tx_queue g1 ! 0)) = q'"
      and clean1: "ring_clean (TxBufferMappings (GigAdapter w)) e ?c \<longrightarrow> ring_clean (TxBufferMappings g1) (ring_next e) ?c"
      using free_tx_round [OF Suc.prems(1,2) _ _ refl] True unfolding q'_def by blast
    define w1 where "w1 = w\<lparr>dev := d', mem := store64 (mem w) (TB + 8 * ucast count) ?a, GigAdapter := g1\<rparr>"
    have w1: "tx_inv w1" "q' = ring_view (tx_ring (txq w1)) (TxBufferMappings (GigAdapter w1)) (ring_next e) (cur_tx (txq w1))"
      using g1 by (simp_all add: w1_def tx_inv_def)
    from Suc.IH [OF w1(1) ring_next_less [OF Suc.prems(2)] next_slot(1) [OF Suc.prems(3)] w1(2) k'_def]
    obtain e' g d m where ih: "run_state (free_tx_loop E TB n (ring_next e) (count + 1)) w1 =
        ((e', count + 1 + of_nat k'), w1\<lparr>GigAdapter := g, dev := d, mem := m\<rparr>)"
      "tx_inv (w1\<lparr>GigAdapter := g\<rparr>)" "unat e' < ring_size"
      "cur_tx (tx_queue g ! 0) = cur_tx (txq w1)"
      "ring_view (tx_ring (tx_queue g ! 0)) (TxBufferMappings g) e' (cur_tx (tx_queue g ! 0)) = drop k' q'"
      "m = store_bytes (mem w1) (TB + 8 * ucast (count + 1)) (le_addrs (map fst (take k' q')))"
      "ring_clean (TxBufferMappings (GigAdapter w1)) (ring_next e) (cur_tx (txq w1)) \<longrightarrow>
         ring_clean (TxBufferMappings g) e' (cur_tx (txq w1))"
      by (elim exE conjE)
    have "k' \<le> n" by (simp add: k'_def tx_released_le)
    then have "m = store_bytes (mem w) (TB + 8 * ucast count) (le_addrs (map fst (take k q)))"
      using Suc.prems(3) store_bytes_append [of "le_bytes 8 ?a" "le_addrs (map fst (take k' q'))"]
      by (simp add: ih(6) next_slot(2) [OF Suc.prems(3)] w1_def store64_def k q)
    with ih step [folded w1_def] clean1 show ?thesis
      by (intro exI [of _ e'] exI [of _ g] exI [of _ d] exI [of _ m])
        (simp add: k q w1_def g1(2) tx_inv_def add.assoc del: free_tx_loop.simps)
  qed
qed


lemma free_tx_buffers_run:
  assumes "tx_inv w" and "k = tx_released (unat n) (tx_abs w)"
  shows "\<exists>w'. run_state (IntelgbeFreeTxBuffers E n TB) w = (of_nat k, w') \<and> tx_inv w' \<and>
    tx_abs w' = drop k (tx_abs w) \<and>
    mem w' = store_bytes (mem w) TB (le_addrs (map fst (take k (tx_abs w)))) \<and> (tx_clean w \<longrightarrow> tx_clean w')"
proof -
  have ne: "tx_queue (GigAdapter w) \<noteq> []" and d: "unat (dirty_tx (txq w)) < ring_size"
    using assms(1) by (simp_all add: tx_inv_def)
  have n: "unat (0::u16) + unat n < 2 ^ 16" using unsigned_less [of n] by simp
  obtain e' g d m where loop: "run_state (free_tx_loop E TB (unat n) (dirty_tx (txq w)) 0) w =
      ((e', 0 + of_nat k), w\<lparr>GigAdapter := g, dev := d, mem := m\<rparr>)"
    and g: "tx_inv (w\<lparr>GigAdapter := g\<rparr>)" "unat e' < ring_size"
    and view: "ring_view (tx_ring (tx_queue g ! 0)) (TxBufferMappings g) e' (cur_tx (tx_queue g ! 0)) =
      drop k (tx_abs w)"
    and m: "m = store_bytes (mem w) (TB + 8 * ucast (0::u16)) (le_addrs (map fst (take k (tx_abs w))))"
    and cur: "cur_tx (tx_queue g ! 0) = cur_tx (txq w)"
    and clean: "tx_clean w \<longrightarrow> ring_clean (TxBufferMappings g) e' (cur_tx (txq w))"
    unfolding tx_clean_ring using free_tx_loop_run [OF assms(1) d n tx_abs_def assms(2), of E TB] by blast
  have "tx_queue g \<noteq> []" using g(1) by (simp add: tx_inv_def)
  then show ?thesis
    using loop g view m clean cur
    by (simp add: IntelgbeFreeTxBuffers_def run_get_tx_queue ne run_set_tx_queue tx_clean_ring)
      (simp add: tx_inv_def tx_abs_def)
qed

section \<open>IntelgbeTransmit, one buffer\<close>

text \<open>The fragment count is read before the kind of the block is known; for a linear block these bytes
  are the top sixteen bits of the frame's address.\<close>

definition tx_needed :: "memory \<Rightarrow> u64 \<Rightarrow> nat" where
  "tx_needed m Cpb = max 1 (unat (TxFrags_FragCnt m Cpb))"

lemma frag_count_of_linear:
  "TxFrags_FragCnt m Cpb = ucast (drop_bit 48 (TxBuffer_FrameAddr m Cpb))"
proof (rule bit_word_eqI)
  fix n assume n: "n < LENGTH(16)"
  have "(48 + n) div 8 = 6 + n div 8" "(48 + n) mod 8 = n mod 8" by presburger+
  then show "bit (TxFrags_FragCnt m Cpb) n = bit (ucast (drop_bit 48 (TxBuffer_FrameAddr m Cpb)) :: u16) n"
    using n by (simp add: TxFrags_FragCnt_def TxBuffer_FrameAddr_def load16_def load64_def bit_le_word
        bit_simps nth_load_bytes less_mult_imp_div_less add.assoc add.commute)
qed

lemma avail_less_needed:
  assumes "tx_inv w"
  shows "tx_avail (dirty_tx (txq w)) (cur_tx (txq w)) < (if cnt = (0::u16) then 1 else ucast cnt) \<longleftrightarrow>
    ring_size - 1 < length (tx_abs w) + max 1 (unat cnt)"
proof -
  have *: "unat (if cnt = 0 then 1 else ucast cnt :: u32) = max 1 (unat cnt)"
    by (cases "cnt = 0") (auto simp: unat_ucast_up max_def unat_eq_zero Suc_le_eq unat_gt_0)
  show ?thesis
    using assms in_flight_less [of "dirty_tx (txq w)" "cur_tx (txq w)"]
    by (auto simp: word_less_nat_alt * unat_tx_avail tx_inv_def tx_abs_def)
qed

lemma run_update_tx_tail:
  assumes "tx_queue (GigAdapter w) \<noteq> []"
  shows "\<exists>d t. run_state (update_tx_tail E) w =
    ((), w\<lparr>GigAdapter := upd_txq (\<lambda>q. q\<lparr>tx_tail_addr := t\<rparr>) (GigAdapter w), dev := d\<rparr>)"
  using assms by (simp add: update_tx_tail_def run_get_tx_queue run_set_tx_queue Let_def) blast


lemma transmit_linear_run:
  assumes inv: "tx_inv w" and e: "unat e < ring_size"
  shows "\<exists>m desc t d. run_state (transmit_linear E Cpb e) w =
    ((), w\<lparr>GigAdapter := upd_txq (\<lambda>q. q\<lparr>tx_ring := (tx_ring q)[unat e := desc], tx_tail_addr := t\<rparr>)
            ((GigAdapter w)\<lparr>TxBufferMappings := (TxBufferMappings (GigAdapter w))[unat e := m]\<rparr>),
          dev := d\<rparr>) \<and>
    UnmappedAddress m = TxBuffer_FrameAddr (mem w) Cpb \<and> bit (des3 desc) 31"
proof -
  have ne: "tx_queue (GigAdapter w) \<noteq> []" using inv by (simp add: tx_inv_def)
  let ?m0 = "(TxBufferMappings (GigAdapter w) ! unat e)\<lparr>UnmappedAddress := TxBuffer_FrameAddr (mem w) Cpb,
      Size := ucast (TxBuffer_DataLen (mem w) Cpb + ucast (TxBuffer_MediaheaderLen (mem w) Cpb))\<rparr>"
  obtain st m d1 where map: "run_state (UndiDmaMapMemoryRead E (PciIo (GigAdapter w)) ?m0) w =
      ((st, m), w\<lparr>dev := d1\<rparr>)" "UnmappedAddress m = TxBuffer_FrameAddr (mem w) Cpb"
    using run_map_read [of E "PciIo (GigAdapter w)" ?m0 w] by auto
  define w1 where "w1 = w\<lparr>dev := d1, GigAdapter := (GigAdapter w)
      \<lparr>TxBufferMappings := (TxBufferMappings (GigAdapter w))[unat e := m]\<rparr>\<rparr>"
  have inv1: "tx_inv w1" using inv by (simp add: w1_def tx_inv_def)
  define desc where "desc = \<lparr>des0 = ucast (PhysicalAddress m), des1 = 0, des2 = ucast (Size m) OR BIT 31,
      des3 = ((ucast (Size m) OR BIT 29) OR BIT 28) OR BIT 31\<rparr>"
  define w2 where "w2 = w1\<lparr>GigAdapter := upd_txq (\<lambda>q. q\<lparr>tx_ring := (tx_ring q)[unat e := desc]\<rparr>) (GigAdapter w1)\<rparr>"
  have "tx_queue (GigAdapter w2) \<noteq> []" using ne by (simp add: w2_def w1_def)
  then obtain d t where tail: "run_state (update_tx_tail E) w2 =
    ((), w2\<lparr>GigAdapter := upd_txq (\<lambda>q. q\<lparr>tx_tail_addr := t\<rparr>) (GigAdapter w2), dev := d\<rparr>)"
    using run_update_tx_tail by metis
  have "run_state (transmit_linear E Cpb e) w = run_state (update_tx_tail E) w2"
    using map(1) by (simp add: transmit_linear_def run_get_tx_mapping [OF inv e] Let_def
        run_set_tx_mapping run_get_tx_desc [OF inv1 e] run_set_tx_desc [OF inv1] desc_def w2_def
        flip: w1_def)
  then have "run_state (transmit_linear E Cpb e) w =
    ((), w\<lparr>GigAdapter := upd_txq (\<lambda>q. q\<lparr>tx_ring := (tx_ring q)[unat e := desc], tx_tail_addr := t\<rparr>)
            ((GigAdapter w)\<lparr>TxBufferMappings := (TxBufferMappings (GigAdapter w))[unat e := m]\<rparr>), dev := d\<rparr>)"
    unfolding tail using ne by (simp add: w2_def w1_def)
  moreover have "bit (des3 desc) 31" by (simp add: desc_def bit_or_iff)
  ultimately show ?thesis using map(2) by blast
qed

abbreviation linear_frame :: "u16 \<Rightarrow> bool" where
  "linear_frame OpFlags \<equiv> OpFlags AND PXE_OPFLAGS_TRANSMIT_FRAGMENTED = 0"

lemma transmit_linear_clean:
  assumes inv: "tx_inv w" and lin: "linear_frame OpFlags"
    and run: "run_state (IntelgbeTransmit E Cpb OpFlags) w = (st, w')"
  shows "if length (tx_abs w) + tx_needed (mem w) Cpb < ring_size
    then st = PXE_STATCODE_SUCCESS \<and> tx_inv w' \<and> mem w' = mem w \<and>
      tx_abs w' = tx_abs w @ [(TxBuffer_FrameAddr (mem w) Cpb, False)] \<and> (tx_clean w \<longrightarrow> tx_clean w')
    else st = PXE_STATCODE_QUEUE_FULL \<and> w' = w"
proof (cases "length (tx_abs w) + tx_needed (mem w) Cpb < ring_size")
  case False
  then have "tx_avail (dirty_tx (txq w)) (cur_tx (txq w)) <
      (if TxFrags_FragCnt (mem w) Cpb = 0 then 1 else ucast (TxFrags_FragCnt (mem w) Cpb))"
    by (simp only: avail_less_needed [OF inv]) (simp add: tx_needed_def)
  with False run inv show ?thesis
    by (simp add: IntelgbeTransmit_def run_get_tx_queue tx_inv_def Let_def split: if_splits)
next
  case True
  let ?c = "cur_tx (txq w)"
  have ne: "tx_queue (GigAdapter w) \<noteq> []" and d: "unat (dirty_tx (txq w)) < ring_size"
    and c: "unat ?c < ring_size" and len: "length (tx_ring (txq w)) = ring_size"
      "length (TxBufferMappings (GigAdapter w)) = ring_size"
    using inv by (simp_all add: tx_inv_def)
  have room: "in_flight (dirty_tx (txq w)) ?c < ring_size - 1"
    using True by (simp add: tx_abs_def tx_needed_def)
  have avail: "\<not> tx_avail (dirty_tx (txq w)) ?c <
      (if TxFrags_FragCnt (mem w) Cpb = 0 then 1 else ucast (TxFrags_FragCnt (mem w) Cpb))"
    using True by (simp only: avail_less_needed [OF inv]) (simp add: tx_needed_def)
  define w1 where "w1 = w\<lparr>GigAdapter := upd_txq (\<lambda>q. q\<lparr>cur_tx := ring_next ?c\<rparr>) (GigAdapter w)\<rparr>"
  have inv1: "tx_inv w1" using inv by (simp add: w1_def tx_inv_def ring_next_less)
  have "run_state (IntelgbeTransmit E Cpb OpFlags) w =
      (PXE_STATCODE_SUCCESS, snd (run_state (transmit_linear E Cpb ?c) w1))"
    using avail lin ne
    by (simp add: IntelgbeTransmit_def run_get_tx_queue Let_def advance_cur_tx_def run_set_tx_queue
        flip: w1_def split: prod.splits if_splits)
  with transmit_linear_run [OF inv1 c, of E Cpb] run show ?thesis
    using True ne inv
    by (auto simp: w1_def tx_inv_def tx_abs_def tx_clean_ring ring_next_less ring_view_push [OF d c room len]
        ring_clean_push [OF d c room])
qed

lemma transmit_run:
  assumes "tx_inv w" and "linear_frame OpFlags" and "run_state (IntelgbeTransmit E Cpb OpFlags) w = (st, w')"
  shows "if length (tx_abs w) + tx_needed (mem w) Cpb < ring_size
    then st = PXE_STATCODE_SUCCESS \<and> tx_inv w' \<and> mem w' = mem w \<and>
      tx_abs w' = tx_abs w @ [(TxBuffer_FrameAddr (mem w) Cpb, False)]
    else st = PXE_STATCODE_QUEUE_FULL \<and> w' = w"
  using transmit_linear_clean [OF assms] by (auto split: if_splits)


section \<open>The queue between client and controller\<close>

text \<open>
  An observer of a queue sees elements enter, batches of elements leave, and internal steps.  A
  channel that keeps its elements in order satisfies, over any run, that what was in it and what
  entered is what left and what is still in it.
\<close>

datatype 'a fifo_event = Enq 'a | Deq "'a list" | Internal

fun entered :: "'a fifo_event list \<Rightarrow> 'a list" where
  "entered [] = []"
| "entered (Enq a # es) = a # entered es"
| "entered (Deq xs # es) = entered es"
| "entered (Internal # es) = entered es"

fun departed :: "'a fifo_event list \<Rightarrow> 'a list" where
  "departed [] = []"
| "departed (Enq a # es) = departed es"
| "departed (Deq xs # es) = xs @ departed es"
| "departed (Internal # es) = departed es"

inductive trace :: "('s \<Rightarrow> 'e \<Rightarrow> 's \<Rightarrow> bool) \<Rightarrow> 's \<Rightarrow> 'e list \<Rightarrow> 's \<Rightarrow> bool" for step where
  trace_nil: "trace step s [] s"
| trace_cons: "step s e t \<Longrightarrow> trace step t es u \<Longrightarrow> trace step s (e # es) u"

inductive_cases trace_ConsE: "trace step s (e # es) u"

locale fifo_channel =
  fixes inv :: "'s \<Rightarrow> bool" and content :: "'s \<Rightarrow> 'a list" and step :: "'s \<Rightarrow> 'a fifo_event \<Rightarrow> 's \<Rightarrow> bool"
  assumes step_inv: "inv s \<Longrightarrow> step s e t \<Longrightarrow> inv t"
    and step_enq: "inv s \<Longrightarrow> step s (Enq a) t \<Longrightarrow> content t = content s @ [a]"
    and step_deq: "inv s \<Longrightarrow> step s (Deq xs) t \<Longrightarrow> content s = xs @ content t"
    and step_internal: "inv s \<Longrightarrow> step s Internal t \<Longrightarrow> content t = content s"
begin

lemma trace_history:
  "trace step s es t \<Longrightarrow> inv s \<Longrightarrow> inv t \<and> content s @ entered es = departed es @ content t"
proof (induction rule: trace.induct)
  case (trace_cons s e t es u)
  then have "inv t" and IH: "inv u \<and> content t @ entered es = departed es @ content u"
    using step_inv by blast+
  then show ?case
    using trace_cons.hyps(1) trace_cons.prems step_enq step_deq step_internal by (cases e) fastforce+
qed simp

end

abbreviation tx_content :: "'d world \<Rightarrow> u64 list" where
  "tx_content w \<equiv> map fst (tx_abs w)"

lemma nth_le_addrs:
  "i < length as \<Longrightarrow> j < 8 \<Longrightarrow> le_addrs as ! (8 * i + j) = le_bytes 8 (as ! i) ! j"
proof (induction as arbitrary: i)
  case (Cons a as)
  then show ?case by (cases i) (simp_all add: nth_append)
qed simp

lemma load_le_addrs:
  assumes i: "i < length as" and len: "8 * length as \<le> 2 ^ 64"
  shows "load64 (store_bytes m a (le_addrs as)) (a + 8 * of_nat i) = as ! i"
proof -
  have "load_bytes (store_bytes m a (le_addrs as)) (a + 8 * of_nat i) 8 = le_bytes 8 (as ! i)"
  proof (rule nth_equalityI)
    fix j assume "j < length (load_bytes (store_bytes m a (le_addrs as)) (a + 8 * of_nat i) 8)"
    then have j: "j < 8" by simp
    have "unat (8 * of_nat i + of_nat j :: u64) = unat (of_nat (8 * i + j) :: u64)" by simp
    also have "\<dots> = 8 * i + j"
      unfolding unat_of_nat by (rule mod_less) (use i j len in simp)
    finally show "load_bytes (store_bytes m a (le_addrs as)) (a + 8 * of_nat i) 8 ! j = le_bytes 8 (as ! i) ! j"
      using i j nth_le_addrs [OF i j] by (simp add: nth_load_bytes store_bytes_def add.assoc)
  qed simp
  then show ?thesis by (simp add: load64_def le_word_le_bytes)
qed

lemma map_fst_tx_abs:
  "tx_content w = map (\<lambda>i. UnmappedAddress (TxBufferMappings (GigAdapter w) ! ring_slot (dirty_tx (txq w)) i))
     [0..<in_flight (dirty_tx (txq w)) (cur_tx (txq w))]"
  by (simp add: tx_abs_def ring_view_def)

lemma tx_reaped:
  assumes inv: "tx_inv w" and run: "run_state (IntelgbeFreeTxBuffers E n TB) w = (c, w')"
    and k: "k = tx_released (unat n) (tx_abs w)"
  shows "tx_inv w' \<and> unat c = k \<and> tx_abs w' = drop k (tx_abs w) \<and>
    map (\<lambda>i. load64 (mem w') (TB + 8 * of_nat i)) [0..<k] = take k (tx_content w) \<and> (tx_clean w \<longrightarrow> tx_clean w')"
proof -
  have "k \<le> unat n" "k \<le> length (tx_abs w)" using tx_released_le by (auto simp: k)
  then have c: "unat (of_nat k :: u16) = k"
    using unat_u16 [of n] by (simp add: unat_of_nat take_bit_nat_eq_self)
  obtain w1 where w1: "run_state (IntelgbeFreeTxBuffers E n TB) w = (of_nat k, w1)" "tx_inv w1"
    "tx_abs w1 = drop k (tx_abs w)"
    "mem w1 = store_bytes (mem w) TB (le_addrs (map fst (take k (tx_abs w))))" "tx_clean w \<longrightarrow> tx_clean w1"
    using free_tx_buffers_run [OF inv k, of E TB] by blast
  have "load64 (mem w1) (TB + 8 * of_nat i) = map fst (take k (tx_abs w)) ! i" if "i < k" for i
    unfolding w1(4)
    by (rule load_le_addrs) (use that \<open>k \<le> unat n\<close> \<open>k \<le> length (tx_abs w)\<close> unat_u16 [of n] in auto)
  then have "map (\<lambda>i. load64 (mem w1) (TB + 8 * of_nat i)) [0..<k] = map fst (take k (tx_abs w))"
    using \<open>k \<le> length (tx_abs w)\<close> by (auto intro!: nth_equalityI)
  with w1 run c show ?thesis by (simp add: take_map)
qed

section \<open>IntelgbeTransmit, fragments\<close>

text \<open>The fragmented path records no buffer, so it enters descriptors whose buffer is 0.\<close>

lemma ring_view_mark:
  assumes "unat d < ring_size" "unat c < ring_size" "k < in_flight d c" "length r = ring_size" "bit (des3 x) 31"
  shows "ring_view (r[ring_slot d k := x]) m d c =
    (ring_view r m d c)[k := (UnmappedAddress (m ! ring_slot d k), False)]"
proof (rule nth_equalityI)
  fix i assume "i < length (ring_view (r[ring_slot d k := x]) m d c)"
  then have i: "i < in_flight d c" by simp
  moreover have "ring_slot d k < ring_size" by (simp add: ring_slot_def)
  moreover have "ring_slot d k = ring_slot d i \<longleftrightarrow> k = i"
    using slot_inj [OF assms(1), of k i] in_flight_less [OF assms(1,2)] assms(3) i by simp
  ultimately show "ring_view (r[ring_slot d k := x]) m d c ! i =
      (ring_view r m d c)[k := (UnmappedAddress (m ! ring_slot d k), False)] ! i"
    using assms by (simp add: ring_view_def nth_list_update)
qed simp

lemma fill_fragment_run:
  assumes "tx_inv w" and "unat e < ring_size"
  shows "\<exists>desc d. run_state (fill_fragment E Cpb i e l) w =
    ((), w\<lparr>dev := d, GigAdapter := upd_txq (\<lambda>q. q\<lparr>tx_ring := (tx_ring q)[unat e := desc]\<rparr>) (GigAdapter w)\<rparr>) \<and>
    bit (des3 desc) 31"
proof -
  have "\<exists>a d. run_state (IntelgbeMapMem E v z p) w = (a, w\<lparr>dev := d\<rparr>)" for v z p
    by (cases "MapMem (GigAdapter w) = 0")
      (auto simp: IntelgbeMapMem_def intro: exI [of _ "dev w"])
  note map = this
  obtain a d where "run_state (IntelgbeMapMem E (TxFrags_FragAddr (mem w) Cpb i)
      (TxFrags_FragLen (mem w) Cpb i)
      (push_bit 32 (ucast (des1 (tx_ring (txq w) ! unat e))) OR ucast (des0 (tx_ring (txq w) ! unat e)))) w =
      (a, w\<lparr>dev := d\<rparr>)"
    using map by blast
  note call = this
  have inv: "tx_inv (w\<lparr>dev := d\<rparr>)" using assms(1) by (simp add: tx_inv_def)
  define desc where "desc = \<lparr>des0 = ucast a, des1 = 0,
      des2 = (if l then TxFrags_FragLen (mem w) Cpb i OR BIT 31 else TxFrags_FragLen (mem w) Cpb i),
      des3 = (TxFrags_FrameLen (mem w) Cpb + ucast (TxFrags_MediaheaderLen (mem w) Cpb)) OR BIT 31\<rparr>"
  have "run_state (fill_fragment E Cpb i e l) w =
    ((), w\<lparr>dev := d, GigAdapter := upd_txq (\<lambda>q. q\<lparr>tx_ring := (tx_ring q)[unat e := desc]\<rparr>) (GigAdapter w)\<rparr>)"
    using call by (simp add: fill_fragment_def run_get_tx_desc [OF assms] run_set_tx_desc [OF inv] Let_def
        desc_def del: if_image_distrib)
  moreover have "bit (des3 desc) 31" by (simp add: desc_def bit_or_iff)
  ultimately show ?thesis by blast
qed

lemma tx_clean_cur:
  assumes "tx_inv w" "tx_clean w" "length (tx_abs w) < ring_size - 1"
  shows "UnmappedAddress (TxBufferMappings (GigAdapter w) ! unat (cur_tx (txq w))) = 0"
  using assms by (auto simp: tx_clean_def tx_abs_def tx_inv_def dest!: spec [of _ "length (tx_abs w)"] simp: slot_cur)

lemma tx_push_cur:
  assumes inv: "tx_inv w" and clean: "tx_clean w" and room: "length (tx_abs w) < ring_size - 1"
    and w': "w' = w\<lparr>dev := d, GigAdapter := upd_txq (\<lambda>q. q\<lparr>cur_tx := ring_next (cur_tx q),
               tx_ring := (tx_ring q)[unat (cur_tx q) := x]\<rparr>) (GigAdapter w)\<rparr>"
  shows "tx_inv w' \<and> tx_clean w' \<and> tx_abs w' = tx_abs w @ [(0, \<not> bit (des3 x) 31)]"
proof -
  have facts: "tx_queue (GigAdapter w) \<noteq> []" "unat (dirty_tx (txq w)) < ring_size"
    "unat (cur_tx (txq w)) < ring_size" "length (tx_ring (txq w)) = ring_size"
    "length (TxBufferMappings (GigAdapter w)) = ring_size"
    using inv by (simp_all add: tx_inv_def)
  have room': "in_flight (dirty_tx (txq w)) (cur_tx (txq w)) < ring_size - 1" using room by (simp add: tx_abs_def)
  have "tx_abs w' = tx_abs w @ [(0, \<not> bit (des3 x) 31)]"
    using facts ring_view_push [OF facts(2,3) room' facts(4,5), of x "TxBufferMappings (GigAdapter w) ! unat (cur_tx (txq w))"]
      tx_clean_cur [OF inv clean room] by (simp add: w' tx_abs_def)
  moreover from this have "tx_clean w'" using clean facts by (simp add: tx_clean_def w')
  moreover have "tx_inv w'" using facts by (simp add: w' tx_inv_def ring_next_less)
  ultimately show ?thesis by simp
qed

lemma fragment_loop_run:
  assumes "tx_inv w" "tx_clean w" "i \<le> n" "length (tx_abs w) + (n - i) < ring_size"
  shows "\<exists>w'. run_state (for_each [i..<n] (\<lambda>i. do {
       q \<leftarrow> get_tx_queue 0;
       let entry = cur_tx q;
       _ \<leftarrow> advance_cur_tx;
       fill_fragment E Cpb i entry (i + 1 = n) })) w = ((), w') \<and> tx_inv w' \<and> tx_clean w' \<and>
     dirty_tx (txq w') = dirty_tx (txq w) \<and> tx_abs w' = tx_abs w @ replicate (n - i) (0, False)"
  using assms
proof (induction "n - i" arbitrary: w i)
  case 0
  then show ?case by simp
next
  case (Suc k)
  let ?c = "cur_tx (txq w)"
  have ne: "tx_queue (GigAdapter w) \<noteq> []" and c: "unat ?c < ring_size"
    using Suc.prems(1) by (simp_all add: tx_inv_def)
  define w1 where "w1 = w\<lparr>GigAdapter := upd_txq (\<lambda>q. q\<lparr>cur_tx := ring_next ?c\<rparr>) (GigAdapter w)\<rparr>"
  have "tx_inv w1" using Suc.prems(1) by (simp add: w1_def tx_inv_def ring_next_less)
  then obtain x d where fill: "run_state (fill_fragment E Cpb i ?c (i + 1 = n)) w1 =
      ((), w1\<lparr>dev := d, GigAdapter := upd_txq (\<lambda>q. q\<lparr>tx_ring := (tx_ring q)[unat ?c := x]\<rparr>) (GigAdapter w1)\<rparr>)"
    and x: "bit (des3 x) 31"
    using fill_fragment_run [OF _ c] by metis
  define w2 where "w2 = w\<lparr>dev := d, GigAdapter := upd_txq (\<lambda>q. q\<lparr>cur_tx := ring_next (cur_tx q),
      tx_ring := (tx_ring q)[unat (cur_tx q) := x]\<rparr>) (GigAdapter w)\<rparr>"
  have step: "run_state (fill_fragment E Cpb i ?c (i + 1 = n)) w1 = ((), w2)"
    unfolding fill using ne by (simp add: w1_def w2_def)
  have w2: "tx_inv w2" "tx_clean w2" "tx_abs w2 = tx_abs w @ [(0, False)]"
    using tx_push_cur [OF Suc.prems(1,2) _ w2_def] Suc.hyps(2) Suc.prems(4) x by simp_all
  have dirty: "dirty_tx (txq w2) = dirty_tx (txq w)" using ne by (simp add: w2_def)
  have i: "[i..<n] = i # [Suc i..<n]" "n - i = Suc (n - Suc i)" "Suc i \<le> n" "k = n - Suc i"
    using Suc.hyps(2) by (simp_all add: upt_conv_Cons)
  from Suc.hyps(1) [OF i(4) w2(1,2) i(3)] w2(3) Suc.prems(4) i(2)
  obtain w' where "run_state (for_each [Suc i..<n] (\<lambda>i. do {
       q \<leftarrow> get_tx_queue 0;
       let entry = cur_tx q;
       _ \<leftarrow> advance_cur_tx;
       fill_fragment E Cpb i entry (i + 1 = n) })) w2 = ((), w')"
    "tx_inv w'" "tx_clean w'" "dirty_tx (txq w') = dirty_tx (txq w2)"
    "tx_abs w' = tx_abs w2 @ replicate (n - Suc i) (0, False)"
    by auto
  then show ?case
    using step w2(3) dirty
    by (simp add: i(1,2) run_get_tx_queue [OF ne] advance_cur_tx_def run_set_tx_queue Let_def flip: w1_def)
qed


lemma tx_mark_owned:
  assumes "tx_inv w" "k < length (tx_abs w)" "bit (des3 x) 31"
    "ring_slot (dirty_tx (txq w)) k = unat e"
  shows "tx_abs (w\<lparr>dev := d, GigAdapter := upd_txq (\<lambda>q. q\<lparr>tx_ring := (tx_ring q)[unat e := x]\<rparr>) (GigAdapter w)\<rparr>)
    = (tx_abs w)[k := (fst (tx_abs w ! k), False)]"
proof -
  have k: "k < in_flight (dirty_tx (txq w)) (cur_tx (txq w))" using assms(2) by (simp add: tx_abs_def)
  then have "fst (tx_abs w ! k) = UnmappedAddress (TxBufferMappings (GigAdapter w) ! unat e)"
    using assms(4) by (simp add: tx_abs_def ring_view_def)
  then show ?thesis
    using assms ring_view_mark [OF _ _ k] by (simp add: tx_inv_def) (simp add: tx_abs_def)
qed

lemma transmit_fragments_run:
  assumes inv: "tx_inv w" and clean: "tx_clean w" and frag: "\<not> linear_frame OpFlags"
    and run: "run_state (IntelgbeTransmit E Cpb OpFlags) w = (st, w')"
  shows "if length (tx_abs w) + tx_needed (mem w) Cpb < ring_size
    then st = PXE_STATCODE_SUCCESS \<and> tx_inv w' \<and> tx_clean w' \<and>
      tx_abs w' = tx_abs w @ replicate (tx_needed (mem w) Cpb) (0, False)
    else st = PXE_STATCODE_QUEUE_FULL \<and> w' = w"
proof (cases "length (tx_abs w) + tx_needed (mem w) Cpb < ring_size")
  case False
  then have "tx_avail (dirty_tx (txq w)) (cur_tx (txq w)) <
      (if TxFrags_FragCnt (mem w) Cpb = 0 then 1 else ucast (TxFrags_FragCnt (mem w) Cpb))"
    by (simp only: avail_less_needed [OF inv]) (simp add: tx_needed_def)
  with False run inv show ?thesis
    by (simp add: IntelgbeTransmit_def run_get_tx_queue tx_inv_def Let_def split: if_splits)
next
  case True
  let ?c = "cur_tx (txq w)" and ?n = "unat (TxFrags_FragCnt (mem w) Cpb)" and ?k = "length (tx_abs w)"
  have ne: "tx_queue (GigAdapter w) \<noteq> []" and c: "unat ?c < ring_size"
    using inv by (simp_all add: tx_inv_def)
  have avail: "\<not> tx_avail (dirty_tx (txq w)) ?c <
      (if TxFrags_FragCnt (mem w) Cpb = 0 then 1 else ucast (TxFrags_FragCnt (mem w) Cpb))"
    using True by (simp only: avail_less_needed [OF inv]) (simp add: tx_needed_def)
  define w1 where "w1 = w\<lparr>GigAdapter := upd_txq (\<lambda>q. q\<lparr>cur_tx := ring_next (cur_tx q)\<rparr>) (GigAdapter w)\<rparr>"
  obtain b where w1: "tx_inv w1" "tx_clean w1" "tx_abs w1 = tx_abs w @ [(0, b)]"
    "dirty_tx (txq w1) = dirty_tx (txq w)"
    using tx_push_cur [OF inv clean _ refl, where d = "dev w" and x = "tx_ring (txq w) ! unat ?c"] True ne
    by (auto simp: w1_def tx_needed_def)
  have "1 \<le> max 1 ?n" "length (tx_abs w1) + (max 1 ?n - 1) < ring_size"
    using True by (simp_all add: w1(3) tx_needed_def)
  from fragment_loop_run [OF w1(1,2) this, of E Cpb] obtain w2 where
    loop: "run_state (for_each [1..<?n] (\<lambda>i. do {
       q \<leftarrow> get_tx_queue 0;
       let entry = cur_tx q;
       _ \<leftarrow> advance_cur_tx;
       fill_fragment E Cpb i entry (i + 1 = ?n) })) w1 = ((), w2)"
    and clean2: "tx_clean w2"
    and w2: "tx_inv w2" "dirty_tx (txq w2) = dirty_tx (txq w)"
      "tx_abs w2 = (tx_abs w @ [(0, b)]) @ replicate (max 1 ?n - 1) (0, False)"
    unfolding w1(3,4) by (cases "?n \<le> 1") (auto simp: max_def)
  obtain x d where fill: "run_state (fill_fragment E Cpb 0 ?c False) w2 =
      ((), w2\<lparr>dev := d, GigAdapter := upd_txq (\<lambda>q. q\<lparr>tx_ring := (tx_ring q)[unat ?c := x]\<rparr>) (GigAdapter w2)\<rparr>)"
    and x: "bit (des3 x) 31"
    using fill_fragment_run [OF w2(1) c] by metis
  define w3 where "w3 = w2\<lparr>dev := d, GigAdapter := upd_txq (\<lambda>q. q\<lparr>tx_ring := (tx_ring q)[unat ?c := x]\<rparr>) (GigAdapter w2)\<rparr>"
  have slot: "ring_slot (dirty_tx (txq w2)) ?k = unat ?c"
    using inv by (simp add: w2(2) tx_abs_def slot_cur tx_inv_def)
  have "tx_abs w3 = (tx_abs w2)[?k := (fst (tx_abs w2 ! ?k), False)]"
    unfolding w3_def by (rule tx_mark_owned [OF w2(1) _ x slot]) (simp add: w2(3))
  also have "\<dots> = tx_abs w @ replicate (tx_needed (mem w) Cpb) (0, False)"
  proof -
    have "replicate (max 1 ?n) y = y # replicate (max 1 ?n - 1) y" for y :: "u64 \<times> bool"
      by (cases "max 1 ?n") auto
    then show ?thesis by (simp add: w2(3) tx_needed_def nth_append list_update_append)
  qed
  finally have abs3: "tx_abs w3 = tx_abs w @ replicate (tx_needed (mem w) Cpb) (0, False)" .
  have "tx_inv w3" using w2(1) by (simp add: w3_def tx_inv_def)
  moreover have "tx_clean w3" using clean2 w2(1) by (simp add: w3_def tx_clean_ring tx_inv_def)
  ultimately have inv3: "tx_inv w3" "tx_clean w3" by simp_all
  then obtain d' t where tail: "run_state (update_tx_tail E) w3 =
    ((), w3\<lparr>GigAdapter := upd_txq (\<lambda>q. q\<lparr>tx_tail_addr := t\<rparr>) (GigAdapter w3), dev := d'\<rparr>)"
    using run_update_tx_tail by (metis tx_inv_def)
  have "run_state (transmit_fragments E Cpb ?c) w1 = run_state (update_tx_tail E) w3"
    using loop fill by (simp add: transmit_fragments_def w1_def flip: w3_def)
  then have "run_state (IntelgbeTransmit E Cpb OpFlags) w =
      (PXE_STATCODE_SUCCESS, snd (run_state (update_tx_tail E) w3))"
    using avail frag ne
    by (simp add: IntelgbeTransmit_def run_get_tx_queue Let_def advance_cur_tx_def run_set_tx_queue
        flip: w1_def split: prod.splits if_splits)
  with tail run inv3 abs3 True show ?thesis
    by (auto simp: tx_inv_def tx_abs_def tx_clean_ring)
qed


text \<open>The reclaim stops at a descriptor without a buffer, so it never hands back the address 0.\<close>

lemma reaped_nonzero:
  assumes inv: "tx_inv w" and run: "run_state (IntelgbeFreeTxBuffers E n TB) w = (c, w')"
  shows "0 \<notin> set (map (\<lambda>i. load64 (mem w') (TB + 8 * of_nat i)) [0..<unat c])"
proof -
  let ?k = "tx_released (unat n) (tx_abs w)"
  have "map (\<lambda>i. load64 (mem w') (TB + 8 * of_nat i)) [0..<unat c] = take ?k (tx_content w)"
    using tx_reaped [OF inv run refl] by simp
  also have "\<dots> = map fst (takeWhile (\<lambda>(a, done). done \<and> a \<noteq> 0) (take (unat n) (tx_abs w)))"
    using takeWhile_eq_take [of "\<lambda>(a, done). done \<and> a \<noteq> 0" "take (unat n) (tx_abs w)"] tx_released_le(1)
    by (simp add: tx_released_def take_map min_absorb1)
  finally show ?thesis by (auto dest: set_takeWhileD)
qed

section \<open>Every transmission\<close>

text \<open>
  A channel whose steps take in and give out batches of elements; either may be empty.  Over any run, what was
  in it and all that was taken in is all that was given out and what is still in it.
\<close>

locale batch_channel =
  fixes inv :: "'s \<Rightarrow> bool" and content :: "'s \<Rightarrow> 'a list" and step :: "'s \<Rightarrow> 'a list \<times> 'a list \<Rightarrow> 's \<Rightarrow> bool"
  assumes step_inv: "inv s \<Longrightarrow> step s e t \<Longrightarrow> inv t"
    and step_content: "inv s \<Longrightarrow> step s e t \<Longrightarrow> content s @ fst e = snd e @ content t"
begin

lemma batch_history:
  "trace step s es t \<Longrightarrow> inv s \<Longrightarrow>
     inv t \<and> content s @ concat (map fst es) = concat (map snd es) @ content t"
proof (induction rule: trace.induct)
  case (trace_cons s e t es u)
  then have "inv t" using step_inv by blast
  then have "inv u" and IH: "content t @ concat (map fst es) = concat (map snd es) @ content u"
    using trace_cons.IH by blast+
  have "content s @ fst e @ concat (map fst es) = (content s @ fst e) @ concat (map fst es)" by simp
  also have "\<dots> = snd e @ content t @ concat (map fst es)"
    using step_content [OF trace_cons.prems trace_cons.hyps(1)] by simp
  finally show ?case using IH \<open>inv u\<close> by simp
qed simp

end

text \<open>
  What a successful transmission records: the frame's address for a frame in one buffer, and address 0 in
  every descriptor of a fragmented one.
\<close>

definition tx_recorded :: "memory \<Rightarrow> u64 \<Rightarrow> u16 \<Rightarrow> u64 list" where
  "tx_recorded m Cpb OpFlags =
     (if linear_frame OpFlags then [TxBuffer_FrameAddr m Cpb] else replicate (tx_needed m Cpb) 0)"

text \<open>The steps of the transmit ring with every kind of transmission, successful or not.\<close>

inductive tx_move :: "'d env \<Rightarrow> 'd world \<Rightarrow> u64 list \<times> u64 list \<Rightarrow> 'd world \<Rightarrow> bool" for E where
  transmit: "run_state (IntelgbeTransmit E Cpb OpFlags) w = (st, w') \<Longrightarrow>
    tx_move E w (if st = PXE_STATCODE_SUCCESS then tx_recorded (mem w) Cpb OpFlags else [], []) w'"
| reclaim: "run_state (IntelgbeFreeTxBuffers E n TB) w = (c, w') \<Longrightarrow>
    tx_move E w ([], map (\<lambda>i. load64 (mem w') (TB + 8 * of_nat i)) [0..<unat c]) w'"
| write_back: "tx_move E w ([], [])
    (w\<lparr>dev := d, GigAdapter := upd_txq (\<lambda>q. q\<lparr>tx_ring := (tx_ring q)[j := desc]\<rparr>) (GigAdapter w)\<rparr>)"
| client_writes: "tx_move E w ([], []) (w\<lparr>dev := d, mem := m\<rparr>)"

lemma transmit_moves:
  assumes "tx_inv w" "tx_clean w" and run: "run_state (IntelgbeTransmit E Cpb OpFlags) w = (st, w')"
  shows "tx_inv w' \<and> tx_clean w' \<and>
    tx_content w' = tx_content w @ (if st = PXE_STATCODE_SUCCESS then tx_recorded (mem w) Cpb OpFlags else [])"
proof (cases "linear_frame OpFlags")
  case True
  then show ?thesis
    using transmit_linear_clean [OF assms(1) True run] assms(1,2) by (auto simp: tx_recorded_def split: if_splits)
next
  case False
  then show ?thesis
    using transmit_fragments_run [OF assms(1,2) False run] assms(1,2) by (auto simp: tx_recorded_def split: if_splits)
qed

lemma tx_move_ok:
  assumes "tx_inv w" "tx_clean w" and "tx_move E w e w'"
  shows "tx_inv w' \<and> tx_clean w' \<and> tx_content w @ fst e = snd e @ tx_content w' \<and> 0 \<notin> set (snd e)"
  using assms(3)
proof cases
  case (transmit Cpb OpFlags st)
  then show ?thesis using transmit_moves [OF assms(1,2)] by auto
next
  case (reclaim n TB c)
  then show ?thesis
    using tx_reaped [OF assms(1) reclaim(2) refl] reaped_nonzero [OF assms(1) reclaim(2)] assms(2)
    by (simp flip: drop_map)
qed (use assms(1,2) in \<open>auto simp: map_fst_tx_abs tx_inv_def tx_clean_ring\<close>)

interpretation tx_batches: batch_channel "\<lambda>w. tx_inv w \<and> tx_clean w" tx_content "tx_move E" for E
  by unfold_locales (use tx_move_ok in blast)+

lemma moved_nonzero:
  "trace (tx_move E) w es w' \<Longrightarrow> tx_inv w \<and> tx_clean w \<Longrightarrow> 0 \<notin> set (concat (map snd es))"
proof (induction rule: trace.induct)
  case (trace_cons w e w' es w'')
  then show ?case using tx_move_ok [of w E e w'] by auto
qed simp

section \<open>A world with empty rings\<close>

definition ring_world :: "'d \<Rightarrow> memory \<Rightarrow> 'd world" where
  "ring_world d m =
     \<lparr>GigAdapter = zero_adapter
        \<lparr>tx_queue := [zero_tx_queue\<lparr>tx_ring := replicate DEFAULT_TX_DESCRIPTORS zero_desc\<rparr>],
         rx_queue := [zero_rx_queue\<lparr>rx_ring := replicate DEFAULT_RX_DESCRIPTORS zero_desc,
                                    rx_buff := 0x100000, dma_rx_buff := 0x100000\<rparr>]\<rparr>,
      dev = d, mem = m, fault = False\<rparr>"

definition frame_block :: "u64 \<Rightarrow> memory" where
  "frame_block a = store64 (\<lambda>_. 0) 0 a"

lemma frame_block_addr: "TxBuffer_FrameAddr (frame_block a) 0 = a"
  by (simp add: TxBuffer_FrameAddr_def frame_block_def)

lemma ring_world_inv [simp]: "tx_inv (ring_world d m)"
  by (simp add: ring_world_def tx_inv_def zero_adapter_def zero_tx_queue_def)

lemma ring_world_abs [simp]: "tx_abs (ring_world d m) = []"
  by (simp add: ring_world_def tx_abs_def zero_tx_queue_def ring_view_empty)

lemma ring_world_clean [simp]: "tx_clean (ring_world d m)"
  by (simp add: tx_clean_def) (simp add: ring_world_def zero_adapter_def zero_mapping_def ring_slot_def)

lemma ring_world_mem [simp]: "mem (ring_world d m) = m"
  by (simp add: ring_world_def)

lemma frame_block_needed: "drop_bit 48 a = 0 \<Longrightarrow> tx_needed (frame_block a) 0 = 1"
  by (simp add: tx_needed_def frag_count_of_linear frame_block_addr)

section \<open>Properties of the transmit ring\<close>

text \<open>
  C6.  \<^verbatim>\<open>IntelgbeTransmit\<close> on a frame in one buffer is an enqueue on the list of frames in flight: with
  room in the ring it appends the frame's address as not yet completed and touches no other entry, and
  otherwise it reports \<^verbatim>\<open>QUEUE_FULL\<close> and changes nothing at all, so a descriptor the controller may
  still be reading is never overwritten.
\<close>

theorem transmit_enqueues:
  assumes "tx_inv w" and "linear_frame OpFlags"
    and "run_state (IntelgbeTransmit E Cpb OpFlags) w = (st, w')"
  shows "if length (tx_abs w) + tx_needed (mem w) Cpb < ring_size
    then st = PXE_STATCODE_SUCCESS \<and> tx_inv w' \<and> mem w' = mem w \<and>
      tx_abs w' = tx_abs w @ [(TxBuffer_FrameAddr (mem w) Cpb, False)]
    else st = PXE_STATCODE_QUEUE_FULL \<and> w' = w"
  using transmit_run [OF assms] .

theorem transmit_enqueues_witness:
  "\<exists>w'. run_state (IntelgbeTransmit dead_env 0 0) (ring_world () (frame_block 0x2000)) =
     (PXE_STATCODE_SUCCESS, w') \<and> tx_abs w' = [(0x2000, False)]"
proof -
  obtain st w' where run:
    "run_state (IntelgbeTransmit dead_env 0 0) (ring_world () (frame_block 0x2000)) = (st, w')"
    by fastforce
  show ?thesis
    using transmit_enqueues [OF ring_world_inv _ run] run
    by (simp add: frame_block_needed frame_block_addr)
qed

text \<open>
  C7.  \<^verbatim>\<open>IntelgbeFreeTxBuffers\<close> is a dequeue of the longest run of completed frames, at most as many as
  asked for: it returns their number, writes their addresses in order to the caller's array, and leaves
  exactly the rest in flight.
\<close>

theorem free_tx_buffers_dequeues:
  assumes "tx_inv w" and "run_state (IntelgbeFreeTxBuffers E n TB) w = (c, w')"
    and "k = length (takeWhile (\<lambda>(a, done). done \<and> a \<noteq> 0) (take (unat n) (tx_abs w)))"
  shows "tx_inv w' \<and> unat c = k \<and> tx_abs w' = drop k (tx_abs w) \<and>
    map (\<lambda>i. load64 (mem w') (TB + 8 * of_nat i)) [0..<k] = map fst (take k (tx_abs w))"
  using tx_reaped [OF assms(1,2)] assms(3) by (simp add: tx_released_def take_map)

theorem free_tx_buffers_dequeues_witness:
  "\<exists>w'. run_state (IntelgbeFreeTxBuffers dead_env 8 0) (ring_world () (\<lambda>_. 0)) = (0, w') \<and> tx_abs w' = []"
proof -
  obtain c w' where run: "run_state (IntelgbeFreeTxBuffers dead_env 8 0) (ring_world () (\<lambda>_. 0)) = (c, w')"
    by fastforce
  show ?thesis
    using free_tx_buffers_dequeues [OF ring_world_inv run refl] run by (simp add: unat_eq_zero)
qed

text \<open>
  C1.  Over every interleaving of transmissions of either kind and with any outcome, reclaims, descriptor
  write-backs by the controller (of any contents, in any order) and memory changes by the client, the buffers
  recorded in the ring at the start and those recorded since are those handed back and those still recorded at
  the end, in order: none is lost, handed back twice or handed back out of order.  A frame in one buffer is
  recorded by its address.  A fragmented frame is recorded as address 0, once per descriptor, and address 0 is never
  handed back: by the order, neither is anything that was sent after a fragmented frame.
\<close>

theorem tx_history:
  assumes "tx_inv w" "tx_clean w" and "trace (tx_move E) w es w'"
  shows "tx_inv w' \<and> tx_clean w' \<and>
    map fst (tx_abs w) @ concat (map fst es) = concat (map snd es) @ map fst (tx_abs w') \<and>
    0 \<notin> set (concat (map snd es))"
  using tx_batches.batch_history [OF assms(3)] moved_nonzero [OF assms(3)] assms(1,2) by blast

text \<open>A fragmented frame after a frame in one buffer.\<close>

theorem tx_history_witness:
  "\<exists>w'. trace (tx_move dead_env) (ring_world () (frame_block 0x2000)) [([0x2000], []), ([0], [])] w' \<and>
     map fst (tx_abs w') = [0x2000, 0]"
proof -
  let ?w = "ring_world () (frame_block 0x2000)"
  obtain st w1 where run: "run_state (IntelgbeTransmit dead_env 0 0) ?w = (st, w1)" by fastforce
  obtain st' w2 where run2: "run_state (IntelgbeTransmit dead_env 0 2) w1 = (st', w2)" by fastforce
  have w1: "st = PXE_STATCODE_SUCCESS" "tx_inv w1" "tx_clean w1" "mem w1 = frame_block 0x2000"
    "length (tx_abs w1) = 1"
    using transmit_linear_clean [OF ring_world_inv _ run] by (simp_all add: frame_block_needed split: if_splits)
  have "st' = PXE_STATCODE_SUCCESS"
    using transmit_fragments_run [OF w1(2,3) _ run2] w1(4,5) by (simp add: frame_block_needed split: if_splits)
  then have "tx_move dead_env w1 ([0], []) w2"
    using tx_move.transmit [OF run2] w1(4) by (simp add: tx_recorded_def frame_block_needed)
  moreover have "tx_move dead_env ?w ([0x2000], []) w1"
    using tx_move.transmit [OF run] w1(1) by (simp add: tx_recorded_def frame_block_addr)
  ultimately have tr: "trace (tx_move dead_env) ?w [([0x2000], []), ([0], [])] w2"
    by (blast intro: trace_cons trace_nil)
  show ?thesis using tx_history [OF ring_world_inv ring_world_clean tr] tr by auto
qed

text \<open>
  C23.  A fragmented frame blocks the ring for good: its descriptors record no buffer, so in no
  continuation is any frame sent with it or after it ever handed back, and fewer descriptors than the ring has are
  ever filled again.
\<close>

theorem fragmented_frame_blocks:
  assumes inv: "tx_inv w" and clean: "tx_clean w" and frag: "\<not> linear_frame OpFlags"
    and run: "run_state (IntelgbeTransmit E Cpb OpFlags) w = (PXE_STATCODE_SUCCESS, w1)"
    and rest: "trace (tx_move E) w1 es w2"
  shows "length (concat (map snd es)) \<le> length (tx_abs w) \<and> length (concat (map fst es)) < ring_size"
proof -
  let ?in = "concat (map fst es)" and ?out = "concat (map snd es)"
  have sent: "tx_inv w1 \<and> tx_clean w1" "tx_abs w1 = tx_abs w @ replicate (tx_needed (mem w) Cpb) (0, False)"
    using transmit_fragments_run [OF inv clean frag run] by (auto split: if_splits)
  have hist: "tx_inv w2" "tx_content w1 @ ?in = ?out @ tx_content w2"
    using tx_batches.batch_history [OF rest sent(1)] by simp_all
  have le: "length ?out \<le> length (tx_abs w)"
  proof (rule ccontr)
    assume "\<not> ?thesis"
    then have d: "length (tx_abs w) < length ?out" by simp
    have "1 \<le> tx_needed (mem w) Cpb" by (simp add: tx_needed_def)
    then have "(tx_content w1 @ ?in) ! length (tx_abs w) = 0" by (simp add: sent(2) nth_append)
    then have "?out ! length (tx_abs w) = 0" unfolding hist(2) nth_append using d by simp
    then show False using moved_nonzero [OF rest sent(1)] nth_mem [OF d] by simp
  qed
  have "length (tx_abs w2) < ring_size" using hist(1) in_flight_less by (simp add: tx_inv_def tx_abs_def)
  moreover have "length (tx_content w1) + length ?in = length ?out + length (tx_content w2)"
    using arg_cong [OF hist(2), of length] by (simp only: length_append)
  ultimately show ?thesis using le by (simp add: sent(2))
qed

theorem fragmented_frame_blocks_witness:
  "\<exists>w1. run_state (IntelgbeTransmit dead_env 0 2) (ring_world () (\<lambda>_. 0)) = (PXE_STATCODE_SUCCESS, w1) \<and>
     (\<forall>es w2. trace (tx_move dead_env) w1 es w2 \<longrightarrow> concat (map snd es) = [])"
proof -
  let ?w = "ring_world () (\<lambda>_. 0)"
  obtain st w1 where run: "run_state (IntelgbeTransmit dead_env 0 2) ?w = (st, w1)" by fastforce
  have st: "st = PXE_STATCODE_SUCCESS"
    using transmit_fragments_run [OF ring_world_inv ring_world_clean _ run]
    by (simp add: tx_needed_def TxFrags_FragCnt_def load16_def load_zero split: if_splits)
  have "concat (map snd es) = []" if "trace (tx_move dead_env) w1 es w2" for es w2
    using fragmented_frame_blocks [OF ring_world_inv ring_world_clean _ run [unfolded st] that]
    by (simp del: concat_eq_Nil_conv length_concat)
  with run st show ?thesis by blast
qed

section \<open>Disjoint areas and copies\<close>

lemma unat_add_of_nat:
  assumes "unat (x :: u64) + j < 2 ^ 64"
  shows "unat (x + of_nat j) = unat x + j"
  using assms by (simp add: unat_word_ariths unat_of_nat)

lemma unat_diff_of_nat: "j \<le> unat x \<Longrightarrow> unat (x - of_nat j :: u64) = unat x - j"
proof -
  assume j: "j \<le> unat x"
  have "unat x < 2 ^ 64" by (rule less_le_trans [OF unsigned_less]) simp
  with j have uj: "unat (of_nat j :: u64) = j" by (simp add: unat_of_nat)
  then have "(of_nat j :: u64) \<le> x" using j by (simp add: word_le_nat_alt)
  then show ?thesis by (simp add: unat_sub uj)
qed

lemma disjoint_sub:
  assumes d: "disjoint_ranges a n b k" and "i + n' \<le> n" "j + k' \<le> k"
  shows "disjoint_ranges (a + of_nat i) n' (b + of_nat j) k'"
  unfolding disjoint_ranges_def
proof (intro allI impI)
  fix t assume "t < n'"
  then have "k \<le> unat (a + of_nat (i + t) - b)" using d [unfolded disjoint_ranges_def, rule_format, of "i + t"] assms(2) by simp
  then have "j \<le> unat (a + of_nat (i + t) - b)" and "k - j \<le> unat (a + of_nat (i + t) - b) - j"
    using assms(3) by auto
  then have "k - j \<le> unat (a + of_nat (i + t) - b - of_nat j)" by (simp add: unat_diff_of_nat)
  moreover have "a + of_nat i + of_nat t - (b + of_nat j) = a + of_nat (i + t) - b - of_nat j" by simp
  ultimately have "k - j \<le> unat (a + of_nat i + of_nat t - (b + of_nat j))" by (simp only:)
  then show "k' \<le> unat (a + of_nat i + of_nat t - (b + of_nat j))" using assms(3) by linarith
qed

lemma disjoint_offsets:
  assumes "i + n \<le> j \<or> j + k \<le> i" "i + n \<le> 2 ^ 32" "j + k \<le> 2 ^ 32"
  shows "disjoint_ranges (b + of_nat i) n (b + of_nat j) k"
  unfolding disjoint_ranges_def
proof (intro allI impI)
  fix t assume t: "t < n"
  have e: "b + of_nat i + of_nat t - (b + of_nat j) = of_nat (i + t) - (of_nat j :: u64)" by simp
  show "k \<le> unat (b + of_nat i + of_nat t - (b + of_nat j))"
  proof (cases "j \<le> i + t")
    case True
    then have "unat (of_nat (i + t) - (of_nat j :: u64)) = i + t - j"
      using assms(2) t by (simp add: unat_of_nat flip: of_nat_diff of_nat_add)
    with assms(1) True t show ?thesis unfolding e by auto
  next
    case False
    then have "of_nat (i + t) - (of_nat j :: u64) = of_nat (2 ^ 64 - (j - (i + t)))"
      using assms(3) by (simp add: of_nat_diff)
    moreover have "2 ^ 64 - (j - (i + t)) < (2 ^ 64 :: nat)" using False by simp
    ultimately have "unat (of_nat (i + t) - (of_nat j :: u64)) = 2 ^ 64 - (j - (i + t))"
      by (simp only: unat_of_nat) simp
    then show ?thesis unfolding e using assms(3) by simp
  qed
qed

lemma disjoint_offsets_num [simp]:
  "numeral i + n \<le> numeral j \<or> numeral j + k \<le> numeral i \<Longrightarrow> numeral i + n \<le> (2 ^ 32 :: nat) \<Longrightarrow>
     numeral j + k \<le> (2 ^ 32 :: nat) \<Longrightarrow> disjoint_ranges (b + numeral i) n (b + numeral j) k"
  "numeral j + k \<le> (2 ^ 32 :: nat) \<Longrightarrow> n \<le> numeral j \<Longrightarrow> disjoint_ranges b n (b + numeral j) k"
  "numeral i + n \<le> (2 ^ 32 :: nat) \<Longrightarrow> k \<le> numeral i \<Longrightarrow> disjoint_ranges (b + numeral i) n b k"
  using disjoint_offsets [of "numeral i" n "numeral j" k b] disjoint_offsets [of 0 n "numeral j" k b]
    disjoint_offsets [of "numeral i" n 0 k b] by auto

lemma load_bytes_append:
  "load_bytes m a (i + j) = load_bytes m a i @ load_bytes m (a + of_nat i) j"
  by (rule nth_equalityI) (auto simp: nth_load_bytes nth_append add.assoc simp flip: of_nat_add)

lemma store64_load64: "store64 m d (load64 m' s) = store_bytes m d (load_bytes m' s 8)"
  using le_bytes_le_word [of "load_bytes m' s 8", where 'a = 64] by (simp add: store64_def load64_def)

lemma store32_load32: "store32 m d (load32 m' s) = store_bytes m d (load_bytes m' s 4)"
  using le_bytes_le_word [of "load_bytes m' s 4", where 'a = 32] by (simp add: store32_def load32_def)

lemma store16_load16: "store16 m d (load16 m' s) = store_bytes m d (load_bytes m' s 2)"
  using le_bytes_le_word [of "load_bytes m' s 2", where 'a = 16] by (simp add: store16_def load16_def)

text \<open>A copy that moves the first \<open>n\<close> bytes and then the rest is a copy of all bytes.\<close>

lemma copy_split:
  assumes d: "disjoint_ranges s (n + k) t (n + k)" and len: "n + k \<le> 2 ^ 64"
    and m': "m' = store_bytes m t (load_bytes m s n)"
  shows "store_bytes m' (t + of_nat n) (load_bytes m' (s + of_nat n) k) = store_bytes m t (load_bytes m s (n + k))"
    and "disjoint_ranges (s + of_nat n) k (t + of_nat n) k"
proof -
  have "disjoint_ranges (s + of_nat n) k t n" using disjoint_sub [OF d, of n k 0 n] by simp
  then have "load_bytes m' (s + of_nat n) k = load_bytes m (s + of_nat n) k"
    by (simp add: m' load_store_other)
  then show "store_bytes m' (t + of_nat n) (load_bytes m' (s + of_nat n) k) = store_bytes m t (load_bytes m s (n + k))"
    using store_bytes_append [of "load_bytes m s n" "load_bytes m (s + of_nat n) k" m t] len
    by (simp add: m' load_bytes_append)
  show "disjoint_ranges (s + of_nat n) k (t + of_nat n) k" by (rule disjoint_sub [OF d]) auto
qed

lemma copy_words_bytes:
  "disjoint_ranges s (8 * n) t (8 * n) \<Longrightarrow> 8 * n \<le> 2 ^ 64 \<Longrightarrow>
     copy_words n t s m = store_bytes m t (load_bytes m s (8 * n))"
proof (induction n arbitrary: m s t)
  case 0
  then show ?case by (simp add: store_bytes_def)
next
  case (Suc n)
  have "8 * Suc n = 8 + 8 * n" by simp
  note split = copy_split(1) [OF Suc.prems [unfolded this] refl, of m]
    copy_split(2) [OF Suc.prems [unfolded this] refl]
  show ?case using Suc.IH [of "s + 8" "t + 8"] split Suc.prems(2) by (simp add: store64_load64)
qed

lemma copy_bytes_bytes:
  "disjoint_ranges s n t n \<Longrightarrow> n \<le> 2 ^ 64 \<Longrightarrow> copy_bytes n t s m = store_bytes m t (load_bytes m s n)"
proof (induction n arbitrary: m s t)
  case 0
  then show ?case by (simp add: store_bytes_def)
next
  case (Suc n)
  have "Suc n = 1 + n" by simp
  note split = copy_split(1) [OF Suc.prems [unfolded this] refl, of m]
    copy_split(2) [OF Suc.prems [unfolded this] refl]
  have "store8 m t (m s) = store_bytes m t (load_bytes m s 1)" by (simp add: store8_def load_bytes_def)
  then show ?case using Suc.IH [of "s + 1" "t + 1"] split Suc.prems(2) by simp
qed

lemma mem_copy_bytes:
  assumes d: "disjoint_ranges Source (unat Count) Dest (unat Count)"
  shows "IntelgbeMemCopy Dest Source Count m = store_bytes m Dest (load_bytes m Source (unat Count))"
proof -
  define i r where "i = unat (Count div 8)" and "r = unat (Count mod 8)"
  have count: "unat Count = 8 * i + r" by (simp add: i_def r_def unat_div_distrib unat_mod)
  have "unat Count \<le> 2 ^ 64" using unsigned_less [of Count, where 'a = nat] by simp
  then have len: "8 * i + r \<le> 2 ^ 64" by (simp add: count)
  have whole: "disjoint_ranges Source (8 * i + r) Dest (8 * i + r)" using d by (simp add: count)
  then have "disjoint_ranges Source (8 * i) Dest (8 * i)"
    using disjoint_sub [of Source _ Dest _ 0 "8 * i" 0 "8 * i"] by fastforce
  then have "copy_words i Dest Source m = store_bytes m Dest (load_bytes m Source (8 * i))"
    using len by (simp add: copy_words_bytes)
  then show ?thesis
    using copy_split(1) [OF whole len refl, of m] copy_split(2) [OF whole len refl] len
    by (simp add: IntelgbeMemCopy_def Let_def count copy_bytes_bytes flip: i_def r_def)
qed


section \<open>A received frame\<close>

lemma rx_frame_len_bounds:
  assumes u: "uint BufferLen < 0x8000"
  shows "rx_frame_len rdes3 BufferLen = min (uint (rdes3 AND 0x7FFF)) (uint BufferLen)"
proof -
  from u have "uint (ucast BufferLen :: u16) = uint BufferLen"
    by (simp add: unsigned_ucast_eq take_bit_int_eq_self)
  moreover have "sint (ucast BufferLen :: u16) = uint (ucast BufferLen :: u16)"
    unfolding sint_uint by (rule signed_take_bit_int_eq_self) (use u calculation in \<open>simp_all add: order_trans [OF _ unsigned_greater_eq]\<close>)
  ultimately show ?thesis by (simp add: rx_frame_len_def Let_def)
qed


lemma load_other_area:
  assumes "disjoint_ranges a n b k"
  shows "numeral i + n' \<le> n \<Longrightarrow> numeral j + length bs \<le> k \<Longrightarrow>
      load_bytes (store_bytes m (b + numeral j) bs) (a + numeral i) n' = load_bytes m (a + numeral i) n'"
    and "n' \<le> n \<Longrightarrow> numeral j + length bs \<le> k \<Longrightarrow>
      load_bytes (store_bytes m (b + numeral j) bs) a n' = load_bytes m a n'"
    and "numeral i + n' \<le> n \<Longrightarrow> length bs \<le> k \<Longrightarrow>
      load_bytes (store_bytes m b bs) (a + numeral i) n' = load_bytes m (a + numeral i) n'"
    and "n' \<le> n \<Longrightarrow> length bs \<le> k \<Longrightarrow>
      load_bytes (store_bytes m b bs) a n' = load_bytes m a n'"
  using disjoint_sub [OF assms, of "numeral i" n' "numeral j" "length bs"]
    disjoint_sub [OF assms, of 0 n' "numeral j" "length bs"]
    disjoint_sub [OF assms, of "numeral i" n' 0 "length bs"]
    disjoint_sub [OF assms, of 0 n' 0 "length bs"]
  by (simp_all add: load_store_other)

lemma copy_mac_bytes:
  assumes "disjoint_ranges b 6 a 6"
  shows "INTELGBE_COPY_MAC a b m = store_bytes m a (load_bytes m b 6)"
proof -
  have "4 + (2::nat) = 6" by simp
  with copy_split(1) [of b 4 2 a _ m, OF _ _ refl] assms show ?thesis
    by (simp add: INTELGBE_COPY_MAC_def Let_def store32_load32 store16_load16)
qed

text \<open>The areas of a receive call do not overlap: the receive buffer, the client's buffer, the data block.\<close>

definition rx_areas :: "u64 \<Rightarrow> u64 \<Rightarrow> nat \<Rightarrow> u64 \<Rightarrow> bool" where
  "rx_areas Ether buf len Db \<longleftrightarrow> len \<le> RX_BUFFER_SIZE \<and>
     disjoint_ranges Ether RX_BUFFER_SIZE buf len \<and> disjoint_ranges Ether RX_BUFFER_SIZE Db 80 \<and>
     disjoint_ranges buf len Db 80"

lemma receive_frame_stores:
  fixes len :: u32
  assumes len: "len = of_int (rx_frame_len rdes3 (CpbReceive_BufferLen m Cpb))"
    and areas: "rx_areas Ether (CpbReceive_BufferAddr m Cpb) (unat len) Db"
  shows "receive_frame Cpb Db Ether rdes3 g m =
    store_bytes (store_bytes (store_bytes (store_bytes (store_bytes (store_bytes
      (store_bytes m (CpbReceive_BufferAddr m Cpb) (load_bytes m Ether (unat len)))
      (Db + 64) (le_bytes 4 len)) (Db + 70) (le_bytes 2 PXE_MAC_HEADER_LEN_ETHER))
      (Db + 72) [rx_packet_type g (load_bytes m Ether 6)])
      (Db + 68) (load_bytes m (Ether + 12) 2))
      Db (load_bytes m (Ether + 6) 6)) (Db + 32) (load_bytes m Ether 6)"
proof -
  have fits: "unat len \<le> 2048" and eb: "disjoint_ranges Ether 2048 (CpbReceive_BufferAddr m Cpb) (unat len)"
    and ed: "disjoint_ranges Ether 2048 Db 80"
    using areas by (simp_all add: rx_areas_def)
  have "disjoint_ranges Ether (unat len) (CpbReceive_BufferAddr m Cpb) (unat len)"
    using disjoint_sub [OF eb, of 0 "unat len" 0 "unat len"] fits by simp
  moreover have "disjoint_ranges (Ether + 6) 6 Db 6" "disjoint_ranges Ether 6 (Db + 32) 6"
    using disjoint_sub [OF ed, of 6 6 0 6] disjoint_sub [OF ed, of 0 6 32 6] by simp_all
  ultimately show ?thesis
    using load_other_area [OF ed] load_other_area [OF eb]
    by (simp add: receive_frame_def Let_def mem_copy_bytes copy_mac_bytes store32_def [of _ _ len] store16_def [of _ _ 14]
        store8_def store16_load16 flip: len)
qed


lemma receive_frame_fields:
  fixes len :: u32
  assumes len: "len = of_int (rx_frame_len rdes3 (CpbReceive_BufferLen m Cpb))"
    and areas: "rx_areas Ether (CpbReceive_BufferAddr m Cpb) (unat len) Db"
    and m': "m' = receive_frame Cpb Db Ether rdes3 g m"
  shows "load_bytes m' (CpbReceive_BufferAddr m Cpb) (unat len) = load_bytes m Ether (unat len)"
    and "load32 m' (Db + 64) = len" and "load16 m' (Db + 70) = PXE_MAC_HEADER_LEN_ETHER"
    and "m' (Db + 72) = rx_packet_type g (load_bytes m Ether 6)"
    and "load16 m' (Db + 68) = load16 m (Ether + 12)"
    and "load_bytes m' Db 6 = load_bytes m (Ether + 6) 6"
    and "load_bytes m' (Db + 32) 6 = load_bytes m Ether 6"
proof -
  let ?B = "CpbReceive_BufferAddr m Cpb"
  note m'_eq = m' [unfolded receive_frame_stores [OF len areas]]
  have bd: "disjoint_ranges ?B (unat len) Db 80" using areas by (simp add: rx_areas_def)
  have same: "load_bytes (store_bytes mm (Db + 64) (le_bytes 4 len)) (Db + 64) 4 = le_bytes 4 len" for mm
    using load_store_bytes [of "le_bytes 4 len"] by simp
  have here: "load_bytes (store_bytes mm a bs) a (length bs) = bs" if "length bs \<le> 8" for mm a and bs :: "u8 list"
    using that by (simp add: load_store_bytes)
  note simps = m'_eq load_store_other
  have "unat len \<le> 2 ^ 64" using unsigned_less [of len, where 'a = nat] by simp
  then show "load_bytes m' ?B (unat len) = load_bytes m Ether (unat len)"
    using load_other_area [OF bd] load_store_bytes [of "load_bytes m Ether (unat len)"] by (simp add: m'_eq)
  show "load32 m' (Db + 64) = len"
    using here [of "le_bytes 4 len"] by (simp add: load32_def simps le_word_le_bytes)
  show "load16 m' (Db + 70) = PXE_MAC_HEADER_LEN_ETHER"
    using here [of "le_bytes 2 (14 :: u16)"] by (simp add: load16_def simps le_word_le_bytes)
  have "load_bytes m' (Db + 72) 1 = [rx_packet_type g (load_bytes m Ether 6)]"
    using here [of "[rx_packet_type g (load_bytes m Ether 6)]"] by (simp add: simps)
  then show "m' (Db + 72) = rx_packet_type g (load_bytes m Ether 6)" by (simp add: load_bytes_def)
  show "load16 m' (Db + 68) = load16 m (Ether + 12)"
    using here [of "load_bytes m (Ether + 12) 2"] by (simp add: load16_def simps)
  show "load_bytes m' Db 6 = load_bytes m (Ether + 6) 6"
    using here [of "load_bytes m (Ether + 6) 6"] by (simp add: simps)
  show "load_bytes m' (Db + 32) 6 = load_bytes m Ether 6"
    using here [of "load_bytes m Ether 6"] by (simp add: simps)
qed

abbreviation rxq :: "'d world \<Rightarrow> intelgbe_rx_queue" where
  "rxq w \<equiv> rx_queue (GigAdapter w) ! 0"

definition rx_inv :: "'d world \<Rightarrow> bool" where
  "rx_inv w \<longleftrightarrow> rx_queue (GigAdapter w) \<noteq> [] \<and> unat (cur_rx (rxq w)) < ring_size \<and>
     length (rx_ring (rxq w)) = ring_size"

abbreviation rx_current :: "'d world \<Rightarrow> intelgbe_rx_desc" where
  "rx_current w \<equiv> rx_ring (rxq w) ! unat (cur_rx (rxq w))"

text \<open>The local buffer and the controller's view of the buffer of descriptor \<open>e\<close>.\<close>

abbreviation rx_slot_addr :: "u64 \<Rightarrow> u32 \<Rightarrow> u64" where
  "rx_slot_addr a e \<equiv> a + of_nat sizeof_LOCAL_RX_BUFFER * ucast e"

definition rearmed :: "u64 \<Rightarrow> intelgbe_rx_desc" where
  "rearmed a = \<lparr>des0 = ucast a, des1 = 0, des2 = 0, des3 = BIT 31 OR BIT 30 OR BIT 24\<rparr>"

lemma receive_run:
  assumes inv: "rx_inv w" and run: "run_state (IntelgbeReceive E Cpb Db) w = (st, w')"
  shows "if bit (des3 (rx_current w)) 31 then st = PXE_STATCODE_NO_DATA \<and> w' = w
    else st = PXE_STATCODE_SUCCESS \<and> rx_inv w' \<and>
      cur_rx (rxq w') = ring_next (cur_rx (rxq w)) \<and>
      rx_ring (rxq w') = (rx_ring (rxq w))[unat (cur_rx (rxq w)) :=
        rearmed (rx_slot_addr (dma_rx_buff (rxq w)) (cur_rx (rxq w)))] \<and>
      mem w' = (if rx_desc_good (rx_current w)
        then receive_frame Cpb Db (rx_slot_addr (rx_buff (rxq w)) (cur_rx (rxq w)))
               (des3 (rx_current w)) (GigAdapter w) (mem w)
        else mem w)"
proof -
  have ne: "rx_queue (GigAdapter w) \<noteq> []" and c: "unat (cur_rx (rxq w)) < ring_size"
    and len: "length (rx_ring (rxq w)) = ring_size"
    using inv by (simp_all add: rx_inv_def)
  have get: "run_state (get_rx_queue 0) w = (rxq w, w)" using ne by (simp add: get_rx_queue_def)
  have desc: "run_state (get_rx_desc (cur_rx (rxq w))) w = (rx_current w, w)"
    using c len by (simp add: get_rx_desc_def get)
  show ?thesis
  proof (cases "bit (des3 (rx_current w)) 31")
    case True
    with run show ?thesis by (simp add: IntelgbeReceive_def get desc Let_def)
  next
    case False
    then show ?thesis
      using run c len ne ring_next_less [OF c]
      by (cases "rx_desc_good (rx_current w)")
        (auto simp: IntelgbeReceive_def get desc Let_def set_rx_queue_def rx_inv_def ring_next_def rearmed_def)
  qed
qed

section \<open>Properties of the receive ring\<close>

text \<open>
  C8.  \<^verbatim>\<open>IntelgbeReceive\<close>, on every branch: it reports no data exactly when the current descriptor is
  still the controller's, and then changes nothing; otherwise it gives that descriptor back to the
  controller with the address of its own buffer, advances around the ring, leaves every other descriptor
  alone and returns success, also for a frame the controller marked bad, of which nothing is copied.
\<close>

theorem receive_advances:
  assumes "rx_inv w" and "run_state (IntelgbeReceive E Cpb Db) w = (st, w')"
    and "e = cur_rx (rxq w)"
  shows "if bit (des3 (rx_ring (rxq w) ! unat e)) 31 then st = PXE_STATCODE_NO_DATA \<and> w' = w
    else st = PXE_STATCODE_SUCCESS \<and> rx_inv w' \<and>
      unat (cur_rx (rxq w')) = (unat e + 1) mod ring_size \<and>
      rx_ring (rxq w') = (rx_ring (rxq w))[unat e := rearmed (rx_slot_addr (dma_rx_buff (rxq w)) e)] \<and>
      (\<not> rx_desc_good (rx_ring (rxq w) ! unat e) \<longrightarrow> mem w' = mem w)"
  using receive_run [OF assms(1,2)] assms(1,3) by (simp add: unat_ring_next rx_inv_def split: if_splits)

theorem receive_advances_witness:
  "\<exists>w'. run_state (IntelgbeReceive dead_env 0 0) (ring_world () (\<lambda>_. 0)) = (PXE_STATCODE_SUCCESS, w') \<and>
     unat (cur_rx (rxq w')) = 1 \<and> mem w' = (\<lambda>_. 0)"
proof -
  let ?w = "ring_world () (\<lambda>_. 0)"
  obtain st w' where run: "run_state (IntelgbeReceive dead_env 0 0) ?w = (st, w')" by fastforce
  have "rx_inv ?w" by (simp add: ring_world_def rx_inv_def zero_rx_queue_def)
  from receive_advances [OF this run refl] show ?thesis
    using run by (simp add: ring_world_def zero_rx_queue_def zero_desc_def rx_desc_good_def)
qed

text \<open>
  C9.  A good frame is delivered: when the receive buffer, the client's buffer and the data block do not
  overlap, the client's buffer holds the first bytes of the frame and the data block its length, media
  header length, packet type, protocol, source and destination address, all read from the frame itself.
\<close>

theorem receive_delivers:
  fixes len :: u32
  assumes "rx_inv w" and "run_state (IntelgbeReceive E Cpb Db) w = (st, w')"
    and "\<not> bit (des3 (rx_current w)) 31" and "rx_desc_good (rx_current w)"
    and Ether: "Ether = rx_slot_addr (rx_buff (rxq w)) (cur_rx (rxq w))"
    and buf: "buf = CpbReceive_BufferAddr (mem w) Cpb"
    and len: "len = of_int (rx_frame_len (des3 (rx_current w)) (CpbReceive_BufferLen (mem w) Cpb))"
    and "rx_areas Ether buf (unat len) Db"
  shows "load_bytes (mem w') buf (unat len) = load_bytes (mem w) Ether (unat len) \<and>
    load32 (mem w') (Db + 64) = len \<and> load16 (mem w') (Db + 70) = PXE_MAC_HEADER_LEN_ETHER \<and>
    mem w' (Db + 72) = rx_packet_type (GigAdapter w) (load_bytes (mem w) Ether 6) \<and>
    load16 (mem w') (Db + 68) = load16 (mem w) (Ether + 12) \<and>
    load_bytes (mem w') Db 6 = load_bytes (mem w) (Ether + 6) 6 \<and>
    load_bytes (mem w') (Db + 32) 6 = load_bytes (mem w) Ether 6"
proof -
  have "mem w' = receive_frame Cpb Db Ether (des3 (rx_current w)) (GigAdapter w) (mem w)"
    using receive_run [OF assms(1,2)] assms(3,4) by (simp add: Ether)
  from receive_frame_fields [OF len _ this] assms(8) show ?thesis by (simp add: buf)
qed

text \<open>A frame of 60 bytes waits in the first buffer of the ring, a command block at address 0 asks for it.\<close>

definition rx_block :: memory where
  "rx_block = store32 (store64 (\<lambda>a. ucast a) 0 0x200000) 8 0x600"

definition rx_world :: "unit world" where
  "rx_world = (ring_world () rx_block)\<lparr>GigAdapter := zero_adapter\<lparr>rx_queue :=
     [zero_rx_queue\<lparr>rx_ring := (replicate DEFAULT_RX_DESCRIPTORS zero_desc)[0 := zero_desc\<lparr>des3 := BIT 28 OR 60\<rparr>],
                    rx_buff := 0x100000\<rparr>]\<rparr>\<rparr>"

lemma rx_block_fields: "CpbReceive_BufferAddr rx_block 0 = 0x200000" "CpbReceive_BufferLen rx_block 0 = 0x600"
proof -
  have "disjoint_ranges 0 8 8 4" using disjoint_offsets [of 0 8 8 4 0] by simp
  then show "CpbReceive_BufferAddr rx_block 0 = 0x200000"
    using load64_store64 [of "\<lambda>a. ucast a" 0 "0x200000"]
    by (simp add: CpbReceive_BufferAddr_def rx_block_def store32_def load64_def load_store_other)
  show "CpbReceive_BufferLen rx_block 0 = 0x600"
    by (simp add: CpbReceive_BufferLen_def rx_block_def)
qed

theorem receive_delivers_witness:
  "\<exists>w'. run_state (IntelgbeReceive dead_env 0 0x300000) rx_world = (PXE_STATCODE_SUCCESS, w') \<and>
     load_bytes (mem w') 0x200000 60 = load_bytes rx_block 0x100000 60 \<and> load32 (mem w') 0x300040 = 60"
proof -
  obtain st w' where run: "run_state (IntelgbeReceive dead_env 0 0x300000) rx_world = (st, w')" by fastforce
  have cur: "rx_ring (rxq rx_world) ! 0 = zero_desc\<lparr>des3 := BIT 28 OR 60\<rparr>" "cur_rx (rxq rx_world) = 0"
    "rx_buff (rxq rx_world) = 0x100000" and mem: "mem rx_world = rx_block"
    by (simp_all add: rx_world_def zero_rx_queue_def)
  have inv: "rx_inv rx_world" by (simp add: rx_world_def rx_inv_def zero_rx_queue_def)
  have d: "\<not> bit (des3 (rx_current rx_world)) 31" "rx_desc_good (rx_current rx_world)"
    by (simp_all add: cur rx_desc_good_def zero_desc_def BIT_def)
  have frame: "rx_frame_len (BIT 28 OR 60) 0x600 = 60"
    by (simp add: rx_frame_len_bounds BIT_def)
  have areas: "rx_areas 0x100000 0x200000 60 0x300000"
    using disjoint_offsets [of "0x100000" 2048 "0x200000" 60 0] disjoint_offsets [of "0x100000" 2048 "0x300000" 80 0]
      disjoint_offsets [of "0x200000" 60 "0x300000" 80 0] by (simp add: rx_areas_def)
  have "st = PXE_STATCODE_SUCCESS" using receive_run [OF inv run] d by simp
  then show ?thesis
    using receive_delivers [OF inv run d refl refl refl] run areas by (simp add: frame cur mem rx_block_fields)
qed

text \<open>
  The number of bytes delivered is the frame length cut to the client's buffer for every buffer below
  32 KiB; for a larger one (up to the 16 bits that are read) the sign of \<^verbatim>\<open>(INT16) BufferLen\<close> makes the
  comparison fail and the length of the buffer is used whatever the frame's length is.
\<close>

theorem rx_frame_len_cases:
  assumes "uint BufferLen < 0x10000"
  shows "rx_frame_len rdes3 BufferLen =
    (if uint BufferLen < 0x8000 then min (uint (rdes3 AND 0x7FFF)) (uint BufferLen) else uint BufferLen)"
proof (cases "uint BufferLen < 0x8000")
  case True
  then show ?thesis by (simp add: rx_frame_len_bounds)
next
  case False
  have u: "uint (ucast BufferLen :: u16) = uint BufferLen"
    using assms by (simp add: unsigned_ucast_eq take_bit_int_eq_self)
  have "sint (ucast BufferLen :: u16) < 0"
  proof -
    have "uint BufferLen div 2 ^ 15 = 1" using False assms by (simp add: int_div_pos_eq)
    then show ?thesis unfolding sint_uint u by (simp add: bit_iff_odd)
  qed
  moreover have "0 \<le> uint (rdes3 AND 0x7FFF)" by simp
  ultimately have "sint (ucast BufferLen :: u16) < uint (rdes3 AND 0x7FFF)" by linarith
  with False u show ?thesis by (simp add: rx_frame_len_def Let_def)
qed

theorem rx_frame_len_cases_witness:
  "rx_frame_len 60 0x600 = 60 \<and> rx_frame_len 60 0x9000 = 0x9000"
  using rx_frame_len_cases [of "0x600" 60] rx_frame_len_cases [of "0x9000" 60] by simp

section \<open>Frames of the data path\<close>

lemma keeps_get_tx_desc [frame]: "keeps core (get_tx_desc e)"
  unfolding get_tx_desc_def by (auto intro!: frame)

lemma keeps_set_tx_desc [frame]: "keeps core (set_tx_desc e d)"
  unfolding set_tx_desc_def by (auto intro!: frame)

lemma keeps_get_tx_mapping [frame]: "keeps core (get_tx_mapping e)"
  unfolding get_tx_mapping_def by (auto intro!: frame)

lemma keeps_set_tx_mapping [frame]: "keeps core (set_tx_mapping e m)"
  unfolding set_tx_mapping_def by (auto intro!: frame)

lemma keeps_get_rx_desc [frame]: "keeps core (get_rx_desc e)"
  unfolding get_rx_desc_def by (auto intro!: frame)

lemma keeps_UndiDmaUnmapMemory [frame]: "keeps core (UndiDmaUnmapMemory E p m)"
  unfolding UndiDmaUnmapMemory_def by (auto intro!: frame)

lemma keeps_UndiDmaMapMemoryRead [frame]: "keeps core (UndiDmaMapMemoryRead E p m)"
  unfolding UndiDmaMapMemoryRead_def by (auto intro!: frame)

lemma keeps_IntelgbeMapMem [frame]: "keeps core (IntelgbeMapMem E v n a)"
  unfolding IntelgbeMapMem_def by (auto intro!: frame)

lemma keeps_free_tx_loop [frame]: "keeps core (free_tx_loop E TB n e c)"
  by (induction n arbitrary: e c) (auto intro!: frame)

lemma keeps_IntelgbeFreeTxBuffers [frame]: "keeps core (IntelgbeFreeTxBuffers E n TB)"
  unfolding IntelgbeFreeTxBuffers_def by (auto intro!: frame)

lemma keeps_advance_cur_tx [frame]: "keeps core (advance_cur_tx)"
  unfolding advance_cur_tx_def by (auto intro!: frame)

lemma keeps_update_tx_tail [frame]: "keeps core (update_tx_tail E)"
  unfolding update_tx_tail_def by (auto intro!: frame)

lemma keeps_fill_fragment [frame]: "keeps core (fill_fragment E cpb i e b)"
  unfolding fill_fragment_def by (auto intro!: frame)

lemma keeps_transmit_fragments [frame]: "keeps core (transmit_fragments E cpb e)"
  unfolding transmit_fragments_def by (auto intro!: frame)

lemma keeps_transmit_linear [frame]: "keeps core (transmit_linear E cpb e)"
  unfolding transmit_linear_def by (auto intro!: frame)

lemma keeps_IntelgbeTransmit [frame]: "keeps core (IntelgbeTransmit E cpb f)"
  unfolding IntelgbeTransmit_def by (auto intro!: frame)

lemma keeps_IntelgbeReceive [frame]: "keeps core (IntelgbeReceive E cpb db)"
  unfolding IntelgbeReceive_def by (auto intro!: frame)

end
