(* ===== verification/Undi_Adapter.thy ===== *)
theory Undi_Adapter
  imports Undi_Ring
begin

text \<open>
  Bring-up and shutdown of the adapter, from \<^verbatim>\<open>Intelgbe.c\<close>: the PCI resources
  (\<^verbatim>\<open>IntelgbePciInit\<close>), the first initialisation during driver start (\<^verbatim>\<open>IntelgbeFirstTimeInit\<close>),
  the initialisation requested through UNDI (\<^verbatim>\<open>IntelgbeInititialize\<close>), link state and shutdown.
  \<^verbatim>\<open>PciConfig\<close> holds the 64 double words read from configuration space.
\<close>

section \<open>PCI resources\<close>

abbreviation EFI_PCI_DEVICE_ENABLE :: u64 where "EFI_PCI_DEVICE_ENABLE \<equiv> 0x0700"
abbreviation EFI_PCI_IO_ATTRIBUTE_DUAL_ADDRESS_CYCLE :: u64 where
  "EFI_PCI_IO_ATTRIBUTE_DUAL_ADDRESS_CYCLE \<equiv> 0x8000"
abbreviation RX_RING_SIZE :: nat where
  "RX_RING_SIZE \<equiv> sizeof_DESCRIPTOR * DEFAULT_RX_DESCRIPTORS"
abbreviation TX_RING_SIZE :: nat where
  "TX_RING_SIZE \<equiv> sizeof_DESCRIPTOR * DEFAULT_TX_DESCRIPTORS"
abbreviation RX_BUFFERS_SIZE :: nat where
  "RX_BUFFERS_SIZE \<equiv> sizeof_LOCAL_RX_BUFFER * DEFAULT_RX_DESCRIPTORS"

definition ZeroMem :: "u64 \<Rightarrow> nat \<Rightarrow> memory \<Rightarrow> memory" where
  "ZeroMem a n m = (\<lambda>x. if unat (x - a) < n then 0 else m x)"

text \<open>The labels \<^verbatim>\<open>PciIoError\<close> (with \<^verbatim>\<open>PciAttributesSaved\<close> true) and \<^verbatim>\<open>OnAllocError\<close>.\<close>

definition restore_pci_attributes :: "'d env \<Rightarrow> ('d, unit) op" where
  "restore_pci_attributes E = do {
     g \<leftarrow> adapter;
     _ \<leftarrow> call_env (pci_attributes E (PciIo g) EfiPciIoAttributeOperationSet
                      (OriginalPciAttributes g) 0);
     ret () }"

definition free_if_mapped :: "'d env \<Rightarrow> u64 \<Rightarrow> UNDI_DMA_MAPPING \<Rightarrow> ('d, UNDI_DMA_MAPPING) op" where
  "free_if_mapped E pciio m =
     (if Mapping m \<noteq> 0 then do { (_, m) \<leftarrow> UndiDmaFreeCommonBuffer E pciio m; ret m } else ret m)"

definition on_alloc_error :: "'d env \<Rightarrow> EFI_STATUS \<Rightarrow> ('d, EFI_STATUS) op" where
  "on_alloc_error E st = do {
     g \<leftarrow> adapter;
     m \<leftarrow> free_if_mapped E (PciIo g) (TxRing g);
     _ \<leftarrow> upd_adapter (\<lambda>g. g\<lparr>TxRing := m\<rparr>);
     m \<leftarrow> free_if_mapped E (PciIo g) (RxRing g);
     _ \<leftarrow> upd_adapter (\<lambda>g. g\<lparr>RxRing := m\<rparr>);
     m \<leftarrow> free_if_mapped E (PciIo g) (RxBufferMapping g);
     _ \<leftarrow> upd_adapter (\<lambda>g. g\<lparr>RxBufferMapping := m\<rparr>);
     _ \<leftarrow> restore_pci_attributes E;
     ret st }"

text \<open>The three allocations and the clearing of the memory.\<close>

definition pci_init_alloc :: "'d env \<Rightarrow> ('d, EFI_STATUS) op" where
  "pci_init_alloc E = do {
     g \<leftarrow> adapter;
     (st, m) \<leftarrow> UndiDmaAllocateCommonBuffer E (PciIo g) ((TxRing g)\<lparr>Size := of_nat TX_RING_SIZE\<rparr>);
     _ \<leftarrow> upd_adapter (\<lambda>g. g\<lparr>TxRing := m\<rparr>);
     if EFI_ERROR st then on_alloc_error E st
     else do {
       (st, m) \<leftarrow> UndiDmaAllocateCommonBuffer E (PciIo g) ((RxRing g)\<lparr>Size := of_nat RX_RING_SIZE\<rparr>);
       _ \<leftarrow> upd_adapter (\<lambda>g. g\<lparr>RxRing := m\<rparr>);
       if EFI_ERROR st then on_alloc_error E st
       else do {
         (st, m) \<leftarrow> UndiDmaAllocateCommonBuffer E (PciIo g)
                      ((RxBufferMapping g)\<lparr>Size := of_nat RX_BUFFERS_SIZE\<rparr>);
         _ \<leftarrow> upd_adapter (\<lambda>g. g\<lparr>RxBufferMapping := m\<rparr>);
         if EFI_ERROR st then on_alloc_error E st
         else do {
           g \<leftarrow> adapter;
           _ \<leftarrow> upd_mem (ZeroMem (UnmappedAddress (RxRing g)) RX_RING_SIZE);
           _ \<leftarrow> upd_mem (ZeroMem (UnmappedAddress (TxRing g)) TX_RING_SIZE);
           _ \<leftarrow> upd_mem (ZeroMem (UnmappedAddress (RxBufferMapping g)) RX_BUFFERS_SIZE);
           ret EFI_SUCCESS } } } }"

definition IntelgbePciInit :: "'d env \<Rightarrow> ('d, EFI_STATUS) op" where
  "IntelgbePciInit E = do {
     g \<leftarrow> adapter;
     (st, a) \<leftarrow> call_env (pci_attributes E (PciIo g) EfiPciIoAttributeOperationGet 0
                            (OriginalPciAttributes g));
     _ \<leftarrow> upd_adapter (\<lambda>g. g\<lparr>OriginalPciAttributes := a\<rparr>);
     if EFI_ERROR st then ret st
     else do {
       (st, Result) \<leftarrow> call_env (pci_attributes E (PciIo g) EfiPciIoAttributeOperationSupported 0 0);
       st \<leftarrow> (if \<not> EFI_ERROR st then do {
                (st, _) \<leftarrow> call_env (pci_attributes E (PciIo g) EfiPciIoAttributeOperationEnable
                             (Result AND (EFI_PCI_DEVICE_ENABLE
                                          OR EFI_PCI_IO_ATTRIBUTE_DUAL_ADDRESS_CYCLE)) 0);
                ret st }
             else ret st);
       if EFI_ERROR st then do { _ \<leftarrow> restore_pci_attributes E; ret st }
       else pci_init_alloc E } }"

section \<open>First initialisation\<close>

abbreviation PCI_BAR_IO_MASK :: u32 where "PCI_BAR_IO_MASK \<equiv> 0x00000003"
abbreviation PCI_BAR_IO_MODE :: u32 where "PCI_BAR_IO_MODE \<equiv> 0x00000001"
abbreviation PCI_BAR_MEM_MASK :: u32 where "PCI_BAR_MEM_MASK \<equiv> 0x0000000F"
abbreviation PCI_BAR_MEM_64BIT :: u32 where "PCI_BAR_MEM_64BIT \<equiv> 0x00000004"

text \<open>Fields of \<^verbatim>\<open>PCI_CONFIG_HEADER\<close>, overlaid on the double words of \<^verbatim>\<open>PciConfig\<close>.\<close>

definition config_dword :: "u32 list \<Rightarrow> nat \<Rightarrow> u32" where
  "config_dword cfg i = (if i < length cfg then cfg ! i else 0)"

definition low_half :: "u32 \<Rightarrow> u16" where
  "low_half v = ucast v"

definition high_half :: "u32 \<Rightarrow> u16" where
  "high_half v = ucast (drop_bit 16 v)"

definition BaseAddressReg :: "u32 list \<Rightarrow> nat \<Rightarrow> u32" where
  "BaseAddressReg cfg i = config_dword cfg (4 + i)"

text \<open>The search for the IO base address register from index \<open>b\<close> on; a 64-bit register takes two.\<close>

function find_io_bar :: "u32 list \<Rightarrow> nat \<Rightarrow> nat option" where
  "find_io_bar cfg b =
     (if b \<le> 5 then
        (let b' = (if BaseAddressReg cfg b AND PCI_BAR_MEM_MASK = PCI_BAR_MEM_64BIT then b + 1 else b)
         in if BaseAddressReg cfg b' AND PCI_BAR_IO_MASK = PCI_BAR_IO_MODE then Some b'
            else find_io_bar cfg (b' + 1))
      else None)"
  by pat_completeness auto
termination
  by (relation "measure (\<lambda>(cfg, b). 6 - b)") (auto split: if_splits)

declare find_io_bar.simps [simp del]

definition hw_base_address :: "u32 list \<Rightarrow> u64" where
  "hw_base_address cfg =
     (if BaseAddressReg cfg 0 AND PCI_BAR_MEM_MASK = PCI_BAR_MEM_64BIT
      then (push_bit 32 (ucast (BaseAddressReg cfg 1)) OR ucast (BaseAddressReg cfg 0)) AND NOT 0x4
      else ucast (BaseAddressReg cfg 0))"

text \<open>The part of \<^verbatim>\<open>IntelgbeFirstTimeInit\<close> that fills in the adapter from configuration space.\<close>

definition read_pci_config :: "'d env \<Rightarrow> ('d, unit) op" where
  "read_pci_config E = do {
     _ \<leftarrow> upd_adapter (\<lambda>g. g\<lparr>DriverBusy := False\<rparr>);
     g \<leftarrow> adapter;
     cfg \<leftarrow> call_env (pci_read_config E (PciIo g));
     _ \<leftarrow> upd_adapter (\<lambda>g. g\<lparr>PciConfig := cfg\<rparr>);
     _ \<leftarrow> (case find_io_bar cfg 0 of
            None \<Rightarrow> ret ()
          | Some b \<Rightarrow> upd_adapter (\<lambda>g. g\<lparr>IoBarIndex := of_nat b\<rparr>));
     loc \<leftarrow> call_env (pci_get_location E (PciIo g));
     upd_adapter (\<lambda>g. g\<lparr>PciLocation := loc\<rparr>) }"

definition fill_adapter :: "u32 list \<Rightarrow> GIG_DRIVER_DATA \<Rightarrow> GIG_DRIVER_DATA" where
  "fill_adapter cfg g =
     g\<lparr>BroadcastNodeAddress := replicate PXE_HWADDR_LEN_ETHER 0xFF
                               @ replicate (PXE_MAC_LENGTH - PXE_HWADDR_LEN_ETHER) 0,
       Hw := (Hw g)\<lparr>hw_addr := hw_base_address cfg,
                    vendor_id := low_half (config_dword cfg 0),
                    device_id := high_half (config_dword cfg 0),
                    revision_id := ucast (low_half (config_dword cfg 2)),
                    subsystem_vendor_id := low_half (config_dword cfg 11),
                    subsystem_device_id := high_half (config_dword cfg 11),
                    io_base := 0\<rparr>,
       txqnum := INTELGBE_MAX_TX_QUEUES,
       rxqnum := INTELGBE_MAX_RX_QUEUES,
       PciClass := ucast (drop_bit 8 (high_half (config_dword cfg 2) AND 0xFF00)),
       PciSubClass := ucast (high_half (config_dword cfg 2)) AND 0xFF\<rparr>"

text \<open>The second half, from the MAC version check on.\<close>

definition first_time_hw :: "'d env \<Rightarrow> ('d, EFI_STATUS) op" where
  "first_time_hw E = do {
     i \<leftarrow> gets (\<lambda>w. interface (phy (Hw (GigAdapter w))));
     retval \<leftarrow>
       (if i = PHY_INTERFACE_SGMII then do {
          retval \<leftarrow> intelgbe_modphy_init E;
          if retval < 0 then ret retval else intelgbe_xpcs_init E }
        else ret 0);
     if retval < 0 then ret (of_int retval)
     else do {
       retval \<leftarrow> intelgbe_phy_init E;
       if retval \<noteq> INTELGBE_SUCCESS then ret EFI_UNSUPPORTED
       else do {
         retval \<leftarrow> intelgbe_reset E;
         if retval \<noteq> INTELGBE_SUCCESS then ret EFI_UNSUPPORTED
         else do {
           retval \<leftarrow> intelgbe_write_mac_addr_generic E;
           if retval \<noteq> INTELGBE_SUCCESS then ret EFI_UNSUPPORTED
           else do {
             retval \<leftarrow> intelgbe_init_hw E;
             if retval \<noteq> INTELGBE_SUCCESS then do {
               _ \<leftarrow> upd_adapter (\<lambda>g. g\<lparr>HwInitialized := False\<rparr>);
               ret EFI_UNSUPPORTED }
             else do {
               _ \<leftarrow> upd_adapter (\<lambda>g. g\<lparr>HwInitialized := True\<rparr>);
               q \<leftarrow> get_tx_queue 0;
               _ \<leftarrow> set_tx_queue 0 (q\<lparr>cur_tx := 0\<rparr>);
               r \<leftarrow> get_rx_queue 0;
               _ \<leftarrow> set_rx_queue 0 (r\<lparr>cur_rx := 0\<rparr>);
               ret EFI_SUCCESS } } } } } }"

definition IntelgbeFirstTimeInit :: "'d env \<Rightarrow> ('d, EFI_STATUS) op" where
  "IntelgbeFirstTimeInit E = do {
     _ \<leftarrow> read_pci_config E;
     _ \<leftarrow> upd_adapter (\<lambda>g. fill_adapter (PciConfig g) g);
     q \<leftarrow> get_rx_queue 0;
     _ \<leftarrow> set_rx_queue 0 (q\<lparr>chan := 1\<rparr>);
     retval \<leftarrow> intelgbe_setup_init_funcs E True;
     if retval \<noteq> INTELGBE_SUCCESS then ret EFI_UNSUPPORTED
     else do {
       v \<leftarrow> intelgbe_get_id E;
       _ \<leftarrow> upd_adapter (\<lambda>g. g\<lparr>DeviceId := of_int v\<rparr>);
       did \<leftarrow> gets (\<lambda>w. DeviceId (GigAdapter w));
       if did < 0x50 then ret EFI_UNSUPPORTED
       else do {
         retval \<leftarrow> intelgbe_read_mac_addr_generic E;
         if retval \<noteq> INTELGBE_SUCCESS then ret EFI_UNSUPPORTED
         else first_time_hw E } } }"

section \<open>Initialisation through UNDI, link and shutdown\<close>

definition IntelgbeInititialize :: "'d env \<Rightarrow> ('d, u16) op" where
  "IntelgbeInititialize E = do {
     hwinit \<leftarrow> gets (\<lambda>w. HwInitialized (GigAdapter w));
     code \<leftarrow> (if \<not> hwinit then do {
                r \<leftarrow> intelgbe_init_hw E;
                if r = 0 then do {
                  _ \<leftarrow> upd_adapter (\<lambda>g. g\<lparr>HwInitialized := True\<rparr>);
                  ret PXE_STATCODE_SUCCESS }
                else ret PXE_STATCODE_NOT_STARTED }
              else ret PXE_STATCODE_SUCCESS);
     _ \<leftarrow> intelgbe_read_mac_addr_generic E;
     ret code }"

definition IsLinkUp :: "'d env \<Rightarrow> ('d, bool) op" where
  "IsLinkUp E = do {
     o1 \<leftarrow> gets (\<lambda>w. check_for_link (mac_ops (mac (Hw (GigAdapter w)))));
     if o1 then do { (_, link) \<leftarrow> intelgbe_link_status E False; ret link }
     else do { _ \<leftarrow> raise_fault; ret False } }"

definition IntelgbeWaitForAutoNeg :: "('d, bool) op" where
  "IntelgbeWaitForAutoNeg = do {
     c \<leftarrow> gets (\<lambda>w. CableDetect (GigAdapter w));
     if c = 0 then ret True else ret False }"

definition IntelgbeShutdown :: "'d env \<Rightarrow> ('d, u16) op" where
  "IntelgbeShutdown E = do {
     _ \<leftarrow> intelgbe_uninit_hw E;
     _ \<leftarrow> upd_adapter (\<lambda>g. g\<lparr>ReceiveStarted := False, RxFilter := 0\<rparr>);
     ret PXE_STATCODE_SUCCESS }"

section \<open>Frames of the adapter\<close>

lemma keeps_first_time_hw [frame]: "keeps core (first_time_hw E)"
  unfolding first_time_hw_def by (auto intro!: frame)

lemma keeps_IntelgbeInititialize [frame]: "keeps core (IntelgbeInititialize E)"
  unfolding IntelgbeInititialize_def by (auto intro!: frame)

lemma keeps_IsLinkUp [frame]: "steady f \<Longrightarrow> keeps f (IsLinkUp E)"
  unfolding IsLinkUp_def by (auto intro!: frame simp: steady_def phy_blind_def host_def)

lemma keeps_IntelgbeWaitForAutoNeg [frame]: "steady f \<Longrightarrow> keeps f (IntelgbeWaitForAutoNeg)"
  unfolding IntelgbeWaitForAutoNeg_def by (auto intro!: frame simp: steady_def phy_blind_def host_def)

end
