(* ===== verification/Undi_Boot.thy ===== *)
theory Undi_Boot
  imports Undi_Adapter
begin

text \<open>
  What \<^verbatim>\<open>IntelgbeFirstTimeInit\<close> achieves.  The first part follows the queues through it and shows that
  success leaves rings on which the data path's invariants hold; the second part states what a board has
  to provide and shows that the initialisation then succeeds.
\<close>

section \<open>What the first initialisation leaves\<close>

definition layout :: "'d world \<Rightarrow> intelgbe_tx_queue list \<times> intelgbe_rx_queue list \<times> UNDI_DMA_MAPPING list
    \<times> u8 \<times> u8 \<times> UNDI_DMA_MAPPING \<times> UNDI_DMA_MAPPING \<times> UNDI_DMA_MAPPING \<times> bool" where
  "layout w = (let g = GigAdapter w in
     (tx_queue g, rx_queue g, TxBufferMappings g, txqnum g, rxqnum g, TxRing g, RxRing g, RxBufferMapping g,
      DriverBusy g))"

lemma steady_layout [simp]: "steady layout"
  by (simp add: steady_def host_def layout_def Let_def)

lemma phy_blind_layout [simp]: "phy_blind layout"
  by (simp add: steady_phy_blind)

text \<open>The two queues as \<^verbatim>\<open>intelgbe_dma_init\<close> leaves them.\<close>

definition tx_programmed :: "GIG_DRIVER_DATA \<Rightarrow> intelgbe_tx_queue \<Rightarrow> intelgbe_tx_queue" where
  "tx_programmed g q = q\<lparr>tx_queue_index := 0, tx_desc := UnmappedAddress (TxRing g),
     dma_tx := PhysicalAddress (TxRing g), tx_tail_addr := ucast (UnmappedAddress (TxRing g)),
     tx_ring := replicate DEFAULT_TX_DESCRIPTORS zero_desc\<rparr>"

definition rx_programmed :: "GIG_DRIVER_DATA \<Rightarrow> intelgbe_rx_queue \<Rightarrow> intelgbe_rx_queue" where
  "rx_programmed g r = (intelgbe_dma_rx_desc_init (r\<lparr>rx_queue_index := 0,
     rx_desc := UnmappedAddress (RxRing g), dma_rx := PhysicalAddress (RxRing g),
     rx_buff := UnmappedAddress (RxBufferMapping g), dma_rx_buff := PhysicalAddress (RxBufferMapping g)\<rparr>))
     \<lparr>rx_tail_addr := ucast (PhysicalAddress (RxRing g)) + of_nat (sizeof_DESCRIPTOR * DEFAULT_RX_DESCRIPTORS)\<rparr>"

lemma dma_init_run:
  assumes "tx_queue (GigAdapter w) = [q]" "rx_queue (GigAdapter w) = [r]"
    and "txqnum (GigAdapter w) = 1" "rxqnum (GigAdapter w) = 1"
  shows "\<exists>w'. run_state (intelgbe_dma_init E) w = (0, w') \<and>
    layout w' = (let g = GigAdapter w in
     ([tx_programmed g q], [rx_programmed g r], TxBufferMappings g, txqnum g, rxqnum g, TxRing g, RxRing g,
      RxBufferMapping g, DriverBusy g))"
  using assms
  by (simp add: intelgbe_dma_init_def dma_init_tx_queue_def dma_init_rx_queue_def get_tx_queue_def
      get_rx_queue_def set_tx_queue_def set_rx_queue_def layout_def Let_def tx_programmed_def rx_programmed_def
      intelgbe_dma_rx_desc_init_def del: replicate.simps upt_rec_numeral)


lemma keeps_layout_start [frame]: "keeps layout (intelgbe_mac_start_transaction E)"
  unfolding intelgbe_mac_start_transaction_def
  by (auto intro!: frame simp: host_def layout_def Let_def)

lemma init_controller_layout:
  assumes "tx_queue (GigAdapter w) = [q]" "rx_queue (GigAdapter w) = [r]"
    and "txqnum (GigAdapter w) = 1" "rxqnum (GigAdapter w) = 1"
    and "run_state (intelgbe_init_controller E) w = (rv, w')"
  shows "layout w' = (let g = GigAdapter w in
     ([tx_programmed g q], [rx_programmed g r], TxBufferMappings g, txqnum g, rxqnum g, TxRing g, RxRing g,
      RxBufferMapping g, DriverBusy g))"
proof -
  have "\<exists>k. intelgbe_init_controller E = State_Monad.bind (intelgbe_dma_init E) k \<and> (\<forall>v. keeps layout (k v))"
    unfolding intelgbe_init_controller_def by (rule exI, rule conjI [OF refl]) (auto intro!: frame)
  then obtain k where k: "intelgbe_init_controller E = State_Monad.bind (intelgbe_dma_init E) k"
    and keep: "\<And>v. keeps layout (k v)" by blast
  obtain w1 where w1: "run_state (intelgbe_dma_init E) w = (0, w1)"
    and l: "layout w1 = (let g = GigAdapter w in
     ([tx_programmed g q], [rx_programmed g r], TxBufferMappings g, txqnum g, rxqnum g, TxRing g, RxRing g,
      RxBufferMapping g, DriverBusy g))"
    using dma_init_run [OF assms(1-4)] by blast
  from assms(5) w1 have "run_state (k 0) w1 = (rv, w')" by (simp add: k)
  with keepsD [OF keep this] l show ?thesis by simp
qed

section \<open>Error codes\<close>

lemma mdio_read_code:
  "run_state (intelgbe_mdio_read E a d r v c) w = ((x, v'), w') \<Longrightarrow> x \<in> {0, - INTELGBE_BUSY}"
  by (auto simp: intelgbe_mdio_read_def split: prod.splits if_splits)

lemma mdio_write_code: "run_state (intelgbe_mdio_write E a d r v c) w = (x, w') \<Longrightarrow> x \<in> {0, - INTELGBE_BUSY}"
  by (auto simp: intelgbe_mdio_write_def split: prod.splits if_splits)

lemma poll_do_code:
  assumes "\<And>s e t. run_state test s = (Inl e, t) \<Longrightarrow> P e"
  shows "run_state (poll_do n test delay) s = (Inl e, t) \<Longrightarrow> P e"
  by (induction n arbitrary: s) (auto split: prod.splits sum.splits if_splits dest: assms)

lemma modphy_step_code:
  assumes "run_state (modphy_step E f ready) w = (Inl e, w')"
  shows "e \<in> {-1, - INTELGBE_BUSY}"
proof -
  let ?test = "do { (retval, data_addr) \<leftarrow>
                       intelgbe_mdio_read E MODPHY_ADDR 0 SERDES_GSR0 (uninit_u32 E) False;
                     ret (if retval < 0 then Inl retval else Inr (ready data_addr)) }"
  have "run_state (poll_do 10 ?test (msec_delay E 1)) s = (Inl e, t) \<Longrightarrow> e \<in> {- INTELGBE_BUSY}" for s e t
    by (rule poll_do_code [where test = ?test])
      (auto split: prod.splits if_splits dest!: mdio_read_code)
  with assms show ?thesis
    by (auto simp: modphy_step_def Let_def split: prod.splits sum.splits if_splits
        dest!: mdio_read_code mdio_write_code)
qed

lemma modphy_init_code:
  "run_state (intelgbe_modphy_init E) w = (x, w') \<Longrightarrow> x \<in> {0, -1, - INTELGBE_BUSY}"
  by (auto simp: intelgbe_modphy_init_def modphy_rate_def Let_def split: prod.splits sum.splits if_splits
      dest!: modphy_step_code mdio_read_code mdio_write_code)

lemma xpcs_init_code: "run_state (intelgbe_xpcs_init E) w = (x, w') \<Longrightarrow> x \<in> {0, - INTELGBE_ERR_TIMEOUT}"
  by (auto simp: intelgbe_xpcs_init_def split: prod.splits if_splits)


section \<open>First initialisation\<close>

lemmas keeps_layoutD =
  keepsD [OF keeps_intelgbe_phy_init [OF phy_blind_layout]]
  keepsD [OF keeps_intelgbe_reset [OF steady_host [OF steady_layout]]]
  keepsD [OF keeps_intelgbe_write_mac_addr_generic [OF steady_host [OF steady_layout]]]

lemma unsupported_no_success [simp]: "EFI_UNSUPPORTED \<noteq> EFI_SUCCESS"
  by (simp add: EFI_UNSUPPORTED_def ENCODE_ERROR_def BIT_def)

lemma serdes_codes:
  "run_state (intelgbe_modphy_init E) w = (x, w') \<Longrightarrow>
     (x < 0 \<longrightarrow> (of_int x :: u64) \<noteq> 0) \<and> layout w' = layout w"
  "run_state (intelgbe_xpcs_init E) w = (x, w') \<Longrightarrow>
     (x < 0 \<longrightarrow> (of_int x :: u64) \<noteq> 0) \<and> layout w' = layout w"
  using keepsD [OF keeps_intelgbe_modphy_init [OF steady_layout]]
    keepsD [OF keeps_intelgbe_xpcs_init [OF steady_host [OF steady_layout]]] modphy_init_code xpcs_init_code
  by fastforce+

definition reset_indices :: "('d, EFI_STATUS) op" where
  "reset_indices = do {
     _ \<leftarrow> upd_adapter (\<lambda>g. g\<lparr>HwInitialized := True\<rparr>);
     q \<leftarrow> get_tx_queue 0;
     _ \<leftarrow> set_tx_queue 0 (q\<lparr>cur_tx := 0\<rparr>);
     r \<leftarrow> get_rx_queue 0;
     _ \<leftarrow> set_rx_queue 0 (r\<lparr>cur_rx := 0\<rparr>);
     ret EFI_SUCCESS }"

lemma first_time_hw_success:
  assumes "run_state (first_time_hw E) w = (EFI_SUCCESS, w')"
  obtains v u where "layout v = layout w" "run_state (intelgbe_init_hw E) v = (0, u)"
    "run_state reset_indices u = (EFI_SUCCESS, w')"
  using assms unfolding first_time_hw_def reset_indices_def [symmetric]
  by (auto split: prod.splits if_splits dest!: serdes_codes keeps_layoutD)


lemma init_hw_layout:
  assumes "layout v = ([q], [r], ms, 1, 1, TR, RR, RB, busy)"
    and "run_state (intelgbe_init_hw E) v = (0, u)"
  shows "\<exists>g. layout u = ([tx_programmed g q], [rx_programmed g r], ms, 1, 1, TR, RR, RB, busy) \<and>
    TxRing g = TR \<and> RxRing g = RR \<and> RxBufferMapping g = RB"
proof -
  have "run_state (intelgbe_init_controller E) v = (0, u)"
    using assms(2) by (auto simp: intelgbe_init_hw_def split: if_splits)
  from init_controller_layout [OF _ _ _ _ this, of q r] assms(1) show ?thesis
    by (auto simp: layout_def Let_def)
qed

text \<open>The rings after a successful first initialisation, over the memory obtained from PCI.\<close>

lemma first_time_hw_rings:
  assumes l: "layout w = ([q], [r], ms, 1, 1, TR, RR, RB, busy)"
    and run: "run_state (first_time_hw E) w = (EFI_SUCCESS, w')"
  shows "\<exists>g. layout w' = ([(tx_programmed g q)\<lparr>cur_tx := 0\<rparr>], [(rx_programmed g r)\<lparr>cur_rx := 0\<rparr>], ms, 1, 1,
      TR, RR, RB, busy) \<and> TxRing g = TR \<and> RxRing g = RR \<and> RxBufferMapping g = RB \<and>
    HwInitialized (GigAdapter w')"
proof -
  obtain v u where v: "layout v = layout w" "run_state (intelgbe_init_hw E) v = (0, u)"
    and fin: "run_state reset_indices u = (EFI_SUCCESS, w')"
    using first_time_hw_success [OF run] .
  obtain g where g: "layout u = ([tx_programmed g q], [rx_programmed g r], ms, 1, 1, TR, RR, RB, busy)"
    "TxRing g = TR" "RxRing g = RR" "RxBufferMapping g = RB"
    using init_hw_layout [OF v(1) [unfolded l] v(2)] by blast
  show ?thesis
    by (rule exI [of _ g]) (use g fin in \<open>auto simp: reset_indices_def layout_def Let_def get_tx_queue_def
      get_rx_queue_def set_tx_queue_def set_rx_queue_def\<close>)
qed

text \<open>\<^verbatim>\<open>IntelgbeFirstTimeInit\<close> in two parts: what it takes from PCI, and the bring-up.\<close>

definition from_pci :: "'d env \<Rightarrow> ('d, unit) op" where
  "from_pci E = do { _ \<leftarrow> read_pci_config E; _ \<leftarrow> upd_adapter (\<lambda>g. fill_adapter (PciConfig g) g);
     q \<leftarrow> get_rx_queue 0; set_rx_queue 0 (q\<lparr>chan := 1\<rparr>) }"

definition bring_up :: "'d env \<Rightarrow> ('d, EFI_STATUS) op" where
  "bring_up E = do {
     retval \<leftarrow> intelgbe_setup_init_funcs E True;
     if retval \<noteq> INTELGBE_SUCCESS then ret EFI_UNSUPPORTED
     else do {
       v \<leftarrow> intelgbe_get_id E;
       _ \<leftarrow> upd_adapter (\<lambda>g. g\<lparr>DeviceId := of_int v\<rparr>);
       did \<leftarrow> gets (\<lambda>w. DeviceId (GigAdapter w));
       if did < 0x50 then ret EFI_UNSUPPORTED
       else do {
         retval \<leftarrow> intelgbe_read_mac_addr_generic E;
         if retval \<noteq> INTELGBE_SUCCESS then ret EFI_UNSUPPORTED
         else first_time_hw E } } }"

lemma first_time_init_split:
  "run_state (IntelgbeFirstTimeInit E) w = run_state (bring_up E) (snd (run_state (from_pci E) w))"
  unfolding IntelgbeFirstTimeInit_def bring_up_def [symmetric] from_pci_def
  by (simp split: prod.split)

lemma from_pci_layout:
  assumes "tx_queue (GigAdapter w) = [q]" "rx_queue (GigAdapter w) = [r]"
  shows "layout (snd (run_state (from_pci E) w)) = (let g = GigAdapter w in
      ([q], [r\<lparr>chan := 1\<rparr>], TxBufferMappings g, 1, 1, TxRing g, RxRing g, RxBufferMapping g, False))"
  using assms
  by (auto simp: from_pci_def read_pci_config_def fill_adapter_def get_rx_queue_def set_rx_queue_def layout_def
      Let_def split: prod.splits option.splits)

lemmas keeps_layout_setupD =
  keepsD [OF keeps_intelgbe_setup_init_funcs [OF steady_layout]]
  keepsD [OF keeps_intelgbe_get_id [OF steady_host [OF steady_layout]]]
  keepsD [OF keeps_intelgbe_read_mac_addr_generic [OF steady_layout]]

lemma layout_DeviceId [simp]:
  "layout (w\<lparr>GigAdapter := (GigAdapter w)\<lparr>DeviceId := x\<rparr>\<rparr>) = layout w"
  by (simp add: layout_def Let_def)

lemma setup_layout:
  assumes run: "run_state (IntelgbeFirstTimeInit E) w = (EFI_SUCCESS, w')"
    and qs: "tx_queue (GigAdapter w) = [q]" "rx_queue (GigAdapter w) = [r]"
  obtains v where "layout v = (let g = GigAdapter w in
      ([q], [r\<lparr>chan := 1\<rparr>], TxBufferMappings g, 1, 1, TxRing g, RxRing g, RxBufferMapping g, False))"
    "run_state (first_time_hw E) v = (EFI_SUCCESS, w')"
proof -
  define v where "v = snd (run_state (from_pci E) w)"
  have "run_state (bring_up E) v = (EFI_SUCCESS, w')"
    using run by (simp add: first_time_init_split v_def)
  then have "\<exists>u. layout u = layout v \<and> run_state (first_time_hw E) u = (EFI_SUCCESS, w')"
    unfolding bring_up_def by (auto split: prod.splits if_splits dest!: keeps_layout_setupD)
  then show thesis using that from_pci_layout [OF qs, of E] unfolding v_def by auto
qed

lemma rings_established:
  assumes "run_state (IntelgbeFirstTimeInit E) w = (EFI_SUCCESS, w')"
    and "tx_queue (GigAdapter w) = [q]" "rx_queue (GigAdapter w) = [r]" "dirty_tx q = 0"
    and "length (TxBufferMappings (GigAdapter w)) = DEFAULT_TX_DESCRIPTORS"
  shows "HwInitialized (GigAdapter w') \<and> \<not> DriverBusy (GigAdapter w') \<and>
    tx_inv w' \<and> tx_abs w' = [] \<and> rx_inv w' \<and>
    (\<forall>i < DEFAULT_RX_DESCRIPTORS. bit (des3 (rx_ring (rxq w') ! i)) 31 \<and>
       des0 (rx_ring (rxq w') ! i) =
         ucast (PhysicalAddress (RxBufferMapping (GigAdapter w)) + of_nat (i * sizeof_LOCAL_RX_BUFFER)))"
proof -
  let ?g = "GigAdapter w"
  obtain v where v: "layout v = ([q], [r\<lparr>chan := 1\<rparr>], TxBufferMappings ?g, 1, 1, TxRing ?g, RxRing ?g,
      RxBufferMapping ?g, False)" "run_state (first_time_hw E) v = (EFI_SUCCESS, w')"
    using setup_layout [OF assms(1-3)] by (auto simp: Let_def)
  obtain g where g: "layout w' = ([(tx_programmed g q)\<lparr>cur_tx := 0\<rparr>],
      [(rx_programmed g (r\<lparr>chan := 1\<rparr>))\<lparr>cur_rx := 0\<rparr>], TxBufferMappings ?g, 1, 1, TxRing ?g, RxRing ?g,
      RxBufferMapping ?g, False)" "RxBufferMapping g = RxBufferMapping ?g" "HwInitialized (GigAdapter w')"
    using first_time_hw_rings [OF v] by blast
  then have q: "tx_queue (GigAdapter w') = [(tx_programmed g q)\<lparr>cur_tx := 0\<rparr>]"
    and r: "rx_queue (GigAdapter w') = [(rx_programmed g (r\<lparr>chan := 1\<rparr>))\<lparr>cur_rx := 0\<rparr>]"
    and m: "TxBufferMappings (GigAdapter w') = TxBufferMappings ?g" and b: "\<not> DriverBusy (GigAdapter w')"
    by (simp_all add: layout_def Let_def)
  have "tx_inv w'" "tx_abs w' = []"
    using assms(4,5) by (simp_all add: tx_inv_def tx_abs_def ring_view_def in_flight_def q m tx_programmed_def del: replicate.simps)
  moreover have "rx_inv w'"
    by (simp add: rx_inv_def r rx_programmed_def intelgbe_dma_rx_desc_init_def del: upt_rec_numeral)
  moreover have "bit (des3 (rx_ring (rxq w') ! i)) 31 \<and>
       des0 (rx_ring (rxq w') ! i) =
         ucast (PhysicalAddress (RxBufferMapping (GigAdapter w)) + of_nat (i * sizeof_LOCAL_RX_BUFFER))"
    if "i < DEFAULT_RX_DESCRIPTORS" for i
    using that
    by (simp add: r rx_programmed_def intelgbe_dma_rx_desc_init_def nth_append g(2) BIT_def bit_simps
        del: upt_rec_numeral)
  ultimately show ?thesis using g(3) b by blast
qed

text \<open>
  C12.  A successful first initialisation leaves an adapter the data path can run on: the hardware is
  marked initialised and the driver not busy, the transmit ring satisfies its invariant and is empty,
  the receive ring satisfies its invariant, and every receive descriptor is handed to the controller with
  the bus address of its own buffer, a stride of one local buffer apart.
\<close>

theorem first_time_init_establishes:
  assumes "run_state (IntelgbeFirstTimeInit E) w = (EFI_SUCCESS, w')"
    and "tx_queue (GigAdapter w) = [q]" "rx_queue (GigAdapter w) = [r]" "dirty_tx q = 0"
    and "length (TxBufferMappings (GigAdapter w)) = DEFAULT_TX_DESCRIPTORS"
  shows "HwInitialized (GigAdapter w') \<and> \<not> DriverBusy (GigAdapter w') \<and>
    tx_inv w' \<and> tx_abs w' = [] \<and> rx_inv w' \<and>
    (\<forall>i < DEFAULT_RX_DESCRIPTORS. bit (des3 (rx_ring (rxq w') ! i)) 31 \<and>
       des0 (rx_ring (rxq w') ! i) =
         ucast (PhysicalAddress (RxBufferMapping (GigAdapter w)) + of_nat (i * sizeof_LOCAL_RX_BUFFER)))"
  using rings_established [OF assms] .

section \<open>A board that boots\<close>

text \<open>
  What the first initialisation relies on beyond the management bus: configuration space and reads of
  other registers do not disturb the bus, the controller has a supported version, and its software
  reset is over when it is polled.
\<close>

definition same_bus :: "'d mdio_view \<Rightarrow> 'd \<Rightarrow> 'd \<Rightarrow> bool" where
  "same_bus V d' d \<longleftrightarrow> phy_regs V d' = phy_regs V d \<and> bus_busy V d' = bus_busy V d"

definition healthy_board :: "'d env \<Rightarrow> 'd mdio_view \<Rightarrow> u32 list \<Rightarrow> bool" where
  "healthy_board E V cfg \<longleftrightarrow>
     hw_base_address cfg \<noteq> 0 \<and> mdio_controller E (hw_base_address cfg) V \<and>
     (\<forall>p d. fst (pci_read_config E p d) = cfg \<and> same_bus V (snd (pci_read_config E p d)) d) \<and>
     (\<forall>p d. same_bus V (snd (pci_get_location E p d)) d) \<and>
     (\<forall>a d. same_bus V (snd (mmio_read E a d)) d) \<and>
     (\<forall>d. 0x50 \<le> fst (mmio_read E (hw_base_address cfg + 0x110) d) AND INTELGBE_VERSION_MASK) \<and>
     (\<forall>d. \<not> bit (fst (mmio_read E (hw_base_address cfg + 0x1000) d)) 0)"

definition board :: "'d world \<Rightarrow> intelgbe_mac_info \<times> u64 \<times> phy_interface \<times> intelgbe_phy_operations" where
  "board w = (let h = Hw (GigAdapter w) in (mac h, hw_addr h, interface (phy h), phy_ops (phy h)))"

lemma host_board [simp]: "host board"
  by (simp add: host_def board_def)

lemma keeps_board_probe [frame]: "keeps board (mii_probe_c22 E)" "keeps board (mii_probe_c45 E)"
  unfolding mii_probe_c22_def mii_probe_c45_def by (auto intro!: frame)

lemma board_phy_addr [simp]:
  "board (w\<lparr>GigAdapter := (GigAdapter w)\<lparr>Hw := (Hw (GigAdapter w))\<lparr>phy := (phy (Hw (GigAdapter w)))
     \<lparr>phy_addr := x\<rparr>\<rparr>\<rparr>\<rparr>) = board w"
  by (simp add: board_def Let_def)

lemma keeps_board_scan: "keeps board (mii_phy_scan E i a b)"
proof (induction E i a b rule: mii_phy_scan.induct)
  case (1 E i a b)
  note [frame del] = keeps_mii_phy_scan keeps_mii_probe_c22 keeps_mii_probe_c45
  from 1 show ?case by (subst mii_phy_scan.simps) (auto intro!: frame)
qed

lemma phy_id_get_run:
  assumes "phy_ready E V x w" and "find (phy_present (bus_regs V w)) [0..<32] = Some a" and "a < 31"
  shows "\<exists>w'. run_state (mii_phy_id_get E) w = (0, w') \<and> board w' = board w \<and>
    phy_ready E V (of_nat a) w' \<and> bus_regs V w' = bus_regs V w \<and>
    phy_id (phy (Hw (GigAdapter w'))) = fst (phy_id_at (bus_regs V w) a)"
proof -
  obtain i a' b v where r: "run_state (mii_phy_scan E 0 0 (uninit_bool E)) w = (Inr (i, a', b), v)"
    "bus_regs V v = bus_regs V w" "phy_ready E V (phy_addr (phy (Hw (GigAdapter v)))) v"
    "unat a' = Suc a" "(i, b) = phy_id_at (bus_regs V w) a" "phy_addr (phy (Hw (GigAdapter v))) = of_nat a"
    using mii_phy_scan_run [OF assms(1), of 0 32 0 "uninit_bool E"] assms(2) by (auto simp: no_phy_id_def)
  have "board v = board w" using keepsD [OF keeps_board_scan r(1)] .
  moreover have "i = fst (phy_id_at (bus_regs V w) a)" by (simp flip: r(5))
  moreover have "a' < 32" using r(4) assms(3) by (simp add: word_less_nat_alt)
  ultimately show ?thesis using r
    by (auto simp: mii_phy_id_get_def board_def Let_def phy_ready_def mdio_ready_def)
qed

text \<open>The slots a successful set-up leaves for an RGMII controller.\<close>

definition rgmii_set_up :: "'d env \<Rightarrow> 'd mdio_view \<Rightarrow> u32 \<Rightarrow> u64 \<Rightarrow> 'd world \<Rightarrow> bool" where
  "rgmii_set_up E V a base w \<longleftrightarrow> (case board w of (m, b, ifc, ops) \<Rightarrow>
     b = base \<and> ifc = PHY_INTERFACE_RGMII \<and> phy_init_op ops = Some PHY_MARVELL_88E1512 \<and>
     cfg_link ops = Some PHY_MARVELL_88E1512 \<and> read_mac_addr (mac_ops m) \<and> write_mac_addr (mac_ops m) \<and>
     get_id (mac_ops m) \<and> reset_hw (mac_ops m) \<and> init_hw (mac_ops m)) \<and> phy_ready E V a w"

lemma select_rgmii: "select_phy i PHY_INTERFACE_RGMII = Some t \<Longrightarrow> t = PHY_MARVELL_88E1512"
  by (auto simp: select_phy_def Let_def split: if_splits)

lemma setup_run:
  assumes "mdio_controller E base V" and "hw_addr (Hw (GigAdapter w)) = base" and "base \<noteq> 0"
    and "bus_busy V (dev w) < 100"
    and "device_id (Hw (GigAdapter w)) \<in> {EHL_PSE0_STMMAC_RGMII1G_DID, EHL_PSE1_STMMAC_RGMII1G_DID}"
    and "find (phy_present (bus_regs V w)) [0..<32] = Some a" and "a < 31"
    and "select_phy (fst (phy_id_at (bus_regs V w) a)) PHY_INTERFACE_RGMII = Some t"
  shows "\<exists>w'. run_state (intelgbe_setup_init_funcs E True) w = (0, w') \<and> rgmii_set_up E V (of_nat a) base w'"
proof -
  let ?did = "device_id (Hw (GigAdapter w))"
  have did: "device_mac_type ?did = Some (intelgbe_stmmac_rgmii, None)" "device_queues ?did = Some (8, 8)"
    using assms(5) by (auto simp: device_mac_type_def device_queues_def)
  define v where "v = snd (run_state (do {
     _ \<leftarrow> (upd_mac (\<lambda>m. m\<lparr>mac_type := intelgbe_stmmac_rgmii\<rparr>) :: ('a, unit) op);
     _ \<leftarrow> intelgbe_init_function_pointers_stmmac;
     _ \<leftarrow> intelgbe_init_mac_params;
     _ \<leftarrow> upd_phy (\<lambda>p. p\<lparr>mdio_csr_clk := MAC_MDIO_CSR_CLOCK_250_300MHZ,
                         phy_ops := (phy_ops p)\<lparr>mdio_write := True, mdio_read := True\<rparr>\<rparr>);
     upd_phy (\<lambda>p. p\<lparr>interface := PHY_INTERFACE_RGMII\<rparr>) }) w)"
  note v_simps = v_def intelgbe_init_function_pointers_stmmac_def intelgbe_init_mac_params_def
    intelgbe_init_mac_ops_def did
  have bus: "dev v = dev w" and addr: "hw_addr (Hw (GigAdapter v)) = base"
    and clk: "mdio_csr_clk (phy (Hw (GigAdapter v))) = MAC_MDIO_CSR_CLOCK_250_300MHZ"
    and ops: "mdio_write (phy_ops (phy (Hw (GigAdapter v))))" "mdio_read (phy_ops (phy (Hw (GigAdapter v))))"
    using assms(2) by (simp_all add: v_simps)
  then have "phy_ready E V (phy_addr (phy (Hw (GigAdapter v)))) v"
    using assms(1,4) by (simp add: phy_ready_def mdio_ready_def)
  from phy_id_get_run [OF this, of a] assms(6,7) bus obtain u where
    u: "run_state (mii_phy_id_get E) v = (0, u)" "board u = board v" "phy_ready E V (of_nat a) u"
      "phy_id (phy (Hw (GigAdapter u))) = fst (phy_id_at (bus_regs V w) a)" by auto
  have t: "t = PHY_MARVELL_88E1512" using select_rgmii [OF assms(8)] .
  have ifc: "interface (phy (Hw (GigAdapter u))) = PHY_INTERFACE_RGMII"
    using arg_cong [OF u(2), of "\<lambda>b. fst (snd (snd b))"] by (simp add: board_def Let_def v_simps)
  have "run_state (intelgbe_setup_init_funcs E True) w =
      run_state (do {
          ret_val \<leftarrow> mii_phy_id_get E;
          if ret_val < 0 then ret (- INTELGBE_ERR_PHY)
          else do {
            p \<leftarrow> gets (\<lambda>w. phy (Hw (GigAdapter w)));
            (case select_phy (phy_id p) (interface p) of
               None \<Rightarrow> ret (- INTELGBE_ERR_PHY)
             | Some t \<Rightarrow> do { _ \<leftarrow> intelgbe_init_phy_ops t; ret INTELGBE_SUCCESS }) } }) v"
    using assms(2,3)
    by (simp add: v_simps intelgbe_setup_init_funcs_def intelgbe_set_mac_type_def intelgbe_init_phy_params_def
        intelgbe_init_phy_params_stmmac_def mac_phy_interface_def split: prod.split)
  then have "run_state (intelgbe_setup_init_funcs E True) w =
      (0, u\<lparr>GigAdapter := (GigAdapter u)\<lparr>Hw := (Hw (GigAdapter u))\<lparr>phy :=
        install_phy_ops PHY_MARVELL_88E1512 (phy (Hw (GigAdapter u)))\<rparr>\<rparr>\<rparr>)"
    using u(1,4) assms(8)
    by (simp add: ifc t intelgbe_init_phy_ops_def intelgbe_init_phy_ops_marvell_88e1512_def)
  moreover have "rgmii_set_up E V (of_nat a) base (u\<lparr>GigAdapter := (GigAdapter u)\<lparr>Hw := (Hw (GigAdapter u))\<lparr>phy :=
        install_phy_ops PHY_MARVELL_88E1512 (phy (Hw (GigAdapter u)))\<rparr>\<rparr>\<rparr>)"
    using u(2,3) ifc addr
    by (auto simp: rgmii_set_up_def board_def Let_def install_phy_ops_def phy_ready_def mdio_ready_def v_simps)
  ultimately show ?thesis by blast
qed


lemma rgmii_set_up_dev:
  "rgmii_set_up E V a base w \<Longrightarrow> same_bus V d (dev w) \<Longrightarrow> rgmii_set_up E V a base (w\<lparr>dev := d\<rparr>)"
  by (auto simp: rgmii_set_up_def board_def phy_ready_def mdio_ready_def same_bus_def Let_def)

lemma healthy_reads: "healthy_board E V cfg \<Longrightarrow> mmio_read E a d = (v, d') \<Longrightarrow> same_bus V d' d"
  unfolding healthy_board_def by (metis snd_conv)

lemma get_id_run:
  assumes "healthy_board E V cfg" and "rgmii_set_up E V a (hw_base_address cfg) w"
  shows "\<exists>v d. run_state (intelgbe_get_id E) w = (uint v, w\<lparr>dev := d\<rparr>) \<and> 0x50 \<le> (v :: u8) \<and>
    rgmii_set_up E V a (hw_base_address cfg) (w\<lparr>dev := d\<rparr>)"
proof -
  have g: "get_id (mac_ops (mac (Hw (GigAdapter w))))" "hw_addr (Hw (GigAdapter w)) = hw_base_address cfg"
    using assms(2) by (simp_all add: rgmii_set_up_def board_def Let_def)
  obtain v d where rd: "mmio_read E (hw_base_address cfg + 0x110) (dev w) = (v, d)" by fastforce
  define x where "x = (ucast v :: u8)"
  have mask: "v AND INTELGBE_VERSION_MASK = ucast x"
  proof -
    have "bit (0xff :: u32) n \<longleftrightarrow> n < 8" for n
      using bit_mask_iff [where 'a = u32, of 8 n] by (auto simp: mask_eq_exp_minus_1)
    then show ?thesis unfolding x_def
      by (intro bit_word_eqI) (auto simp: bit_simps simp del: bit_numeral_word_iff)
  qed
  moreover have "0x50 \<le> v AND INTELGBE_VERSION_MASK"
    using assms(1) rd unfolding healthy_board_def by (metis fst_conv)
  ultimately have "0x50 \<le> x" by (simp add: word_le_nat_alt unat_ucast_up)
  moreover have "uint (ucast x :: u32) = uint x"
    by (simp add: unsigned_ucast_eq take_bit_int_eq_self_iff order_less_le_trans [OF uint_lt2p])
  ultimately show ?thesis
    using g rd rgmii_set_up_dev [OF assms(2) healthy_reads [OF assms(1) rd]]
    by (auto simp: intelgbe_get_id_def intelgbe_get_mac_version_def mask intro!: exI [of _ x])
qed

lemma read_mac_run:
  assumes "healthy_board E V cfg" and "rgmii_set_up E V a base w"
  shows "\<exists>w'. run_state (intelgbe_read_mac_addr_generic E) w = (0, w') \<and> rgmii_set_up E V a base w'"
proof -
  let ?b = "hw_addr (Hw (GigAdapter w))"
  obtain x d where 1: "mmio_read E (?b + ucast (INTELGBE_ADDR_HIGH 0)) (dev w) = (x, d)" by fastforce
  obtain y d' where 2: "mmio_read E (?b + ucast (INTELGBE_ADDR_LOW 0)) d = (y, d')" by fastforce
  have "same_bus V d' (dev w)"
    using healthy_reads [OF assms(1) 1] healthy_reads [OF assms(1) 2] by (simp add: same_bus_def)
  from rgmii_set_up_dev [OF assms(2) this] assms(2) 1 2 show ?thesis
    by (auto simp: intelgbe_read_mac_addr_generic_def intelgbe_read_mac_addr_def rgmii_set_up_def board_def
        Let_def phy_ready_def mdio_ready_def)
qed

lemma ensures_any: "ensures (\<lambda>_. True) m (\<lambda>_. True)"
  by (simp add: ensures_def split: prod.split)

lemmas ensures_skip = ensures_bind [OF ensures_any]

lemma init_steps_code [outcome]:
  "ensures (\<lambda>_. True) (intelgbe_dma_init E) (\<lambda>r. r = 0)" "ensures (\<lambda>_. True) (intelgbe_mtl_init E) (\<lambda>r. r = 0)"
  "ensures (\<lambda>_. True) (intelgbe_mac_init E) (\<lambda>r. r = 0)"
  "ensures (\<lambda>_. True) (intelgbe_mac_enable_interrupts E) (\<lambda>r. r = 0)"
  "ensures (\<lambda>_. True) (intelgbe_mac_start_transaction E) (\<lambda>r. r = 0)"
  unfolding intelgbe_dma_init_def intelgbe_mtl_init_def intelgbe_mac_init_def
    intelgbe_mac_enable_interrupts_def intelgbe_mac_start_transaction_def
  by (rule ensures_skip ensures_return ensures_Let ensures_case_prod refl)+

lemma init_controller_code: "ensures (\<lambda>_. True) (intelgbe_init_controller E) (\<lambda>r. r = 0)"
  unfolding intelgbe_init_controller_def by (rule outcome | (clarsimp; fail))+

lemma phy_blind_hw [simp]:
  "phy_blind (\<lambda>w. mac (Hw (GigAdapter w)))" "phy_blind (\<lambda>w. hw_addr (Hw (GigAdapter w)))"
  by (simp_all add: phy_blind_def host_def)

lemma poll_while_at_once:
  "0 < n \<Longrightarrow> run_state test s = (True, t) \<Longrightarrow> run_state (poll_while n test delay) s = (int n - 1, t)"
  by (cases n) simp_all

lemma reset_run:
  assumes "healthy_board E V cfg" and "hw_addr (Hw (GigAdapter w)) = hw_base_address cfg"
    and "reset_hw (mac_ops (mac (Hw (GigAdapter w))))"
  shows "\<exists>d. run_state (intelgbe_reset E) w = (0, w\<lparr>dev := d\<rparr>)"
proof -
  let ?test = "do { val \<leftarrow> INTELGBEInDword E INTELGBE_DMA_MODE; ret (val AND INTELGBE_DMA_MD_SWR = 0) }"
  have "\<exists>t. run_state ?test (w\<lparr>dev := d\<rparr>) = (True, w\<lparr>dev := t\<rparr>)" for d
  proof -
    have "\<not> bit (fst (mmio_read E (hw_base_address cfg + 0x1000) d)) 0"
      using assms(1) by (simp add: healthy_board_def)
    then show ?thesis using assms(2) by (auto split: prod.splits)
  qed
  then have poll: "\<exists>t. run_state (poll_while 10 ?test (msec_delay E 10)) (w\<lparr>dev := d\<rparr>) = (9, w\<lparr>dev := t\<rparr>)" for d
    using poll_while_at_once [of 10 ?test "w\<lparr>dev := d\<rparr>" _ "msec_delay E 10"] by fastforce
  obtain v d where "mmio_read E (hw_base_address cfg + 0x1000) (dev w) = (v, d)" by fastforce
  then show ?thesis using assms(2,3)
      poll [of "bs_stall E 10000 (mmio_write E (hw_base_address cfg + 0x1000) (v OR INTELGBE_DMA_MD_SWR) d)"]
    by (auto simp: intelgbe_reset_def intelgbe_reset_controller_def)
qed


lemma first_time_hw_boots:
  assumes "healthy_board E V cfg" and "rgmii_set_up E V a (hw_base_address cfg) w"
  shows "fst (run_state (first_time_hw E) w) = EFI_SUCCESS"
proof -
  let ?ops = "phy_ops (phy (Hw (GigAdapter w)))" and ?mac = "\<lambda>w. mac (Hw (GigAdapter w))"
  have slots: "interface (phy (Hw (GigAdapter w))) = PHY_INTERFACE_RGMII"
    "phy_init_op ?ops = Some PHY_MARVELL_88E1512" "cfg_link ?ops = Some PHY_MARVELL_88E1512"
    "write_mac_addr (mac_ops (?mac w))" "reset_hw (mac_ops (?mac w))" "init_hw (mac_ops (?mac w))"
    "hw_addr (Hw (GigAdapter w)) = hw_base_address cfg" and up: "bus_up E V a ?ops w"
    using assms(2) by (simp_all add: rgmii_set_up_def board_def Let_def bus_up_def)
  obtain r u where u: "run_state (intelgbe_phy_init E) w = (r, u)" by fastforce
  have r: "r = 0" using phy_init_run [OF up slots(2,3) _ u] by simp
  have "?mac u = ?mac w" "hw_addr (Hw (GigAdapter u)) = hw_base_address cfg"
    using keepsD [OF keeps_intelgbe_phy_init [OF phy_blind_hw(1)] u]
      keepsD [OF keeps_intelgbe_phy_init [OF phy_blind_hw(2)] u] slots(7) by simp_all
  moreover obtain d where "run_state (intelgbe_reset E) u = (0, u\<lparr>dev := d\<rparr>)"
    using reset_run [OF assms(1), of u] calculation slots(5) by auto
  moreover obtain d' where "run_state (intelgbe_write_mac_addr_generic E) (u\<lparr>dev := d\<rparr>) = (0, u\<lparr>dev := d'\<rparr>)"
    using calculation slots(4) by (simp add: intelgbe_write_mac_addr_generic_def intelgbe_write_mac_addr_def)
  moreover obtain v where "run_state (intelgbe_init_hw E) (u\<lparr>dev := d'\<rparr>) = (0, v)"
    using calculation slots(6) ensuresD [OF init_controller_code, where s = "u\<lparr>dev := d'\<rparr>"]
    by (cases "run_state (intelgbe_init_controller E) (u\<lparr>dev := d'\<rparr>)") (auto simp: intelgbe_init_hw_def)
  ultimately show ?thesis using u r slots(1) by (simp add: first_time_hw_def split: prod.split)
qed

lemma first_time_boots:
  assumes "healthy_board E V cfg" and "bus_busy V (dev w) < 100"
    and "high_half (config_dword cfg 0) \<in> {EHL_PSE0_STMMAC_RGMII1G_DID, EHL_PSE1_STMMAC_RGMII1G_DID}"
    and "find (phy_present (bus_regs V w)) [0..<32] = Some a" and "a < 31"
    and "select_phy (fst (phy_id_at (bus_regs V w) a)) PHY_INTERFACE_RGMII = Some t"
  shows "\<exists>w'. run_state (IntelgbeFirstTimeInit E) w = (EFI_SUCCESS, w')"
proof -
  define v where "v = snd (run_state (from_pci E) w)"
  let ?p = "PciIo (GigAdapter w)"
  obtain d1 where 1: "pci_read_config E ?p (dev w) = (cfg, d1)" "same_bus V d1 (dev w)"
    using assms(1) unfolding healthy_board_def by (metis prod.collapse)
  obtain loc d2 where 2: "pci_get_location E ?p d1 = (loc, d2)" "same_bus V d2 d1"
    using assms(1) unfolding healthy_board_def by (metis prod.collapse)
  have "same_bus V (dev v) (dev w) \<and> hw_addr (Hw (GigAdapter v)) = hw_base_address cfg \<and>
      device_id (Hw (GigAdapter v)) = high_half (config_dword cfg 0)"
    using 1 2 unfolding v_def from_pci_def read_pci_config_def
    by (cases "find_io_bar cfg 0")
      (simp_all add: fill_adapter_def get_rx_queue_def set_rx_queue_def same_bus_def)
  then have bus: "phy_regs V (dev v) = bus_regs V w" "bus_busy V (dev v) < 100"
    and hw: "hw_addr (Hw (GigAdapter v)) = hw_base_address cfg"
      "device_id (Hw (GigAdapter v)) = high_half (config_dword cfg 0)"
    using assms(2) by (simp_all add: same_bus_def)
  have "mdio_controller E (hw_base_address cfg) V" "hw_base_address cfg \<noteq> 0"
    using assms(1) by (simp_all add: healthy_board_def)
  from setup_run [OF this(1) hw(1) this(2) bus(2), unfolded bus(1) hw(2), OF assms(3-6)]
  obtain v1 where 1: "run_state (intelgbe_setup_init_funcs E True) v = (0, v1)"
    "rgmii_set_up E V (of_nat a) (hw_base_address cfg) v1" by blast
  from get_id_run [OF assms(1) 1(2)] obtain x d where
    2: "run_state (intelgbe_get_id E) v1 = (uint x, v1\<lparr>dev := d\<rparr>)" "0x50 \<le> (x :: u8)"
      "rgmii_set_up E V (of_nat a) (hw_base_address cfg) (v1\<lparr>dev := d\<rparr>)" by blast
  let ?v = "v1\<lparr>dev := d, GigAdapter := (GigAdapter v1)\<lparr>DeviceId := x\<rparr>\<rparr>"
  have "rgmii_set_up E V (of_nat a) (hw_base_address cfg) ?v"
    using 2(3) by (auto simp: rgmii_set_up_def board_def Let_def phy_ready_def mdio_ready_def)
  from read_mac_run [OF assms(1) this] obtain v3 where
    3: "run_state (intelgbe_read_mac_addr_generic E) ?v = (0, v3)" "rgmii_set_up E V (of_nat a) (hw_base_address cfg) v3"
    by blast
  have "(of_int (uint x) :: u8) = x" by simp
  with 2(2) have id: "\<not> (of_int (uint x) :: u8) < 0x50" by simp
  have "run_state (bring_up E) v = run_state (first_time_hw E) v3"
    using 1(1) 2(1) 3(1) id by (simp add: bring_up_def)
  then have "run_state (IntelgbeFirstTimeInit E) w = run_state (first_time_hw E) v3"
    by (simp add: first_time_init_split v_def)
  then show ?thesis using first_time_hw_boots [OF assms(1) 3(2)] by (metis prod.collapse)
qed

text \<open>A board: an RGMII controller at \<^verbatim>\<open>0x1000\<close> with an 88E1512 at address 1 of its bus.\<close>

definition boot_cfg :: "u32 list" where
  "boot_cfg = [0x4BA08086, 0, 0, 0, 0x1000] @ replicate 59 0"

definition boot_env :: "sim_bus env" where
  "boot_env = (sim_env 5 0x1000)
     \<lparr>mmio_read := \<lambda>a d. if a = 0x1110 then (0x51, d) else mmio_read (sim_env 5 0x1000) a d,
      pci_read_config := \<lambda>_ d. (boot_cfg, d)\<rparr>"

definition boot_regs :: "phy_key \<Rightarrow> u16" where
  "boot_regs = (\<lambda>(is45, a, r, _). if a = 1 \<and> \<not> is45 \<and> r = 2 then 0x0141
     else if a = 1 \<and> \<not> is45 \<and> r = 3 then 0x0DD1 else 0)"

definition boot_world :: "sim_bus world" where
  "boot_world = ring_world \<lparr>sim_regs = boot_regs, sim_busy = 0, sim_data = 0\<rparr> (\<lambda>_. 0)"

lemma boot_base: "hw_base_address boot_cfg = 0x1000"
  by (simp add: hw_base_address_def boot_cfg_def BaseAddressReg_def config_dword_def)

lemma boot_healthy: "healthy_board boot_env sim_view boot_cfg"
proof -
  have "mdio_controller boot_env 0x1000 sim_view"
    by (simp add: mdio_controller_def boot_env_def sim_env_def sim_view_def sim_command_def Let_def)
  then show ?thesis
    by (simp add: healthy_board_def boot_base) (simp add: boot_env_def sim_env_def dead_env_def same_bus_def)
qed

lemma boot_id:
  "k < 32 \<Longrightarrow> phy_id_at boot_regs k = (if of_nat k = (1 :: u32) then (MARVELL_PHY_ID_88E1512, False) else (0, True))"
  by (simp add: phy_id_at_def boot_regs_def phy_target_def take_bit_5 join_id_def no_phy_id_def)

lemma boot_bus: "bus_regs sim_view boot_world = boot_regs" "bus_busy sim_view (dev boot_world) < 100"
  by (simp_all add: boot_world_def ring_world_def sim_view_def)

lemma boot_scan: "find (phy_present boot_regs) [0..<32] = Some 1"
  by (simp add: upt_rec boot_id phy_present_def no_phy_id_def)

lemma boot_device: "high_half (config_dword boot_cfg 0) = EHL_PSE0_STMMAC_RGMII1G_DID"
  by (simp add: boot_cfg_def config_dword_def high_half_def)

lemma boot_select:
  "select_phy (fst (phy_id_at boot_regs 1)) PHY_INTERFACE_RGMII = Some PHY_MARVELL_88E1512"
  by (simp add: boot_id select_phy_def)

text \<open>
  C22.  On a healthy board (a base address, a management bus that follows its handshake and is free within the driver's
  patience, a controller whose version byte is at least 0x50 and whose software reset has completed when it is read) with an RGMII
  controller, whose first PHY is at an address below 31 and supported on RGMII, the first
  initialisation runs to the end and reports success: the scan finds the PHY, its driver is installed and
  initialised, and the controller is reset and programmed.
\<close>

theorem first_time_init_succeeds:
  assumes "healthy_board E V cfg" and "bus_busy V (dev w) < 100"
    and "high_half (config_dword cfg 0) \<in> {EHL_PSE0_STMMAC_RGMII1G_DID, EHL_PSE1_STMMAC_RGMII1G_DID}"
    and "find (phy_present (bus_regs V w)) [0..<32] = Some a" and "a < 31"
    and "select_phy (fst (phy_id_at (bus_regs V w) a)) PHY_INTERFACE_RGMII = Some t"
  shows "fst (run_state (IntelgbeFirstTimeInit E) w) = EFI_SUCCESS"
  using first_time_boots [OF assms] by auto

theorem first_time_init_succeeds_witness:
  "fst (run_state (IntelgbeFirstTimeInit boot_env) boot_world) = EFI_SUCCESS"
  by (rule first_time_init_succeeds [OF boot_healthy boot_bus(2), unfolded boot_bus, of 1 PHY_MARVELL_88E1512])
    (simp_all add: boot_device boot_scan boot_select [unfolded One_nat_def])

lemma boot_runs: "\<exists>w'. run_state (IntelgbeFirstTimeInit boot_env) boot_world = (EFI_SUCCESS, w')"
  by (rule first_time_boots [OF boot_healthy boot_bus(2), unfolded boot_bus, of 1 PHY_MARVELL_88E1512])
    (simp_all add: boot_device boot_scan boot_select [unfolded One_nat_def])

theorem first_time_init_establishes_witness:
  "\<exists>w'. run_state (IntelgbeFirstTimeInit boot_env) boot_world = (EFI_SUCCESS, w') \<and>
     HwInitialized (GigAdapter w') \<and> tx_inv w' \<and> tx_abs w' = [] \<and> rx_inv w'"
proof -
  obtain w' where run: "run_state (IntelgbeFirstTimeInit boot_env) boot_world = (EFI_SUCCESS, w')"
    using boot_runs by blast
  have "tx_queue (GigAdapter boot_world) = [zero_tx_queue\<lparr>tx_ring := replicate DEFAULT_TX_DESCRIPTORS zero_desc\<rparr>]"
    "rx_queue (GigAdapter boot_world) = [zero_rx_queue\<lparr>rx_ring := replicate DEFAULT_RX_DESCRIPTORS zero_desc,
       rx_buff := 0x100000, dma_rx_buff := 0x100000\<rparr>]"
    "length (TxBufferMappings (GigAdapter boot_world)) = DEFAULT_TX_DESCRIPTORS"
    by (simp_all add: boot_world_def ring_world_def zero_adapter_def del: replicate.simps)
  from first_time_init_establishes [OF run this(1,2) _ this(3)] run show ?thesis
    by (auto simp: zero_tx_queue_def)
qed

end
