(* ===== verification/Undi_System.thy ===== *)
theory Undi_System
  imports Undi_Adapter
begin

text \<open>
  What spans adapters: the private data of a controller (\<^verbatim>\<open>UNDI_PRIVATE_DATA\<close>), the global
  variables of the driver, and the boot services \<^verbatim>\<open>gBS\<close> it calls as the fields of a record.  Private
  data is reached through its address, so that a pointer kept after \<^verbatim>\<open>FreePool\<close> is visible as one.
  The interfaces the driver installs are parts of the private data and are identified by its address;
  of these the tables of function pointers (adapter information, driver stop) have no field.
\<close>

section \<open>Private data and globals\<close>

record EFI_NETWORK_INTERFACE_IDENTIFIER_PROTOCOL =
  Nii_Id :: u64
  Nii_IfNum :: u16
  Nii_Revision :: u64
  Nii_MajorVer :: u8
  Nii_MinorVer :: u8
  Nii_Ipv6Supported :: bool
  Nii_Type :: u8
  Nii_ImageSize :: u32
  Nii_ImageAddr :: u64
  Nii_StringId :: string

text \<open>An entry of a string table, with the addresses of its two strings.\<close>

record EFI_UNICODE_STRING_TABLE =
  Table_Language :: string
  LanguagePtr :: u64
  Table_UnicodeString :: string
  UnicodeStringPtr :: u64

text \<open>\<open>ControllerNameTable\<close> is the table's contents, none for \<^verbatim>\<open>NULL\<close>, and its address.\<close>

record UNDI_PRIVATE_DATA =
  Signature :: u64
  NiiProtocol31 :: EFI_NETWORK_INTERFACE_IDENTIFIER_PROTOCOL
  NIIPointerProtocol :: u64
  ControllerHandle :: u64
  DeviceHandle :: u64
  Undi32BaseDevPath :: u64
  Undi32DevPath :: u64
  NicInfo :: GIG_DRIVER_DATA
  ControllerNameTable :: "EFI_UNICODE_STRING_TABLE list option \<times> u64"
  AltMacAddrSupported :: bool
  IsChildInitialized :: bool
  Brand :: "string option"

type_synonym EFI_GUID = "u8 list"

datatype get_block = GetMediaStateInformationBlock_fn | GetIpv6SupportInformationBlock_fn

record EFI_ADAPTER_INFORMATION_TYPE_DESCRIPTOR =
  Guid :: EFI_GUID
  GetInformationBlock :: "get_block option"
  SetInformationBlock :: "(u64 \<Rightarrow> u64 \<Rightarrow> EFI_STATUS) option"

abbreviation MAX_NIC_INTERFACES :: nat where "MAX_NIC_INTERFACES \<equiv> 256"
abbreviation MAX_SUPPORTED_INFORMATION_TYPE :: nat where "MAX_SUPPORTED_INFORMATION_TYPE \<equiv> 20"

text \<open>
  The globals of \<^verbatim>\<open>Init.c\<close> and \<^verbatim>\<open>AdapterInformation.c\<close>.  \<open>private_data\<close> maps the address of a
  live \<^verbatim>\<open>UNDI_PRIVATE_DATA\<close> to its contents.
\<close>

record 'd undi =
  mIntelgbePxeMemPtr :: u64
  mIntelgbePxe31 :: u64
  mIntelgbeUndi32DeviceList :: "u64 list"
  mActiveControllers :: u8
  mActiveChildren :: u16
  mInformationCount :: u8
  mSupportedInformationTypes :: "EFI_ADAPTER_INFORMATION_TYPE_DESCRIPTOR list"
  private_data :: "u64 \<Rightarrow> UNDI_PRIVATE_DATA option"
  undi_dev :: 'd
  undi_mem :: memory
  undi_fault :: bool

text \<open>The initial values of the globals, with any memory and environment.\<close>

definition initial_undi :: "'d \<Rightarrow> memory \<Rightarrow> 'd undi" where
  "initial_undi d m =
     \<lparr>mIntelgbePxeMemPtr = 0, mIntelgbePxe31 = 0,
      mIntelgbeUndi32DeviceList = replicate MAX_NIC_INTERFACES 0,
      mActiveControllers = 0, mActiveChildren = 0, mInformationCount = 0,
      mSupportedInformationTypes = replicate MAX_SUPPORTED_INFORMATION_TYPE
        \<lparr>Guid = replicate 16 0, GetInformationBlock = None, SetInformationBlock = None\<rparr>,
      private_data = \<lambda>_. None, undi_dev = d, undi_mem = m, undi_fault = False\<rparr>"

type_synonym ('d, 'a) sys = "('d undi, 'a) state"

section \<open>Boot services\<close>

datatype efi_protocol =
  PciIoProtocol | DevicePathProtocol | NiiProtocol31Guid | NiiPointerGuid | StartStopProtocol
| AdapterInformationProtocol | DriverBindingProtocol | ComponentNameProtocol
| ComponentName2Protocol | DriverConfigurationProtocol | SupportedEfiVersionProtocol

datatype open_attribute = BY_DRIVER | BY_CHILD_CONTROLLER | GET_PROTOCOL

record 'd boot_services =
  OpenProtocol :: "u64 \<Rightarrow> efi_protocol \<Rightarrow> u64 \<Rightarrow> u64 \<Rightarrow> open_attribute \<Rightarrow> u64 \<Rightarrow> 'd \<Rightarrow>
                     (EFI_STATUS \<times> u64) \<times> 'd"
  CloseProtocol :: "u64 \<Rightarrow> efi_protocol \<Rightarrow> u64 \<Rightarrow> u64 \<Rightarrow> 'd \<Rightarrow> EFI_STATUS \<times> 'd"
  InstallProtocols :: "u64 \<Rightarrow> (efi_protocol \<times> u64) list \<Rightarrow> 'd \<Rightarrow> (EFI_STATUS \<times> u64) \<times> 'd"
  UninstallProtocols :: "u64 \<Rightarrow> (efi_protocol \<times> u64) list \<Rightarrow> 'd \<Rightarrow> EFI_STATUS \<times> 'd"
  AllocatePool :: "u64 \<Rightarrow> u64 \<Rightarrow> 'd \<Rightarrow> (EFI_STATUS \<times> u64) \<times> 'd"
  FreePool :: "u64 \<Rightarrow> 'd \<Rightarrow> EFI_STATUS \<times> 'd"
  LibAllocatePool :: "u64 \<Rightarrow> 'd \<Rightarrow> u64 \<times> 'd"
  LibAllocatePrivateData :: "'d \<Rightarrow> u64 \<times> 'd"
  LocateHandleBuffer :: "'d \<Rightarrow> (EFI_STATUS \<times> u64 list \<times> u64) \<times> 'd"
  PciReadIds :: "u64 \<Rightarrow> 'd \<Rightarrow> (EFI_STATUS \<times> u16 \<times> u16) \<times> 'd"

definition call_bs :: "('d \<Rightarrow> 'a \<times> 'd) \<Rightarrow> ('d, 'a) sys" where
  "call_bs f = state.State (\<lambda>u. case f (undi_dev u) of (r, d) \<Rightarrow> (r, u\<lparr>undi_dev := d\<rparr>))"

definition run_bs :: "('d \<Rightarrow> 'd) \<Rightarrow> ('d, unit) sys" where
  "run_bs f = modify (\<lambda>u. u\<lparr>undi_dev := f (undi_dev u)\<rparr>)"

abbreviation sys_fault :: "('d, unit) sys" where
  "sys_fault \<equiv> modify (\<lambda>u. u\<lparr>undi_fault := True\<rparr>)"

section \<open>Access to the private data\<close>

definition get_private :: "u64 \<Rightarrow> ('d, UNDI_PRIVATE_DATA option) sys" where
  "get_private p = do {
     v \<leftarrow> gets (\<lambda>u. private_data u p);
     (case v of None \<Rightarrow> do { _ \<leftarrow> sys_fault; ret None } | Some d \<Rightarrow> ret (Some d)) }"

definition upd_private :: "u64 \<Rightarrow> (UNDI_PRIVATE_DATA \<Rightarrow> UNDI_PRIVATE_DATA) \<Rightarrow> ('d, unit) sys" where
  "upd_private p f = modify (\<lambda>u. case private_data u p of
     None \<Rightarrow> u\<lparr>undi_fault := True\<rparr>
   | Some d \<Rightarrow> u\<lparr>private_data := (private_data u)(p \<mapsto> f d)\<rparr>)"

text \<open>An adapter operation run on \<^verbatim>\<open>&UndiPrivateData->NicInfo\<close>; \<open>None\<close> when the pointer is dead.\<close>

definition adapter_world :: "'d undi \<Rightarrow> UNDI_PRIVATE_DATA \<Rightarrow> 'd world" where
  "adapter_world u d =
     \<lparr>GigAdapter = NicInfo d, dev = undi_dev u, mem = undi_mem u, fault = undi_fault u\<rparr>"

definition on_adapter :: "u64 \<Rightarrow> ('d, 'a) op \<Rightarrow> ('d, 'a option) sys" where
  "on_adapter p f = state.State (\<lambda>u.
     case private_data u p of
       None \<Rightarrow> (None, u\<lparr>undi_fault := True\<rparr>)
     | Some d \<Rightarrow>
         (case run_state f (adapter_world u d) of (r, w) \<Rightarrow>
            (Some r, u\<lparr>private_data := (private_data u)(p \<mapsto> d\<lparr>NicInfo := GigAdapter w\<rparr>),
                       undi_dev := dev w, undi_mem := mem w, undi_fault := fault w\<rparr>)))"

end
