(* ===== verification/Undi_Decode.thy ===== *)
theory Undi_Decode
  imports Undi_System
begin

text \<open>
  The UNDI command interface of \<^verbatim>\<open>Decode.c\<close>: one handler per operation code, the call table
  \<^verbatim>\<open>mIntelgbeApiTable\<close> and the entry point \<^verbatim>\<open>IntelgbeUndiApiEntry\<close>.  The command descriptor
  block is a record that a handler receives and returns; the parameter block and the data block it
  points to are byte memory.  The entry point works on all the adapters of
  \<^verbatim>\<open>mIntelgbeUndi32DeviceList\<close>, the handlers on the one it selects.
\<close>

section \<open>Data\<close>

record PXE_CDB =
  OpCode :: u16
  OpFlags :: u16
  CPBsize :: u16
  DBsize :: u16
  CPBaddr :: u64
  DBaddr :: u64
  StatCode :: u16
  StatFlags :: u16
  IFnum :: u16
  Control :: u16

abbreviation PXE_STATFLAGS_COMMAND_COMPLETE :: u16 where "PXE_STATFLAGS_COMMAND_COMPLETE \<equiv> 0xC000"
abbreviation PXE_STATFLAGS_COMMAND_FAILED :: u16 where "PXE_STATFLAGS_COMMAND_FAILED \<equiv> 0x8000"
abbreviation PXE_STATFLAGS_GET_STATE_INITIALIZED :: u16 where
  "PXE_STATFLAGS_GET_STATE_INITIALIZED \<equiv> 2"
abbreviation PXE_STATFLAGS_GET_STATE_STARTED :: u16 where "PXE_STATFLAGS_GET_STATE_STARTED \<equiv> 1"
abbreviation PXE_STATFLAGS_GET_STATE_STOPPED :: u16 where "PXE_STATFLAGS_GET_STATE_STOPPED \<equiv> 0"
abbreviation PXE_STATFLAGS_CABLE_DETECT_SUPPORTED :: u16 where
  "PXE_STATFLAGS_CABLE_DETECT_SUPPORTED \<equiv> 1"
abbreviation PXE_STATFLAGS_GET_STATUS_NO_MEDIA_SUPPORTED :: u16 where
  "PXE_STATFLAGS_GET_STATUS_NO_MEDIA_SUPPORTED \<equiv> 2"
abbreviation PXE_STATFLAGS_INITIALIZED_NO_MEDIA :: u16 where "PXE_STATFLAGS_INITIALIZED_NO_MEDIA \<equiv> 1"
abbreviation PXE_STATFLAGS_RECEIVE_FILTER_UNICAST :: u16 where
  "PXE_STATFLAGS_RECEIVE_FILTER_UNICAST \<equiv> 0x0001"
abbreviation PXE_STATFLAGS_RECEIVE_FILTER_BROADCAST :: u16 where
  "PXE_STATFLAGS_RECEIVE_FILTER_BROADCAST \<equiv> 0x0002"
abbreviation PXE_STATFLAGS_RECEIVE_FILTER_ALL_MULTICAST :: u16 where
  "PXE_STATFLAGS_RECEIVE_FILTER_ALL_MULTICAST \<equiv> 0x0010"
abbreviation PXE_STATFLAGS_GET_STATUS_RECEIVE :: u16 where "PXE_STATFLAGS_GET_STATUS_RECEIVE \<equiv> 0x0001"
abbreviation PXE_STATFLAGS_GET_STATUS_TRANSMIT :: u16 where
  "PXE_STATFLAGS_GET_STATUS_TRANSMIT \<equiv> 0x0002"
abbreviation PXE_STATFLAGS_GET_STATUS_NO_TXBUFS_WRITTEN :: u16 where
  "PXE_STATFLAGS_GET_STATUS_NO_TXBUFS_WRITTEN \<equiv> 0x0020"
abbreviation PXE_STATFLAGS_GET_STATUS_NO_MEDIA :: u16 where
  "PXE_STATFLAGS_GET_STATUS_NO_MEDIA \<equiv> 0x0040"

abbreviation PXE_STATCODE_INVALID_CDB :: u16 where "PXE_STATCODE_INVALID_CDB \<equiv> 0x0001"
abbreviation PXE_STATCODE_BUSY :: u16 where "PXE_STATCODE_BUSY \<equiv> 0x0003"
abbreviation PXE_STATCODE_NOT_INITIALIZED :: u16 where "PXE_STATCODE_NOT_INITIALIZED \<equiv> 0x0009"

abbreviation PXE_OPFLAGS_INITIALIZE_DETECT_CABLE :: u16 where
  "PXE_OPFLAGS_INITIALIZE_DETECT_CABLE \<equiv> 0x0000"
abbreviation PXE_OPFLAGS_INITIALIZE_DO_NOT_DETECT_CABLE :: u16 where
  "PXE_OPFLAGS_INITIALIZE_DO_NOT_DETECT_CABLE \<equiv> 0x0001"
abbreviation PXE_OPFLAGS_STATION_ADDRESS_RESET :: u16 where
  "PXE_OPFLAGS_STATION_ADDRESS_RESET \<equiv> 0x0001"
abbreviation PXE_OPFLAGS_MCAST_IPV6_TO_MAC :: u16 where "PXE_OPFLAGS_MCAST_IPV6_TO_MAC \<equiv> 0x0001"
abbreviation PXE_OPFLAGS_GET_INTERRUPT_STATUS :: u16 where "PXE_OPFLAGS_GET_INTERRUPT_STATUS \<equiv> 0x0001"
abbreviation PXE_OPFLAGS_GET_TRANSMITTED_BUFFERS :: u16 where
  "PXE_OPFLAGS_GET_TRANSMITTED_BUFFERS \<equiv> 0x0002"
abbreviation PXE_OPFLAGS_GET_MEDIA_STATUS :: u16 where "PXE_OPFLAGS_GET_MEDIA_STATUS \<equiv> 0x0004"
abbreviation PXE_OPFLAGS_FILL_HEADER_FRAGMENTED :: u16 where
  "PXE_OPFLAGS_FILL_HEADER_FRAGMENTED \<equiv> 0x0001"

abbreviation MAC_PACKET_FILTER :: u32 where "MAC_PACKET_FILTER \<equiv> 0x0008"
abbreviation INTELGBE_RCFIL_ALLMCAST :: u32 where "INTELGBE_RCFIL_ALLMCAST \<equiv> 0x10"
abbreviation DMA_INTR_STATUS_CH :: "u32 \<Rightarrow> u32" where "DMA_INTR_STATUS_CH x \<equiv> 0x1160 + x * 0x80"

abbreviation fail_with :: "u16 \<Rightarrow> PXE_CDB \<Rightarrow> PXE_CDB" where
  "fail_with code c \<equiv> c\<lparr>StatFlags := PXE_STATFLAGS_COMMAND_FAILED, StatCode := code\<rparr>"

abbreviation complete :: "PXE_CDB \<Rightarrow> PXE_CDB" where
  "complete c \<equiv> c\<lparr>StatFlags := PXE_STATFLAGS_COMMAND_COMPLETE, StatCode := PXE_STATCODE_SUCCESS\<rparr>"

type_synonym 'd handler = "'d env \<Rightarrow> PXE_CDB \<Rightarrow> ('d, PXE_CDB) op"

section \<open>Handlers\<close>

definition IntelgbeUndiGetState :: "'d handler" where
  "IntelgbeUndiGetState E c = do {
     g \<leftarrow> adapter;
     let c = c\<lparr>StatFlags := StatFlags c OR State g\<rparr>;
     let c = c\<lparr>StatFlags := StatFlags c OR PXE_STATFLAGS_COMMAND_COMPLETE\<rparr>;
     ret (c\<lparr>StatCode := PXE_STATCODE_SUCCESS\<rparr>) }"

definition sizeof_PXE_CPB_START_30 :: u16 where "sizeof_PXE_CPB_START_30 = 32"
definition sizeof_PXE_CPB_START_31 :: u16 where "sizeof_PXE_CPB_START_31 = 64"

definition IntelgbeUndiStart :: "'d handler" where
  "IntelgbeUndiStart E c = do {
     g \<leftarrow> adapter;
     if State g \<noteq> PXE_STATFLAGS_GET_STATE_STOPPED then ret (complete c)
     else if CPBsize c \<noteq> sizeof_PXE_CPB_START_30 \<and> CPBsize c \<noteq> sizeof_PXE_CPB_START_31
     then ret (fail_with PXE_STATCODE_INVALID_CDB c)
     else do {
       m \<leftarrow> gets mem;
       let a = CPBaddr c;
       _ \<leftarrow> upd_adapter (\<lambda>g. g\<lparr>Delay := load64 m a,
                               Virt2Phys := load64 m (a + 16),
                               Block := load64 m (a + 8),
                               MemIo := load64 m (a + 24),
                               MapMem := load64 m (a + 32),
                               UnMapMem := load64 m (a + 40),
                               SyncMem := load64 m (a + 48),
                               UniqueId := load64 m (a + 56)\<rparr>);
       _ \<leftarrow> upd_adapter (\<lambda>g. g\<lparr>State := PXE_STATFLAGS_GET_STATE_STARTED\<rparr>);
       ret (complete c) } }"

definition IntelgbeUndiStop :: "'d handler" where
  "IntelgbeUndiStop E c = ret c"

text \<open>The fields of \<^verbatim>\<open>PXE_DB_GET_INIT_INFO\<close>.\<close>

definition write_init_info :: "u64 \<Rightarrow> memory \<Rightarrow> memory" where
  "write_init_info db m =
     (let m = store32 m db 0;
          m = store32 m (db + 4) 1500;
          m = store32 m (db + 8) 10;
          m = store32 m (db + 12) 100;
          m = store32 m (db + 16) 0;
          m = store32 m (db + 20) 0;
          m = store32 m (db + 24) 128;
          m = store16 m (db + 28) 4;
          m = store16 m (db + 30) PXE_MAC_HEADER_LEN_ETHER;
          m = store16 m (db + 32) (of_nat PXE_HWADDR_LEN_ETHER);
          m = store16 m (db + 34) 8;
          m = store16 m (db + 36) (of_nat DEFAULT_TX_DESCRIPTORS);
          m = store16 m (db + 38) (of_nat sizeof_DESCRIPTOR);
          m = store16 m (db + 40) (of_nat DEFAULT_RX_DESCRIPTORS);
          m = store16 m (db + 42) (of_nat (sizeof_DESCRIPTOR + sizeof_LOCAL_RX_BUFFER));
          m = store8 m (db + 44) 1;
          m = store8 m (db + 45) (1 OR 2)
      in store8 m (db + 46) 0)"

definition IntelgbeUndiGetInitInfo :: "'d handler" where
  "IntelgbeUndiGetInitInfo E c = do {
     _ \<leftarrow> upd_mem (write_init_info (DBaddr c));
     let c = c\<lparr>StatFlags := StatFlags c OR (PXE_STATFLAGS_CABLE_DETECT_SUPPORTED
                                             OR PXE_STATFLAGS_GET_STATUS_NO_MEDIA_SUPPORTED)\<rparr>;
     let c = c\<lparr>StatFlags := StatFlags c OR PXE_STATFLAGS_COMMAND_COMPLETE,
               StatCode := PXE_STATCODE_SUCCESS\<rparr>;
     g \<leftarrow> adapter;
     ret (if \<not> UndiEnabled g then c\<lparr>StatCode := PXE_STATCODE_BUSY\<rparr> else c) }"

definition IntelgbeUndiGetConfigInfo :: "'d handler" where
  "IntelgbeUndiGetConfigInfo E c = ret c"

text \<open>The fields of \<^verbatim>\<open>PXE_DB_INITIALIZE\<close>.\<close>

definition write_initialize_db :: "u64 \<Rightarrow> memory \<Rightarrow> memory" where
  "write_initialize_db db m =
     (let m = store32 m db 0;
          m = store16 m (db + 4) (of_nat DEFAULT_TX_DESCRIPTORS);
          m = store16 m (db + 6) (of_nat sizeof_DESCRIPTOR);
          m = store16 m (db + 8) (of_nat DEFAULT_RX_DESCRIPTORS)
      in store16 m (db + 10) (of_nat (sizeof_DESCRIPTOR + sizeof_LOCAL_RX_BUFFER)))"

definition IntelgbeUndiInitialize :: "'d handler" where
  "IntelgbeUndiInitialize E c = do {
     g \<leftarrow> adapter;
     if DriverBusy g then ret (fail_with PXE_STATCODE_BUSY c)
     else if OpFlags c \<noteq> PXE_OPFLAGS_INITIALIZE_DETECT_CABLE
             \<and> OpFlags c \<noteq> PXE_OPFLAGS_INITIALIZE_DO_NOT_DETECT_CABLE
     then ret (fail_with PXE_STATCODE_INVALID_CDB c)
     else if State g = PXE_STATFLAGS_GET_STATE_INITIALIZED then ret (complete c)
     else do {
       m \<leftarrow> gets mem;
       let cpb = CPBaddr c;
       _ \<leftarrow> upd_adapter (\<lambda>g. g\<lparr>CableDetect :=
              (if OpFlags c = PXE_OPFLAGS_INITIALIZE_DO_NOT_DETECT_CABLE then 0 else 1)\<rparr>);
       _ \<leftarrow> upd_adapter (\<lambda>g. g\<lparr>LinkSpeed := ucast (load32 m (cpb + 12)),
                               DuplexMode := m (cpb + 24),
                               LoopBack := m (cpb + 25)\<rparr>);
       code \<leftarrow> IntelgbeInititialize E;
       let c = c\<lparr>StatCode := code\<rparr>;
       _ \<leftarrow> upd_mem (write_initialize_db (DBaddr c));
       let c = (if StatCode c \<noteq> PXE_STATCODE_SUCCESS
                then c\<lparr>StatFlags := PXE_STATFLAGS_COMMAND_FAILED\<rparr> else c);
       _ \<leftarrow> (if StatCode c \<noteq> PXE_STATCODE_SUCCESS then ret ()
            else upd_adapter (\<lambda>g. g\<lparr>State := PXE_STATFLAGS_GET_STATE_INITIALIZED\<rparr>));
       ok \<leftarrow> IntelgbeWaitForAutoNeg;
       if ok then ret (c\<lparr>StatFlags := PXE_STATFLAGS_COMMAND_COMPLETE\<rparr>)
       else do {
         _ \<leftarrow> upd_adapter (\<lambda>g. g\<lparr>State := PXE_STATFLAGS_GET_STATE_STARTED\<rparr>);
         ret (c\<lparr>StatFlags := StatFlags c OR PXE_STATFLAGS_INITIALIZED_NO_MEDIA,
                StatCode := PXE_STATCODE_NOT_STARTED\<rparr>) } } }"

definition IntelgbeUndiReset :: "'d handler" where
  "IntelgbeUndiReset E c = ret c"

definition IntelgbeUndiShutdown :: "'d handler" where
  "IntelgbeUndiShutdown E c = ret c"

definition IntelgbeUndiInterrupt :: "'d handler" where
  "IntelgbeUndiInterrupt E c = ret c"

definition IntelgbeUndiRecFilter :: "'d handler" where
  "IntelgbeUndiRecFilter E c = do {
     g \<leftarrow> adapter;
     if DriverBusy g then ret (fail_with PXE_STATCODE_BUSY c)
     else do {
       OldFilter \<leftarrow> INTELGBEInDword E MAC_PACKET_FILTER;
       _ \<leftarrow> (if OldFilter AND INTELGBE_RCFIL_ALLMCAST = 0
            then INTELGBEOutDword E MAC_PACKET_FILTER (OldFilter OR INTELGBE_RCFIL_ALLMCAST)
            else ret ());
       ret (c\<lparr>StatFlags := StatFlags c OR
                (PXE_STATFLAGS_RECEIVE_FILTER_UNICAST OR PXE_STATFLAGS_RECEIVE_FILTER_BROADCAST
                 OR PXE_STATFLAGS_RECEIVE_FILTER_ALL_MULTICAST OR PXE_STATFLAGS_COMMAND_COMPLETE),
              StatCode := PXE_STATCODE_SUCCESS\<rparr>) } }"

text \<open>The fields of \<^verbatim>\<open>PXE_DB_STATION_ADDRESS\<close>.\<close>

definition write_station_db :: "GIG_DRIVER_DATA \<Rightarrow> u64 \<Rightarrow> memory \<Rightarrow> memory" where
  "write_station_db g db m =
     (let m = ZeroMem db PXE_MAC_LENGTH m;
          m = ZeroMem (db + 64) PXE_MAC_LENGTH m;
          m = ZeroMem (db + 32) PXE_MAC_LENGTH m;
          m = store_bytes m db (take PXE_HWADDR_LEN_ETHER (mac_addr (mac (Hw g))));
          m = store_bytes m (db + 64) (take PXE_HWADDR_LEN_ETHER (perm_addr (mac (Hw g))))
      in store_bytes m (db + 32) (take PXE_MAC_LENGTH (BroadcastNodeAddress g)))"

definition IntelgbeUndiStnAddr :: "'d handler" where
  "IntelgbeUndiStnAddr E c = do {
     _ \<leftarrow> (if OpFlags c = PXE_OPFLAGS_STATION_ADDRESS_RESET
          then upd_mac (\<lambda>m. if take PXE_HWADDR_LEN_ETHER (mac_addr m)
                               \<noteq> take PXE_HWADDR_LEN_ETHER (perm_addr m)
                            then m\<lparr>mac_addr := take PXE_HWADDR_LEN_ETHER (perm_addr m)\<rparr> else m)
          else ret ());
     _ \<leftarrow> (if CPBaddr c \<noteq> 0 then do {
            _ \<leftarrow> upd_adapter (\<lambda>g. g\<lparr>MacAddrOverride := True\<rparr>);
            mm \<leftarrow> gets mem;
            upd_mac (\<lambda>m. m\<lparr>mac_addr := load_bytes mm (CPBaddr c) PXE_HWADDR_LEN_ETHER\<rparr>) }
          else ret ());
     _ \<leftarrow> (if DBaddr c \<noteq> 0 then do {
            g \<leftarrow> adapter;
            upd_mem (write_station_db g (DBaddr c)) }
          else ret ());
     ret (complete c) }"

definition IntelgbeUndiStatistics :: "'d handler" where
  "IntelgbeUndiStatistics E c = ret c"

text \<open>
  The two branches of \<^verbatim>\<open>IntelgbeUndiIp2Mac\<close>.  The IPv6 address is read from the parameter block
  while the data block is written; the IPv4 address is copied to a local variable first.
\<close>

definition mcast_ipv6_to_mac :: "u64 \<Rightarrow> u64 \<Rightarrow> memory \<Rightarrow> memory" where
  "mcast_ipv6_to_mac cpb db m =
     (let m = store8 m db 0x33;
          m = store8 m (db + 1) 0x33;
          m = store8 m (db + 2) (m (cpb + 12));
          m = store8 m (db + 3) (m (cpb + 13));
          m = store8 m (db + 4) (m (cpb + 14))
      in store8 m (db + 5) (m (cpb + 15)))"

definition mcast_ipv4_to_mac :: "u64 \<Rightarrow> u64 \<Rightarrow> memory \<Rightarrow> memory" where
  "mcast_ipv4_to_mac cpb db m =
     (let IpAddr = le_bytes 4 (load32 m cpb);
          m = store8 m db 0x01;
          m = store8 m (db + 1) 0x00;
          m = store8 m (db + 2) 0x5E;
          m = store8 m (db + 3) (IpAddr ! 1 AND 0x7F);
          m = store8 m (db + 4) (IpAddr ! 2)
      in store8 m (db + 5) (IpAddr ! 3))"

definition IntelgbeUndiIp2Mac :: "'d handler" where
  "IntelgbeUndiIp2Mac E c =
     (if OpFlags c AND PXE_OPFLAGS_MCAST_IPV6_TO_MAC \<noteq> 0 then do {
        _ \<leftarrow> upd_mem (mcast_ipv6_to_mac (CPBaddr c) (DBaddr c));
        ret c }
      else do {
        _ \<leftarrow> upd_mem (mcast_ipv4_to_mac (CPBaddr c) (DBaddr c));
        ret c })"

definition IntelgbeUndiNvData :: "'d handler" where
  "IntelgbeUndiNvData E c = ret c"

text \<open>
  The loop over the interrupt status registers in \<^verbatim>\<open>IntelgbeUndiStatus\<close>; the accumulated
  \<^verbatim>\<open>StatFlags\<close> are passed along.
\<close>

definition poll_interrupt :: "'d env \<Rightarrow> nat \<Rightarrow> u16 \<Rightarrow> ('d, u16) op" where
  "poll_interrupt E i flags = do {
     q \<leftarrow> get_rx_queue i;
     IntStatus \<leftarrow> INTELGBEInDword E (DMA_INTR_STATUS_CH (of_nat i));
     flags \<leftarrow>
       (if bit IntStatus 15 then
          (if bit IntStatus 0 then do {
             _ \<leftarrow> INTELGBEOutDword E (DMA_INTR_STATUS_CH (of_nat i)) (BIT 0);
             ret (flags OR PXE_STATFLAGS_GET_STATUS_TRANSMIT) }
           else ret flags)
        else if bit IntStatus 14 then do {
          _ \<leftarrow> INTELGBEOutDword E (DMA_INTR_STATUS_CH (of_nat i)) IntStatus;
          ret flags }
        else ret flags);
     IntStatus \<leftarrow> INTELGBEInDword E (DMA_INTR_STATUS_CH (chan q));
     if bit IntStatus 15 then
       (if bit IntStatus 6 then do {
          _ \<leftarrow> INTELGBEOutDword E (DMA_INTR_STATUS_CH (chan q)) (BIT 6);
          ret (flags OR PXE_STATFLAGS_GET_STATUS_RECEIVE) }
        else ret flags)
     else if bit IntStatus 14 then do {
       _ \<leftarrow> INTELGBEOutDword E (DMA_INTR_STATUS_CH (chan q)) IntStatus;
       ret flags }
     else ret flags }"

fun poll_interrupts :: "'d env \<Rightarrow> nat list \<Rightarrow> u16 \<Rightarrow> ('d, u16) op" where
  "poll_interrupts E [] flags = ret flags"
| "poll_interrupts E (i # is) flags = do {
     flags \<leftarrow> poll_interrupt E i flags; poll_interrupts E is flags }"

text \<open>The transmitted buffers are written after the first eight bytes of the data block.\<close>

definition status_tx_buffers :: "'d handler" where
  "status_tx_buffers E c = do {
     let NumEntries = ucast ((ucast (DBsize c) - 8 :: u64) div 8);
     NumEntries \<leftarrow> IntelgbeFreeTxBuffers E NumEntries (DBaddr c + 8);
     let c = (if NumEntries = 0
              then c\<lparr>StatFlags := StatFlags c OR PXE_STATFLAGS_GET_STATUS_NO_TXBUFS_WRITTEN\<rparr>
              else c);
     ret (c\<lparr>DBsize := 8 + NumEntries * 8\<rparr>) }"

definition IntelgbeUndiStatus :: "'d handler" where
  "IntelgbeUndiStatus E c = do {
     g \<leftarrow> adapter;
     if DriverBusy g then ret (fail_with PXE_STATCODE_BUSY c)
     else if DBsize c < 16 then
       ret (let c = fail_with PXE_STATCODE_INVALID_CDB c in
            if OpFlags c AND PXE_OPFLAGS_GET_TRANSMITTED_BUFFERS \<noteq> 0
            then c\<lparr>StatFlags := StatFlags c OR PXE_STATFLAGS_GET_STATUS_NO_TXBUFS_WRITTEN\<rparr> else c)
     else do {
       c \<leftarrow> (if OpFlags c AND PXE_OPFLAGS_GET_TRANSMITTED_BUFFERS \<noteq> 0
            then status_tx_buffers E c else ret c);
       flags \<leftarrow> (if OpFlags c AND PXE_OPFLAGS_GET_INTERRUPT_STATUS \<noteq> 0
                then poll_interrupts E [0..<unat (max (txqnum g) (rxqnum g))] (StatFlags c)
                else ret (StatFlags c));
       flags \<leftarrow> (if OpFlags c AND PXE_OPFLAGS_GET_MEDIA_STATUS \<noteq> 0 then do {
                   up \<leftarrow> IsLinkUp E;
                   ret (if \<not> up then flags OR PXE_STATFLAGS_GET_STATUS_NO_MEDIA else flags) }
                 else ret flags);
       ret (c\<lparr>StatFlags := flags OR PXE_STATFLAGS_COMMAND_COMPLETE,
              StatCode := PXE_STATCODE_SUCCESS\<rparr>) } }"

text \<open>
  The media header at address \<open>hdr\<close>: destination, source and the unswapped protocol.  The source
  writes the two addresses byte by byte in one loop, after the protocol.
\<close>

fun copy_header_addrs :: "nat list \<Rightarrow> u64 \<Rightarrow> u64 \<Rightarrow> u64 \<Rightarrow> memory \<Rightarrow> memory" where
  "copy_header_addrs [] hdr dst src m = m"
| "copy_header_addrs (i # is) hdr dst src m =
     (let m = store8 m (hdr + of_nat i) (m (dst + of_nat i));
          m = store8 m (hdr + 6 + of_nat i) (m (src + of_nat i))
      in copy_header_addrs is hdr dst src m)"

definition fill_media_header :: "u64 \<Rightarrow> u64 \<Rightarrow> u64 \<Rightarrow> u16 \<Rightarrow> memory \<Rightarrow> memory" where
  "fill_media_header hdr dst src proto m =
     copy_header_addrs [0..<PXE_HWADDR_LEN_ETHER] hdr dst src (store16 m (hdr + 12) proto)"

definition IntelgbeUndiFillHeader :: "'d handler" where
  "IntelgbeUndiFillHeader E c =
     (if CPBsize c = 0 then ret (fail_with PXE_STATCODE_INVALID_CDB c)
      else do {
        m \<leftarrow> gets mem;
        let cpb = CPBaddr c;
        if OpFlags c AND PXE_OPFLAGS_FILL_HEADER_FRAGMENTED \<noteq> 0 then
          (if load16 m (cpb + 72) = 0 \<or> load32 m (cpb + 76 + 8) < ucast PXE_MAC_HEADER_LEN_ETHER
           then ret (fail_with PXE_STATCODE_INVALID_CDB c)
           else do {
             _ \<leftarrow> upd_mem (fill_media_header (load64 m (cpb + 76)) (cpb + 32) cpb
                             (load16 m (cpb + 68)));
             ret c })
        else do {
          _ \<leftarrow> upd_mem (fill_media_header (load64 m (cpb + 64)) (cpb + 32) cpb
                          (load16 m (cpb + 76)));
          ret c } })"

definition IntelgbeUndiTransmit :: "'d handler" where
  "IntelgbeUndiTransmit E c = do {
     g \<leftarrow> adapter;
     if DriverBusy g then ret (fail_with PXE_STATCODE_BUSY c)
     else if CPBsize c = 0 then ret (fail_with PXE_STATCODE_INVALID_CDB c)
     else do {
       code \<leftarrow> IntelgbeTransmit E (CPBaddr c) (OpFlags c);
       ret (c\<lparr>StatCode := code,
              StatFlags := (if code = PXE_STATCODE_SUCCESS then PXE_STATFLAGS_COMMAND_COMPLETE
                            else PXE_STATFLAGS_COMMAND_FAILED)\<rparr>) } }"

definition IntelgbeUndiReceive :: "'d handler" where
  "IntelgbeUndiReceive E c = do {
     g \<leftarrow> adapter;
     if DriverBusy g then ret (fail_with PXE_STATCODE_BUSY c)
     else if \<not> ReceiveStarted g then ret (fail_with PXE_STATCODE_NOT_INITIALIZED c)
     else do {
       code \<leftarrow> IntelgbeReceive E (CPBaddr c) (DBaddr c);
       ret (c\<lparr>StatCode := code,
              StatFlags := (if code = PXE_STATCODE_SUCCESS then PXE_STATFLAGS_COMMAND_COMPLETE
                            else PXE_STATFLAGS_COMMAND_FAILED)\<rparr>) } }"

section \<open>The call table\<close>

datatype undi_api =
  GetState | Start | Stop | GetInitInfo | GetConfigInfo | Initialize | Reset | Shutdown | Interrupt
| RecFilter | StnAddr | Statistics | Ip2Mac | NvData | Status | FillHeader | Transmit | Receive

record UNDI_CALL_TABLE =
  tab_CpbSize :: u16
  tab_DbSize :: u16
  tab_OpFlags :: u16
  tab_State :: u16
  tab_ApiPtr :: undi_api

abbreviation DONT_CHECK :: u16 where "DONT_CHECK \<equiv> 0xFFFF"
abbreviation ANY_STATE :: u16 where "ANY_STATE \<equiv> 0xFFFF"
abbreviation MUST_BE_STARTED :: u16 where "MUST_BE_STARTED \<equiv> 1"
abbreviation MUST_BE_INITIALIZED :: u16 where "MUST_BE_INITIALIZED \<equiv> 2"
abbreviation PXE_OPCODE_LAST_VALID :: u16 where "PXE_OPCODE_LAST_VALID \<equiv> 0x0011"

definition table_row :: "u16 \<Rightarrow> u16 \<Rightarrow> u16 \<Rightarrow> u16 \<Rightarrow> undi_api \<Rightarrow> UNDI_CALL_TABLE" where
  "table_row cs ds fl st api =
     \<lparr>tab_CpbSize = cs, tab_DbSize = ds, tab_OpFlags = fl, tab_State = st, tab_ApiPtr = api\<rparr>"

definition mIntelgbeApiTable :: "UNDI_CALL_TABLE list" where
  "mIntelgbeApiTable = [
     table_row 0 0 0 ANY_STATE GetState,
     table_row DONT_CHECK 0 0 ANY_STATE Start,
     table_row 0 0 0 MUST_BE_STARTED Stop,
     table_row 0 47 0 MUST_BE_STARTED GetInitInfo,
     table_row 0 264 0 MUST_BE_STARTED GetConfigInfo,
     table_row 26 DONT_CHECK DONT_CHECK MUST_BE_STARTED Initialize,
     table_row 0 0 DONT_CHECK MUST_BE_INITIALIZED Reset,
     table_row 0 0 0 MUST_BE_INITIALIZED Shutdown,
     table_row 0 0 DONT_CHECK MUST_BE_INITIALIZED Interrupt,
     table_row DONT_CHECK DONT_CHECK DONT_CHECK MUST_BE_INITIALIZED RecFilter,
     table_row DONT_CHECK DONT_CHECK DONT_CHECK MUST_BE_INITIALIZED StnAddr,
     table_row 0 DONT_CHECK DONT_CHECK MUST_BE_INITIALIZED Statistics,
     table_row 16 32 DONT_CHECK MUST_BE_INITIALIZED Ip2Mac,
     table_row DONT_CHECK DONT_CHECK DONT_CHECK MUST_BE_INITIALIZED NvData,
     table_row 0 DONT_CHECK DONT_CHECK MUST_BE_INITIALIZED Status,
     table_row DONT_CHECK 0 DONT_CHECK MUST_BE_INITIALIZED FillHeader,
     table_row DONT_CHECK 0 DONT_CHECK MUST_BE_INITIALIZED Transmit,
     table_row 16 80 0 MUST_BE_INITIALIZED Receive]"

definition call_api :: "undi_api \<Rightarrow> 'd handler" where
  "call_api api = (case api of
     GetState \<Rightarrow> IntelgbeUndiGetState | Start \<Rightarrow> IntelgbeUndiStart | Stop \<Rightarrow> IntelgbeUndiStop
   | GetInitInfo \<Rightarrow> IntelgbeUndiGetInitInfo | GetConfigInfo \<Rightarrow> IntelgbeUndiGetConfigInfo
   | Initialize \<Rightarrow> IntelgbeUndiInitialize | Reset \<Rightarrow> IntelgbeUndiReset
   | Shutdown \<Rightarrow> IntelgbeUndiShutdown | Interrupt \<Rightarrow> IntelgbeUndiInterrupt
   | RecFilter \<Rightarrow> IntelgbeUndiRecFilter | StnAddr \<Rightarrow> IntelgbeUndiStnAddr
   | Statistics \<Rightarrow> IntelgbeUndiStatistics | Ip2Mac \<Rightarrow> IntelgbeUndiIp2Mac
   | NvData \<Rightarrow> IntelgbeUndiNvData | Status \<Rightarrow> IntelgbeUndiStatus
   | FillHeader \<Rightarrow> IntelgbeUndiFillHeader | Transmit \<Rightarrow> IntelgbeUndiTransmit
   | Receive \<Rightarrow> IntelgbeUndiReceive)"

section \<open>The entry point\<close>

text \<open>
  \<^verbatim>\<open>mIntelgbeUndi32DeviceList[CdbPtr->IFnum]\<close> selects the adapter; \<^verbatim>\<open>IFcnt\<close> is the byte at offset
  7 of the !PXE structure, and being a byte it keeps the index within the 256 entries of the list.
\<close>

text \<open>The checks between the selection of the adapter and the call; \<open>False\<close> is \<^verbatim>\<open>goto BadCdb\<close>.\<close>

definition cdb_well_formed :: "PXE_CDB \<Rightarrow> bool" where
  "cdb_well_formed c \<longleftrightarrow>
     \<not> (OpCode c > PXE_OPCODE_LAST_VALID \<or> StatCode c \<noteq> 0 \<or> StatFlags c \<noteq> 0) \<and>
     (if CPBsize c = 0 then CPBaddr c = 0 else CPBaddr c \<noteq> 0) \<and>
     (if DBsize c = 0 then DBaddr c = 0 else DBaddr c \<noteq> 0) \<and>
     (let t = mIntelgbeApiTable ! unat (OpCode c) in
        (tab_CpbSize t = DONT_CHECK \<or> tab_CpbSize t = CPBsize c) \<and>
        (tab_DbSize t = DONT_CHECK \<or> tab_DbSize t = DBsize c) \<and>
        (tab_OpFlags t = DONT_CHECK \<or> tab_OpFlags t = OpFlags c))"

definition undi_call :: "'d env \<Rightarrow> PXE_CDB \<Rightarrow> ('d, EFI_STATUS \<times> PXE_CDB) op" where
  "undi_call E c = do {
     g \<leftarrow> adapter;
     if ExitBootServicesTriggered g
     then ret (EFI_INVALID_PARAMETER, fail_with PXE_STATCODE_NOT_INITIALIZED c)
     else do {
       _ \<leftarrow> upd_adapter (\<lambda>g. g\<lparr>VersionFlag := 0x31\<rparr>);
       if \<not> cdb_well_formed c then ret (EFI_NOT_READY, fail_with PXE_STATCODE_INVALID_CDB c)
       else do {
         let t = mIntelgbeApiTable ! unat (OpCode c);
         if tab_State t \<noteq> ANY_STATE \<and> State g = PXE_STATFLAGS_GET_STATE_STOPPED
         then ret (EFI_NOT_READY, fail_with PXE_STATCODE_NOT_STARTED c)
         else if tab_State t \<noteq> ANY_STATE \<and> tab_State t = 2
                 \<and> State g \<noteq> PXE_STATFLAGS_GET_STATE_INITIALIZED
         then ret (EFI_NOT_READY, fail_with PXE_STATCODE_NOT_INITIALIZED c)
         else do {
           c \<leftarrow> call_api (tab_ApiPtr t) E (complete c);
           ret (EFI_SUCCESS, c) } } } }"

definition IntelgbeUndiApiEntry ::
  "'d env \<Rightarrow> PXE_CDB option \<Rightarrow> ('d, EFI_STATUS \<times> PXE_CDB option) sys" where
  "IntelgbeUndiApiEntry E Cdb =
     (case Cdb of
        None \<Rightarrow> ret (EFI_INVALID_PARAMETER, None)
      | Some c \<Rightarrow> do {
          u \<leftarrow> gets id;
          if IFnum c > ucast (undi_mem u (mIntelgbePxe31 u + 7))
          then ret (EFI_INVALID_PARAMETER, Some (fail_with PXE_STATCODE_INVALID_CDB c))
          else do {
            r \<leftarrow> on_adapter (mIntelgbeUndi32DeviceList u ! unat (IFnum c)) (undi_call E c);
            (case r of
               None \<Rightarrow> ret (EFI_INVALID_PARAMETER, Some c)
             | Some (st, c') \<Rightarrow> ret (st, Some c')) } })"

section \<open>Frames of the handlers\<close>

abbreviation undi_state :: "'d world \<Rightarrow> u16" where
  "undi_state w \<equiv> State (GigAdapter w)"

lemma core_state: "keeps core m \<Longrightarrow> keeps undi_state m"
  by (rule keepsI) (auto dest: keepsD intro: core_fields)

lemma keeps_poll_interrupts [frame]: "keeps core (poll_interrupts E is fl)"
  by (induction "is" arbitrary: fl) (auto intro!: frame simp: poll_interrupt_def)

lemma keeps_core_handlers [frame]:
  "keeps core (IntelgbeUndiGetState E c)" "keeps core (IntelgbeUndiStop E c)"
  "keeps core (IntelgbeUndiGetInitInfo E c)" "keeps core (IntelgbeUndiGetConfigInfo E c)"
  "keeps core (IntelgbeUndiReset E c)" "keeps core (IntelgbeUndiShutdown E c)"
  "keeps core (IntelgbeUndiInterrupt E c)" "keeps core (IntelgbeUndiRecFilter E c)"
  "keeps core (IntelgbeUndiStatistics E c)" "keeps core (IntelgbeUndiIp2Mac E c)"
  "keeps core (IntelgbeUndiNvData E c)" "keeps core (IntelgbeUndiStatus E c)"
  "keeps core (IntelgbeUndiFillHeader E c)" "keeps core (IntelgbeUndiTransmit E c)"
  "keeps core (IntelgbeUndiReceive E c)"
  unfolding IntelgbeUndiGetState_def IntelgbeUndiStop_def IntelgbeUndiGetInitInfo_def
    IntelgbeUndiGetConfigInfo_def IntelgbeUndiReset_def IntelgbeUndiShutdown_def
    IntelgbeUndiInterrupt_def IntelgbeUndiRecFilter_def IntelgbeUndiStatistics_def
    IntelgbeUndiIp2Mac_def IntelgbeUndiNvData_def IntelgbeUndiStatus_def status_tx_buffers_def
    IntelgbeUndiFillHeader_def IntelgbeUndiTransmit_def IntelgbeUndiReceive_def
  by (auto intro!: frame)

lemma keeps_state_StnAddr: "keeps undi_state (IntelgbeUndiStnAddr E c)"
  unfolding IntelgbeUndiStnAddr_def by (auto intro!: frame)

lemma call_api_keeps_state:
  assumes "api \<noteq> Start" and "api \<noteq> Initialize"
  shows "keeps undi_state (call_api api E c)"
  using assms by (cases api) (auto simp: call_api_def keeps_state_StnAddr intro: core_state frame)

section \<open>Start and Initialize\<close>

lemma start_state:
  assumes "run_state (IntelgbeUndiStart E c) w = (c', w')"
  shows "undi_state w' = undi_state w \<or> undi_state w = 0 \<and> undi_state w' = 1"
  using assms by (auto simp: IntelgbeUndiStart_def Let_def split: if_splits)

text \<open>What \<^verbatim>\<open>IntelgbeUndiInitialize\<close> does once the guards have passed.\<close>

lemma initialize_run:
  assumes "\<not> DriverBusy (GigAdapter w)" and "undi_state w \<noteq> 2"
    and "OpFlags c = 0 \<or> OpFlags c = 1"
    and run: "run_state (IntelgbeUndiInitialize E c) w = (c', w')"
  shows "if OpFlags c = 1
    then StatFlags c' = PXE_STATFLAGS_COMMAND_COMPLETE \<and>
      undi_state w' = (if StatCode c' = PXE_STATCODE_SUCCESS then 2 else undi_state w)
    else StatCode c' = PXE_STATCODE_NOT_STARTED \<and> bit (StatFlags c') 0 \<and> undi_state w' = 1"
proof -
  define w1 where "w1 = w\<lparr>GigAdapter := (GigAdapter w)
    \<lparr>CableDetect := (if OpFlags c = PXE_OPFLAGS_INITIALIZE_DO_NOT_DETECT_CABLE then 0 else 1),
     LinkSpeed := ucast (load32 (mem w) (CPBaddr c + 12)), DuplexMode := mem w (CPBaddr c + 24),
     LoopBack := mem w (CPBaddr c + 25)\<rparr>\<rparr>"
  obtain code w2 where w2: "run_state (IntelgbeInititialize E) w1 = (code, w2)" by fastforce
  have "core w2 = core w1" using keepsD [OF keeps_IntelgbeInititialize w2] .
  then have st: "undi_state w2 = undi_state w"
    and cd: "CableDetect (GigAdapter w2) = (if OpFlags c = 1 then 0 else 1)"
    using core_fields [of w2 w1] by (simp_all add: w1_def)
  show ?thesis
    using assms w2 st cd
    by (cases "code = PXE_STATCODE_SUCCESS"; cases "OpFlags c = 1")
      (auto simp: IntelgbeUndiInitialize_def Let_def w1_def IntelgbeWaitForAutoNeg_def bit_or_iff)
qed


lemma initialize_state:
  assumes "run_state (IntelgbeUndiInitialize E c) w = (c', w')" and "undi_state w \<in> {1, 2}"
  shows "undi_state w' = undi_state w \<or> undi_state w = 1 \<and> undi_state w' = 2"
proof (cases "DriverBusy (GigAdapter w) \<or> undi_state w = 2 \<or> \<not> (OpFlags c = 0 \<or> OpFlags c = 1)")
  case True
  then have "w' = w" using assms(1) by (auto simp: IntelgbeUndiInitialize_def split: if_splits)
  then show ?thesis by simp
next
  case False
  then show ?thesis using initialize_run [OF _ _ _ assms(1)] assms(2) by (auto split: if_splits)
qed

section \<open>Dispatch\<close>

text \<open>The states in which a command whose table entry demands \<open>need\<close> is accepted.\<close>

definition state_allows :: "u16 \<Rightarrow> u16 \<Rightarrow> bool" where
  "state_allows need s \<longleftrightarrow> need = ANY_STATE \<or> s \<noteq> 0 \<and> (need = MUST_BE_INITIALIZED \<longrightarrow> s = 2)"

abbreviation api_row :: "PXE_CDB \<Rightarrow> UNDI_CALL_TABLE" where
  "api_row c \<equiv> mIntelgbeApiTable ! unat (OpCode c)"

abbreviation versioned :: "'d world \<Rightarrow> 'd world" where
  "versioned w \<equiv> w\<lparr>GigAdapter := (GigAdapter w)\<lparr>VersionFlag := 0x31\<rparr>\<rparr>"

lemma undi_call_run:
  "run_state (undi_call E c) w =
    (if ExitBootServicesTriggered (GigAdapter w)
     then ((EFI_INVALID_PARAMETER, fail_with PXE_STATCODE_NOT_INITIALIZED c), w)
     else if \<not> cdb_well_formed c then ((EFI_NOT_READY, fail_with PXE_STATCODE_INVALID_CDB c), versioned w)
     else if \<not> state_allows (tab_State (api_row c)) (undi_state w)
     then ((EFI_NOT_READY, fail_with (if undi_state w = 0 then PXE_STATCODE_NOT_STARTED
              else PXE_STATCODE_NOT_INITIALIZED) c), versioned w)
     else (case run_state (call_api (tab_ApiPtr (api_row c)) E (complete c)) (versioned w) of
             (c', w') \<Rightarrow> ((EFI_SUCCESS, c'), w')))"
  by (auto simp: undi_call_def state_allows_def Let_def split: prod.splits)

lemma api_table_states: "tab_State t \<in> {ANY_STATE, MUST_BE_STARTED, MUST_BE_INITIALIZED}" if "t \<in> set mIntelgbeApiTable"
  using that by (auto simp: mIntelgbeApiTable_def table_row_def)

lemma length_api_table: "length mIntelgbeApiTable = 18"
  by (simp add: mIntelgbeApiTable_def)

lemma well_formed_row: "cdb_well_formed c \<Longrightarrow> api_row c \<in> set mIntelgbeApiTable"
  by (auto simp: cdb_well_formed_def length_api_table word_le_nat_alt not_less intro!: nth_mem)

lemma initialize_row: "t \<in> set mIntelgbeApiTable \<Longrightarrow> tab_ApiPtr t = Initialize \<Longrightarrow> tab_State t = MUST_BE_STARTED"
  by (auto simp: mIntelgbeApiTable_def table_row_def)

section \<open>The state machine of the interface\<close>

text \<open>
  The steps of an adapter: a command through the entry point, and anything the hardware, the network
  and the client do to memory, rings and registers.
\<close>

inductive undi_step :: "'d env \<Rightarrow> 'd world \<Rightarrow> (PXE_CDB \<times> EFI_STATUS \<times> PXE_CDB) option \<Rightarrow> 'd world \<Rightarrow> bool" for E where
  command: "run_state (undi_call E c) w = ((st, c'), w') \<Longrightarrow> undi_step E w (Some (c, st, c')) w'"
| outside: "core w' = core w \<Longrightarrow> undi_step E w None w'"

inductive_cases undi_step_SomeE: "undi_step E w (Some (c, st, c')) w'"
inductive_cases undi_step_NoneE: "undi_step E w None w'"

lemma undi_step_state:
  assumes step: "undi_step E w e w'" and inv: "undi_state w \<in> {0, 1, 2}"
  shows "undi_state w' = undi_state w \<or>
    (\<exists>c st c'. e = Some (c, st, c') \<and>
       (tab_ApiPtr (api_row c) = Start \<and> undi_state w = 0 \<and> undi_state w' = 1 \<or>
        tab_ApiPtr (api_row c) = Initialize \<and> undi_state w = 1 \<and> undi_state w' = 2))"
  using step
proof cases
  case (command c st c')
  show ?thesis
  proof (cases "ExitBootServicesTriggered (GigAdapter w) \<or> \<not> cdb_well_formed c \<or>
      \<not> state_allows (tab_State (api_row c)) (undi_state w)")
    case True
    with command show ?thesis by (auto simp: undi_call_run split: if_splits)
  next
    case False
    let ?api = "tab_ApiPtr (api_row c)"
    have run: "run_state (call_api ?api E (complete c)) (versioned w) = (c', w')"
      using False command by (auto simp: undi_call_run split: prod.splits)
    consider "?api = Start" | "?api = Initialize" | "?api \<noteq> Start \<and> ?api \<noteq> Initialize" by blast
    then show ?thesis
    proof cases
      case 1
      with run start_state [of E "complete c" "versioned w"] command show ?thesis
        by (auto simp: call_api_def)
    next
      case 2
      have "undi_state w \<noteq> 0"
        using False initialize_row [OF well_formed_row 2] by (simp add: state_allows_def)
      with 2 run initialize_state [of E "complete c" "versioned w"] inv command show ?thesis
        by (auto simp: call_api_def)
    next
      case 3
      then show ?thesis using keepsD [OF call_api_keeps_state run] by simp
    qed
  qed
next
  case outside
  then show ?thesis using core_fields by blast
qed


text \<open>A machine whose steps never lower its rank; runs do not either.\<close>

locale ranked_machine =
  fixes step :: "'s \<Rightarrow> 'e \<Rightarrow> 's \<Rightarrow> bool" and inv :: "'s \<Rightarrow> bool" and rank :: "'s \<Rightarrow> nat"
  assumes keeps_inv: "inv s \<Longrightarrow> step s e t \<Longrightarrow> inv t"
    and climbs: "inv s \<Longrightarrow> step s e t \<Longrightarrow> rank s \<le> rank t"
begin

lemma trace_climbs: "trace step s es t \<Longrightarrow> inv s \<Longrightarrow> inv t \<and> rank s \<le> rank t"
  by (induction rule: trace.induct) (use keeps_inv climbs order_trans in blast)+

end

interpretation undi_machine: ranked_machine "undi_step E" "\<lambda>w. undi_state w \<in> {0, 1, 2}"
  "\<lambda>w. unat (undi_state w)" for E
proof
  fix w w' :: "'a world" and e
  assume inv: "undi_state w \<in> {0, 1, 2}" and step: "undi_step E w e w'"
  from undi_step_state [OF step inv] inv show "undi_state w' \<in> {0, 1, 2}" by auto
  from undi_step_state [OF step inv] inv show "unat (undi_state w) \<le> unat (undi_state w')" by auto
qed

section \<open>Properties of the command interface\<close>

definition idle_world :: "u16 \<Rightarrow> memory \<Rightarrow> unit world" where
  "idle_world s m = (ring_world () m)\<lparr>GigAdapter := (GigAdapter (ring_world () m))\<lparr>State := s\<rparr>\<rparr>"

definition zero_cdb :: PXE_CDB where
  "zero_cdb = \<lparr>OpCode = 0, OpFlags = 0, CPBsize = 0, DBsize = 0, CPBaddr = 0, DBaddr = 0, StatCode = 0,
     StatFlags = 0, IFnum = 0, Control = 0\<rparr>"

lemma idle_world_simps [simp]: "undi_state (idle_world s m) = s" "mem (idle_world s m) = m"
  "\<not> ExitBootServicesTriggered (GigAdapter (idle_world s m))" "\<not> DriverBusy (GigAdapter (idle_world s m))"
  by (simp_all add: idle_world_def ring_world_def zero_adapter_def)

text \<open>
  The commands in the order of their operation codes.  The first two are accepted in every state, the next four
  on a started interface, the others on an initialised one.
\<close>

definition pxe_commands :: "undi_api list" where
  "pxe_commands = [GetState, Start, Stop, GetInitInfo, GetConfigInfo, Initialize, Reset, Shutdown, Interrupt,
     RecFilter, StnAddr, Statistics, Ip2Mac, NvData, Status, FillHeader, Transmit, Receive]"

lemma api_table_rows:
  "i < 18 \<Longrightarrow> tab_ApiPtr (mIntelgbeApiTable ! i) = pxe_commands ! i \<and>
     tab_State (mIntelgbeApiTable ! i) =
       (if i < 2 then ANY_STATE else if i < 6 then MUST_BE_STARTED else MUST_BE_INITIALIZED)"
  by (auto simp: mIntelgbeApiTable_def pxe_commands_def table_row_def less_Suc_eq eval_nat_numeral)

lemma well_formed_rows:
  assumes "cdb_well_formed c"
  shows "tab_ApiPtr (api_row c) = pxe_commands ! unat (OpCode c)"
    and "state_allows (tab_State (api_row c)) s \<longleftrightarrow> \<not> (2 \<le> OpCode c \<and> s = 0) \<and> \<not> (6 \<le> OpCode c \<and> s \<noteq> 2)"
proof -
  have "unat (OpCode c) < 18" using assms by (simp add: cdb_well_formed_def word_le_nat_alt not_less)
  then show "tab_ApiPtr (api_row c) = pxe_commands ! unat (OpCode c)"
    "state_allows (tab_State (api_row c)) s \<longleftrightarrow> \<not> (2 \<le> OpCode c \<and> s = 0) \<and> \<not> (6 \<le> OpCode c \<and> s \<noteq> 2)"
    using api_table_rows by (auto simp: state_allows_def word_le_nat_alt)
qed

text \<open>
  C13.  Dispatch, on every branch.  After the end of boot services a command is refused as not initialised, and
  nothing changes.  Otherwise the version of the entry point is recorded in the adapter, and nothing else changes when
  the command is refused: a malformed block as \<^verbatim>\<open>INVALID_CDB\<close>, a command from code 2 up on a stopped interface as
  \<^verbatim>\<open>NOT_STARTED\<close>, and one from code 6 up on an interface that is not initialised as \<^verbatim>\<open>NOT_INITIALIZED\<close>.  Every other
  command runs the handler of its operation code on the block marked complete, and the result is the
  handler's.
\<close>

theorem undi_call_dispatch:
  assumes "run_state (undi_call E c) w = ((st, c'), w')"
  shows "if ExitBootServicesTriggered (GigAdapter w)
    then st = EFI_INVALID_PARAMETER \<and> c' = fail_with PXE_STATCODE_NOT_INITIALIZED c \<and> w' = w
    else if \<not> cdb_well_formed c
    then st = EFI_NOT_READY \<and> c' = fail_with PXE_STATCODE_INVALID_CDB c \<and> w' = versioned w
    else if 2 \<le> OpCode c \<and> undi_state w = PXE_STATFLAGS_GET_STATE_STOPPED
    then st = EFI_NOT_READY \<and> c' = fail_with PXE_STATCODE_NOT_STARTED c \<and> w' = versioned w
    else if 6 \<le> OpCode c \<and> undi_state w \<noteq> PXE_STATFLAGS_GET_STATE_INITIALIZED
    then st = EFI_NOT_READY \<and> c' = fail_with PXE_STATCODE_NOT_INITIALIZED c \<and> w' = versioned w
    else st = EFI_SUCCESS \<and>
      run_state (call_api (pxe_commands ! unat (OpCode c)) E (complete c)) (versioned w) = (c', w')"
proof (cases "cdb_well_formed c")
  case True
  have "6 \<le> OpCode c \<Longrightarrow> 2 \<le> OpCode c" by (simp add: word_le_nat_alt)
  then show ?thesis
    using assms True
    by (auto simp: undi_call_run well_formed_rows [OF True] split: if_splits prod.splits)
qed (use assms in \<open>auto simp: undi_call_run split: if_splits\<close>)

theorem undi_call_dispatch_witness:
  "\<exists>w'. run_state (undi_call dead_env (zero_cdb\<lparr>OpCode := 2\<rparr>)) (idle_world 0 (\<lambda>_. 0)) =
     ((EFI_NOT_READY, fail_with PXE_STATCODE_NOT_STARTED (zero_cdb\<lparr>OpCode := 2\<rparr>)), w') \<and>
     w' = versioned (idle_world 0 (\<lambda>_. 0))"
proof -
  let ?c = "zero_cdb\<lparr>OpCode := 2\<rparr>"
  obtain st c' w' where run: "run_state (undi_call dead_env ?c) (idle_world 0 (\<lambda>_. 0)) = ((st, c'), w')"
    by (metis prod.exhaust)
  have row: "api_row ?c = table_row 0 0 0 MUST_BE_STARTED Stop"
    by (simp add: zero_cdb_def mIntelgbeApiTable_def)
  have "cdb_well_formed ?c"
    using row by (simp add: cdb_well_formed_def table_row_def) (simp add: zero_cdb_def)
  with undi_call_dispatch [OF run] run show ?thesis by simp
qed

text \<open>
  C15.  The interface's state machine: from one of its three states an adapter only ever reaches these
  three, and no sequence of commands and outside events lowers the state; in particular \<^verbatim>\<open>Stop\<close> does not
  bring a started adapter back to stopped and \<^verbatim>\<open>Shutdown\<close> an initialised one back to started.
\<close>

theorem undi_state_monotone:
  assumes "undi_state w \<in> {0, 1, 2}" and "trace (undi_step E) w es w'"
  shows "undi_state w' \<in> {0, 1, 2} \<and> undi_state w \<le> undi_state w'"
  using undi_machine.trace_climbs [OF assms(2,1)] by (simp add: word_le_nat_alt)

theorem undi_state_monotone_witness:
  "\<exists>st c' w'. trace (undi_step dead_env) (idle_world 1 (\<lambda>_. 0)) [Some (zero_cdb\<lparr>OpCode := 2\<rparr>, st, c')] w' \<and>
     1 \<le> undi_state w'"
proof -
  obtain st c' w' where run: "run_state (undi_call dead_env (zero_cdb\<lparr>OpCode := 2\<rparr>)) (idle_world 1 (\<lambda>_. 0)) = ((st, c'), w')"
    by (metis prod.exhaust)
  note tr = trace_cons [where step = "undi_step dead_env", OF undi_step.command [OF run] trace_nil]
  from undi_state_monotone [OF _ tr] tr show ?thesis by (simp add: idle_world_simps(1)) blast
qed

text \<open>
  C14.  Only two commands move the state: \<^verbatim>\<open>Start\<close> from stopped to started, and \<^verbatim>\<open>Initialize\<close> from started
  to initialised.
\<close>

theorem undi_state_transitions:
  assumes "undi_state w \<in> {0, 1, 2}" and "run_state (undi_call E c) w = ((st, c'), w')"
    and "undi_state w' \<noteq> undi_state w"
  shows "tab_ApiPtr (api_row c) = Start \<and> undi_state w = 0 \<and> undi_state w' = 1 \<or>
    tab_ApiPtr (api_row c) = Initialize \<and> undi_state w = 1 \<and> undi_state w' = 2"
  using undi_step_state [OF undi_step.command [OF assms(2)] assms(1)] assms(3) by blast

theorem undi_state_transitions_witness:
  "\<exists>st c' w'. run_state (undi_call dead_env (zero_cdb\<lparr>OpCode := 1, CPBsize := 32, CPBaddr := 64\<rparr>))
      (idle_world 0 (\<lambda>_. 0)) = ((st, c'), w') \<and> undi_state w' = 1"
proof -
  let ?c = "zero_cdb\<lparr>OpCode := 1, CPBsize := 32, CPBaddr := 64\<rparr>" and ?w = "idle_world 0 (\<lambda>_. 0)"
  obtain st c' w' where run: "run_state (undi_call dead_env ?c) ?w = ((st, c'), w')"
    by (metis prod.exhaust)
  have row: "api_row ?c = table_row DONT_CHECK 0 0 ANY_STATE Start"
    by (simp add: zero_cdb_def mIntelgbeApiTable_def)
  have "cdb_well_formed ?c"
    using row by (simp add: cdb_well_formed_def table_row_def) (simp add: zero_cdb_def)
  with run row have "undi_state w' \<noteq> undi_state ?w"
    by (auto simp: undi_call_run state_allows_def table_row_def call_api_def IntelgbeUndiStart_def Let_def
        zero_cdb_def sizeof_PXE_CPB_START_30_def split: prod.splits if_splits)
  with undi_state_transitions [OF _ run] run show ?thesis by auto
qed

text \<open>
  C31.  The outcomes of \<^verbatim>\<open>IntelgbeUndiInitialize\<close> on a started adapter: with cable detection it always
  reports no media and stays started, because the wait for auto-negotiation never succeeds; without, it
  always reports completion, and the adapter is initialised exactly when the status code is success, so a
  failed hardware initialisation shows in the status code only.
\<close>

theorem initialize_outcomes:
  assumes "\<not> DriverBusy (GigAdapter w)" and "undi_state w = 1" and "OpFlags c = 0 \<or> OpFlags c = 1"
    and "run_state (IntelgbeUndiInitialize E c) w = (c', w')"
  shows "if OpFlags c = 1
    then StatFlags c' = PXE_STATFLAGS_COMMAND_COMPLETE \<and>
      (undi_state w' = 2 \<longleftrightarrow> StatCode c' = PXE_STATCODE_SUCCESS)
    else StatCode c' = PXE_STATCODE_NOT_STARTED \<and> bit (StatFlags c') 0 \<and> undi_state w' = 1"
  using initialize_run [OF assms(1) _ assms(3,4)] assms(2) by (simp split: if_splits)

theorem initialize_outcomes_witness:
  "\<exists>c' w'. run_state (IntelgbeUndiInitialize dead_env zero_cdb) (idle_world 1 (\<lambda>_. 0)) = (c', w') \<and>
     StatCode c' = PXE_STATCODE_NOT_STARTED \<and> undi_state w' = 1"
proof -
  obtain c' w' where run: "run_state (IntelgbeUndiInitialize dead_env zero_cdb) (idle_world 1 (\<lambda>_. 0)) = (c', w')"
    by fastforce
  have "OpFlags zero_cdb = 0" by (simp add: zero_cdb_def)
  with initialize_outcomes [OF _ _ _ run] run show ?thesis by simp
qed

section \<open>Memory effects of the handlers\<close>

lemma keeps_mem_poll_interrupts [frame]: "keeps mem (poll_interrupts E is fl)"
  by (induction "is" arbitrary: fl) (auto intro!: frame simp: poll_interrupt_def get_rx_queue_def)

lemma status_tx_buffers_mem:
  assumes inv: "tx_inv w" and run: "run_state (status_tx_buffers E c) w = (c', w')" and size: "16 \<le> DBsize c"
    and out: "unat (DBsize c) \<le> unat (x - DBaddr c)"
  shows "mem w' x = mem w x"
proof -
  define n where "n = (ucast ((ucast (DBsize c) - 8 :: u64) div 8) :: u16)"
  obtain k w1 where free: "run_state (IntelgbeFreeTxBuffers E n (DBaddr c + 8)) w = (k, w1)" by fastforce
  have w1: "mem w1 = store_bytes (mem w) (DBaddr c + 8)
      (le_addrs (map fst (take (tx_released (unat n) (tx_abs w)) (tx_abs w))))"
    using free_tx_buffers_run [OF inv refl, of E n "DBaddr c + 8"] free by auto
  have w': "w' = w1" using run free by (auto simp: status_tx_buffers_def Let_def n_def split: if_splits)
  have ds: "16 \<le> unat (DBsize c)" using size by (simp add: word_le_nat_alt)
  have "unat (ucast (DBsize c) - 8 :: u64) = unat (DBsize c) - 8"
    using unat_diff_of_nat [of 8 "ucast (DBsize c)"] ds by (simp add: unat_ucast_up)
  then have "unat n \<le> (unat (DBsize c) - 8) div 8"
    by (simp add: n_def unsigned_ucast_eq unat_div_distrib take_bit_nat_less_eq_self)
  then have "8 * unat n + 8 \<le> unat (DBsize c)" using ds by linarith
  moreover have "tx_released (unat n) (tx_abs w) \<le> unat n" by (rule tx_released_le)
  ultimately have "8 * tx_released (unat n) (tx_abs w) \<le> unat (x - DBaddr c) - 8" using out by linarith
  moreover have "unat (x - DBaddr c - of_nat 8) = unat (x - DBaddr c) - 8"
    by (rule unat_diff_of_nat) (use out ds in linarith)
  ultimately have "8 * tx_released (unat n) (tx_abs w) \<le> unat (x - (DBaddr c + 8))"
    by (simp add: algebra_simps)
  then show ?thesis by (simp add: w' w1 store_bytes_other)
qed

text \<open>
  C24.  \<^verbatim>\<open>IntelgbeUndiStatus\<close> writes memory only inside the data block the caller described: whatever the
  number of completed frames, no byte at or beyond \<^verbatim>\<open>DBaddr + DBsize\<close> and none before \<^verbatim>\<open>DBaddr\<close> changes.
\<close>

theorem status_stays_in_db:
  assumes "tx_inv w" and "run_state (IntelgbeUndiStatus E c) w = (c', w')"
    and "unat (DBsize c) \<le> unat (x - DBaddr c)"
  shows "mem w' x = mem w x"
proof (cases "DriverBusy (GigAdapter w) \<or> DBsize c < 16")
  case True
  with assms(2) show ?thesis by (auto simp: IntelgbeUndiStatus_def split: if_splits)
next
  case False
  define tail where "tail g c = do {
       flags \<leftarrow> (if OpFlags c AND PXE_OPFLAGS_GET_INTERRUPT_STATUS \<noteq> 0
                then poll_interrupts E [0..<unat (max (txqnum g) (rxqnum g))] (StatFlags c)
                else ret (StatFlags c));
       flags \<leftarrow> (if OpFlags c AND PXE_OPFLAGS_GET_MEDIA_STATUS \<noteq> 0 then do {
                   up \<leftarrow> IsLinkUp E;
                   ret (if \<not> up then flags OR PXE_STATFLAGS_GET_STATUS_NO_MEDIA else flags) }
                 else ret flags);
       ret (c\<lparr>StatFlags := flags OR PXE_STATFLAGS_COMMAND_COMPLETE,
              StatCode := PXE_STATCODE_SUCCESS\<rparr>) }" for g :: GIG_DRIVER_DATA and c :: PXE_CDB
  have tail: "keeps mem (tail g c)" for g c unfolding tail_def by (auto intro!: frame)
  obtain c1 w1 where head: "run_state (if OpFlags c AND PXE_OPFLAGS_GET_TRANSMITTED_BUFFERS \<noteq> 0
      then status_tx_buffers E c else ret c) w = (c1, w1)" by fastforce
  have "run_state (tail (GigAdapter w) c1) w1 = (c', w')"
    using assms(2) False head by (simp add: IntelgbeUndiStatus_def tail_def)
  then have "mem w' = mem w1" by (rule keepsD [OF tail])
  moreover have "mem w1 x = mem w x"
    using head assms status_tx_buffers_mem [OF assms(1) _ _ assms(3)] False
    by (auto split: if_splits simp: not_less)
  ultimately show ?thesis by simp
qed


theorem status_stays_in_db_witness:
  "\<exists>c' w'. run_state (IntelgbeUndiStatus dead_env (zero_cdb\<lparr>OpFlags := 2, DBsize := 64, DBaddr := 0x1000\<rparr>))
      (ring_world () (\<lambda>_. 0)) = (c', w') \<and> mem w' 0x2000 = 0"
proof -
  obtain c' w' where run: "run_state (IntelgbeUndiStatus dead_env
      (zero_cdb\<lparr>OpFlags := 2, DBsize := 64, DBaddr := 0x1000\<rparr>)) (ring_world () (\<lambda>_. 0)) = (c', w')"
    by fastforce
  from status_stays_in_db [OF ring_world_inv run, of "0x2000"] run show ?thesis by simp
qed

section \<open>Multicast addresses and media headers\<close>

lemma store8_other: "x \<noteq> a \<Longrightarrow> store8 m a v x = m x"
  by (simp add: store8_def store_bytes_def unat_eq_zero)

lemma store8_same [simp]: "store8 m a v a = v"
  by (simp add: store8_def store_bytes_def)


lemma disjoint_neq:
  assumes "disjoint_ranges a n b k" "i < n" "j < k"
  shows "a + of_nat i \<noteq> b + of_nat j"
proof
  assume "a + of_nat i = b + of_nat j"
  then have "a + of_nat i - b = of_nat j" by simp
  moreover have "k \<le> unat (a + of_nat i - b)" using assms by (simp add: disjoint_ranges_def)
  ultimately have "k \<le> unat (of_nat j :: u64)" by simp
  also have "unat (of_nat j :: u64) \<le> j" by (simp add: unat_of_nat)
  finally show False using assms(3) by simp
qed




lemma small_of_nat_eq: "i < 64 \<Longrightarrow> j < 64 \<Longrightarrow> (of_nat i :: u64) = of_nat j \<longleftrightarrow> i = j"
  by (auto simp: word_unat_eq_iff unat_of_nat)

lemma copy_header_other:
  "(\<forall>i \<in> set is. x \<noteq> hdr + of_nat i \<and> x \<noteq> hdr + 6 + of_nat i) \<Longrightarrow>
     copy_header_addrs is hdr dst src m x = m x"
  by (induction "is" arbitrary: m) (simp_all add: Let_def store8_other)

lemma copy_header_at:
  assumes "distinct is" "set is \<subseteq> {..<6}" "i \<in> set is"
    and "disjoint_ranges dst 6 hdr 14" "disjoint_ranges src 6 hdr 14"
  shows "copy_header_addrs is hdr dst src m (hdr + of_nat i) = m (dst + of_nat i) \<and>
    copy_header_addrs is hdr dst src m (hdr + 6 + of_nat i) = m (src + of_nat i)"
  using assms(1-3)
proof (induction "is" arbitrary: m)
  case (Cons k ks)
  have split: "hdr + 6 + of_nat n = hdr + of_nat (6 + n)" for n by simp
  have far: "dst + of_nat a \<noteq> hdr + of_nat b" "src + of_nat a \<noteq> hdr + of_nat b" if "a < 6" "b < 14" for a b
    using disjoint_neq [OF assms(4) that] disjoint_neq [OF assms(5) that] by auto
  have ki: "k < 6" "i < 6" using Cons.prems by auto
  have own: "hdr + of_nat a = hdr + of_nat b \<longleftrightarrow> a = b" if "a < 14" "b < 14" for a b
    using that by (simp add: small_of_nat_eq)
  let ?m1 = "store8 m (hdr + of_nat k) (m (dst + of_nat k))"
  have s1: "?m1 (src + of_nat k) = m (src + of_nat k)" by (rule store8_other) (rule far; use ki in simp)
  define m2 where "m2 = store8 ?m1 (hdr + 6 + of_nat k) (m (src + of_nat k))"
  have step: "copy_header_addrs (k # ks) hdr dst src m = copy_header_addrs ks hdr dst src m2"
    by (simp add: Let_def m2_def s1)
  have m2: "m2 x = m x" if "x \<noteq> hdr + of_nat k" "x \<noteq> hdr + of_nat (6 + k)" for x
    using that by (simp add: m2_def split store8_other)
  show ?case
  proof (cases "i = k")
    case False
    then have "i \<in> set ks" using Cons.prems by simp
    moreover have "m2 (dst + of_nat i) = m (dst + of_nat i)" "m2 (src + of_nat i) = m (src + of_nat i)"
      by (rule m2; rule far; use ki in simp)+
    ultimately show ?thesis using Cons.IH [of m2] Cons.prems unfolding step by simp
  next
    case True
    have kept: "copy_header_addrs ks hdr dst src m2 (hdr + of_nat n) = m2 (hdr + of_nat n)"
      if "n = k \<or> n = 6 + k" for n
    proof (rule copy_header_other, intro ballI)
      fix j assume "j \<in> set ks"
      then have "j < 6" "j \<noteq> k" using Cons.prems by auto
      then show "hdr + of_nat n \<noteq> hdr + of_nat j \<and> hdr + of_nat n \<noteq> hdr + 6 + of_nat j"
        unfolding split using own [of n j] own [of n "6 + j"] ki that by linarith
    qed
    have "copy_header_addrs ks hdr dst src m2 (hdr + of_nat k) = m2 (hdr + of_nat k)"
      "copy_header_addrs ks hdr dst src m2 (hdr + of_nat (6 + k)) = m2 (hdr + of_nat (6 + k))"
      by (rule kept; simp)+
    moreover have "m2 (hdr + of_nat (6 + k)) = m (src + of_nat k)" unfolding m2_def split by (rule store8_same)
    moreover have "m2 (hdr + of_nat k) = m (dst + of_nat k)"
      unfolding m2_def split by (subst store8_other) (use own [of k "6 + k"] ki in auto)
    ultimately show ?thesis unfolding True step split by simp
  qed
qed simp


lemma fill_media_header_bytes:
  assumes "disjoint_ranges dst 6 hdr 14" "disjoint_ranges src 6 hdr 14"
    and m': "m' = fill_media_header hdr dst src proto m"
  shows "load_bytes m' hdr 6 = load_bytes m dst 6 \<and> load_bytes m' (hdr + 6) 6 = load_bytes m src 6 \<and>
    load16 m' (hdr + 12) = proto"
proof -
  let ?m0 = "store16 m (hdr + 12) proto"
  have at: "m' (hdr + of_nat i) = ?m0 (dst + of_nat i)" "m' (hdr + 6 + of_nat i) = ?m0 (src + of_nat i)" if "i < 6" for i
    using copy_header_at [OF _ _ _ assms(1,2), of "[0..<6]" i ?m0] that by (auto simp: m' fill_media_header_def atLeast0LessThan)
  have "load_bytes ?m0 dst 6 = load_bytes m dst 6" "load_bytes ?m0 src 6 = load_bytes m src 6"
    using disjoint_sub [OF assms(1), of 0 6 12 2] disjoint_sub [OF assms(2), of 0 6 12 2]
    by (simp_all add: store16_def load_store_other)
  moreover have "load_bytes m' hdr 6 = load_bytes ?m0 dst 6" "load_bytes m' (hdr + 6) 6 = load_bytes ?m0 src 6"
    by (auto simp: load_bytes_def at)
  moreover have "m' (hdr + 12 + of_nat i) = ?m0 (hdr + 12 + of_nat i)" if "i < 2" for i
    unfolding m' fill_media_header_def
  proof (rule copy_header_other, intro ballI)
    fix j assume "j \<in> set [0..<6]"
    then have "j < 6" by simp
    then show "hdr + 12 + of_nat i \<noteq> hdr + of_nat j \<and> hdr + 12 + of_nat i \<noteq> hdr + 6 + of_nat j"
      using small_of_nat_eq [of "12 + i" j] small_of_nat_eq [of "12 + i" "6 + j"] that
      by (simp add: add.assoc)
  qed
  then have "load_bytes m' (hdr + 12) 2 = load_bytes ?m0 (hdr + 12) 2"
    by (auto simp: load_bytes_def)
  then have "load16 m' (hdr + 12) = proto" by (simp add: load16_def) (metis load16_def load16_store16)
  ultimately show ?thesis by simp
qed

text \<open>
  \<^verbatim>\<open>IntelgbeUndiFillHeader\<close> on an unfragmented frame builds the Ethernet header at the frame's start:
  destination and source address from the parameter block, then the protocol, when the header does not
  overlap the block.
\<close>

theorem fill_header_builds:
  assumes "run_state (IntelgbeUndiFillHeader E c) w = (c', w')"
    and "CPBsize c \<noteq> 0" and "\<not> bit (OpFlags c) 0"
    and hdr: "hdr = load64 (mem w) (CPBaddr c + 64)"
    and disj: "disjoint_ranges (CPBaddr c) 80 hdr 14"
  shows "c' = c \<and> load_bytes (mem w') hdr 6 = load_bytes (mem w) (CPBaddr c + 32) 6 \<and>
    load_bytes (mem w') (hdr + 6) 6 = load_bytes (mem w) (CPBaddr c) 6 \<and>
    load16 (mem w') (hdr + 12) = load16 (mem w) (CPBaddr c + 76)"
proof -
  have flag: "OpFlags c AND 1 = 0"
    using and_BIT_eq_0 [of "OpFlags c" 0] assms(3) by (simp add: BIT_def)
  have "c' = c" and m': "mem w' = fill_media_header hdr (CPBaddr c + 32) (CPBaddr c)
      (load16 (mem w) (CPBaddr c + 76)) (mem w)"
    using assms(1,2) flag by (auto simp: IntelgbeUndiFillHeader_def Let_def hdr)
  moreover have "disjoint_ranges (CPBaddr c + 32) 6 hdr 14" "disjoint_ranges (CPBaddr c) 6 hdr 14"
    using disjoint_sub [OF disj, of 32 6 0 14] disjoint_sub [OF disj, of 0 6 0 14] by simp_all
  ultimately show ?thesis using fill_media_header_bytes by blast
qed

theorem fill_header_builds_witness:
  "\<exists>c' w'. run_state (IntelgbeUndiFillHeader dead_env (zero_cdb\<lparr>CPBsize := 80, CPBaddr := 0x1000\<rparr>))
      (ring_world () (\<lambda>_. 0)) = (c', w') \<and> load16 (mem w') 12 = 0"
proof -
  let ?c = "zero_cdb\<lparr>CPBsize := 80, CPBaddr := 0x1000\<rparr>" and ?w = "ring_world () (\<lambda>_. 0)"
  obtain c' w' where run: "run_state (IntelgbeUndiFillHeader dead_env ?c) ?w = (c', w')" by fastforce
  have "\<not> bit (OpFlags ?c) 0" by (simp add: zero_cdb_def)
  moreover have "load64 (mem ?w) (CPBaddr ?c + 64) = 0" by (simp add: load64_def)
  moreover have "disjoint_ranges (CPBaddr ?c) 80 0 14"
    using disjoint_offsets [of "0x1000" 80 0 14 0] by simp
  ultimately show ?thesis using fill_header_builds [OF run] run by (simp add: load16_def)
qed

text \<open>
  While the driver is stopped for an update (\<^verbatim>\<open>DriverBusy\<close>), the five commands that touch the hardware
  report \<^verbatim>\<open>BUSY\<close> and change nothing.
\<close>

theorem busy_handlers_inert:
  assumes "DriverBusy (GigAdapter w)"
    and "h \<in> {IntelgbeUndiInitialize, IntelgbeUndiRecFilter, IntelgbeUndiStatus, IntelgbeUndiTransmit,
      IntelgbeUndiReceive}"
  shows "run_state (h E c) w =
    (c\<lparr>StatFlags := PXE_STATFLAGS_COMMAND_FAILED, StatCode := PXE_STATCODE_BUSY\<rparr>, w)"
  using assms by (auto simp: IntelgbeUndiInitialize_def IntelgbeUndiRecFilter_def IntelgbeUndiStatus_def
      IntelgbeUndiTransmit_def IntelgbeUndiReceive_def)

theorem busy_handlers_inert_witness:
  "let w = (ring_world () (\<lambda>_. 0))\<lparr>GigAdapter := zero_adapter\<lparr>DriverBusy := True\<rparr>\<rparr> in
     run_state (IntelgbeUndiTransmit dead_env zero_cdb) w =
       (zero_cdb\<lparr>StatFlags := PXE_STATFLAGS_COMMAND_FAILED, StatCode := PXE_STATCODE_BUSY\<rparr>, w)"
  unfolding Let_def by (rule busy_handlers_inert) simp_all

end
