(* ===== verification/Undi_Safety.thy ===== *)
theory Undi_Safety
  imports Undi_Boot Undi_Decode
begin

text \<open>
  Safety of a running adapter.  \<open>adapter_ok\<close> says what the code relies on wherever it indexes a ring or
  calls through an operation slot: the rings and the list of mappings have their size, the indices lie
  within, and the slots are installed; and that no such access has gone wrong so far.  A successful first
  initialisation establishes it, and every command, with any parameters, over any hardware and any client,
  preserves it.
\<close>

section \<open>A running adapter\<close>

text \<open>The slots that are called through.\<close>

definition slots_installed :: "intelgbe_hw \<Rightarrow> bool" where
  "slots_installed h \<longleftrightarrow>
     (let m = mac_ops (mac h); p = phy_ops (phy h) in
      check_for_link m \<and> reset_hw m \<and> init_hw m \<and> uninit_hw m \<and> read_mac_addr m \<and> write_mac_addr m \<and> get_id m \<and>
      link_status_change p \<noteq> None \<and> phy_status p \<noteq> None)"

definition txq_ok :: "intelgbe_tx_queue \<Rightarrow> bool" where
  "txq_ok q \<longleftrightarrow> unat (dirty_tx q) < ring_size \<and> unat (cur_tx q) < ring_size \<and> length (tx_ring q) = ring_size"

definition rxq_ok :: "intelgbe_rx_queue \<Rightarrow> bool" where
  "rxq_ok r \<longleftrightarrow> unat (cur_rx r) < ring_size \<and> length (rx_ring r) = ring_size"

definition one_queue :: "GIG_DRIVER_DATA \<Rightarrow> bool" where
  "one_queue g \<longleftrightarrow> length (tx_queue g) = 1 \<and> length (rx_queue g) = 1 \<and> txqnum g = 1 \<and> rxqnum g = 1"

text \<open>The invariant; before the rings are programmed it holds with \<open>ready\<close> false.\<close>

definition gig_ok :: "bool \<Rightarrow> GIG_DRIVER_DATA \<Rightarrow> bool" where
  "gig_ok ready g \<longleftrightarrow> one_queue g \<and> slots_installed (Hw g) \<and>
     (ready \<longrightarrow> txq_ok (tx_queue g ! 0) \<and> rxq_ok (rx_queue g ! 0) \<and> length (TxBufferMappings g) = ring_size)"

definition adapter_inv :: "bool \<Rightarrow> 'd world \<Rightarrow> bool" where
  "adapter_inv ready w \<longleftrightarrow> gig_ok ready (GigAdapter w) \<and> \<not> fault w"

abbreviation adapter_ok :: "'d world \<Rightarrow> bool" where
  "adapter_ok \<equiv> adapter_inv True"

lemma adapter_okD:
  assumes "adapter_ok w"
  shows "tx_inv w" "rx_inv w"
  using assms by (auto simp: adapter_inv_def gig_ok_def one_queue_def txq_ok_def rxq_ok_def tx_inv_def rx_inv_def Let_def)

lemma adapter_okI:
  "adapter_inv b w \<Longrightarrow> tx_inv w \<Longrightarrow> rx_inv w \<Longrightarrow> adapter_ok w"
  by (simp add: adapter_inv_def gig_ok_def txq_ok_def rxq_ok_def tx_inv_def rx_inv_def Let_def)

text \<open>\<open>safe P m\<close>: \<open>m\<close> preserves \<open>P\<close>.\<close>

abbreviation safe :: "('s \<Rightarrow> bool) \<Rightarrow> ('s, 'a) state \<Rightarrow> bool" where
  "safe P m \<equiv> ensures P m (\<lambda>_. True)"

lemma keeps_safe: "keeps P m \<Longrightarrow> safe P m"
  by (auto simp: ensures_def dest: keepsD)

lemma safe_bind: "safe P m \<Longrightarrow> (\<And>r. safe P (k r)) \<Longrightarrow> safe P (State_Monad.bind m k)"
  by (rule ensures_bind) simp_all

lemma safe_any: "ensures P m R \<Longrightarrow> safe P m"
  by (rule ensures_mono) simp_all

section \<open>Steps over the rings\<close>

lemma host_adapter_inv [simp]: "host (adapter_inv b)"
  by (simp add: host_def adapter_inv_def gig_ok_def)

lemma adapter_inv_simps [simp]:
  "adapter_inv b (w\<lparr>mem := m\<rparr>) = adapter_inv b w" "adapter_inv b (w\<lparr>dev := d\<rparr>) = adapter_inv b w"
  by (simp_all add: adapter_inv_def gig_ok_def)

named_theorems safety "introduction rules for safe adapter_ok"

lemmas safe_rules [safety] = ensures_return ensures_gets

lemma get_tx_queue_ok [safety]: "ensures (adapter_inv b) (get_tx_queue 0) (\<lambda>q. b \<longrightarrow> txq_ok q)"
  by (auto simp: ensures_def get_tx_queue_def adapter_inv_def gig_ok_def one_queue_def Let_def)

lemma get_rx_queue_ok [safety]: "ensures (adapter_inv b) (get_rx_queue 0) (\<lambda>q. b \<longrightarrow> rxq_ok q)"
  by (auto simp: ensures_def get_rx_queue_def adapter_inv_def gig_ok_def one_queue_def Let_def)

lemma set_tx_queue_ok [safety]: "(b \<Longrightarrow> txq_ok q) \<Longrightarrow> safe (adapter_inv b) (set_tx_queue 0 q)"
  by (auto simp: ensures_def set_tx_queue_def adapter_inv_def gig_ok_def one_queue_def Let_def)

lemma set_rx_queue_ok [safety]: "(b \<Longrightarrow> rxq_ok q) \<Longrightarrow> safe (adapter_inv b) (set_rx_queue 0 q)"
  by (auto simp: ensures_def set_rx_queue_def adapter_inv_def gig_ok_def one_queue_def Let_def)

lemma get_tx_desc_ok [safety]: "unat e < ring_size \<Longrightarrow> safe adapter_ok (get_tx_desc e)"
  by (auto simp: ensures_def run_get_tx_desc [OF adapter_okD(1)])

lemma set_tx_desc_ok [safety]: "safe adapter_ok (set_tx_desc e d)"
  unfolding set_tx_desc_def by (rule safety ensures_bind)+ (simp add: txq_ok_def)

lemma get_tx_mapping_ok [safety]: "unat e < ring_size \<Longrightarrow> safe adapter_ok (get_tx_mapping e)"
  by (auto simp: ensures_def run_get_tx_mapping [OF adapter_okD(1)])

lemma set_tx_mapping_ok [safety]: "safe adapter_ok (set_tx_mapping e m)"
  by (auto simp: ensures_def run_set_tx_mapping adapter_inv_def gig_ok_def one_queue_def Let_def)

lemma get_rx_desc_ok [safety]: "unat e < ring_size \<Longrightarrow> safe adapter_ok (get_rx_desc e)"
  by (auto simp: ensures_def get_rx_desc_def get_rx_queue_def adapter_inv_def gig_ok_def one_queue_def rxq_ok_def Let_def)

section \<open>The data path\<close>

lemma unmap_ok [safety]: "safe adapter_ok (UndiDmaUnmapMemory E p m)"
  unfolding UndiDmaUnmapMemory_def by (rule keeps_safe) (auto intro!: frame)

lemma map_read_ok [safety]: "safe adapter_ok (UndiDmaMapMemoryRead E p m)"
  unfolding UndiDmaMapMemoryRead_def by (rule keeps_safe) (auto intro!: frame)

lemma map_mem_ok [safety]: "safe adapter_ok (IntelgbeMapMem E v n a)"
  unfolding IntelgbeMapMem_def by (rule keeps_safe) (auto intro!: frame)

lemma out_dword_ok [safety]: "safe (adapter_inv b) (INTELGBEOutDword E p v)"
  by (rule keeps_safe) (simp add: frame)

lemma in_dword_ok [safety]: "safe (adapter_inv b) (INTELGBEInDword E p)"
  by (rule keeps_safe) (simp add: frame)

lemma upd_mem_ok [safety]: "safe (adapter_inv b) (upd_mem f)"
  by (simp add: ensures_def)

lemma free_tx_loop_ok:
  "unat e < ring_size \<Longrightarrow> ensures adapter_ok (free_tx_loop E TB n e c) (\<lambda>(e', _). unat e' < ring_size)"
proof (induction n arbitrary: e c)
  case (Suc n)
  have "ensures adapter_ok (free_tx_loop E TB n ((e + 1) AND (of_nat DEFAULT_TX_DESCRIPTORS - 1)) c')
      (\<lambda>(e', _). unat e' < ring_size)" for c'
    using Suc.IH [OF ring_next_less [OF Suc.prems]] mask_next [OF Suc.prems] by simp
  with Suc.prems show ?case
    unfolding free_tx_loop.simps
    by (intro ensures_bind [OF get_tx_queue_ok] ensures_bind [OF get_tx_desc_ok] ensures_bind [OF get_tx_mapping_ok]
        ensures_bind [OF ensures_gets] ensures_bind [OF unmap_ok] ensures_bind [OF upd_mem_ok]
        ensures_bind [OF set_tx_mapping_ok] ensures_bind [OF set_tx_desc_ok] ensures_if ensures_case_prod
        ensures_return) simp_all
qed (simp add: outcome)

lemma free_tx_buffers_ok [safety]: "safe adapter_ok (IntelgbeFreeTxBuffers E n TB)"
  unfolding IntelgbeFreeTxBuffers_def
  by (rule ensures_bind [OF get_tx_queue_ok] ensures_bind [OF free_tx_loop_ok] ensures_case_prod
      ensures_bind [OF set_tx_queue_ok] ensures_return TrueI | (simp add: txq_ok_def; fail))+

lemma advance_ok [safety]: "safe adapter_ok advance_cur_tx"
  unfolding advance_cur_tx_def by (rule ensures_bind [OF get_tx_queue_ok] set_tx_queue_ok)+
    (simp add: txq_ok_def ring_next_less)

lemma update_tail_ok [safety]: "safe adapter_ok (update_tx_tail E)"
  unfolding update_tx_tail_def
  by (rule ensures_bind [OF get_tx_queue_ok] ensures_Let ensures_bind [OF set_tx_queue_ok] out_dword_ok
      | (simp add: txq_ok_def; fail))+

lemma fill_fragment_ok [safety]: "unat e < ring_size \<Longrightarrow> safe adapter_ok (fill_fragment E Cpb i e l)"
  unfolding fill_fragment_def
  by (rule ensures_bind [OF ensures_gets] ensures_bind [OF get_tx_desc_ok] ensures_bind [OF map_mem_ok] ensures_Let
      set_tx_desc_ok | assumption)+

lemma safe_for_each: "(\<And>x. x \<in> set xs \<Longrightarrow> safe P (f x)) \<Longrightarrow> safe P (for_each xs f)"
  by (induction xs) (auto intro!: ensures_return safe_bind)

lemma transmit_fragments_ok [safety]:
  "unat e < ring_size \<Longrightarrow> safe adapter_ok (transmit_fragments E Cpb e)"
  unfolding transmit_fragments_def
  by (rule ensures_bind [OF ensures_gets] safe_bind safe_for_each ensures_bind [OF get_tx_queue_ok] ensures_Let
      advance_ok fill_fragment_ok update_tail_ok | assumption | (simp add: txq_ok_def; fail))+

lemma transmit_linear_ok [safety]: "unat e < ring_size \<Longrightarrow> safe adapter_ok (transmit_linear E Cpb e)"
  unfolding transmit_linear_def
  by (rule ensures_bind [OF ensures_gets] ensures_bind [OF get_tx_mapping_ok] ensures_Let ensures_bind [OF map_read_ok]
      ensures_case_prod ensures_bind [OF set_tx_mapping_ok] ensures_bind [OF get_tx_desc_ok]
      ensures_bind [OF set_tx_desc_ok] update_tail_ok | assumption)+

lemma transmit_ok [safety]: "safe adapter_ok (IntelgbeTransmit E Cpb f)"
  unfolding IntelgbeTransmit_def
  by (rule ensures_bind [OF get_tx_queue_ok] ensures_bind [OF ensures_gets] ensures_Let ensures_if(1)
      ensures_bind [OF advance_ok] safe_bind ensures_if(3) transmit_fragments_ok transmit_linear_ok ensures_return
      TrueI | (simp add: txq_ok_def; fail))+

lemma receive_ok [safety]: "safe adapter_ok (IntelgbeReceive E Cpb Db)"
  unfolding IntelgbeReceive_def
  by (rule ensures_bind [OF get_rx_queue_ok] ensures_Let ensures_bind [OF get_rx_desc_ok] ensures_if
      ensures_bind [OF ensures_gets] safe_bind upd_mem_ok ensures_return set_rx_queue_ok out_dword_ok
      TrueI | (simp add: rxq_ok_def word_le_nat_alt; fail))+

section \<open>The controller\<close>

lemma phy_blind_adapter_inv [simp]: "phy_blind (adapter_inv b)"
  by (simp add: phy_blind_def adapter_inv_def gig_ok_def one_queue_def slots_installed_def host_def Let_def)

lemma safe_upd_adapter [safety]:
  "(\<And>w :: 'd world. adapter_inv b w \<Longrightarrow> adapter_inv b (w\<lparr>GigAdapter := f (GigAdapter w)\<rparr>)) \<Longrightarrow>
    safe (adapter_inv b :: 'd world \<Rightarrow> bool) (upd_adapter f)"
  by (auto simp: ensures_def)

lemma call_link_status_change_ok [safety]:
  "t \<noteq> None \<Longrightarrow> safe (adapter_inv b) (call_phy_link_status_change E t x)"
  by (rule keeps_safe, cases t; cases "the t")
    (simp_all add: call_phy_link_status_change_def keeps_marvell_88e1512_link_status_change
      keeps_maxlinear_gpyxxx_link_status_change keeps_m88e2110_link_status_change)

lemma call_phy_status_ok [safety]: "t \<noteq> None \<Longrightarrow> safe (adapter_inv b) (call_phy_status E t x)"
  by (rule keeps_safe, cases t; cases "the t")
    (simp_all add: call_phy_status_def keeps_marvell_88e1512_read_status keeps_maxlinear_gpyxxx_read_status
      keeps_m88e2110_read_status)

lemmas upd_ok_simps = adapter_inv_def gig_ok_def one_queue_def slots_installed_def Let_def

lemma link_status_ok [safety]: "safe (adapter_inv b) (intelgbe_link_status E x)"
  unfolding intelgbe_link_status_def
  by (rule ensures_bind [OF ensures_gets] safe_bind ensures_case_prod ensures_if ensures_return TrueI safety
      | (auto simp: upd_ok_simps; fail))+

lemma is_link_up_ok [safety]: "safe (adapter_inv b) (IsLinkUp E)"
  unfolding IsLinkUp_def
  by (rule ensures_bind [OF ensures_gets] safe_bind ensures_case_prod ensures_if ensures_return TrueI link_status_ok
      | (auto simp: upd_ok_simps ensures_def; fail))+

lemma one_round: "one_queue g \<Longrightarrow> i \<in> set [0..<unat (txqnum g)] \<Longrightarrow> i = 0"
  "one_queue g \<Longrightarrow> i \<in> set [0..<unat (rxqnum g)] \<Longrightarrow> i = 0"
  "one_queue g \<Longrightarrow> i \<in> set [0..<unat (max (txqnum g) (rxqnum g))] \<Longrightarrow> i = 0"
  by (auto simp: one_queue_def)

lemma adapter_one_queue: "ensures (adapter_inv b) adapter one_queue"
  by (simp add: ensures_def adapter_inv_def gig_ok_def Let_def)

lemma dma_init_tx_ok [safety]: "safe (adapter_inv b) (dma_init_tx_queue E 0)"
  unfolding dma_init_tx_queue_def
  by (rule ensures_bind [OF get_tx_queue_ok] ensures_bind [OF ensures_gets] safe_bind ensures_Let out_dword_ok
      set_tx_queue_ok | (simp add: txq_ok_def; fail))+

lemma dma_init_rx_ok [safety]: "safe (adapter_inv b) (dma_init_rx_queue E 0)"
  unfolding dma_init_rx_queue_def
  by (rule ensures_bind [OF get_rx_queue_ok] ensures_bind [OF ensures_gets] safe_bind ensures_Let out_dword_ok
      set_rx_queue_ok | (simp add: rxq_ok_def intelgbe_dma_rx_desc_init_def; fail))+

lemma dma_init_ok [safety]: "safe (adapter_inv b) (intelgbe_dma_init E)"
  unfolding intelgbe_dma_init_def
  by (rule ensures_bind [OF adapter_one_queue] safe_bind safe_for_each out_dword_ok ensures_return TrueI
      | (drule (1) one_round, simp add: safety; fail))+

lemma mtl_init_ok [safety]: "safe (adapter_inv b) (intelgbe_mtl_init E)"
  unfolding intelgbe_mtl_init_def mtl_map_rx_queue_def
  by (rule ensures_bind [OF adapter_one_queue] safe_bind safe_for_each out_dword_ok ensures_return TrueI ensures_Let
      in_dword_ok | (drule (1) one_round, simp add: safe_any [OF get_rx_queue_ok]; fail)
      | (simp add: one_queue_def ensures_return; fail))+

lemma mac_init_ok [safety]: "safe (adapter_inv b) (intelgbe_mac_init E)"
  unfolding intelgbe_mac_init_def
  by (rule ensures_bind [OF ensures_gets] safe_bind ensures_case_prod ensures_if ensures_return TrueI safety
      | (auto simp: upd_ok_simps; fail))+

lemma mac_enable_interrupts_ok [safety]: "safe (adapter_inv b) (intelgbe_mac_enable_interrupts E)"
  unfolding intelgbe_mac_enable_interrupts_def
  by (rule keeps_safe) (auto intro!: frame)

lemma mac_start_ok [safety]: "safe (adapter_inv b) (intelgbe_mac_start_transaction E)"
  unfolding intelgbe_mac_start_transaction_def
  by (rule ensures_bind [OF adapter_one_queue] safe_bind safe_for_each out_dword_ok ensures_return TrueI ensures_Let
      in_dword_ok safe_upd_adapter | (drule (1) one_round, simp add: safe_any [OF get_rx_queue_ok]; fail)
      | (simp add: upd_ok_simps; fail))+

lemma init_hw_ok [safety]: "safe (adapter_inv b) (intelgbe_init_hw E)"
  unfolding intelgbe_init_hw_def intelgbe_init_controller_def
  by (rule ensures_bind [OF ensures_gets] safe_bind ensures_if ensures_return TrueI safety)+

lemma read_mac_ok [safety]: "safe (adapter_inv b) (intelgbe_read_mac_addr_generic E)"
  unfolding intelgbe_read_mac_addr_generic_def intelgbe_read_mac_addr_def
  by (rule ensures_bind [OF ensures_gets] safe_bind ensures_if ensures_return TrueI safety
      | (simp add: upd_ok_simps; fail))+

lemma inititialize_ok [safety]: "safe (adapter_inv b) (IntelgbeInititialize E)"
  unfolding IntelgbeInititialize_def
  by (rule ensures_bind [OF ensures_gets] safe_bind ensures_if ensures_return TrueI safety
      | (simp add: upd_ok_simps; fail))+

section \<open>The handlers\<close>

lemma poll_interrupts_ok [safety]:
  "(\<And>i. i \<in> set is \<Longrightarrow> i = 0) \<Longrightarrow> safe adapter_ok (poll_interrupts E is fl)"
proof (induction "is" arbitrary: fl)
  case (Cons i "is")
  have "safe adapter_ok (poll_interrupt E 0 fl)"
    unfolding poll_interrupt_def
    by (rule ensures_bind [OF get_rx_queue_ok] safe_bind ensures_if ensures_return TrueI safety)+
  with Cons show ?case by (auto intro!: safe_bind)
qed (simp add: safety)

lemma status_ok [safety]: "safe adapter_ok (IntelgbeUndiStatus E c)"
  unfolding IntelgbeUndiStatus_def status_tx_buffers_def
  by (rule ensures_bind [OF adapter_one_queue] safe_bind ensures_if ensures_Let ensures_return TrueI safety
      | (drule (1) one_round; simp; fail))+

lemma initialize_ok [safety]: "safe adapter_ok (IntelgbeUndiInitialize E c)"
  unfolding IntelgbeUndiInitialize_def IntelgbeWaitForAutoNeg_def
  by (rule ensures_bind [OF ensures_gets] safe_bind ensures_if ensures_Let ensures_return TrueI safety
      | (simp add: upd_ok_simps; fail))+

lemma station_ok [safety]: "safe adapter_ok (IntelgbeUndiStnAddr E c)"
  unfolding IntelgbeUndiStnAddr_def
  by (rule ensures_bind [OF ensures_gets] safe_bind ensures_if ensures_Let ensures_return TrueI safety
      | (simp add: upd_ok_simps; fail))+

lemma start_ok [safety]: "safe adapter_ok (IntelgbeUndiStart E c)"
  unfolding IntelgbeUndiStart_def
  by (rule ensures_bind [OF ensures_gets] safe_bind ensures_if ensures_Let ensures_return TrueI safety
      | (simp add: upd_ok_simps; fail))+

lemma other_handlers_ok [safety]:
  "safe adapter_ok (IntelgbeUndiGetState E c)" "safe adapter_ok (IntelgbeUndiGetInitInfo E c)"
  "safe adapter_ok (IntelgbeUndiRecFilter E c)" "safe adapter_ok (IntelgbeUndiIp2Mac E c)"
  "safe adapter_ok (IntelgbeUndiFillHeader E c)" "safe adapter_ok (IntelgbeUndiTransmit E c)"
  "safe adapter_ok (IntelgbeUndiReceive E c)"
  unfolding IntelgbeUndiGetState_def IntelgbeUndiGetInitInfo_def IntelgbeUndiRecFilter_def IntelgbeUndiIp2Mac_def
    IntelgbeUndiFillHeader_def IntelgbeUndiTransmit_def IntelgbeUndiReceive_def
  by (rule ensures_bind [OF ensures_gets] safe_bind ensures_if ensures_Let ensures_return TrueI safety)+

lemma call_api_ok: "safe adapter_ok (call_api api E c)"
  by (cases api) (simp_all add: call_api_def safety IntelgbeUndiStop_def IntelgbeUndiGetConfigInfo_def
      IntelgbeUndiReset_def IntelgbeUndiShutdown_def IntelgbeUndiInterrupt_def IntelgbeUndiStatistics_def
      IntelgbeUndiNvData_def)

lemma undi_call_ok: "safe adapter_ok (undi_call E c)"
  unfolding undi_call_def
  by (rule ensures_bind [OF ensures_gets] safe_bind ensures_if ensures_Let ensures_return TrueI call_api_ok
      safe_upd_adapter | (simp add: upd_ok_simps; fail))+

section \<open>After the first initialisation\<close>

definition mac_side :: "'d world \<Rightarrow> intelgbe_mac_operations \<times> bool \<times> bool" where
  "mac_side w = (mac_ops (mac (Hw (GigAdapter w))), fault w, one_queue (GigAdapter w))"

lemma mac_side_blind [simp]: "phy_blind mac_side"
  by (simp add: phy_blind_def mac_side_def host_def one_queue_def)

lemma setup_slots:
  assumes "run_state (intelgbe_setup_init_funcs E True) w = (0, w')" and "\<not> fault w" "one_queue (GigAdapter w)"
  shows "adapter_inv False w'"
proof -
  have scan: "mac_side t = mac_side s" if "run_state (mii_phy_id_get E) s = (r, t)" for r s t
    by (rule keepsD [OF keeps_mii_phy_id_get [OF mac_side_blind] that])
  show ?thesis
    using assms
    by (auto simp: intelgbe_setup_init_funcs_def intelgbe_set_mac_type_def intelgbe_init_function_pointers_stmmac_def
        intelgbe_init_mac_params_def intelgbe_init_mac_ops_def intelgbe_init_phy_params_def
        intelgbe_init_phy_params_stmmac_def intelgbe_init_phy_ops_def intelgbe_init_phy_ops_marvell_88e1512_def
        intelgbe_init_phy_ops_maxlinear_gpyxxx_def intelgbe_init_phy_ops_marvell_88e2110_def install_phy_ops_def
        split: prod.splits option.splits if_splits phy_type.splits dest!: scan)
      (auto simp: mac_side_def adapter_inv_def gig_ok_def slots_installed_def one_queue_def Let_def)
qed

lemma bring_up_steps_ok [safety]:
  "safe (adapter_inv b) (intelgbe_get_id E)" "safe (adapter_inv b) (intelgbe_reset E)"
  "safe (adapter_inv b) (intelgbe_write_mac_addr_generic E)" "safe (adapter_inv b) (intelgbe_xpcs_init E)"
  "safe (adapter_inv b) (intelgbe_phy_init E)"
  by (rule keeps_safe, rule frame, simp)+

lemma modphy_ok [safety]: "safe (adapter_inv b) (intelgbe_modphy_init E)"
  unfolding intelgbe_modphy_init_def modphy_rate_def
  by (rule keeps_safe) (auto intro!: frame simp: upd_ok_simps)

lemma first_time_hw_ok: "safe (adapter_inv False) (first_time_hw E)"
  unfolding first_time_hw_def
  by (rule ensures_bind [OF ensures_gets] ensures_bind [OF get_tx_queue_ok] ensures_bind [OF get_rx_queue_ok]
      safe_bind ensures_if ensures_return TrueI safety | (simp add: upd_ok_simps; fail))+

lemma first_time_init_ok:
  assumes run: "run_state (IntelgbeFirstTimeInit E) w = (EFI_SUCCESS, w')"
    and qs: "tx_queue (GigAdapter w) = [q]" "rx_queue (GigAdapter w) = [r]" and "\<not> fault w"
  shows "adapter_inv False w'"
proof -
  define v where "v = snd (run_state (from_pci E) w)"
  have "one_queue (GigAdapter v)" "\<not> fault v"
    using assms(2-4) unfolding v_def
    by (auto simp: from_pci_def read_pci_config_def fill_adapter_def get_rx_queue_def set_rx_queue_def one_queue_def
        split: prod.splits option.splits)
  note v = this
  define rest where "rest = (do {
       v \<leftarrow> intelgbe_get_id E;
       _ \<leftarrow> upd_adapter (\<lambda>g. g\<lparr>DeviceId := of_int v\<rparr>);
       did \<leftarrow> gets (\<lambda>w. DeviceId (GigAdapter w));
       if did < 0x50 then ret EFI_UNSUPPORTED
       else do {
         retval \<leftarrow> intelgbe_read_mac_addr_generic E;
         if retval \<noteq> INTELGBE_SUCCESS then ret EFI_UNSUPPORTED
         else first_time_hw E } })"
  have step: "safe (adapter_inv False) rest" unfolding rest_def
    by (rule ensures_bind [OF ensures_gets] safe_bind ensures_if ensures_return TrueI safety first_time_hw_ok
      | (simp add: upd_ok_simps; fail))+
  obtain x v1 where x: "run_state (intelgbe_setup_init_funcs E True) v = (x, v1)" by fastforce
  have "run_state (bring_up E) v = (EFI_SUCCESS, w')"
    using run by (simp add: first_time_init_split v_def)
  with x have "x = 0" "run_state rest v1 = (EFI_SUCCESS, w')"
    unfolding bring_up_def rest_def [symmetric] by (auto split: if_splits)
  with setup_slots [OF x [unfolded \<open>x = 0\<close>] v(2,1)] ensuresD [OF step] show ?thesis by blast
qed

section \<open>Sessions\<close>

text \<open>
  The steps of a session: commands through the entry point, and everything the controller, the network and
  the client do in between.  The controller may rewrite every descriptor, and memory and registers may
  change at will.
\<close>

inductive session_step :: "'d env \<Rightarrow> 'd world \<Rightarrow> (PXE_CDB \<times> PXE_CDB) option \<Rightarrow> 'd world \<Rightarrow> bool" for E where
  command: "run_state (undi_call E c) w = ((st, c'), w') \<Longrightarrow> session_step E w (Some (c, c')) w'"
| outside: "length tr = length (tx_ring (txq w)) \<Longrightarrow> length rr = length (rx_ring (rxq w)) \<Longrightarrow>
    session_step E w None (w\<lparr>dev := d, mem := m, GigAdapter := (GigAdapter w)\<lparr>
      tx_queue := (tx_queue (GigAdapter w))[0 := (txq w)\<lparr>tx_ring := tr\<rparr>],
      rx_queue := (rx_queue (GigAdapter w))[0 := (rxq w)\<lparr>rx_ring := rr\<rparr>]\<rparr>\<rparr>)"

lemma session_step_ok: "session_step E w e w' \<Longrightarrow> adapter_ok w \<Longrightarrow> adapter_ok w'"
  by (induction rule: session_step.induct)
    (use ensuresD [OF undi_call_ok] in blast, simp add: upd_ok_simps txq_ok_def rxq_ok_def)

lemma session_ok: "trace (session_step E) w es w' \<Longrightarrow> adapter_ok w \<Longrightarrow> adapter_ok w'"
  by (induction rule: trace.induct) (auto dest: session_step_ok)

text \<open>
  C5.  Safety of a session.  Once the first initialisation of a fresh adapter has reported success, no
  sequence of commands, with whatever parameters, over whatever the hardware and the client do in between,
  makes the driver index a ring or the list of mappings out of range or call an operation slot that is not
  installed; the ring indices stay within the rings, and both rings keep their size.
\<close>

theorem session_safe:
  assumes "run_state (IntelgbeFirstTimeInit E) w = (EFI_SUCCESS, w1)" and "\<not> fault w"
    and "tx_queue (GigAdapter w) = [q]" "rx_queue (GigAdapter w) = [r]" "dirty_tx q = 0"
    and "length (TxBufferMappings (GigAdapter w)) = DEFAULT_TX_DESCRIPTORS"
    and "trace (session_step E) w1 es w2"
  shows "\<not> fault w2 \<and> tx_inv w2 \<and> rx_inv w2 \<and> slots_installed (Hw (GigAdapter w2))"
proof -
  have "adapter_inv False w1" using first_time_init_ok [OF assms(1,3,4,2)] .
  moreover have "tx_inv w1" "rx_inv w1" using rings_established [OF assms(1,3-6)] by simp_all
  ultimately have "adapter_ok w2" using session_ok [OF assms(7)] adapter_okI by blast
  then show ?thesis using adapter_okD by (auto simp: adapter_inv_def gig_ok_def)
qed

theorem session_safe_witness:
  "\<exists>w1 c' w2. run_state (IntelgbeFirstTimeInit boot_env) boot_world = (EFI_SUCCESS, w1) \<and>
     trace (session_step boot_env) w1 [Some (zero_cdb, c')] w2 \<and> \<not> fault w2 \<and> tx_inv w2"
proof -
  obtain w1 where run: "run_state (IntelgbeFirstTimeInit boot_env) boot_world = (EFI_SUCCESS, w1)"
    using boot_runs by blast
  obtain st c' w2 where "run_state (undi_call boot_env zero_cdb) w1 = ((st, c'), w2)" by (metis prod.exhaust)
  then have tr: "trace (session_step boot_env) w1 [Some (zero_cdb, c')] w2"
    by (blast intro: trace.intros session_step.command)
  have "\<not> fault boot_world"
    "tx_queue (GigAdapter boot_world) = [zero_tx_queue\<lparr>tx_ring := replicate DEFAULT_TX_DESCRIPTORS zero_desc\<rparr>]"
    "rx_queue (GigAdapter boot_world) = [zero_rx_queue\<lparr>rx_ring := replicate DEFAULT_RX_DESCRIPTORS zero_desc,
       rx_buff := 0x100000, dma_rx_buff := 0x100000\<rparr>]"
    "length (TxBufferMappings (GigAdapter boot_world)) = DEFAULT_TX_DESCRIPTORS"
    by (simp_all add: boot_world_def ring_world_def zero_adapter_def del: replicate.simps)
  from session_safe [OF run this(1-3) _ this(4) tr] run tr show ?thesis by (auto simp: zero_tx_queue_def)
qed

end
