(* ===== verification/Undi_Device.thy ===== *)
theory Undi_Device
  imports Undi_System
begin

text \<open>
  \<^verbatim>\<open>Brand.c\<close> and \<^verbatim>\<open>DeviceSupport.c\<close>: the table of supported devices and the look-ups in it.
\<close>

section \<open>The branding table\<close>

record BRAND_STRUCT =
  VendorId :: u16
  SubvendorId :: u16
  BrandDeviceId :: u16
  SubsystemId :: u16
  BrandString :: string

abbreviation INVALID_ID :: u16 where "INVALID_ID \<equiv> 0xFFFF"
abbreviation WILD_CARD :: u16 where "WILD_CARD \<equiv> 0x0000"

definition brand :: "u16 \<Rightarrow> u16 \<Rightarrow> u16 \<Rightarrow> u16 \<Rightarrow> string \<Rightarrow> BRAND_STRUCT" where
  "brand v sv d s str =
     \<lparr>VendorId = v, SubvendorId = sv, BrandDeviceId = d, SubsystemId = s, BrandString = str\<rparr>"

definition mBrandingTable :: "BRAND_STRUCT list" where
  "mBrandingTable = [
     brand 0x8086 0x8086 0x4b32 0x7270 ''Ethernet controller: Intel Corporation Device 4b32'',
     brand 0x8086 0x8086 0x4ba0 0x7270 ''Ethernet controller: Intel Corporation Device 4ba0'',
     brand 0x8086 0x8086 0x4ba1 0x7270 ''Ethernet controller: Intel Corporation Device 4ba1'',
     brand 0x8086 0x8086 0x4ba2 0x7270 ''Ethernet controller: Intel Corporation Device 4ba2'',
     brand 0x8086 0x8086 0x4bb0 0x7270 ''Ethernet controller: Intel Corporation Device 4bb0'',
     brand 0x8086 0x8086 0x4bb1 0x7270 ''Ethernet controller: Intel Corporation Device 4bb1'',
     brand 0x8086 0x8086 0x4bb2 0x7270 ''Ethernet controller: Intel Corporation Device 4bb2'',
     brand 0x8086 0x8086 0x43ac 0x7270 ''Ethernet controller: Intel Corporation Device 43ac'',
     brand 0x8086 0x8086 0x43a2 0x7270 ''Ethernet controller: Intel Corporation Device 43a2'',
     brand 0x8086 0x8086 0xa0ac 0x7270 ''Ethernet controller: Intel Corporation Device a0ac'',
     brand INVALID_ID INVALID_ID INVALID_ID INVALID_ID '''']"

section \<open>Look-up\<close>

text \<open>The four identifiers of a device: vendor, device, subvendor, subsystem.\<close>

type_synonym pci_ids = "u16 \<times> u16 \<times> u16 \<times> u16"

definition exact_match :: "pci_ids \<Rightarrow> BRAND_STRUCT \<Rightarrow> bool" where
  "exact_match ids b = (case ids of (v, d, sv, sd) \<Rightarrow>
     v = VendorId b \<and> d = BrandDeviceId b \<and> sv = SubvendorId b \<and> sd = SubsystemId b)"

text \<open>
  The loop of the inexact look-up.  The accumulators are \<^verbatim>\<open>SubvendorMatch\<close>, \<^verbatim>\<open>DeviceMatch\<close> and
  \<^verbatim>\<open>VendorMatch\<close> (\<open>None\<close> is -1, otherwise the table entry); a subsystem match ends the loop, and
  the four are examined in that order when it ends.
\<close>

fun best_match ::
  "pci_ids \<Rightarrow> BRAND_STRUCT list \<Rightarrow> BRAND_STRUCT option \<Rightarrow> BRAND_STRUCT option \<Rightarrow>
   BRAND_STRUCT option \<Rightarrow> BRAND_STRUCT option" where
  "best_match ids [] svm dm vm =
     (case svm of Some b \<Rightarrow> Some b | None \<Rightarrow> (case dm of Some b \<Rightarrow> Some b | None \<Rightarrow> vm))"
| "best_match (v, d, sv, sd) (b # bs) svm dm vm =
     (if v = VendorId b then
        (if d = BrandDeviceId b then
           (if sv = SubvendorId b then
              (if sd = SubsystemId b then Some b
               else if SubsystemId b = WILD_CARD then best_match (v, d, sv, sd) bs (Some b) dm vm
               else best_match (v, d, sv, sd) bs svm dm vm)
            else if SubvendorId b = WILD_CARD then best_match (v, d, sv, sd) bs svm (Some b) vm
            else best_match (v, d, sv, sd) bs svm dm vm)
         else if BrandDeviceId b = WILD_CARD then best_match (v, d, sv, sd) bs svm dm (Some b)
         else best_match (v, d, sv, sd) bs svm dm vm)
      else best_match (v, d, sv, sd) bs svm dm vm)"

definition FindDeviceInTableByIds ::
  "BRAND_STRUCT list \<Rightarrow> u16 \<Rightarrow> u16 \<Rightarrow> u16 \<Rightarrow> u16 \<Rightarrow> bool \<Rightarrow> BRAND_STRUCT option" where
  "FindDeviceInTableByIds table v d sv sd ExactMatch =
     (if ExactMatch then find (exact_match (v, d, sv, sd)) table
      else best_match (v, d, sv, sd) table None None None)"

definition FindDeviceInTable :: "UNDI_PRIVATE_DATA \<Rightarrow> bool \<Rightarrow> BRAND_STRUCT option" where
  "FindDeviceInTable p ExactMatch =
     (let Nic = Hw (NicInfo p)
      in FindDeviceInTableByIds mBrandingTable (vendor_id Nic) (device_id Nic)
           (subsystem_vendor_id Nic) (subsystem_device_id Nic) ExactMatch)"

definition GetDeviceBrandingString :: "UNDI_PRIVATE_DATA \<Rightarrow> string option" where
  "GetDeviceBrandingString p = map_option BrandString (FindDeviceInTable p False)"

definition IsDeviceIdSupported :: "u16 \<Rightarrow> u16 \<Rightarrow> bool" where
  "IsDeviceIdSupported v d \<longleftrightarrow>
     v = INTEL_VENDOR_ID \<and>
     list_ex (\<lambda>b. BrandDeviceId b \<noteq> INVALID_ID \<and> d = BrandDeviceId b) mBrandingTable"

section \<open>The look-up as a search by priority\<close>

text \<open>The specification: the first answer of a list of searches.\<close>

definition orelse :: "'a option \<Rightarrow> 'a option \<Rightarrow> 'a option" where
  "orelse x y = (case x of None \<Rightarrow> y | Some a \<Rightarrow> Some a)"

definition first_some :: "'a option list \<Rightarrow> 'a option" where
  "first_some xs = foldr orelse xs None"

lemma orelse_simps [simp]:
  "orelse None y = y" "orelse (Some a) y = Some a" "orelse x None = x"
  "orelse (orelse x y) z = orelse x (orelse y z)"
  by (auto simp: orelse_def split: option.split)

lemma first_some_simps [simp]:
  "first_some [] = None" "first_some (x # xs) = orelse x (first_some xs)"
  by (simp_all add: first_some_def)

lemma find_snoc: "find P (xs @ [x]) = orelse (find P xs) (if P x then Some x else None)"
  by (induction xs) auto

text \<open>An entry that names the vendor, device and subvendor and leaves the subsystem open, and so on.\<close>

definition any_subsystem :: "pci_ids \<Rightarrow> BRAND_STRUCT \<Rightarrow> bool" where
  "any_subsystem ids b = (case ids of (v, d, sv, sd) \<Rightarrow>
     v = VendorId b \<and> d = BrandDeviceId b \<and> sv = SubvendorId b \<and> SubsystemId b = WILD_CARD)"

definition any_subvendor :: "pci_ids \<Rightarrow> BRAND_STRUCT \<Rightarrow> bool" where
  "any_subvendor ids b = (case ids of (v, d, sv, sd) \<Rightarrow>
     v = VendorId b \<and> d = BrandDeviceId b \<and> sv \<noteq> SubvendorId b \<and> SubvendorId b = WILD_CARD)"

definition any_device :: "pci_ids \<Rightarrow> BRAND_STRUCT \<Rightarrow> bool" where
  "any_device ids b = (case ids of (v, d, sv, sd) \<Rightarrow>
     v = VendorId b \<and> d \<noteq> BrandDeviceId b \<and> BrandDeviceId b = WILD_CARD)"

lemmas match_defs = exact_match_def any_subsystem_def any_subvendor_def any_device_def

lemma best_match_first_some:
  "best_match ids bs svm dm vm =
     first_some [find (exact_match ids) bs,
                 find (any_subsystem ids) (rev bs), svm,
                 find (any_subvendor ids) (rev bs), dm,
                 find (any_device ids) (rev bs), vm]"
proof (induction ids bs svm dm vm rule: best_match.induct)
  case (1 ids svm dm vm)
  then show ?case by (cases svm; cases dm) auto
next
  case (2 v d sv sd b bs svm dm vm)
  then show ?case
    by (simp add: match_defs find_snoc split del: if_split) auto
qed

text \<open>
  C38.  The inexact look-up returns an entry that matches all four identifiers when there is one, and
  otherwise the last entry that leaves the subsystem open, then the last that leaves the subvendor
  open, then the last that leaves the device open; it returns nothing only when all four searches fail.
  It does so on every table, of which the branding table is one.
\<close>

theorem find_device_priority:
  "FindDeviceInTableByIds table v d sv sd False =
     first_some [find (exact_match (v, d, sv, sd)) table,
                 find (any_subsystem (v, d, sv, sd)) (rev table),
                 find (any_subvendor (v, d, sv, sd)) (rev table),
                 find (any_device (v, d, sv, sd)) (rev table)]"
  unfolding FindDeviceInTableByIds_def best_match_first_some
  by simp

lemma branding_table_closed:
  assumes "b \<in> set mBrandingTable"
  shows "SubsystemId b \<noteq> WILD_CARD \<and> SubvendorId b \<noteq> WILD_CARD \<and> BrandDeviceId b \<noteq> WILD_CARD"
  using assms by (auto simp: mBrandingTable_def brand_def)

text \<open>
  The tables of the driver agree: a device passes the support check exactly when the switch on the
  MAC type has a case for it, and exactly when the switch on the number of queues has one; every
  supported device then gets a MAC type with a PHY interface, and a positive FIFO size.
\<close>

theorem device_tables_agree:
  "(IsDeviceIdSupported INTEL_VENDOR_ID d \<longleftrightarrow> device_mac_type d \<noteq> None) \<and>
   (IsDeviceIdSupported INTEL_VENDOR_ID d \<longleftrightarrow> device_queues d \<noteq> None) \<and>
   pred_option (\<lambda>(t, pse). mac_phy_interface t \<noteq> None) (device_mac_type d) \<and>
   pred_option (\<lambda>(tx, rx). 0 < tx * INTELGBE_FIFO_SZ_PER_QUEUE \<and> 0 < rx * INTELGBE_FIFO_SZ_PER_QUEUE)
     (device_queues d)"
  unfolding IsDeviceIdSupported_def mBrandingTable_def brand_def device_mac_type_def
    device_queues_def mac_phy_interface_def
  by (simp; blast)

lemma find_none_iff: "find P xs = None \<longleftrightarrow> (\<forall>x\<in>set xs. \<not> P x)"
  by (auto simp: find_None_iff)

lemma no_wild_cards:
  "find (any_subsystem ids) (rev mBrandingTable) = None"
  "find (any_subvendor ids) (rev mBrandingTable) = None"
  "find (any_device ids) (rev mBrandingTable) = None"
  using branding_table_closed by (auto simp: find_none_iff match_defs split: prod.splits)

lemma branding_modes_agree:
  "FindDeviceInTableByIds mBrandingTable v d sv sd m = find (exact_match (v, d, sv, sd)) mBrandingTable"
  by (cases m) (simp_all add: FindDeviceInTableByIds_def best_match_first_some no_wild_cards)

lemma branding_exact:
  "find (exact_match (v, d, sv, sd)) mBrandingTable \<noteq> None \<longleftrightarrow>
     IsDeviceIdSupported v d \<and> sv = 0x8086 \<and> sd = 0x7270
     \<or> v = INVALID_ID \<and> d = INVALID_ID \<and> sv = INVALID_ID \<and> sd = INVALID_ID"
  unfolding IsDeviceIdSupported_def mBrandingTable_def brand_def exact_match_def
  by (simp; blast)

text \<open>
  On the branding table the two modes of the look-up agree, and a controller has a brand string
  exactly when it is a supported device with subsystem 8086:7270 (or all its identifiers are
  \<^verbatim>\<open>0xFFFF\<close>, the last entry).  For any other subsystem the result is \<^verbatim>\<open>NULL\<close>, not the last entry.
\<close>

theorem branding_lookup:
  "FindDeviceInTable p False = FindDeviceInTable p True \<and>
   (GetDeviceBrandingString p \<noteq> None \<longleftrightarrow>
      (let h = Hw (NicInfo p) in
       IsDeviceIdSupported (vendor_id h) (device_id h)
         \<and> subsystem_vendor_id h = 0x8086 \<and> subsystem_device_id h = 0x7270
       \<or> vendor_id h = INVALID_ID \<and> device_id h = INVALID_ID
         \<and> subsystem_vendor_id h = INVALID_ID \<and> subsystem_device_id h = INVALID_ID))"
  unfolding GetDeviceBrandingString_def FindDeviceInTable_def Let_def branding_modes_agree
  by (simp add: branding_exact [unfolded not_None_eq])

end
