(* ===== verification/Undi_Names.thy ===== *)
theory Undi_Names
  imports Undi_Device
begin

text \<open>
  \<^verbatim>\<open>ComponentName.c\<close> and what it calls in \<^verbatim>\<open>UefiLib.c\<close> and \<^verbatim>\<open>BaseLib\<close>: the language codes, the tables of
  names by language, and the names of the driver and its controllers.  A C string is its list of
  characters, without the terminator; where the code reads beyond it, as the comparison of three-letter
  codes may on a shorter string, it is taken to be followed by \<^verbatim>\<open>NUL\<close> characters.
\<close>

section \<open>Language codes\<close>

definition AsciiChar :: "string \<Rightarrow> nat \<Rightarrow> int" where
  "AsciiChar s i = (if i < length s then of_char (s ! i) else 0)"

fun AsciiStrnCmp :: "string \<Rightarrow> string \<Rightarrow> nat \<Rightarrow> int" where
  "AsciiStrnCmp a b 0 = 0"
| "AsciiStrnCmp a b (Suc n) =
     (if AsciiChar a 0 \<noteq> 0 \<and> AsciiChar b 0 \<noteq> 0 \<and> AsciiChar a 0 = AsciiChar b 0 \<and> n > 0
      then AsciiStrnCmp (tl a) (tl b) n
      else AsciiChar a 0 - AsciiChar b 0)"

definition ReadUnaligned24 :: "string \<Rightarrow> int list" where
  "ReadUnaligned24 s = map (AsciiChar s) [0..<3]"

definition CompareIso639LanguageCode :: "string \<Rightarrow> string \<Rightarrow> bool" where
  "CompareIso639LanguageCode a b \<longleftrightarrow> ReadUnaligned24 a = ReadUnaligned24 b"

fun iso639_member :: "string \<Rightarrow> string \<Rightarrow> bool" where
  "iso639_member l [] = False"
| "iso639_member l (c # cs) \<longleftrightarrow> CompareIso639LanguageCode l (c # cs) \<or> iso639_member l (drop 2 cs)"

definition code_length :: "string \<Rightarrow> nat" where
  "code_length s = length (takeWhile (\<lambda>c. c \<noteq> CHR '';'') s)"

definition skip_separators :: "string \<Rightarrow> string" where
  "skip_separators s = dropWhile (\<lambda>c. c = CHR '';'') s"

lemma skip_shorter: "s \<noteq> [] \<Longrightarrow> length (skip_separators (drop (code_length s) s)) < length s"
proof -
  assume s: "s \<noteq> []"
  have d: "drop (code_length s) s = dropWhile (\<lambda>c. c \<noteq> CHR '';'') s"
    by (metis append_eq_conv_conj takeWhile_dropWhile_id code_length_def)
  show ?thesis
    using s length_dropWhile_le [of "\<lambda>c. c = CHR '';''" "dropWhile (\<lambda>c. c \<noteq> CHR '';'') s"]
      length_dropWhile_le [of "\<lambda>c. c \<noteq> CHR '';''" "tl s"] length_dropWhile_le [of "\<lambda>c. c = CHR '';''" "tl s"]
    unfolding skip_separators_def d by (cases s) (auto simp: le_imp_less_Suc)
qed

function IsLanguageSupported :: "string \<Rightarrow> string \<Rightarrow> EFI_STATUS" where
  "IsLanguageSupported s t =
     (if s = [] then EFI_UNSUPPORTED
      else let Index = code_length s in
        if AsciiStrnCmp s t Index = 0 \<and> AsciiChar t Index = 0 then EFI_SUCCESS
        else IsLanguageSupported (skip_separators (drop Index s)) t)"
  by pat_completeness auto
termination by (relation "measure (\<lambda>(s, t). length s)") (auto simp: skip_shorter)

declare IsLanguageSupported.simps [simp del]

definition language_found :: "bool \<Rightarrow> string \<Rightarrow> string \<Rightarrow> bool" where
  "language_found Iso639Language l langs =
     (if Iso639Language then iso639_member l langs else IsLanguageSupported l langs = 0)"

section \<open>String tables\<close>

text \<open>The search of one table entry in \<^verbatim>\<open>LookupUnicodeString2\<close>; it does not step over a separator.\<close>

function entry_matches :: "string \<Rightarrow> string \<Rightarrow> bool" where
  "entry_matches s l =
     (if s = [] then False
      else if AsciiStrnCmp s l (code_length s) = 0 then True
      else entry_matches (drop (code_length s) s) l)"
  by pat_completeness auto
termination
proof (relation "measure (\<lambda>(s, l). length s)")
  fix s l assume "s \<noteq> []" "AsciiStrnCmp s l (code_length s) \<noteq> 0"
  then show "((drop (code_length s) s, l), s, l) \<in> measure (\<lambda>(s, l). length s)"
    by (cases "code_length s") auto
qed simp

declare entry_matches.simps [simp del]

function entry_present :: "string \<Rightarrow> string \<Rightarrow> bool" where
  "entry_present l s =
     (if s = [] then False
      else if AsciiStrnCmp l s (code_length s) = 0 then True
      else entry_present l (skip_separators (drop (code_length s) s)))"
  by pat_completeness auto
termination by (relation "measure (\<lambda>(l, s). length s)") (auto simp: skip_shorter)

declare entry_present.simps [simp del]

definition LookupUnicodeString2 ::
  "string option \<Rightarrow> string option \<Rightarrow> EFI_UNICODE_STRING_TABLE list option \<Rightarrow> bool \<Rightarrow> bool \<Rightarrow> EFI_STATUS \<times> string option" where
  "LookupUnicodeString2 lang langs tab out Iso639Language =
     (case lang of
        None \<Rightarrow> (EFI_INVALID_PARAMETER, None)
      | Some l \<Rightarrow>
          if \<not> out then (EFI_INVALID_PARAMETER, None)
          else (case (langs, tab) of
             (Some sl, Some es) \<Rightarrow>
               if \<not> language_found Iso639Language l sl then (EFI_UNSUPPORTED, None)
               else (case find (\<lambda>e. entry_matches (Table_Language e) l) es of
                  Some e \<Rightarrow> (EFI_SUCCESS, Some (Table_UnicodeString e))
                | None \<Rightarrow> (EFI_UNSUPPORTED, None))
           | _ \<Rightarrow> (EFI_UNSUPPORTED, None)))"

definition AddUnicodeString2 ::
  "'d boot_services \<Rightarrow> string option \<Rightarrow> string option \<Rightarrow> EFI_UNICODE_STRING_TABLE list option \<times> u64 \<Rightarrow> string option \<Rightarrow>
   bool \<Rightarrow> ('d, EFI_STATUS \<times> EFI_UNICODE_STRING_TABLE list option \<times> u64) sys" where
  "AddUnicodeString2 B lang langs t str Iso639Language =
     (case (lang, str) of
        (Some l, Some s) \<Rightarrow>
          (case langs of
             None \<Rightarrow> ret (EFI_UNSUPPORTED, t)
           | Some sl \<Rightarrow>
               if s = [] then ret (EFI_INVALID_PARAMETER, t)
               else if \<not> language_found Iso639Language l sl then ret (EFI_UNSUPPORTED, t)
               else let es = (case fst t of None \<Rightarrow> [] | Some es \<Rightarrow> es) in
                 if \<exists>e\<in>set es. entry_present l (Table_Language e) then ret (EFI_ALREADY_STARTED, t)
                 else do {
                   a \<leftarrow> call_bs (LibAllocatePool B (of_nat (length es + 2) * 16));
                   if a = 0 then ret (EFI_OUT_OF_RESOURCES, t)
                   else do {
                     la \<leftarrow> call_bs (LibAllocatePool B (of_nat (length l + 1)));
                     if la = 0 then do {
                       _ \<leftarrow> call_bs (FreePool B a);
                       ret (EFI_OUT_OF_RESOURCES, t) }
                     else do {
                       sa \<leftarrow> call_bs (LibAllocatePool B (of_nat (2 * (length s + 1))));
                       if sa = 0 then do {
                         _ \<leftarrow> call_bs (FreePool B la);
                         _ \<leftarrow> call_bs (FreePool B a);
                         ret (EFI_OUT_OF_RESOURCES, t) }
                       else do {
                         _ \<leftarrow> (case fst t of None \<Rightarrow> ret 0 | Some _ \<Rightarrow> call_bs (FreePool B (snd t)));
                         ret (EFI_SUCCESS, Some (es @ [\<lparr>Table_Language = l, LanguagePtr = la,
                            Table_UnicodeString = s, UnicodeStringPtr = sa\<rparr>]), a) } } } })
      | _ \<Rightarrow> ret (EFI_INVALID_PARAMETER, t))"

fun free_entries :: "'d boot_services \<Rightarrow> EFI_UNICODE_STRING_TABLE list \<Rightarrow> ('d, unit) sys" where
  "free_entries B [] = ret ()"
| "free_entries B (e # es) = do {
     _ \<leftarrow> call_bs (FreePool B (LanguagePtr e));
     _ \<leftarrow> (if UnicodeStringPtr e \<noteq> 0 then call_bs (FreePool B (UnicodeStringPtr e)) else ret 0);
     free_entries B es }"

definition FreeUnicodeStringTable ::
  "'d boot_services \<Rightarrow> EFI_UNICODE_STRING_TABLE list option \<times> u64 \<Rightarrow> ('d, EFI_STATUS) sys" where
  "FreeUnicodeStringTable B t =
     (case fst t of
        None \<Rightarrow> ret EFI_SUCCESS
      | Some es \<Rightarrow> do {
          _ \<leftarrow> free_entries B es;
          _ \<leftarrow> call_bs (FreePool B (snd t));
          ret EFI_SUCCESS })"

section \<open>The names of the driver and its controllers\<close>

datatype component_name = gUndiComponentName | gUndiComponentName2

fun SupportedLanguages :: "component_name \<Rightarrow> string" where
  "SupportedLanguages gUndiComponentName = ''eng''"
| "SupportedLanguages gUndiComponentName2 = ''en-US''"

definition ComponentNameInitializeControllerName :: "'d boot_services \<Rightarrow> u64 \<Rightarrow> ('d, unit) sys" where
  "ComponentNameInitializeControllerName B p = do {
     d \<leftarrow> get_private p;
     (case d of
        None \<Rightarrow> ret ()
      | Some d \<Rightarrow>
          (case GetDeviceBrandingString d of
             None \<Rightarrow> ret ()
           | Some str \<Rightarrow> do {
               _ \<leftarrow> upd_private p (\<lambda>d. d\<lparr>Brand := Some str\<rparr>);
               (_, t) \<leftarrow> AddUnicodeString2 B (Some ''eng'') (Some (SupportedLanguages gUndiComponentName))
                          (ControllerNameTable d) (Some str) True;
               _ \<leftarrow> upd_private p (\<lambda>d. d\<lparr>ControllerNameTable := t\<rparr>);
               (_, t) \<leftarrow> AddUnicodeString2 B (Some ''en-US'') (Some (SupportedLanguages gUndiComponentName2))
                          t (Some str) False;
               upd_private p (\<lambda>d. d\<lparr>ControllerNameTable := t\<rparr>) })) }"

definition MAJORVERSION :: nat where "MAJORVERSION = 6"
definition MINORVERSION :: nat where "MINORVERSION = 2"
definition BUILDNUMBER :: nat where "BUILDNUMBER = 0"

text \<open>The decimal conversions \<^verbatim>\<open>%1d\<close> and \<^verbatim>\<open>%02d\<close> of \<^verbatim>\<open>mDriverNameFormat\<close>.\<close>

fun decimal :: "nat \<Rightarrow> string" where
  "decimal n = (if n < 10 then [char_of (48 + n)] else decimal (n div 10) @ [char_of (48 + n mod 10)])"

definition pad_zero :: "nat \<Rightarrow> string \<Rightarrow> string" where
  "pad_zero k s = replicate (k - length s) (CHR ''0'') @ s"

definition DriverNameString :: string where
  "DriverNameString = ''Intel(R) GbE Driver '' @ decimal MAJORVERSION @ ''.'' @ decimal MINORVERSION @ ''.''
     @ pad_zero 2 (decimal BUILDNUMBER)"

definition mUndiDriverNameTable :: "EFI_UNICODE_STRING_TABLE list" where
  "mUndiDriverNameTable =
     [\<lparr>Table_Language = ''eng'', LanguagePtr = 0, Table_UnicodeString = DriverNameString, UnicodeStringPtr = 0\<rparr>,
      \<lparr>Table_Language = ''en-US'', LanguagePtr = 0, Table_UnicodeString = DriverNameString, UnicodeStringPtr = 0\<rparr>]"

definition ComponentNameGetDriverName ::
  "component_name option \<Rightarrow> string option \<Rightarrow> bool \<Rightarrow> EFI_STATUS \<times> string option" where
  "ComponentNameGetDriverName This lang out =
     (case This of
        None \<Rightarrow> (EFI_SUCCESS, Some DriverNameString)
      | Some c \<Rightarrow> LookupUnicodeString2 lang (Some (SupportedLanguages c)) (Some mUndiDriverNameTable) out
                   (c = gUndiComponentName))"

definition ComponentNameGetControllerName ::
  "'d boot_services \<Rightarrow> u64 \<Rightarrow> component_name \<Rightarrow> u64 \<Rightarrow> u64 \<Rightarrow> string option \<Rightarrow> bool \<Rightarrow>
   ('d, EFI_STATUS \<times> string option) sys" where
  "ComponentNameGetControllerName B dbh This Controller ChildHandle lang out =
     (if lang = None \<or> Controller = 0 then ret (EFI_INVALID_PARAMETER, None)
      else do {
        (st, _) \<leftarrow> call_bs (OpenProtocol B Controller DevicePathProtocol dbh Controller BY_DRIVER 0);
        if st \<noteq> EFI_ALREADY_STARTED then do {
          _ \<leftarrow> call_bs (CloseProtocol B Controller DevicePathProtocol dbh Controller);
          ret (EFI_UNSUPPORTED, None) }
        else if ChildHandle = 0 then ret (EFI_UNSUPPORTED, None)
        else do {
          (st, p) \<leftarrow> call_bs (OpenProtocol B ChildHandle NiiPointerGuid dbh ChildHandle GET_PROTOCOL 0);
          if EFI_ERROR st then ret (st, None)
          else do {
            d \<leftarrow> get_private p;
            (case d of
               None \<Rightarrow> ret (EFI_UNSUPPORTED, None)
             | Some d \<Rightarrow>
                 ret (LookupUnicodeString2 lang (Some (SupportedLanguages This)) (fst (ControllerNameTable d)) out
                        (This = gUndiComponentName))) } } })"

section \<open>Driver configuration\<close>

text \<open>\<^verbatim>\<open>DriverConfiguration.c\<close>: the driver offers the protocol, and none of its functions does anything.\<close>

definition GigUndiDriverConfigurationDisplayMenu :: "u64 \<Rightarrow> ('d, unit) sys" where
  "GigUndiDriverConfigurationDisplayMenu p = ret ()"

definition GigUndiDriverConfigurationSetOptions :: "u64 \<Rightarrow> u64 \<Rightarrow> string option \<Rightarrow> u32 \<Rightarrow> ('d, EFI_STATUS \<times> u32) sys" where
  "GigUndiDriverConfigurationSetOptions Controller ChildHandle lang ActionRequired = ret (EFI_SUCCESS, ActionRequired)"

definition GigUndiDriverConfigurationOptionsValid :: "u64 \<Rightarrow> u64 \<Rightarrow> ('d, EFI_STATUS) sys" where
  "GigUndiDriverConfigurationOptionsValid Controller ChildHandle = ret EFI_SUCCESS"

definition GigUndiDriverConfigurationForceDefaults :: "u64 \<Rightarrow> u64 \<Rightarrow> u32 \<Rightarrow> u32 \<Rightarrow> ('d, EFI_STATUS \<times> u32) sys" where
  "GigUndiDriverConfigurationForceDefaults Controller ChildHandle DefaultType ActionRequired =
     ret (EFI_SUCCESS, ActionRequired)"

section \<open>Comparison of codes\<close>

text \<open>A C string has no \<^verbatim>\<open>NUL\<close> character before its terminator.\<close>

definition cstring :: "string \<Rightarrow> bool" where
  "cstring s \<longleftrightarrow> CHR 0x00 \<notin> set s"

lemma of_char_0_iff [simp]: "(of_char c :: int) = 0 \<longleftrightarrow> c = CHR 0x00"
  using of_char_eq_iff [of c "CHR 0x00", where 'a = int] by simp

lemma AsciiStrnCmp_0_iff:
  "cstring a \<Longrightarrow> cstring b \<Longrightarrow> AsciiStrnCmp a b n = 0 \<longleftrightarrow> take n a = take n b"
proof (induction a b n rule: AsciiStrnCmp.induct)
  case (2 a b n)
  show ?case
  proof (cases a; cases b)
    fix x xs y ys assume c: "a = x # xs" "b = y # ys"
    then have "cstring xs" "cstring ys" "x \<noteq> CHR 0x00" "y \<noteq> CHR 0x00"
      using 2(2,3) by (auto simp: cstring_def)
    then show ?thesis using 2(1) c by (cases n) (auto simp: AsciiChar_def)
  qed (use 2(2,3) in \<open>auto simp: AsciiChar_def cstring_def\<close>)
qed simp

text \<open>The codes of a list separated by semicolons.\<close>

fun split_codes :: "string \<Rightarrow> string list" where
  "split_codes [] = [[]]"
| "split_codes (c # cs) =
     (if c = CHR '';'' then [] # split_codes cs
      else let ps = split_codes cs in (c # hd ps) # tl ps)"

abbreviation first_code :: "string \<Rightarrow> string" where
  "first_code \<equiv> takeWhile (\<lambda>c. c \<noteq> CHR '';'')"

lemma split_codes_hd: "hd (split_codes s) = first_code s" and split_codes_ne [simp]: "split_codes s \<noteq> []"
  by (induction s) (auto simp: Let_def)

lemma split_codes_tl:
  "tl (split_codes s) = (case dropWhile (\<lambda>c. c \<noteq> CHR '';'') s of [] \<Rightarrow> [] | _ # r \<Rightarrow> split_codes r)"
  by (induction s) (auto simp: Let_def)

lemma split_skip: "t \<noteq> [] \<Longrightarrow> t \<in> set (split_codes (skip_separators s)) \<longleftrightarrow> t \<in> set (split_codes s)"
  by (induction s) (auto simp: skip_separators_def)

lemma take_code [simp]: "take (code_length s) s = first_code s"
  and drop_code [simp]: "drop (code_length s) s = dropWhile (\<lambda>c. c \<noteq> CHR '';'') s"
  by (metis append_eq_conv_conj takeWhile_dropWhile_id code_length_def)+

lemma cstring_parts:
  "cstring s \<Longrightarrow> cstring (first_code s)" "cstring s \<Longrightarrow> cstring (dropWhile P s)" "cstring s \<Longrightarrow> cstring (skip_separators s)"
  by (auto simp: cstring_def skip_separators_def dest: set_takeWhileD set_dropWhileD)

lemma code_at:
  assumes "cstring s" and "cstring t"
  shows "AsciiStrnCmp s t (code_length s) = 0 \<and> AsciiChar t (code_length s) = 0 \<longleftrightarrow> t = first_code s"
proof -
  have "AsciiChar t (code_length s) = 0 \<longleftrightarrow> length t \<le> code_length s"
    using assms(2) by (auto simp: AsciiChar_def cstring_def not_less) (metis nth_mem)
  moreover have "AsciiStrnCmp s t (code_length s) = 0 \<longleftrightarrow> first_code s = take (code_length s) t"
    using AsciiStrnCmp_0_iff [OF assms, of "code_length s"] by simp
  moreover have "code_length s = length (first_code s)" by (simp add: code_length_def)
  ultimately show ?thesis by (metis le_refl take_all)
qed

lemma code_separator: "dropWhile (\<lambda>c. c \<noteq> CHR '';'') s = c # r \<Longrightarrow> c = CHR '';''"
  using hd_dropWhile [of "\<lambda>c. c \<noteq> CHR '';''" s] by simp

lemma rest_codes:
  assumes "t \<noteq> []"
  shows "t \<in> set (split_codes s) \<longleftrightarrow>
    t = first_code s \<or> t \<in> set (split_codes (skip_separators (dropWhile (\<lambda>c. c \<noteq> CHR '';'') s)))"
proof -
  have "set (split_codes s) = insert (first_code s) (set (tl (split_codes s)))"
    by (metis list.collapse list.simps(15) split_codes_hd split_codes_ne)
  moreover have "t \<in> set (tl (split_codes s)) \<longleftrightarrow>
      t \<in> set (split_codes (skip_separators (dropWhile (\<lambda>c. c \<noteq> CHR '';'') s)))"
  proof (cases "dropWhile (\<lambda>c. c \<noteq> CHR '';'') s")
    case Nil
    show ?thesis unfolding split_codes_tl Nil using assms by (simp add: skip_separators_def)
  next
    case (Cons c r)
    then have "c = CHR '';''" by (rule code_separator)
    then show ?thesis unfolding split_codes_tl Cons using assms by (simp add: split_skip)
  qed
  ultimately show ?thesis by auto
qed

lemma IsLanguageSupported_iff:
  "cstring s \<Longrightarrow> cstring t \<Longrightarrow> t \<noteq> [] \<Longrightarrow>
   IsLanguageSupported s t = (if t \<in> set (split_codes s) then EFI_SUCCESS else EFI_UNSUPPORTED)"
proof (induction s t rule: IsLanguageSupported.induct)
  case (1 s t)
  show ?case
  proof (cases "s = []")
    case False
    then show ?thesis
      using 1 code_at [OF 1(2,3)] rest_codes [OF 1(4), of s]
      by (subst IsLanguageSupported.simps) (auto simp: Let_def cstring_parts)
  qed (use 1(4) in \<open>simp add: IsLanguageSupported.simps\<close>)
qed

section \<open>Look-up by language\<close>

lemma iso_eng: "cstring l \<Longrightarrow> iso639_member l ''eng'' \<longleftrightarrow> take 3 l = ''eng''"
proof -
  assume "cstring l"
  then have "AsciiChar l 0 = 101 \<and> AsciiChar l 1 = 110 \<and> AsciiChar l 2 = 103 \<longleftrightarrow> take 3 l = ''eng''"
    using of_char_eq_iff [where 'a = int, of _ "CHR ''e''"] of_char_eq_iff [where 'a = int, of _ "CHR ''n''"]
      of_char_eq_iff [where 'a = int, of _ "CHR ''g''"]
    by (cases l rule: list.exhaust; cases "tl l" rule: list.exhaust; cases "tl (tl l)" rule: list.exhaust)
      (auto simp: AsciiChar_def numeral_3_eq_3 numeral_2_eq_2)
  then show ?thesis
    by (simp add: CompareIso639LanguageCode_def ReadUnaligned24_def upt_rec)
      (simp add: AsciiChar_def numeral_3_eq_3 numeral_2_eq_2)
qed

lemma entry_matches_code:
  assumes "cstring s" and "cstring l" and "s \<noteq> []" and "CHR '';'' \<notin> set s"
  shows "entry_matches s l \<longleftrightarrow> take (length s) l = s"
proof -
  have "first_code s = s" using assms(4) by auto
  then have c: "code_length s = length s" unfolding code_length_def by (rule arg_cong)
  show ?thesis using assms AsciiStrnCmp_0_iff [OF assms(1,2), of "length s"]
    by (subst entry_matches.simps) (auto simp: c entry_matches.simps [of "[]"])
qed

text \<open>The table that the two additions for one controller leave.\<close>

definition name_entry :: "string \<Rightarrow> u64 \<Rightarrow> u64 \<Rightarrow> string \<Rightarrow> EFI_UNICODE_STRING_TABLE" where
  "name_entry l la sa str =
     \<lparr>Table_Language = l, LanguagePtr = la, Table_UnicodeString = str, UnicodeStringPtr = sa\<rparr>"

lemma lookup_names:
  assumes "cstring l"
  shows "LookupUnicodeString2 (Some l) (Some ''eng'') (Some (name_entry ''eng'' a b n # es)) True True =
      (if take 3 l = ''eng'' then (EFI_SUCCESS, Some n) else (EFI_UNSUPPORTED, None))"
    and "cstring c \<Longrightarrow> c \<noteq> [] \<Longrightarrow> take 3 c \<noteq> ''eng'' \<Longrightarrow> CHR '';'' \<notin> set c \<union> set l \<Longrightarrow>
      LookupUnicodeString2 (Some l) (Some c) (Some [name_entry ''eng'' a b n, name_entry c a' b' n]) True False =
      (if l = c then (EFI_SUCCESS, Some n) else (EFI_UNSUPPORTED, None))"
proof -
  have m: "entry_matches ''eng'' l \<longleftrightarrow> take 3 l = ''eng''"
    using assms by (simp add: entry_matches_code cstring_def eval_nat_numeral)
  show "LookupUnicodeString2 (Some l) (Some ''eng'') (Some (name_entry ''eng'' a b n # es)) True True =
      (if take 3 l = ''eng'' then (EFI_SUCCESS, Some n) else (EFI_UNSUPPORTED, None))"
    using m assms by (simp add: LookupUnicodeString2_def language_found_def iso_eng name_entry_def del: iso639_member.simps)
  assume c: "cstring c" "c \<noteq> []" "take 3 c \<noteq> ''eng''" "CHR '';'' \<notin> set c \<union> set l"
  then have e: "entry_matches c l \<longleftrightarrow> take (length c) l = c" using assms by (simp add: entry_matches_code)
  have "split_codes l = [l]" using c(4) by (induction l) auto
  then have s: "IsLanguageSupported l c = (if l = c then EFI_SUCCESS else EFI_UNSUPPORTED)"
    using assms c IsLanguageSupported_iff [of l c] by auto
  have "EFI_UNSUPPORTED \<noteq> 0" by (rule EFI_ERROR_nonzero) simp
  with m e s c(3) show "LookupUnicodeString2 (Some l) (Some c)
      (Some [name_entry ''eng'' a b n, name_entry c a' b' n]) True False =
      (if l = c then (EFI_SUCCESS, Some n) else (EFI_UNSUPPORTED, None))"
    by (cases "l = c") (simp_all add: LookupUnicodeString2_def language_found_def name_entry_def)
qed

text \<open>One addition, when the pool does not run out.\<close>

definition pool_gives :: "'d boot_services \<Rightarrow> bool" where
  "pool_gives B \<longleftrightarrow> (\<forall>n d. fst (LibAllocatePool B n d) \<noteq> 0)"

lemma language_found_names: "language_found True ''eng'' ''eng''" "language_found False ''en-US'' ''en-US''"
  by (simp_all add: language_found_def CompareIso639LanguageCode_def IsLanguageSupported_iff cstring_def)

lemma eng_not_present: "\<not> entry_present ''en-US'' ''eng''"
  by (simp add: entry_present.simps code_length_def skip_separators_def AsciiChar_def eval_nat_numeral)

lemma add_name_run:
  assumes "pool_gives B" and "language_found is l langs" and "str \<noteq> []"
    and "\<forall>e\<in>set (case fst t of None \<Rightarrow> [] | Some es \<Rightarrow> es). \<not> entry_present l (Table_Language e)"
  shows "\<exists>a la sa d. run_state (AddUnicodeString2 B (Some l) (Some langs) t (Some str) is) u =
    ((EFI_SUCCESS, Some ((case fst t of None \<Rightarrow> [] | Some es \<Rightarrow> es) @ [name_entry l la sa str]), a), u\<lparr>undi_dev := d\<rparr>)"
proof -
  let ?es = "case fst t of None \<Rightarrow> [] | Some es \<Rightarrow> es"
  obtain a d1 where 1: "LibAllocatePool B (of_nat (length ?es + 2) * 16) (undi_dev u) = (a, d1)" by fastforce
  obtain la d2 where 2: "LibAllocatePool B (of_nat (length l + 1)) d1 = (la, d2)" by fastforce
  obtain sa d3 where 3: "LibAllocatePool B (of_nat (2 * (length str + 1))) d2 = (sa, d3)" by fastforce
  have nz: "a \<noteq> 0" "la \<noteq> 0" "sa \<noteq> 0" using 1 2 3 assms(1) unfolding pool_gives_def by (metis fst_conv)+
  show ?thesis
  proof (cases "fst t")
    case None
    then show ?thesis using assms(2-4) 1 2 3 nz
      by (intro exI [of _ a] exI [of _ la] exI [of _ sa] exI [of _ d3])
        (simp add: AddUnicodeString2_def call_bs_def name_entry_def)
  next
    case (Some es)
    obtain st d4 where 4: "FreePool B (snd t) d3 = (st, d4)" by fastforce
    show ?thesis using Some assms(2-4) 1 2 3 4 nz
      by (intro exI [of _ a] exI [of _ la] exI [of _ sa] exI [of _ d4])
        (simp add: AddUnicodeString2_def call_bs_def name_entry_def)
  qed
qed

lemma initialize_names_run:
  assumes d: "private_data u p = Some d" and b: "GetDeviceBrandingString d = Some str" "str \<noteq> []"
    and t: "fst (ControllerNameTable d) = None" and B: "pool_gives B"
    and run: "run_state (ComponentNameInitializeControllerName B p) u = (x, u')"
  shows "\<exists>d' a la sa lb sb. private_data u' p = Some d' \<and> Brand d' = Some str \<and>
    ControllerNameTable d' = (Some [name_entry ''eng'' la sa str, name_entry ''en-US'' lb sb str], a)"
proof -
  let ?u1 = "u\<lparr>private_data := (private_data u)(p \<mapsto> d\<lparr>Brand := Some str\<rparr>)\<rparr>"
  obtain a1 la sa e1 where 1: "run_state (AddUnicodeString2 B (Some ''eng'') (Some ''eng'') (ControllerNameTable d) (Some str) True) ?u1 =
      ((EFI_SUCCESS, Some [name_entry ''eng'' la sa str], a1), ?u1\<lparr>undi_dev := e1\<rparr>)"
    using add_name_run [OF B language_found_names(1) b(2), of "ControllerNameTable d" ?u1] t by auto
  let ?t = "(Some [name_entry ''eng'' la sa str], a1)"
  let ?u2 = "u\<lparr>undi_dev := e1, private_data := (private_data u)(p \<mapsto> d\<lparr>Brand := Some str, ControllerNameTable := ?t\<rparr>)\<rparr>"
  obtain a2 lb sb e2 where 2: "run_state (AddUnicodeString2 B (Some ''en-US'') (Some ''en-US'') ?t (Some str) False) ?u2 =
      ((EFI_SUCCESS, Some ([name_entry ''eng'' la sa str] @ [name_entry ''en-US'' lb sb str]), a2), ?u2\<lparr>undi_dev := e2\<rparr>)"
    using add_name_run [OF B language_found_names(2) b(2), of ?t ?u2] eng_not_present
    by (auto simp: name_entry_def)
  from run d b 1 2 have "private_data u' p = Some (d\<lparr>Brand := Some str, ControllerNameTable :=
      (Some [name_entry ''eng'' la sa str, name_entry ''en-US'' lb sb str], a2)\<rparr>)"
    by (auto simp: ComponentNameInitializeControllerName_def get_private_def upd_private_def)
  then show ?thesis by (intro exI conjI) (assumption, simp_all)
qed

text \<open>
  The driver's handles, as the boot services show them: the driver is managing the controller, and the
  child's interface leads to the private data.
\<close>

definition manages :: "'d boot_services \<Rightarrow> u64 \<Rightarrow> u64 \<Rightarrow> u64 \<Rightarrow> u64 \<Rightarrow> bool" where
  "manages B dbh c child p \<longleftrightarrow> c \<noteq> 0 \<and> child \<noteq> 0 \<and>
     (\<forall>d. fst (fst (OpenProtocol B c DevicePathProtocol dbh c BY_DRIVER 0 d)) = EFI_ALREADY_STARTED) \<and>
     (\<forall>d. fst (OpenProtocol B child NiiPointerGuid dbh child GET_PROTOCOL 0 d) = (EFI_SUCCESS, p))"

lemma get_name_run:
  assumes "manages B dbh c child p" and "private_data u p = Some d"
  shows "fst (run_state (ComponentNameGetControllerName B dbh This c child (Some l) True) u) =
    LookupUnicodeString2 (Some l) (Some (SupportedLanguages This)) (fst (ControllerNameTable d)) True
      (This = gUndiComponentName)"
proof -
  obtain x d1 where 1: "OpenProtocol B c DevicePathProtocol dbh c BY_DRIVER 0 (undi_dev u) = ((EFI_ALREADY_STARTED, x), d1)"
    using assms(1) unfolding manages_def by (metis fst_conv prod.exhaust)
  obtain d2 where 2: "OpenProtocol B child NiiPointerGuid dbh child GET_PROTOCOL 0 d1 = ((EFI_SUCCESS, p), d2)"
    using assms(1) unfolding manages_def by (metis fst_conv prod.exhaust)
  show ?thesis using assms 1 2
    by (simp add: ComponentNameGetControllerName_def manages_def call_bs_def get_private_def)
qed

section \<open>Properties\<close>

text \<open>
  The name the driver gives a controller is the one it returns: after
  \<^verbatim>\<open>ComponentNameInitializeControllerName\<close> the look-up of the name of a managed child returns the brand
  string for \<^verbatim>\<open>eng\<close> through the first component name protocol, on the first three letters of the
  language alone, and for \<^verbatim>\<open>en-US\<close> through the second; for any other language (a single code in
  the second case) it returns \<^verbatim>\<open>EFI_UNSUPPORTED\<close>.
\<close>

theorem controller_name_roundtrip:
  assumes "private_data u p = Some d" and "GetDeviceBrandingString d = Some str" and "str \<noteq> []"
    and "fst (ControllerNameTable d) = None" and "pool_gives B" and "manages B dbh c child p"
    and "run_state (ComponentNameInitializeControllerName B p) u = (x, u')" and "cstring l"
  shows "fst (run_state (ComponentNameGetControllerName B dbh gUndiComponentName c child (Some l) True) u') =
      (if take 3 l = ''eng'' then (EFI_SUCCESS, Some str) else (EFI_UNSUPPORTED, None)) \<and>
    (CHR '';'' \<notin> set l \<longrightarrow>
     fst (run_state (ComponentNameGetControllerName B dbh gUndiComponentName2 c child (Some l) True) u') =
      (if l = ''en-US'' then (EFI_SUCCESS, Some str) else (EFI_UNSUPPORTED, None)))"
proof -
  obtain d' a la sa lb sb where "private_data u' p = Some d'"
    "ControllerNameTable d' = (Some [name_entry ''eng'' la sa str, name_entry ''en-US'' lb sb str], a)"
    using initialize_names_run [OF assms(1-5,7)] by blast
  then show ?thesis
    using lookup_names(1) [OF assms(8)] lookup_names(2) [OF assms(8), of "''en-US''"] get_name_run [OF assms(6)] by (simp add: cstring_def)
qed

text \<open>Services under which the driver manages one controller, with its private data at address 16.\<close>

definition name_services :: "unit boot_services" where
  "name_services =
     \<lparr>OpenProtocol = \<lambda>h pr agent ctl attr r d.
        ((if attr = BY_DRIVER then EFI_ALREADY_STARTED else EFI_SUCCESS, if attr = BY_DRIVER then 0 else 16), d),
      CloseProtocol = \<lambda>h pr agent ctl d. (EFI_SUCCESS, d),
      InstallProtocols = \<lambda>h ps d. ((EFI_SUCCESS, h), d),
      UninstallProtocols = \<lambda>h ps d. (EFI_SUCCESS, d),
      AllocatePool = \<lambda>n r d. ((EFI_SUCCESS, 16), d),
      FreePool = \<lambda>a d. (EFI_SUCCESS, d),
      LibAllocatePool = \<lambda>n d. (16, d),
      LibAllocatePrivateData = \<lambda>d. (16, d),
      LocateHandleBuffer = \<lambda>d. ((EFI_SUCCESS, [], 0), d),
      PciReadIds = \<lambda>a d. ((EFI_SUCCESS, 0, 0), d)\<rparr>"

definition branded :: UNDI_PRIVATE_DATA where
  "branded =
     \<lparr>Signature = 0, NiiProtocol31 = \<lparr>Nii_Id = 0, Nii_IfNum = 0, Nii_Revision = 0, Nii_MajorVer = 0,
        Nii_MinorVer = 0, Nii_Ipv6Supported = False, Nii_Type = 0, Nii_ImageSize = 0,
        Nii_ImageAddr = 0, Nii_StringId = ''''\<rparr>,
      NIIPointerProtocol = 0, ControllerHandle = 0, DeviceHandle = 0, Undi32BaseDevPath = 0, Undi32DevPath = 0,
      NicInfo = zero_adapter\<lparr>Hw := zero_hw\<lparr>vendor_id := 0x8086, device_id := 0x4BA0,
        subsystem_vendor_id := 0x8086, subsystem_device_id := 0x7270\<rparr>\<rparr>,
      ControllerNameTable = (None, 0), AltMacAddrSupported = False, IsChildInitialized = False, Brand = None\<rparr>"

theorem controller_name_roundtrip_witness:
  "fst (run_state (ComponentNameGetControllerName name_services 1 gUndiComponentName2 1 2 (Some ''en-US'') True)
     (snd (run_state (ComponentNameInitializeControllerName name_services 16)
        ((initial_undi () (\<lambda>_. 0))\<lparr>private_data := [16 \<mapsto> branded]\<rparr>)))) =
     (EFI_SUCCESS, Some ''Ethernet controller: Intel Corporation Device 4ba0'')"
proof -
  let ?u = "(initial_undi () (\<lambda>_. 0))\<lparr>private_data := [16 \<mapsto> branded]\<rparr>"
  have b: "GetDeviceBrandingString branded = Some ''Ethernet controller: Intel Corporation Device 4ba0''"
    unfolding GetDeviceBrandingString_def FindDeviceInTable_def Let_def branding_modes_agree
    by (simp add: branded_def mBrandingTable_def brand_def exact_match_def zero_adapter_def zero_hw_def)
  have m: "manages name_services 1 1 2 16" "pool_gives name_services" "fst (ControllerNameTable branded) = None"
    by (simp_all add: manages_def pool_gives_def name_services_def branded_def)
  have "private_data ?u 16 = Some branded" by simp
  from controller_name_roundtrip [OF this b _ m(3,2,1) surjective_pairing, of "''en-US''"]
  show ?thesis by (simp add: cstring_def)
qed

text \<open>
  C40.  \<^verbatim>\<open>IsLanguageSupported\<close> decides membership: its first argument is taken apart at the semicolons, and
  it returns success exactly when the second is one of the codes, for every list, with empty codes,
  leading and trailing separators or none.  (Both callers pass the language as the list and the supported
  languages as the code.)
\<close>

theorem language_supported_iff:
  assumes "cstring s" and "cstring t" and "t \<noteq> []"
  shows "IsLanguageSupported s t = (if t \<in> set (split_codes s) then EFI_SUCCESS else EFI_UNSUPPORTED)"
  by (rule IsLanguageSupported_iff [OF assms])

theorem language_supported_iff_witness:
  "IsLanguageSupported '';de;;en-US'' ''en-US'' = EFI_SUCCESS \<and> IsLanguageSupported ''en-US'' ''en'' = EFI_UNSUPPORTED"
  using language_supported_iff [of "'';de;;en-US''" "''en-US''"] language_supported_iff [of "''en-US''" "''en''"]
  by (simp add: cstring_def)

text \<open>
  An entry whose language field lists several codes matches every language in \<^verbatim>\<open>LookupUnicodeString2\<close>:
  the search does not step over the separator, and compares zero characters there.
\<close>

lemma several_codes_match_all: "CHR '';'' \<in> set s \<Longrightarrow> entry_matches s l"
proof -
  assume s: "CHR '';'' \<in> set s"
  then obtain c r where r: "dropWhile (\<lambda>c. c \<noteq> CHR '';'') s = c # r"
    by (cases "dropWhile (\<lambda>c. c \<noteq> CHR '';'') s") auto
  then have c: "c = CHR '';''" by (rule code_separator)
  have "entry_matches (CHR '';'' # r) l" by (subst entry_matches.simps) (simp add: code_length_def)
  with s r c show ?thesis by (subst entry_matches.simps) auto
qed

end
