(* ===== verification/Undi_Aip.thy ===== *)
theory Undi_Aip
  imports Undi_System
begin

text \<open>
  \<^verbatim>\<open>AdapterInformation.c\<close>: the table of information types and the adapter information protocol on
  top of it.  A GUID is the list of its 16 bytes.  A pointer argument that the code only compares with
  \<^verbatim>\<open>NULL\<close> is passed as its address.
\<close>

section \<open>GUIDs\<close>

definition mk_guid :: "u32 \<Rightarrow> u16 \<Rightarrow> u16 \<Rightarrow> u8 list \<Rightarrow> EFI_GUID" where
  "mk_guid a b c d = le_bytes 4 a @ le_bytes 2 b @ le_bytes 2 c @ d"

definition EFI_ADAPTER_INFO_MEDIA_STATE_GUID :: EFI_GUID where
  "EFI_ADAPTER_INFO_MEDIA_STATE_GUID =
     mk_guid 0xD7C74207 0xA831 0x4A26 [0xB1, 0xF5, 0xD1, 0x93, 0x06, 0x5C, 0xE8, 0xB6]"

definition EFI_ADAPTER_INFO_UNDI_IPV6_SUPPORT_GUID :: EFI_GUID where
  "EFI_ADAPTER_INFO_UNDI_IPV6_SUPPORT_GUID =
     mk_guid 0x4bd56be3 0x4975 0x4d8a [0xa0, 0xad, 0xc4, 0x91, 0x20, 0x4b, 0x5d, 0x4d]"

section \<open>The table\<close>

text \<open>The entries in use, and the first of them with a given GUID.\<close>

definition info_types :: "'d undi \<Rightarrow> EFI_ADAPTER_INFORMATION_TYPE_DESCRIPTOR list" where
  "info_types u = take (unat (mInformationCount u)) (mSupportedInformationTypes u)"

definition find_info_type ::
  "'d undi \<Rightarrow> EFI_GUID \<Rightarrow> EFI_ADAPTER_INFORMATION_TYPE_DESCRIPTOR option" where
  "find_info_type u g = find (\<lambda>d. g = Guid d) (info_types u)"

definition AddSupportedInformationType ::
  "EFI_ADAPTER_INFORMATION_TYPE_DESCRIPTOR option \<Rightarrow> ('d, EFI_STATUS) sys" where
  "AddSupportedInformationType desc =
     (case desc of
        None \<Rightarrow> ret EFI_INVALID_PARAMETER
      | Some t \<Rightarrow> do {
          u \<leftarrow> gets id;
          if mInformationCount u > of_nat MAX_SUPPORTED_INFORMATION_TYPE - 1
          then ret EFI_OUT_OF_RESOURCES
          else if find_info_type u (Guid t) \<noteq> None then ret EFI_ALREADY_STARTED
          else do {
            _ \<leftarrow> modify (\<lambda>u. u\<lparr>mSupportedInformationTypes :=
                   (mSupportedInformationTypes u)[unat (mInformationCount u) :=
                     \<lparr>Guid = Guid t, GetInformationBlock = GetInformationBlock t,
                      SetInformationBlock = SetInformationBlock t\<rparr>],
                 mInformationCount := mInformationCount u + 1\<rparr>);
            ret EFI_SUCCESS } })"

section \<open>Information blocks\<close>

text \<open>
  The block functions return the status and the values of \<^verbatim>\<open>*InformationBlock\<close> and
  \<^verbatim>\<open>*InformationBlockSize\<close>; both keep their value on failure.
\<close>

definition GetMediaStateInformationBlock ::
  "'d env \<Rightarrow> 'd boot_services \<Rightarrow> u64 \<Rightarrow> u64 \<times> u64 \<Rightarrow> ('d, EFI_STATUS \<times> u64 \<times> u64) sys" where
  "GetMediaStateInformationBlock E B this out = do {
     buf \<leftarrow> call_bs (LibAllocatePool B 8);
     if buf = 0 then ret (EFI_OUT_OF_RESOURCES, out)
     else do {
       r \<leftarrow> on_adapter this (IsLinkUp E);
       _ \<leftarrow> modify (\<lambda>u. u\<lparr>undi_mem := store64 (undi_mem u) buf
              (if r = Some True then EFI_SUCCESS else EFI_NO_MEDIA)\<rparr>);
       ret (EFI_SUCCESS, buf, 8) } }"

definition GetIpv6SupportInformationBlock ::
  "'d boot_services \<Rightarrow> u64 \<times> u64 \<Rightarrow> ('d, EFI_STATUS \<times> u64 \<times> u64) sys" where
  "GetIpv6SupportInformationBlock B out = do {
     buf \<leftarrow> call_bs (LibAllocatePool B 1);
     if buf = 0 then ret (EFI_OUT_OF_RESOURCES, out)
     else do {
       _ \<leftarrow> modify (\<lambda>u. u\<lparr>undi_mem := store8 (undi_mem u) buf 1\<rparr>);
       ret (EFI_SUCCESS, buf, 1) } }"

definition call_get_block ::
  "'d env \<Rightarrow> 'd boot_services \<Rightarrow> get_block \<Rightarrow> u64 \<Rightarrow> u64 \<times> u64 \<Rightarrow>
   ('d, EFI_STATUS \<times> u64 \<times> u64) sys" where
  "call_get_block E B f this out = (case f of
     GetMediaStateInformationBlock_fn \<Rightarrow> GetMediaStateInformationBlock E B this out
   | GetIpv6SupportInformationBlock_fn \<Rightarrow> GetIpv6SupportInformationBlock B out)"

section \<open>The protocol\<close>

text \<open>
  \<open>InformationType\<close> and the output pointers are \<open>None\<close> when they are \<^verbatim>\<open>NULL\<close>; an output pointer
  carries the value it points to.
\<close>

definition GetInformation ::
  "'d env \<Rightarrow> 'd boot_services \<Rightarrow> u64 \<Rightarrow> EFI_GUID option \<Rightarrow> u64 option \<Rightarrow> u64 option \<Rightarrow>
   ('d, EFI_STATUS \<times> u64 option \<times> u64 option) sys" where
  "GetInformation E B this InformationType block sz =
     (if this = 0 then ret (EFI_INVALID_PARAMETER, block, sz)
      else case (InformationType, block, sz) of
        (Some g, Some b, Some s) \<Rightarrow> do {
          u \<leftarrow> gets id;
          (case find_info_type u g of
             Some d \<Rightarrow>
               (case GetInformationBlock d of
                  Some f \<Rightarrow> do {
                    (st, b, s) \<leftarrow> call_get_block E B f this (b, s);
                    ret (st, Some b, Some s) }
                | None \<Rightarrow> ret (EFI_UNSUPPORTED, block, sz))
           | None \<Rightarrow> ret (EFI_UNSUPPORTED, block, sz)) }
      | _ \<Rightarrow> ret (EFI_INVALID_PARAMETER, block, sz))"

definition SetInformation :: "EFI_GUID \<Rightarrow> u64 \<Rightarrow> u64 \<Rightarrow> ('d, EFI_STATUS) sys" where
  "SetInformation g InformationBlock InformationBlockSize =
     (if InformationBlock = 0 then ret EFI_INVALID_PARAMETER
      else do {
        u \<leftarrow> gets id;
        (case find_info_type u g of
           Some d \<Rightarrow>
             (case SetInformationBlock d of
                Some f \<Rightarrow> ret (f InformationBlock InformationBlockSize)
              | None \<Rightarrow> ret EFI_WRITE_PROTECTED)
         | None \<Rightarrow> ret EFI_UNSUPPORTED) })"

text \<open>The copies of the GUIDs into the buffer, 16 bytes each.\<close>

fun copy_guids :: "EFI_ADAPTER_INFORMATION_TYPE_DESCRIPTOR list \<Rightarrow> u64 \<Rightarrow> memory \<Rightarrow> memory" where
  "copy_guids [] buf m = m"
| "copy_guids (d # ds) buf m = copy_guids ds (buf + 16) (store_bytes m buf (Guid d))"

definition GetSupportedTypes ::
  "'d boot_services \<Rightarrow> u64 \<Rightarrow> u64 option \<Rightarrow> u64 option \<Rightarrow>
   ('d, EFI_STATUS \<times> u64 option \<times> u64 option) sys" where
  "GetSupportedTypes B this buffer cnt =
     (if this = 0 \<or> buffer = None \<or> cnt = None then ret (EFI_INVALID_PARAMETER, buffer, cnt)
      else do {
        u \<leftarrow> gets id;
        buf \<leftarrow> call_bs (LibAllocatePool B (ucast (mInformationCount u) * 16));
        if buf = 0 then ret (EFI_OUT_OF_RESOURCES, buffer, cnt)
        else do {
          _ \<leftarrow> modify (\<lambda>u. u\<lparr>undi_mem := copy_guids (info_types u) buf (undi_mem u)\<rparr>);
          ret (EFI_SUCCESS, Some buf, Some (ucast (mInformationCount u))) } })"

section \<open>Installation\<close>

definition InitAdapterInformationProtocol ::
  "'d boot_services \<Rightarrow> u64 \<Rightarrow> ('d, EFI_STATUS) sys" where
  "InitAdapterInformationProtocol B p = do {
     _ \<leftarrow> AddSupportedInformationType (Some
            \<lparr>Guid = EFI_ADAPTER_INFO_MEDIA_STATE_GUID,
             GetInformationBlock = Some GetMediaStateInformationBlock_fn,
             SetInformationBlock = None\<rparr>);
     _ \<leftarrow> AddSupportedInformationType (Some
            \<lparr>Guid = EFI_ADAPTER_INFO_UNDI_IPV6_SUPPORT_GUID,
             GetInformationBlock = Some GetIpv6SupportInformationBlock_fn,
             SetInformationBlock = None\<rparr>);
     d \<leftarrow> get_private p;
     (case d of
        None \<Rightarrow> ret EFI_INVALID_PARAMETER
      | Some d \<Rightarrow> do {
          (st, h) \<leftarrow> call_bs (InstallProtocols B (DeviceHandle d) [(AdapterInformationProtocol, p)]);
          _ \<leftarrow> upd_private p (\<lambda>d. d\<lparr>DeviceHandle := h\<rparr>);
          ret st }) }"

definition UninstallAdapterInformationProtocol ::
  "'d boot_services \<Rightarrow> u64 \<Rightarrow> ('d, EFI_STATUS) sys" where
  "UninstallAdapterInformationProtocol B p = do {
     d \<leftarrow> get_private p;
     (case d of
        None \<Rightarrow> ret EFI_INVALID_PARAMETER
      | Some d \<Rightarrow> call_bs (UninstallProtocols B (DeviceHandle d) [(AdapterInformationProtocol, p)])) }"

section \<open>The table as a registry\<close>

text \<open>
  What the protocol relies on: a registry of at most \<open>cap\<close> keys in which the first registration of a
  key stays.
\<close>

locale registry =
  fixes add :: "'v \<Rightarrow> 's \<Rightarrow> 's" and key :: "'v \<Rightarrow> 'k" and look :: "'s \<Rightarrow> 'k \<Rightarrow> 'v option"
    and inv :: "'s \<Rightarrow> bool" and used :: "'s \<Rightarrow> nat" and cap :: nat and ok :: "'v \<Rightarrow> bool"
  assumes add_inv: "inv s \<Longrightarrow> ok v \<Longrightarrow> inv (add v s)"
    and used_cap: "inv s \<Longrightarrow> used s \<le> cap"
    and add_new: "inv s \<Longrightarrow> ok v \<Longrightarrow> look s (key v) = None \<Longrightarrow> used s < cap \<Longrightarrow>
      look (add v s) = (look s)(key v \<mapsto> v) \<and> used (add v s) = Suc (used s)"
    and add_kept: "inv s \<Longrightarrow> look s (key v) \<noteq> None \<or> used s = cap \<Longrightarrow> add v s = s"
begin

lemma add_idem: "inv s \<Longrightarrow> ok v \<Longrightarrow> add v (add v s) = add v s"
proof (cases "look s (key v) = None \<and> used s < cap")
  case True
  assume "inv s" "ok v"
  then have "look (add v s) (key v) \<noteq> None" using True by (simp add: add_new)
  with \<open>inv s\<close> \<open>ok v\<close> show ?thesis using add_kept add_inv by blast
next
  case False
  assume "inv s" "ok v"
  then have "add v s = s" using False used_cap [of s] add_kept [of s v] by linarith
  then show ?thesis by simp
qed

lemma add_keeps: "inv s \<Longrightarrow> ok v \<Longrightarrow> look s k = Some x \<Longrightarrow> look (add v s) k = Some x"
proof (cases "look s (key v) = None \<and> used s < cap")
  case True
  assume "inv s" "ok v" "look s k = Some x"
  then show ?thesis using True by (auto simp: add_new)
next
  case False
  assume "inv s" "ok v" "look s k = Some x"
  then have "add v s = s" using False used_cap [of s] add_kept [of s v] by linarith
  with \<open>look s k = Some x\<close> show ?thesis by simp
qed

lemma adds_inv_keeps:
  "inv s \<Longrightarrow> \<forall>v \<in> set vs. ok v \<Longrightarrow>
     inv (fold add vs s) \<and> (\<forall>k x. look s k = Some x \<longrightarrow> look (fold add vs s) k = Some x)"
  by (induction vs arbitrary: s) (auto simp: add_inv add_keeps)

end

definition guid_ok :: "EFI_ADAPTER_INFORMATION_TYPE_DESCRIPTOR \<Rightarrow> bool" where
  "guid_ok t \<longleftrightarrow> length (Guid t) = 16"

definition aip_inv :: "'d undi \<Rightarrow> bool" where
  "aip_inv u \<longleftrightarrow> length (mSupportedInformationTypes u) = MAX_SUPPORTED_INFORMATION_TYPE \<and>
     unat (mInformationCount u) \<le> MAX_SUPPORTED_INFORMATION_TYPE \<and>
     distinct (map Guid (info_types u)) \<and> (\<forall>t \<in> set (info_types u). guid_ok t)"

abbreviation aip_add :: "EFI_ADAPTER_INFORMATION_TYPE_DESCRIPTOR \<Rightarrow> 'd undi \<Rightarrow> 'd undi" where
  "aip_add t u \<equiv> snd (run_state (AddSupportedInformationType (Some t)) u)"

definition aip_push :: "EFI_ADAPTER_INFORMATION_TYPE_DESCRIPTOR \<Rightarrow> 'd undi \<Rightarrow> 'd undi" where
  "aip_push t u = u\<lparr>mSupportedInformationTypes :=
     (mSupportedInformationTypes u)[unat (mInformationCount u) := t],
     mInformationCount := mInformationCount u + 1\<rparr>"

lemma add_run:
  assumes "aip_inv u"
  shows "run_state (AddSupportedInformationType (Some t)) u =
    (if unat (mInformationCount u) = MAX_SUPPORTED_INFORMATION_TYPE then (EFI_OUT_OF_RESOURCES, u)
     else if find_info_type u (Guid t) \<noteq> None then (EFI_ALREADY_STARTED, u)
     else (EFI_SUCCESS, aip_push t u))"
proof -
  have "19 < mInformationCount u \<longleftrightarrow> unat (mInformationCount u) = 20"
    using assms by (auto simp: aip_inv_def word_less_nat_alt)
  then show ?thesis by (cases t) (simp add: AddSupportedInformationType_def aip_push_def)
qed

lemma push_types:
  assumes "aip_inv u" "unat (mInformationCount u) < MAX_SUPPORTED_INFORMATION_TYPE"
  shows "info_types (aip_push t u) = info_types u @ [t]"
    and "unat (mInformationCount (aip_push t u)) = Suc (unat (mInformationCount u))"
proof -
  show c: "unat (mInformationCount (aip_push t u)) = Suc (unat (mInformationCount u))"
    using assms(2) by (simp add: aip_push_def unat_word_ariths)
  show "info_types (aip_push t u) = info_types u @ [t]"
    unfolding info_types_def c using assms by (simp add: aip_push_def aip_inv_def take_Suc_conv_app_nth)
qed

interpretation aip: registry aip_add Guid find_info_type aip_inv
  "\<lambda>u. unat (mInformationCount u)" MAX_SUPPORTED_INFORMATION_TYPE guid_ok
proof
  fix u :: "'a undi" and t assume inv: "aip_inv u"
  show "unat (mInformationCount u) \<le> MAX_SUPPORTED_INFORMATION_TYPE" using inv by (simp add: aip_inv_def)
  show "aip_add t u = u" if "find_info_type u (Guid t) \<noteq> None \<or> unat (mInformationCount u) = MAX_SUPPORTED_INFORMATION_TYPE"
    using that by (auto simp: add_run [OF inv])
  assume ok: "guid_ok t"
  show new: "find_info_type (aip_add t u) = (find_info_type u)(Guid t \<mapsto> t) \<and>
      unat (mInformationCount (aip_add t u)) = Suc (unat (mInformationCount u))"
    if "find_info_type u (Guid t) = None" "unat (mInformationCount u) < MAX_SUPPORTED_INFORMATION_TYPE"
    using that push_types [OF inv]
    by (auto simp: add_run [OF inv] find_info_type_def find_append fun_eq_iff split: option.splits)
  show "aip_inv (aip_add t u)"
  proof (cases "find_info_type u (Guid t) = None \<and> unat (mInformationCount u) < MAX_SUPPORTED_INFORMATION_TYPE")
    case True
    then have "Guid t \<notin> Guid ` set (info_types u)" by (auto simp: find_info_type_def find_None_iff)
    with True show ?thesis
      using push_types [OF inv] inv ok
      by (auto simp: add_run [OF inv] aip_inv_def [of u] aip_inv_def [of "aip_push t u"]) (simp add: aip_push_def)
  next
    case False
    then show ?thesis using inv by (auto simp: add_run [OF inv] aip_inv_def [of u])
  qed
qed


section \<open>Installation and enumeration\<close>

abbreviation media_type :: EFI_ADAPTER_INFORMATION_TYPE_DESCRIPTOR where
  "media_type \<equiv> \<lparr>Guid = EFI_ADAPTER_INFO_MEDIA_STATE_GUID,
     GetInformationBlock = Some GetMediaStateInformationBlock_fn, SetInformationBlock = None\<rparr>"

abbreviation ipv6_type :: EFI_ADAPTER_INFORMATION_TYPE_DESCRIPTOR where
  "ipv6_type \<equiv> \<lparr>Guid = EFI_ADAPTER_INFO_UNDI_IPV6_SUPPORT_GUID,
     GetInformationBlock = Some GetIpv6SupportInformationBlock_fn, SetInformationBlock = None\<rparr>"

lemma own_guids: "EFI_ADAPTER_INFO_MEDIA_STATE_GUID \<noteq> EFI_ADAPTER_INFO_UNDI_IPV6_SUPPORT_GUID"
  "guid_ok media_type" "guid_ok ipv6_type"
  by (simp_all add: EFI_ADAPTER_INFO_MEDIA_STATE_GUID_def EFI_ADAPTER_INFO_UNDI_IPV6_SUPPORT_GUID_def
      mk_guid_def guid_ok_def)

lemma keeps_types_install: "keeps info_types (do {
     d \<leftarrow> get_private p;
     (case d of
        None \<Rightarrow> ret EFI_INVALID_PARAMETER
      | Some d \<Rightarrow> do {
          (st, h) \<leftarrow> call_bs (InstallProtocols B (DeviceHandle d) [(AdapterInformationProtocol, p)]);
          _ \<leftarrow> upd_private p (\<lambda>d. d\<lparr>DeviceHandle := h\<rparr>);
          ret st }) })"
  unfolding get_private_def upd_private_def call_bs_def
  by (auto intro!: frame simp: info_types_def keeps_def split: option.splits prod.splits)

lemma init_run:
  "info_types (snd (run_state (InitAdapterInformationProtocol B p) u)) =
     info_types (aip_add ipv6_type (aip_add media_type u))"
  using keeps_types_install [of p B]
  by (simp add: InitAdapterInformationProtocol_def keeps_def split: prod.splits)


fun init_aip :: "'d boot_services \<Rightarrow> u64 list \<Rightarrow> ('d, unit) sys" where
  "init_aip B [] = ret ()"
| "init_aip B (p # ps) = do { _ \<leftarrow> InitAdapterInformationProtocol B p; init_aip B ps }"

lemma init_keeps_table:
  "mInformationCount (snd (run_state (InitAdapterInformationProtocol B p) u)) =
     mInformationCount (aip_add ipv6_type (aip_add media_type u))"
  "mSupportedInformationTypes (snd (run_state (InitAdapterInformationProtocol B p) u)) =
     mSupportedInformationTypes (aip_add ipv6_type (aip_add media_type u))"
  by (auto simp: InitAdapterInformationProtocol_def get_private_def upd_private_def call_bs_def
      split: prod.splits option.splits)

lemma aip_inv_cong:
  "mInformationCount u' = mInformationCount u \<Longrightarrow>
     mSupportedInformationTypes u' = mSupportedInformationTypes u \<Longrightarrow> aip_inv u' = aip_inv u"
  by (simp add: aip_inv_def info_types_def)

lemma add_types:
  assumes "aip_inv u" "guid_ok t"
  shows "info_types (aip_add t u) =
    (if unat (mInformationCount u) = 20 \<or> find_info_type u (Guid t) \<noteq> None then info_types u else info_types u @ [t])"
proof -
  have "unat (mInformationCount u) \<le> 20" using assms(1) by (simp add: aip_inv_def)
  then show ?thesis using push_types(1) [OF assms(1)] by (auto simp: add_run [OF assms(1)])
qed

lemma initial_aip_inv: "aip_inv (initial_undi d m)"
  by (simp add: aip_inv_def initial_undi_def info_types_def)

lemma init_aip_types:
  assumes "aip_inv u" and "info_types u = [] \<or> info_types u = [media_type, ipv6_type]"
    and "run_state (InitAdapterInformationProtocol B p) u = (st, u')"
  shows "aip_inv u' \<and> info_types u' = [media_type, ipv6_type]"
proof -
  let ?u1 = "aip_add media_type u"
  have inv1: "aip_inv ?u1" by (rule aip.add_inv [OF assms(1) own_guids(2)])
  have inv2: "aip_inv (aip_add ipv6_type ?u1)" by (rule aip.add_inv [OF inv1 own_guids(3)])
  have "length (info_types u) = unat (mInformationCount u)" using assms(1) by (simp add: aip_inv_def info_types_def)
  then have n: "unat (mInformationCount u) \<noteq> 20" using assms(2) by auto
  have t1: "info_types ?u1 = [media_type] \<or> info_types ?u1 = [media_type, ipv6_type]"
    using assms(2) add_types [OF assms(1) own_guids(2)] n
    by (auto simp: find_info_type_def)
  have "length (info_types ?u1) = unat (mInformationCount ?u1)" using inv1 by (simp add: aip_inv_def info_types_def)
  then have "unat (mInformationCount ?u1) \<noteq> 20" using t1 by auto
  then have "info_types (aip_add ipv6_type ?u1) = [media_type, ipv6_type]"
    using t1 add_types [OF inv1 own_guids(3)] own_guids(1) by (auto simp: find_info_type_def)
  moreover have "aip_inv u'"
    using inv2 aip_inv_cong [OF init_keeps_table, of B p u] assms(3) by simp
  ultimately show ?thesis using init_run [of B p u] assms(3) by simp
qed

text \<open>
  C37.  Installing the protocol for any number of adapters registers each of the two information types once:
  after at least one installation from the initial globals the table in use is exactly media state and
  IPv6 support, and it never overflows.
\<close>

theorem aip_installs_two_types:
  assumes "run_state (init_aip B ps) (initial_undi d m) = ((), u)"
  shows "aip_inv u \<and> info_types u = (if ps = [] then [] else [media_type, ipv6_type])"
proof -
  have step: "aip_inv u' \<and> info_types u' = (if ps = [] then info_types u else [media_type, ipv6_type])"
    if "aip_inv u" "info_types u = [] \<or> info_types u = [media_type, ipv6_type]"
      "run_state (init_aip B ps) u = ((), u')" for u u' :: "'a undi"
    using that
  proof (induction ps arbitrary: u)
    case (Cons p ps)
    obtain st u1 where run: "run_state (InitAdapterInformationProtocol B p) u = (st, u1)" by fastforce
    from init_aip_types [OF Cons.prems(1,2) run] Cons.IH [of u1] Cons.prems(3) run show ?case by auto
  qed simp
  have "info_types (initial_undi d m) = []" by (simp add: info_types_def initial_undi_def)
  with step [OF initial_aip_inv _ assms] show ?thesis by simp
qed

definition dead_services :: "'d boot_services" where
  "dead_services =
     \<lparr>OpenProtocol = \<lambda>h p a c att r d. ((EFI_UNSUPPORTED, r), d),
      CloseProtocol = \<lambda>h p a c d. (EFI_SUCCESS, d),
      InstallProtocols = \<lambda>h ps d. ((EFI_SUCCESS, h), d),
      UninstallProtocols = \<lambda>h ps d. (EFI_SUCCESS, d),
      AllocatePool = \<lambda>n r d. ((EFI_OUT_OF_RESOURCES, r), d),
      FreePool = \<lambda>p d. (EFI_SUCCESS, d),
      LibAllocatePool = \<lambda>n d. (0x5000, d),
      LibAllocatePrivateData = \<lambda>d. (0, d),
      LocateHandleBuffer = \<lambda>d. ((EFI_UNSUPPORTED, [], 0), d),
      PciReadIds = \<lambda>p d. ((EFI_UNSUPPORTED, 0, 0), d)\<rparr>"

theorem aip_installs_two_types_witness:
  "\<exists>u. run_state (init_aip dead_services [1, 2]) (initial_undi () (\<lambda>_. 0)) = ((), u) \<and>
     info_types u = [media_type, ipv6_type]"
proof -
  obtain u where "run_state (init_aip dead_services [1, 2]) (initial_undi () (\<lambda>_. 0)) = ((), u)"
    by (metis (full_types) old.unit.exhaust prod.exhaust)
  with aip_installs_two_types [OF this] show ?thesis by auto
qed

text \<open>
  \<^verbatim>\<open>AddSupportedInformationType\<close>, on every branch: it refuses when the twenty entries are taken or the
  type is known and then changes nothing, and otherwise makes the new entry found under its GUID while
  every look-up of another GUID is as before.
\<close>

theorem add_information_type:
  assumes "aip_inv u" and "guid_ok t" and "run_state (AddSupportedInformationType (Some t)) u = (st, u')"
  shows "aip_inv u' \<and>
    (if unat (mInformationCount u) = MAX_SUPPORTED_INFORMATION_TYPE then st = EFI_OUT_OF_RESOURCES \<and> u' = u
     else if find_info_type u (Guid t) \<noteq> None then st = EFI_ALREADY_STARTED \<and> u' = u
     else st = EFI_SUCCESS \<and> find_info_type u' = (find_info_type u)(Guid t \<mapsto> t) \<and>
       unat (mInformationCount u') = Suc (unat (mInformationCount u)))"
proof -
  have "unat (mInformationCount u) \<le> 20" using assms(1) by (simp add: aip_inv_def)
  then show ?thesis
    using aip.add_inv [OF assms(1,2)] aip.add_new [OF assms(1,2)] assms(3) by (auto simp: add_run [OF assms(1)])
qed

theorem add_information_type_witness:
  "\<exists>u'. run_state (AddSupportedInformationType (Some media_type)) (initial_undi () (\<lambda>_. 0)) = (EFI_SUCCESS, u') \<and>
     find_info_type u' EFI_ADAPTER_INFO_MEDIA_STATE_GUID = Some media_type"
proof -
  obtain st u' where run: "run_state (AddSupportedInformationType (Some media_type)) (initial_undi () (\<lambda>_. 0)) = (st, u')"
    by fastforce
  have "mInformationCount (initial_undi () (\<lambda>_. 0)) = 0" by (simp add: initial_undi_def)
  moreover from this have "find_info_type (initial_undi () (\<lambda>_. 0)) g = None" for g
    by (simp add: find_info_type_def info_types_def)
  ultimately show ?thesis
    using add_information_type [OF initial_aip_inv own_guids(2) run] run by simp
qed

end
