(* ===== verification/Undi_Init.thy ===== *)
theory Undi_Init
  imports Undi_Names Undi_Aip Undi_Decode
begin

text \<open>
  \<^verbatim>\<open>Init.c\<close> and \<^verbatim>\<open>StartStop.c\<close>: the driver binding (supported, start, stop), the !PXE structure
  with its checksum, the device path with the MAC node, the protocols of controller and child, unload,
  and the stop protocol used by diagnostics.  \<^verbatim>\<open>This\<close> is \<open>None\<close> for \<^verbatim>\<open>NULL\<close> and otherwise the
  driver binding handle.
\<close>

section \<open>Device paths\<close>

abbreviation MESSAGING_DEVICE_PATH :: u8 where "MESSAGING_DEVICE_PATH \<equiv> 0x03"
abbreviation MSG_MAC_ADDR_DP :: u8 where "MSG_MAC_ADDR_DP \<equiv> 0x0b"
abbreviation PXE_IFTYPE_ETHERNET :: u8 where "PXE_IFTYPE_ETHERNET \<equiv> 0x01"
abbreviation sizeof_MAC_ADDR_DEVICE_PATH :: nat where "sizeof_MAC_ADDR_DEVICE_PATH \<equiv> 37"
abbreviation sizeof_EFI_DEVICE_PATH_PROTOCOL :: nat where "sizeof_EFI_DEVICE_PATH_PROTOCOL \<equiv> 4"

definition IsDevicePathEnd :: "memory \<Rightarrow> u64 \<Rightarrow> bool" where
  "IsDevicePathEnd m node \<longleftrightarrow> m node = 0x7F \<and> m (node + 1) = 0xFF"

definition NextDevicePathNode :: "memory \<Rightarrow> u64 \<Rightarrow> u64" where
  "NextDevicePathNode m node = node + ucast (load16 m (node + 2))"

definition IsNullOrEndOfDevicePath :: "memory \<Rightarrow> u64 \<Rightarrow> bool" where
  "IsNullOrEndOfDevicePath m path \<longleftrightarrow> path = 0 \<or> IsDevicePathEnd m path"

definition IsDevicePathTypeSupported :: "memory \<Rightarrow> u64 \<Rightarrow> bool" where
  "IsDevicePathTypeSupported m path \<longleftrightarrow>
     path \<noteq> 0 \<and> m path = MESSAGING_DEVICE_PATH \<and> m (path + 1) = MSG_MAC_ADDR_DP
     \<and> m (path + 36) = PXE_IFTYPE_ETHERNET"

text \<open>\<open>MacAddr\<close> is the address field of the adapter, which is never \<^verbatim>\<open>NULL\<close>.\<close>

definition IsDevicePathSupported :: "memory \<Rightarrow> u64 \<Rightarrow> u8 list \<Rightarrow> bool" where
  "IsDevicePathSupported m path MacAddr \<longleftrightarrow>
     path \<noteq> 0 \<and> IsDevicePathTypeSupported m path
     \<and> list_all (\<lambda>i. m (path + 4 + of_nat i) = MacAddr ! i) [0..<6]"

definition AnalyzeRemainingDevicePath :: "memory \<Rightarrow> UNDI_PRIVATE_DATA option \<Rightarrow> u64 \<Rightarrow> EFI_STATUS" where
  "AnalyzeRemainingDevicePath m priv path =
     (case priv of
        None \<Rightarrow>
          (if IsNullOrEndOfDevicePath m path then EFI_SUCCESS
           else if IsDevicePathTypeSupported m path then EFI_SUCCESS else EFI_UNSUPPORTED)
      | Some d \<Rightarrow>
          (if IsNullOrEndOfDevicePath m path
           then (if IsChildInitialized d then EFI_ALREADY_STARTED else EFI_SUCCESS)
           else if IsDevicePathSupported m path (mac_addr (mac (Hw (NicInfo d))))
           then (if IsChildInitialized d then EFI_ALREADY_STARTED else EFI_SUCCESS)
           else EFI_UNSUPPORTED))"

definition IsNotEndOfDevicePathNode :: "memory \<Rightarrow> u64 \<Rightarrow> bool" where
  "IsNotEndOfDevicePathNode m path \<longleftrightarrow> \<not> IsDevicePathEnd m path"

section \<open>Controllers\<close>

text \<open>The scan of \<^verbatim>\<open>GetControllerPrivateData\<close>; the result 0 is \<^verbatim>\<open>NULL\<close>.\<close>

fun find_controller :: "u64 \<Rightarrow> u64 list \<Rightarrow> ('d, u64) sys" where
  "find_controller h [] = ret 0"
| "find_controller h (p # ps) =
     (if p \<noteq> 0 then do {
        d \<leftarrow> get_private p;
        (case d of
           Some d \<Rightarrow> if ControllerHandle d = h then ret p else find_controller h ps
         | None \<Rightarrow> find_controller h ps) }
      else find_controller h ps)"

definition GetControllerPrivateData :: "u64 \<Rightarrow> ('d, u64) sys" where
  "GetControllerPrivateData h = do {
     u \<leftarrow> gets id;
     find_controller h (take (unat (mActiveControllers u)) (mIntelgbeUndi32DeviceList u)) }"

definition supported_pci_io ::
  "'d boot_services \<Rightarrow> u64 \<Rightarrow> u64 \<Rightarrow> UNDI_PRIVATE_DATA option \<Rightarrow> ('d, EFI_STATUS + u64) sys" where
  "supported_pci_io B dbh Controller priv =
     (case priv of
        None \<Rightarrow> do {
          (st, pciio) \<leftarrow> call_bs (OpenProtocol B Controller PciIoProtocol dbh Controller BY_DRIVER 0);
          ret (if EFI_ERROR st then Inl st else Inr pciio) }
      | Some d \<Rightarrow>
          ret (if PciIo (NicInfo d) = 0 then Inl EFI_INVALID_PARAMETER else Inr (PciIo (NicInfo d))))"

definition IntelgbeUndiDriverSupported ::
  "'d boot_services \<Rightarrow> u64 \<Rightarrow> u64 \<Rightarrow> u64 \<Rightarrow> ('d, EFI_STATUS) sys" where
  "IntelgbeUndiDriverSupported B dbh Controller RemainingDevicePath = do {
     p \<leftarrow> GetControllerPrivateData Controller;
     priv \<leftarrow> (if p = 0 then ret None else get_private p);
     r \<leftarrow> supported_pci_io B dbh Controller priv;
     (case r of
        Inl st \<Rightarrow> ret st
      | Inr pciio \<Rightarrow> do {
          (st, vid, did) \<leftarrow> call_bs (PciReadIds B pciio);
          m \<leftarrow> gets undi_mem;
          let st = (if EFI_ERROR st then st
                    else if \<not> IsDeviceIdSupported vid did then EFI_UNSUPPORTED
                    else AnalyzeRemainingDevicePath m priv RemainingDevicePath);
          _ \<leftarrow> (if p = 0 then do {
                 _ \<leftarrow> call_bs (CloseProtocol B Controller PciIoProtocol dbh Controller);
                 ret () }
               else ret ());
          ret st }) }"

definition CloseControllerProtocols ::
  "'d boot_services \<Rightarrow> u64 \<Rightarrow> u64 option \<Rightarrow> ('d, EFI_STATUS) sys" where
  "CloseControllerProtocols B Controller This =
     (case This of
        None \<Rightarrow> ret EFI_INVALID_PARAMETER
      | Some dbh \<Rightarrow> do {
          st \<leftarrow> call_bs (CloseProtocol B Controller DevicePathProtocol dbh Controller);
          if EFI_ERROR st then ret st
          else do {
            st \<leftarrow> call_bs (CloseProtocol B Controller PciIoProtocol dbh Controller);
            if EFI_ERROR st then ret st else ret EFI_SUCCESS } })"

definition OpenControllerProtocols ::
  "'d boot_services \<Rightarrow> u64 \<Rightarrow> u64 option \<Rightarrow> u64 \<Rightarrow> ('d, EFI_STATUS) sys" where
  "OpenControllerProtocols B Controller This p =
     (case This of
        None \<Rightarrow> ret EFI_INVALID_PARAMETER
      | Some dbh \<Rightarrow>
          if p = 0 then ret EFI_INVALID_PARAMETER
          else do {
            d \<leftarrow> get_private p;
            (case d of
               None \<Rightarrow> ret EFI_INVALID_PARAMETER
             | Some d \<Rightarrow> do {
                 (st, pciio) \<leftarrow> call_bs (OpenProtocol B Controller PciIoProtocol dbh Controller
                                          BY_DRIVER (PciIo (NicInfo d)));
                 _ \<leftarrow> upd_private p (\<lambda>d. d\<lparr>NicInfo := (NicInfo d)\<lparr>PciIo := pciio\<rparr>\<rparr>);
                 if EFI_ERROR st then ret st
                 else do {
                   (st, path) \<leftarrow> call_bs (OpenProtocol B Controller DevicePathProtocol dbh Controller
                                           BY_DRIVER 0);
                   if EFI_ERROR st then ret st
                   else do {
                     _ \<leftarrow> upd_private p (\<lambda>d. d\<lparr>Undi32BaseDevPath := path\<rparr>);
                     ret EFI_SUCCESS } } }) })"

section \<open>The !PXE structure\<close>

abbreviation pxe_Len :: "u64 \<Rightarrow> u64" where "pxe_Len p \<equiv> p + 4"
abbreviation pxe_Fudge :: "u64 \<Rightarrow> u64" where "pxe_Fudge p \<equiv> p + 5"
abbreviation pxe_IFcnt :: "u64 \<Rightarrow> u64" where "pxe_IFcnt p \<equiv> p + 7"
abbreviation sizeof_PXE_SW_UNDI :: nat where "sizeof_PXE_SW_UNDI \<equiv> 32"

text \<open>The bytes are signed in the source; the sum is taken modulo 256 either way.\<close>

definition IntelgbeChkSum :: "memory \<Rightarrow> u64 \<Rightarrow> u16 \<Rightarrow> u8" where
  "IntelgbeChkSum m Buffer Len =
     (if Buffer \<noteq> 0 then fold (\<lambda>b s. s + b) (load_bytes m Buffer (unat Len)) 0 else 0)"

definition fix_fudge :: "u64 \<Rightarrow> memory \<Rightarrow> memory" where
  "fix_fudge pxe m =
     store8 m (pxe_Fudge pxe)
       (m (pxe_Fudge pxe) - IntelgbeChkSum m pxe (ucast (m (pxe_Len pxe))))"

text \<open>\<open>nic\<close> tells whether \<^verbatim>\<open>NicPtr\<close> is not \<^verbatim>\<open>NULL\<close>.\<close>

definition GigUndiPxeUpdate :: "bool \<Rightarrow> u64 \<Rightarrow> ('d, EFI_STATUS) sys" where
  "GigUndiPxeUpdate nic pxe = do {
     u \<leftarrow> gets id;
     if nic \<and> \<not> mActiveChildren u < of_nat MAX_NIC_INTERFACES then ret EFI_OUT_OF_RESOURCES
     else do {
       _ \<leftarrow> modify (\<lambda>u. u\<lparr>mActiveChildren :=
              (if nic then mActiveChildren u + 1
               else if mActiveChildren u > 0 then mActiveChildren u - 1 else mActiveChildren u)\<rparr>);
       _ \<leftarrow> modify (\<lambda>u. u\<lparr>undi_mem :=
              store8 (undi_mem u) (pxe_IFcnt pxe) (ucast (mActiveChildren u) - 1)\<rparr>);
       _ \<leftarrow> modify (\<lambda>u. u\<lparr>undi_mem := fix_fudge pxe (undi_mem u)\<rparr>);
       ret EFI_SUCCESS } }"

definition PXE_ROMID_IMP :: u32 where
  "PXE_ROMID_IMP = 0x40000000 OR 0x00008000 OR 0x00004000 OR 0x00000400 OR 0x00000100 OR 0x00000080
                   OR 0x00000040 OR 0x00000020 OR 0x00000010 OR 0x00000004 OR 0x00000002"

text \<open>\<open>entry\<close> is the address of \<^verbatim>\<open>IntelgbeUndiApiEntry\<close>.\<close>

definition GigUndiPxeStructInit :: "u64 \<Rightarrow> u64 \<Rightarrow> memory \<Rightarrow> memory" where
  "GigUndiPxeStructInit entry pxe m =
     (let m = store32 m pxe 0x45585021;
          m = store8 m (pxe_Len pxe) (of_nat sizeof_PXE_SW_UNDI);
          m = store8 m (pxe_Fudge pxe) 0;
          m = store8 m (pxe_IFcnt pxe) 0;
          m = store8 m (pxe + 6) 0x02;
          m = store8 m (pxe + 8) 0x03;
          m = store8 m (pxe + 9) 0x10;
          m = store8 m (pxe + 11) 0;
          m = store32 m (pxe + 12) PXE_ROMID_IMP;
          m = store64 m (pxe + 16) entry;
          m = store8 m (pxe + 24) 0;
          m = store8 m (pxe + 25) 0;
          m = store8 m (pxe + 26) 0;
          m = store8 m (pxe + 27) 1;
          m = store32 m (pxe + 28) 0x52494350
      in fix_fudge pxe m)"

definition align_paragraph :: "u64 \<Rightarrow> u64" where
  "align_paragraph p = (if p AND 0x0F \<noteq> 0 then (p AND 0xFFFFFFFFFFFFFFF0) + 0x10 else p)"

definition InitializePxeStruct :: "'d boot_services \<Rightarrow> u64 \<Rightarrow> ('d, EFI_STATUS) sys" where
  "InitializePxeStruct B entry = do {
     old \<leftarrow> gets mIntelgbePxeMemPtr;
     (st, p) \<leftarrow> call_bs (AllocatePool B (of_nat (sizeof_PXE_SW_UNDI + sizeof_PXE_SW_UNDI + 32)) old);
     _ \<leftarrow> modify (\<lambda>u. u\<lparr>mIntelgbePxeMemPtr := p\<rparr>);
     if EFI_ERROR st then ret st
     else do {
       _ \<leftarrow> modify (\<lambda>u. u\<lparr>undi_mem :=
              ZeroMem p (sizeof_PXE_SW_UNDI + sizeof_PXE_SW_UNDI + 32) (undi_mem u)\<rparr>);
       _ \<leftarrow> modify (\<lambda>u. u\<lparr>mIntelgbePxe31 := align_paragraph p\<rparr>);
       _ \<leftarrow> modify (\<lambda>u. u\<lparr>undi_mem := GigUndiPxeStructInit entry (mIntelgbePxe31 u) (undi_mem u)\<rparr>);
       ret st } }"

section \<open>Child and controller protocols\<close>

definition InitUndiCallbackFunctions :: "u64 \<Rightarrow> GIG_DRIVER_DATA \<Rightarrow> GIG_DRIVER_DATA" where
  "InitUndiCallbackFunctions self g =
     g\<lparr>Delay := 0, Virt2Phys := 0, Block := 0, MapMem := 0, UnMapMem := 0, SyncMem := 0,
       UniqueId := self, VersionFlag := 0x31\<rparr>"

definition InitUndiStructures :: "u64 \<Rightarrow> ('d, EFI_STATUS) sys" where
  "InitUndiStructures p = do {
     pxe \<leftarrow> gets mIntelgbePxe31;
     st \<leftarrow> GigUndiPxeUpdate True pxe;
     if EFI_ERROR st then ret st
     else do {
       _ \<leftarrow> upd_private p (\<lambda>d. d\<lparr>NicInfo := InitUndiCallbackFunctions p (NicInfo d)\<rparr>);
       ret EFI_SUCCESS } }"

text \<open>\<open>on_child\<close>: the handle is \<^verbatim>\<open>&UndiPrivateData->DeviceHandle\<close>, otherwise a local variable.\<close>

definition InitNiiPointerProtocol ::
  "'d boot_services \<Rightarrow> bool \<Rightarrow> u64 \<Rightarrow> u64 \<Rightarrow> ('d, EFI_STATUS) sys" where
  "InitNiiPointerProtocol B on_child handle p = do {
     _ \<leftarrow> upd_private p (\<lambda>d. d\<lparr>NIIPointerProtocol := p\<rparr>);
     (st, h) \<leftarrow> call_bs (InstallProtocols B handle [(NiiPointerGuid, p)]);
     _ \<leftarrow> (if on_child then upd_private p (\<lambda>d. d\<lparr>DeviceHandle := h\<rparr>) else ret ());
     if EFI_ERROR st then ret st else ret EFI_SUCCESS }"

text \<open>The search for the end node does not return on a path without one.\<close>

partial_function (option) device_path_end :: "memory \<Rightarrow> u64 \<Rightarrow> u64 option" where
  "device_path_end m node =
     (if IsDevicePathEnd m node then Some node
      else device_path_end m (NextDevicePathNode m node))"

definition mac_addr_node :: "u8 list \<Rightarrow> u8 list" where
  "mac_addr_node perm =
     [MESSAGING_DEVICE_PATH, MSG_MAC_ADDR_DP, of_nat sizeof_MAC_ADDR_DEVICE_PATH, 0]
     @ take 6 perm @ replicate 26 0 @ [PXE_IFTYPE_ETHERNET]"

text \<open>
  The result is the status and \<^verbatim>\<open>*DevPtr\<close>.  An endless search is recorded as a fault, after which
  nothing is said about the state.
\<close>

definition GigAppendMac2DevPath ::
  "'d boot_services \<Rightarrow> u64 \<Rightarrow> u64 \<Rightarrow> GIG_DRIVER_DATA \<Rightarrow> ('d, EFI_STATUS \<times> u64) sys" where
  "GigAppendMac2DevPath B DevPtr BaseDevPtr g = do {
     m \<leftarrow> gets undi_mem;
     (case device_path_end m BaseDevPtr of
        None \<Rightarrow> do { _ \<leftarrow> sys_fault; ret (EFI_DEVICE_ERROR, DevPtr) }
      | Some EndNode \<Rightarrow> do {
          let BasePathLen = (ucast (EndNode - BaseDevPtr) :: u16);
          let TotalPathLen = BasePathLen + of_nat (sizeof_MAC_ADDR_DEVICE_PATH
                                                   + sizeof_EFI_DEVICE_PATH_PROTOCOL);
          (st, a) \<leftarrow> call_bs (AllocatePool B (ucast TotalPathLen) 0);
          if st \<noteq> EFI_SUCCESS then ret (st, DevPtr)
          else do {
            _ \<leftarrow> modify (\<lambda>u. u\<lparr>undi_mem :=
                   (let mm = undi_mem u;
                        mm = store_bytes mm a (load_bytes mm BaseDevPtr (unat BasePathLen));
                        a1 = a + ucast BasePathLen;
                        mm = store_bytes mm a1 (mac_addr_node (perm_addr (mac (Hw g))));
                        a2 = a1 + of_nat sizeof_MAC_ADDR_DEVICE_PATH
                    in store_bytes mm a2
                         (load_bytes mm EndNode sizeof_EFI_DEVICE_PATH_PROTOCOL))\<rparr>);
            ret (EFI_SUCCESS, a) } }) }"

abbreviation EfiNetworkInterfaceUndi :: u8 where "EfiNetworkInterfaceUndi \<equiv> 1"

definition InitNiiProtocol :: "'d boot_services \<Rightarrow> u64 \<Rightarrow> u64 \<Rightarrow> ('d, EFI_STATUS) sys" where
  "InitNiiProtocol B handle p = do {
     u \<leftarrow> gets id;
     _ \<leftarrow> upd_private p (\<lambda>d. d\<lparr>NiiProtocol31 :=
            \<lparr>Nii_Id = mIntelgbePxe31 u,
             Nii_IfNum = ucast (undi_mem u (pxe_IFcnt (mIntelgbePxe31 u))),
             Nii_Revision = 0x00010001, Nii_MajorVer = 0x03, Nii_MinorVer = 0x10,
             Nii_Ipv6Supported = True, Nii_Type = EfiNetworkInterfaceUndi,
             Nii_ImageSize = 0, Nii_ImageAddr = 0, Nii_StringId = ''UNDI''\<rparr>\<rparr>);
     (st, h) \<leftarrow> call_bs (InstallProtocols B handle [(NiiProtocol31Guid, p)]);
     _ \<leftarrow> upd_private p (\<lambda>d. d\<lparr>DeviceHandle := h\<rparr>);
     if EFI_ERROR st then ret st else ret EFI_SUCCESS }"

definition InitDriverStopProtocol :: "'d boot_services \<Rightarrow> u64 \<Rightarrow> u64 \<Rightarrow> ('d, EFI_STATUS) sys" where
  "InitDriverStopProtocol B handle p = do {
     (st, h) \<leftarrow> call_bs (InstallProtocols B handle [(StartStopProtocol, p)]);
     _ \<leftarrow> upd_private p (\<lambda>d. d\<lparr>DeviceHandle := h\<rparr>);
     if EFI_ERROR st then ret st else ret EFI_SUCCESS }"

definition InitDevicePathProtocol :: "'d boot_services \<Rightarrow> u64 \<Rightarrow> ('d, EFI_STATUS) sys" where
  "InitDevicePathProtocol B p = do {
     d \<leftarrow> get_private p;
     (case d of
        None \<Rightarrow> ret EFI_INVALID_PARAMETER
      | Some d \<Rightarrow> do {
          (st, path) \<leftarrow> GigAppendMac2DevPath B (Undi32DevPath d) (Undi32BaseDevPath d) (NicInfo d);
          _ \<leftarrow> upd_private p (\<lambda>d. d\<lparr>Undi32DevPath := path\<rparr>);
          if EFI_ERROR st then ret st
          else do {
            (st, h) \<leftarrow> call_bs (InstallProtocols B (DeviceHandle d) [(DevicePathProtocol, path)]);
            _ \<leftarrow> upd_private p (\<lambda>d. d\<lparr>DeviceHandle := h\<rparr>);
            if EFI_ERROR st then ret st else ret EFI_SUCCESS } }) }"

text \<open>\<^verbatim>\<open>UndiPrivateData->DeviceHandle\<close>, read between the installations.\<close>

definition device_handle :: "u64 \<Rightarrow> ('d, u64) sys" where
  "device_handle p = do {
     d \<leftarrow> get_private p;
     (case d of None \<Rightarrow> ret 0 | Some d \<Rightarrow> ret (DeviceHandle d)) }"

definition undi_enabled :: "u64 \<Rightarrow> ('d, bool) sys" where
  "undi_enabled p = do {
     d \<leftarrow> get_private p;
     (case d of None \<Rightarrow> ret False | Some d \<Rightarrow> ret (UndiEnabled (NicInfo d))) }"

definition InitChildProtocols :: "'d boot_services \<Rightarrow> u64 \<Rightarrow> ('d, EFI_STATUS) sys" where
  "InitChildProtocols B p =
     (if p = 0 then ret EFI_INVALID_PARAMETER
      else do {
        h \<leftarrow> device_handle p;
        st \<leftarrow> InitDriverStopProtocol B h p;
        if EFI_ERROR st then ret st
        else do {
          st \<leftarrow> InitDevicePathProtocol B p;
          if EFI_ERROR st then ret st
          else do {
            h \<leftarrow> device_handle p;
            st \<leftarrow> InitNiiPointerProtocol B True h p;
            if EFI_ERROR st then ret st
            else do {
              en \<leftarrow> undi_enabled p;
              st \<leftarrow> (if en then do { h \<leftarrow> device_handle p; InitNiiProtocol B h p }
                    else ret st);
              if EFI_ERROR st then ret st
              else do {
                st \<leftarrow> InitAdapterInformationProtocol B p;
                if EFI_ERROR st then ret st else ret EFI_SUCCESS } } } } })"

definition InitChild :: "'d boot_services \<Rightarrow> u64 \<Rightarrow> ('d, EFI_STATUS) sys" where
  "InitChild B p =
     (if p = 0 then ret EFI_INVALID_PARAMETER
      else do {
        h \<leftarrow> device_handle p;
        (st, h) \<leftarrow> call_bs (InstallProtocols B h []);
        _ \<leftarrow> upd_private p (\<lambda>d. d\<lparr>DeviceHandle := h\<rparr>);
        if EFI_ERROR st then ret st else ret EFI_SUCCESS })"

text \<open>The contents of a zeroed \<^verbatim>\<open>UNDI_PRIVATE_DATA\<close>.\<close>

definition zero_private :: UNDI_PRIVATE_DATA where
  "zero_private =
     \<lparr>Signature = 0,
      NiiProtocol31 = \<lparr>Nii_Id = 0, Nii_IfNum = 0, Nii_Revision = 0, Nii_MajorVer = 0,
                       Nii_MinorVer = 0, Nii_Ipv6Supported = False, Nii_Type = 0, Nii_ImageSize = 0,
                       Nii_ImageAddr = 0, Nii_StringId = ''''\<rparr>,
      NIIPointerProtocol = 0, ControllerHandle = 0, DeviceHandle = 0, Undi32BaseDevPath = 0,
      Undi32DevPath = 0, NicInfo = zero_adapter, ControllerNameTable = (None, 0), AltMacAddrSupported = False,
      IsChildInitialized = False, Brand = None\<rparr>"

abbreviation GIG_UNDI_DEV_SIGNATURE :: u64 where "GIG_UNDI_DEV_SIGNATURE \<equiv> 0x67305250"

definition InitUndiPrivateData :: "'d boot_services \<Rightarrow> u64 \<Rightarrow> ('d, EFI_STATUS \<times> u64) sys" where
  "InitUndiPrivateData B Controller = do {
     p \<leftarrow> call_bs (LibAllocatePrivateData B);
     if p = 0 then ret (EFI_OUT_OF_RESOURCES, 0)
     else do {
       _ \<leftarrow> modify (\<lambda>u. u\<lparr>private_data := (private_data u)(p \<mapsto>
              zero_private\<lparr>Signature := GIG_UNDI_DEV_SIGNATURE, DeviceHandle := 0,
                           NicInfo := zero_adapter\<lparr>HwInitialized := False\<rparr>,
                           ControllerHandle := Controller\<rparr>)\<rparr>);
       _ \<leftarrow> modify (\<lambda>u. u\<lparr>mIntelgbeUndi32DeviceList :=
              (mIntelgbeUndi32DeviceList u)[unat (mActiveControllers u) := p]\<rparr>);
       _ \<leftarrow> modify (\<lambda>u. u\<lparr>mActiveControllers := mActiveControllers u + 1\<rparr>);
       ret (EFI_SUCCESS, p) } }"

definition InitController :: "'d env \<Rightarrow> u64 \<Rightarrow> ('d, EFI_STATUS) sys" where
  "InitController E p =
     (if p = 0 then ret EFI_INVALID_PARAMETER
      else do {
        r \<leftarrow> on_adapter p (IntelgbePciInit E);
        (case r of
           None \<Rightarrow> ret EFI_INVALID_PARAMETER
         | Some st \<Rightarrow>
             if EFI_ERROR st then ret EFI_OUT_OF_RESOURCES
             else do {
               r \<leftarrow> on_adapter p (IntelgbeFirstTimeInit E);
               (case r of
                  None \<Rightarrow> ret EFI_INVALID_PARAMETER
                | Some st \<Rightarrow>
                    if EFI_ERROR st \<and> st \<noteq> EFI_ACCESS_DENIED then ret st
                    else do {
                      _ \<leftarrow> upd_private p (\<lambda>d. d\<lparr>NicInfo := (NicInfo d)\<lparr>UndiEnabled := True\<rparr>\<rparr>);
                      _ \<leftarrow> (if st = EFI_ACCESS_DENIED
                           then upd_private p
                                  (\<lambda>d. d\<lparr>NicInfo := (NicInfo d)\<lparr>UndiEnabled := False\<rparr>\<rparr>)
                           else ret ());
                      _ \<leftarrow> upd_private p (\<lambda>d. d\<lparr>AltMacAddrSupported := False\<rparr>);
                      ret EFI_SUCCESS }) }) })"

definition OpenChildProtocols ::
  "'d boot_services \<Rightarrow> u64 \<Rightarrow> u64 option \<Rightarrow> u64 \<Rightarrow> ('d, EFI_STATUS) sys" where
  "OpenChildProtocols B p This Controller =
     (case This of
        None \<Rightarrow> ret EFI_INVALID_PARAMETER
      | Some dbh \<Rightarrow>
          if p = 0 then ret EFI_INVALID_PARAMETER
          else do {
            h \<leftarrow> device_handle p;
            (st, _) \<leftarrow> call_bs (OpenProtocol B Controller PciIoProtocol dbh h BY_CHILD_CONTROLLER 0);
            if EFI_ERROR st then ret st else ret EFI_SUCCESS })"

definition InitControllerProtocols :: "'d boot_services \<Rightarrow> u64 \<Rightarrow> u64 \<Rightarrow> ('d, EFI_STATUS) sys" where
  "InitControllerProtocols B p Controller =
     (if p = 0 then ret EFI_INVALID_PARAMETER
      else do {
        _ \<leftarrow> ComponentNameInitializeControllerName B p;
        st \<leftarrow> InitNiiPointerProtocol B False Controller p;
        if EFI_ERROR st then ret st else ret EFI_SUCCESS })"

section \<open>Driver start\<close>

text \<open>The labels \<^verbatim>\<open>UndiError\<close> and \<^verbatim>\<open>UndiErrorDeleteDevicePath\<close>.\<close>

definition free_private :: "'d boot_services \<Rightarrow> u64 \<Rightarrow> ('d, EFI_STATUS) sys" where
  "free_private B p = do {
     st \<leftarrow> call_bs (FreePool B p);
     _ \<leftarrow> modify (\<lambda>u. u\<lparr>private_data := (private_data u)(p := None)\<rparr>);
     ret st }"

definition undi_error ::
  "'d boot_services \<Rightarrow> u64 option \<Rightarrow> u64 \<Rightarrow> u64 \<Rightarrow> EFI_STATUS \<Rightarrow> ('d, EFI_STATUS) sys" where
  "undi_error B This Controller p st = do {
     _ \<leftarrow> modify (\<lambda>u. u\<lparr>mActiveControllers := mActiveControllers u - 1\<rparr>);
     _ \<leftarrow> CloseControllerProtocols B Controller This;
     _ \<leftarrow> free_private B p;
     ret st }"

definition undi_error_delete_device_path ::
  "'d boot_services \<Rightarrow> u64 option \<Rightarrow> u64 \<Rightarrow> u64 \<Rightarrow> EFI_STATUS \<Rightarrow> ('d, EFI_STATUS) sys" where
  "undi_error_delete_device_path B This Controller p st = do {
     pxe \<leftarrow> gets mIntelgbePxe31;
     _ \<leftarrow> GigUndiPxeUpdate False pxe;
     d \<leftarrow> get_private p;
     _ \<leftarrow> (case d of
            None \<Rightarrow> ret 0
          | Some d \<Rightarrow> call_bs (FreePool B (Undi32DevPath d)));
     undi_error B This Controller p st }"

text \<open>The controller part; \<open>Inl\<close> is an error that has been cleaned up.\<close>

definition start_controller ::
  "'d env \<Rightarrow> 'd boot_services \<Rightarrow> u64 option \<Rightarrow> u64 \<Rightarrow> ('d, EFI_STATUS + u64) sys" where
  "start_controller E B This Controller = do {
     (st, p) \<leftarrow> InitUndiPrivateData B Controller;
     if EFI_ERROR st then do { st \<leftarrow> undi_error B This Controller p st; ret (Inl st) }
     else do {
       st \<leftarrow> OpenControllerProtocols B Controller This p;
       if EFI_ERROR st then do { st \<leftarrow> undi_error B This Controller p st; ret (Inl st) }
       else do {
         st \<leftarrow> InitController E p;
         if EFI_ERROR st \<and> st \<noteq> EFI_ACCESS_DENIED then do {
           st \<leftarrow> undi_error_delete_device_path B This Controller p st; ret (Inl st) }
         else do {
           st \<leftarrow> InitControllerProtocols B p Controller;
           if EFI_ERROR st then do {
             st \<leftarrow> undi_error_delete_device_path B This Controller p st; ret (Inl st) }
           else ret (Inr p) } } } }"

definition start_child ::
  "'d boot_services \<Rightarrow> u64 option \<Rightarrow> u64 \<Rightarrow> u64 \<Rightarrow> ('d, EFI_STATUS) sys" where
  "start_child B This Controller p = do {
     st \<leftarrow> InitUndiStructures p;
     if EFI_ERROR st then undi_error_delete_device_path B This Controller p st
     else do {
       st \<leftarrow> InitChild B p;
       if EFI_ERROR st then undi_error_delete_device_path B This Controller p st
       else do {
         st \<leftarrow> InitChildProtocols B p;
         if EFI_ERROR st then undi_error_delete_device_path B This Controller p st
         else do {
           _ \<leftarrow> OpenChildProtocols B p This Controller;
           _ \<leftarrow> upd_private p (\<lambda>d. d\<lparr>IsChildInitialized := True\<rparr>);
           ret EFI_SUCCESS } } } }"

definition IntelgbeUndiDriverStart ::
  "'d env \<Rightarrow> 'd boot_services \<Rightarrow> u64 option \<Rightarrow> u64 \<Rightarrow> u64 \<Rightarrow> ('d, EFI_STATUS) sys" where
  "IntelgbeUndiDriverStart E B This Controller RemainingDevicePath = do {
     p \<leftarrow> GetControllerPrivateData Controller;
     m \<leftarrow> gets undi_mem;
     let InitializeController = (p = 0);
     let InitializeChild =
       (if RemainingDevicePath \<noteq> 0 then IsNotEndOfDevicePathNode m RemainingDevicePath else True);
     if \<not> InitializeController \<and> \<not> InitializeChild then ret EFI_SUCCESS
     else do {
       r \<leftarrow> (if InitializeController then start_controller E B This Controller else ret (Inr p));
       (case r of
          Inl st \<Rightarrow> ret st
        | Inr p \<Rightarrow> if InitializeChild then start_child B This Controller p else ret EFI_SUCCESS) } }"

section \<open>Driver stop\<close>

definition free_dma_resources :: "'d env \<Rightarrow> ('d, unit) op" where
  "free_dma_resources E = do {
     g \<leftarrow> adapter;
     (_, m) \<leftarrow> UndiDmaFreeCommonBuffer E (PciIo g) (TxRing g);
     _ \<leftarrow> upd_adapter (\<lambda>g. g\<lparr>TxRing := m\<rparr>);
     (_, m) \<leftarrow> UndiDmaFreeCommonBuffer E (PciIo g) (RxRing g);
     _ \<leftarrow> upd_adapter (\<lambda>g. g\<lparr>RxRing := m\<rparr>);
     (_, m) \<leftarrow> UndiDmaFreeCommonBuffer E (PciIo g) (RxBufferMapping g);
     upd_adapter (\<lambda>g. g\<lparr>RxBufferMapping := m\<rparr>) }"

definition restore_attributes :: "'d env \<Rightarrow> ('d, EFI_STATUS) op" where
  "restore_attributes E = do {
     g \<leftarrow> adapter;
     (st, _) \<leftarrow> call_env (pci_attributes E (PciIo g) EfiPciIoAttributeOperationSet
                            (OriginalPciAttributes g) 0);
     ret st }"

definition StopController ::
  "'d env \<Rightarrow> 'd boot_services \<Rightarrow> u64 option \<Rightarrow> u64 \<Rightarrow> u64 \<Rightarrow> ('d, EFI_STATUS) sys" where
  "StopController E B This Controller p =
     (if This = None \<or> p = 0 then ret EFI_INVALID_PARAMETER
      else do {
        st \<leftarrow> call_bs (UninstallProtocols B Controller [(NiiPointerGuid, p)]);
        if EFI_ERROR st then ret st
        else do {
          d \<leftarrow> get_private p;
          (case d of
             None \<Rightarrow> ret EFI_INVALID_PARAMETER
           | Some d \<Rightarrow> do {
               _ \<leftarrow> FreeUnicodeStringTable B (ControllerNameTable d);
               _ \<leftarrow> modify (\<lambda>u. u\<lparr>mIntelgbeUndi32DeviceList :=
                      (mIntelgbeUndi32DeviceList u)[unat (Nii_IfNum (NiiProtocol31 d)) := 0]\<rparr>);
               _ \<leftarrow> call_bs (FreePool B (Undi32DevPath d));
               _ \<leftarrow> on_adapter p (free_dma_resources E);
               r \<leftarrow> on_adapter p (restore_attributes E);
               (case r of
                  None \<Rightarrow> ret EFI_INVALID_PARAMETER
                | Some st \<Rightarrow>
                    if EFI_ERROR st then ret st
                    else do {
                      st \<leftarrow> CloseControllerProtocols B Controller This;
                      if EFI_ERROR st then ret st
                      else do {
                        _ \<leftarrow> free_private B p;
                        ret EFI_SUCCESS } }) }) } })"

text \<open>
  \<open>ChildHandleBuffer\<close> is \<open>None\<close> for \<^verbatim>\<open>NULL\<close> and otherwise its first element, the only one read.
\<close>

definition child_interfaces :: "UNDI_PRIVATE_DATA \<Rightarrow> u64 \<Rightarrow> (efi_protocol \<times> u64) list" where
  "child_interfaces d p =
     (if UndiEnabled (NicInfo d)
      then [(StartStopProtocol, p), (NiiProtocol31Guid, p), (NiiPointerGuid, p),
            (DevicePathProtocol, Undi32DevPath d)]
      else [(StartStopProtocol, p), (NiiPointerGuid, p), (DevicePathProtocol, Undi32DevPath d)])"

definition StopChild ::
  "'d env \<Rightarrow> 'd boot_services \<Rightarrow> u64 option \<Rightarrow> u64 \<Rightarrow> u64 option \<Rightarrow> u64 \<Rightarrow>
   ('d, EFI_STATUS) sys" where
  "StopChild E B This Controller ChildHandleBuffer p =
     (case (This, ChildHandleBuffer) of
        (Some dbh, Some child) \<Rightarrow>
          if p = 0 then ret EFI_INVALID_PARAMETER
          else do {
            st \<leftarrow> call_bs (CloseProtocol B Controller PciIoProtocol dbh child);
            if EFI_ERROR st then ret st
            else do {
              _ \<leftarrow> UninstallAdapterInformationProtocol B p;
              d \<leftarrow> get_private p;
              (case d of
                 None \<Rightarrow> ret EFI_INVALID_PARAMETER
               | Some d \<Rightarrow> do {
                   st \<leftarrow> call_bs (UninstallProtocols B (DeviceHandle d) (child_interfaces d p));
                   _ \<leftarrow> (if st = EFI_ACCESS_DENIED then
                          call_bs (UninstallProtocols B (DeviceHandle d)
                            [(NiiProtocol31Guid, p), (NiiPointerGuid, p),
                             (DevicePathProtocol, Undi32DevPath d)])
                        else ret st);
                   _ \<leftarrow> (if UndiEnabled (NicInfo d)
                        then do { _ \<leftarrow> on_adapter p (IntelgbeShutdown E); ret () }
                        else ret ());
                   ret EFI_SUCCESS }) } }
      | _ \<Rightarrow> ret EFI_INVALID_PARAMETER)"

definition IntelgbeUndiDriverStop ::
  "'d env \<Rightarrow> 'd boot_services \<Rightarrow> u64 \<Rightarrow> u64 \<Rightarrow> u64 \<Rightarrow> u64 option \<Rightarrow> ('d, EFI_STATUS) sys" where
  "IntelgbeUndiDriverStop E B dbh Controller NumberOfChildren ChildHandleBuffer = do {
     (st, p) \<leftarrow> call_bs (OpenProtocol B Controller NiiPointerGuid dbh Controller GET_PROTOCOL 0);
     if EFI_ERROR st then ret st
     else if NumberOfChildren = 0 then do {
       st \<leftarrow> StopController E B (Some dbh) Controller p;
       if EFI_ERROR st then ret EFI_DEVICE_ERROR
       else do {
         _ \<leftarrow> modify (\<lambda>u. u\<lparr>mActiveControllers := mActiveControllers u - 1\<rparr>);
         ret EFI_SUCCESS } }
     else if NumberOfChildren > 1 then ret EFI_INVALID_PARAMETER
     else do {
       st \<leftarrow> StopChild E B (Some dbh) Controller ChildHandleBuffer p;
       if EFI_ERROR st then ret EFI_DEVICE_ERROR
       else do {
         _ \<leftarrow> modify (\<lambda>u. u\<lparr>mActiveChildren := mActiveChildren u - 1\<rparr>);
         ret EFI_SUCCESS } } }"

section \<open>Load and unload\<close>

text \<open>
  \<^verbatim>\<open>DisconnectController\<close> calls back into \<^verbatim>\<open>IntelgbeUndiDriverStop\<close>, so it is a function on the
  whole state.  \<open>rev210\<close>: the system table has revision 2.10 or later.
\<close>

definition InitializeIntelgbeUNDIDriver ::
  "'d boot_services \<Rightarrow> u64 \<Rightarrow> u64 \<Rightarrow> bool \<Rightarrow> ('d, EFI_STATUS) sys" where
  "InitializeIntelgbeUNDIDriver B entry ImageHandle rev210 = do {
     (st, h) \<leftarrow> call_bs (InstallProtocols B ImageHandle [(DriverBindingProtocol, 0)]);
     if EFI_ERROR st then ret st
     else do {
       (st, h) \<leftarrow> call_bs (InstallProtocols B h
                    [(ComponentNameProtocol, 0), (ComponentName2Protocol, 0),
                     (DriverConfigurationProtocol, 0)]);
       if EFI_ERROR st then ret st
       else do {
         st \<leftarrow> (if rev210 then do {
                  (st, _) \<leftarrow> call_bs (InstallProtocols B ImageHandle
                                       [(SupportedEfiVersionProtocol, 0)]);
                  ret st }
                else ret st);
         if EFI_ERROR st then ret st else InitializePxeStruct B entry } } }"

fun disconnect_all :: "(u64 \<Rightarrow> ('d, EFI_STATUS) sys) \<Rightarrow> u64 list \<Rightarrow> EFI_STATUS \<Rightarrow> ('d, EFI_STATUS) sys" where
  "disconnect_all DisconnectController [] st = ret st"
| "disconnect_all DisconnectController (h # hs) st = do {
     st \<leftarrow> DisconnectController h; disconnect_all DisconnectController hs st }"

definition unload_protocols :: "'d boot_services \<Rightarrow> u64 \<Rightarrow> bool \<Rightarrow> ('d, EFI_STATUS) sys" where
  "unload_protocols B ImageHandle rev210 = do {
     pm \<leftarrow> gets mIntelgbePxeMemPtr;
     st \<leftarrow> call_bs (FreePool B pm);
     if EFI_ERROR st then ret st
     else do {
       st \<leftarrow> call_bs (UninstallProtocols B ImageHandle
              [(DriverBindingProtocol, 0), (ComponentNameProtocol, 0), (ComponentName2Protocol, 0),
               (DriverConfigurationProtocol, 0)]);
       if EFI_ERROR st then ret st
       else if rev210 then
         call_bs (UninstallProtocols B ImageHandle [(SupportedEfiVersionProtocol, 0)])
       else ret st } }"

definition IntelgbeUndiUnload ::
  "'d boot_services \<Rightarrow> (u64 \<Rightarrow> ('d, EFI_STATUS) sys) \<Rightarrow> u64 \<Rightarrow> bool \<Rightarrow> ('d, EFI_STATUS) sys" where
  "IntelgbeUndiUnload B DisconnectController ImageHandle rev210 = do {
     (st, hs, buf) \<leftarrow> call_bs (LocateHandleBuffer B);
     if EFI_ERROR st then ret st
     else do {
       st \<leftarrow> disconnect_all DisconnectController hs st;
       _ \<leftarrow> (if buf \<noteq> 0 then call_bs (FreePool B buf) else ret st);
       n \<leftarrow> gets mActiveControllers;
       if n = 0 then unload_protocols B ImageHandle rev210 else ret EFI_INVALID_PARAMETER } }"

section \<open>The stop protocol\<close>

definition StopDriver :: "u64 \<Rightarrow> ('d, EFI_STATUS) sys" where
  "StopDriver p = do {
     _ \<leftarrow> upd_private p (\<lambda>d. d\<lparr>NicInfo := (NicInfo d)\<lparr>DriverBusy := True\<rparr>\<rparr>);
     ret EFI_SUCCESS }"

definition StartDriver :: "'d env \<Rightarrow> u64 \<Rightarrow> ('d, EFI_STATUS) sys" where
  "StartDriver E p = do {
     _ \<leftarrow> upd_private p (\<lambda>d. d\<lparr>NicInfo := (NicInfo d)\<lparr>HwInitialized := False\<rparr>\<rparr>);
     d \<leftarrow> get_private p;
     _ \<leftarrow> (case d of
            None \<Rightarrow> ret None
          | Some d \<Rightarrow>
              if State (NicInfo d) = PXE_STATFLAGS_GET_STATE_INITIALIZED \<and> IsChildInitialized d
              then on_adapter p (IntelgbeInititialize E) else ret None);
     _ \<leftarrow> upd_private p (\<lambda>d. d\<lparr>NicInfo := (NicInfo d)\<lparr>DriverBusy := False\<rparr>\<rparr>);
     ret EFI_SUCCESS }"

section \<open>The checksum of the !PXE structure\<close>

lemma fold_plus_sum_list: "fold (\<lambda>b s. s + b) xs (a :: 'a::comm_monoid_add) = a + sum_list xs"
  by (induction xs arbitrary: a) (simp_all add: ac_simps)

lemma sum_list_replace:
  "k < length xs \<Longrightarrow> sum_list (xs[k := x]) = sum_list xs + (x - xs ! k)" for xs :: "'a::ab_group_add list"
  by (induction xs arbitrary: k) (auto simp: nth_Cons split: nat.split)

lemma store8_eq: "store8 m a v = m(a := v)"
proof
  fix x
  show "store8 m a v x = (m(a := v)) x"
    using unat_0_iff [of "x - a"] by (auto simp: store8_def store_bytes_def)
qed

lemma load_bytes_upd:
  assumes "k < n" and "n \<le> 2 ^ 64"
  shows "load_bytes (m(a + of_nat k := v)) a n = (load_bytes m a n)[k := v]"
proof (rule nth_equalityI)
  fix i assume "i < length (load_bytes (m(a + of_nat k := v)) a n)"
  then have i: "i < n" by simp
  have "(of_nat i :: u64) = of_nat k \<longleftrightarrow> i = k"
    using i assms by (simp add: word_unat_eq_iff unat_of_nat)
  with i show "load_bytes (m(a + of_nat k := v)) a n ! i = (load_bytes m a n)[k := v] ! i"
    by (simp add: load_bytes_def nth_list_update)
qed simp

text \<open>What a client of the structure checks: its length field and the sum of its bytes.\<close>

definition pxe_valid :: "u64 \<Rightarrow> memory \<Rightarrow> bool" where
  "pxe_valid pxe m \<longleftrightarrow> m (pxe_Len pxe) = of_nat sizeof_PXE_SW_UNDI \<and>
     sum_list (load_bytes m pxe sizeof_PXE_SW_UNDI) = 0"

lemma fix_fudge_valid:
  assumes "pxe \<noteq> 0" and "m (pxe_Len pxe) = of_nat sizeof_PXE_SW_UNDI"
  shows "pxe_valid pxe (fix_fudge pxe m)"
proof -
  let ?xs = "load_bytes m pxe sizeof_PXE_SW_UNDI"
  have "IntelgbeChkSum m pxe (ucast (m (pxe_Len pxe))) = sum_list ?xs"
    using assms by (simp add: IntelgbeChkSum_def fold_plus_sum_list)
  then have "fix_fudge pxe m = m(pxe + of_nat 5 := m (pxe + 5) - sum_list ?xs)"
    by (simp add: fix_fudge_def store8_eq)
  moreover have "?xs ! 5 = m (pxe + 5)" by (simp add: nth_load_bytes)
  ultimately show ?thesis
    using assms(2) load_bytes_upd [of 5 sizeof_PXE_SW_UNDI m pxe]
    by (simp add: pxe_valid_def sum_list_replace)
qed

lemma struct_init_valid:
  assumes "pxe \<noteq> 0"
  shows "pxe_valid pxe (GigUndiPxeStructInit entry pxe m)"
  unfolding GigUndiPxeStructInit_def Let_def
  by (rule fix_fudge_valid [OF assms])
    (simp add: store8_eq store32_def store64_def store_bytes_def le_bytes_def)

lemma pxe_update_run:
  "run_state (GigUndiPxeUpdate nic pxe) u =
     (if nic \<and> 256 \<le> mActiveChildren u then (EFI_OUT_OF_RESOURCES, u)
      else let n = (if nic then mActiveChildren u + 1
                    else if mActiveChildren u > 0 then mActiveChildren u - 1 else 0)
        in (EFI_SUCCESS, u\<lparr>mActiveChildren := n,
             undi_mem := fix_fudge pxe ((undi_mem u)(pxe_IFcnt pxe := ucast n - 1))\<rparr>))"
  by (auto simp: GigUndiPxeUpdate_def store8_eq Let_def word_gt_0 not_less)

text \<open>
  The !PXE structure always has a zero checksum: \<^verbatim>\<open>GigUndiPxeStructInit\<close> leaves a structure whose
  length field says 32 and whose 32 bytes sum to zero, whatever was in memory, and
  \<^verbatim>\<open>GigUndiPxeUpdate\<close> keeps it so while it writes the number of interfaces: one less than the number
  of active children, modulo 256, which is 255 when there is none.
\<close>

theorem pxe_checksum_zero:
  assumes "pxe \<noteq> 0" and "pxe_valid pxe (undi_mem u)" and "run_state (GigUndiPxeUpdate nic pxe) u = (r, u')"
  shows "pxe_valid pxe (GigUndiPxeStructInit entry pxe m) \<and> pxe_valid pxe (undi_mem u') \<and>
    (r = EFI_SUCCESS \<longrightarrow> undi_mem u' (pxe_IFcnt pxe) = ucast (mActiveChildren u') - 1) \<and>
    (r \<noteq> EFI_SUCCESS \<longrightarrow> nic \<and> 256 \<le> mActiveChildren u \<and> u' = u)"
proof -
  have "pxe_valid pxe (fix_fudge pxe ((undi_mem u)(pxe_IFcnt pxe := x)))" for x
    by (rule fix_fudge_valid) (use assms in \<open>simp_all add: pxe_valid_def\<close>)
  moreover have "fix_fudge pxe (m(pxe_IFcnt pxe := x)) (pxe_IFcnt pxe) = x" for m x
    by (simp add: fix_fudge_def store8_eq)
  moreover have "EFI_OUT_OF_RESOURCES \<noteq> EFI_SUCCESS"
    by (simp add: EFI_OUT_OF_RESOURCES_def ENCODE_ERROR_def BIT_def)
  ultimately show ?thesis
    using assms(2,3) struct_init_valid [OF assms(1)]
    by (auto simp: pxe_update_run Let_def split: if_splits)
qed

theorem pxe_checksum_zero_witness:
  "let u = initial_undi () (GigUndiPxeStructInit 0x1234 0x8000 (\<lambda>_. 7));
       (r, u') = run_state (GigUndiPxeUpdate False 0x8000) u in
   pxe_valid 0x8000 (undi_mem u') \<and> undi_mem u' 0x8007 = 255"
proof -
  let ?u = "initial_undi () (GigUndiPxeStructInit 0x1234 0x8000 (\<lambda>_. 7))"
  obtain r u' where run: "run_state (GigUndiPxeUpdate False 0x8000) ?u = (r, u')" by fastforce
  have "pxe_valid 0x8000 (undi_mem ?u)" by (simp add: initial_undi_def struct_init_valid)
  moreover have "r = EFI_SUCCESS" "mActiveChildren u' = 0"
    using run by (auto simp: pxe_update_run initial_undi_def Let_def)
  ultimately show ?thesis
    using pxe_checksum_zero [of "0x8000", OF _ _ run] run by simp
qed

end
