(* ===== verification/Undi_Session.thy ===== *)
theory Undi_Session
  imports Undi_Safety Undi_Init
begin

text \<open>
  The driver as a whole, over its globals: what driver start and driver stop do to the list of controllers,
  and that no sequence of starts, stops, commands and protocol calls makes the driver follow a dead pointer
  or break the state of an adapter.
\<close>

section \<open>The directory of controllers\<close>

text \<open>The part of the state by which controllers are found: the counter, the list and the handles.\<close>

definition directory :: "'d undi \<Rightarrow> u8 \<times> u64 list \<times> (u64 \<Rightarrow> u64 option)" where
  "directory u = (mActiveControllers u, mIntelgbeUndi32DeviceList u, \<lambda>p. map_option ControllerHandle (private_data u p))"

lemma directory_simps [simp]:
  "directory (u\<lparr>undi_dev := d\<rparr>) = directory u" "directory (u\<lparr>undi_mem := m\<rparr>) = directory u"
  "directory (u\<lparr>undi_fault := b\<rparr>) = directory u" "directory (u\<lparr>mActiveChildren := n\<rparr>) = directory u"
  "directory (u\<lparr>mSupportedInformationTypes := ts, mInformationCount := k\<rparr>) = directory u"
  by (simp_all add: directory_def)

lemma keeps_call_bs [frame]: "(\<And>u d. f (u\<lparr>undi_dev := d\<rparr>) = f u) \<Longrightarrow> keeps f (call_bs g)"
  by (simp add: keeps_def call_bs_def split: prod.split)

lemma keeps_get_private [frame]: "(\<And>u b. f (u\<lparr>undi_fault := b\<rparr>) = f u) \<Longrightarrow> keeps f (get_private p)"
  unfolding get_private_def by (auto intro!: frame)

lemma directory_upd:
  "private_data u p = Some d \<Longrightarrow> ControllerHandle d' = ControllerHandle d \<Longrightarrow>
     directory (u\<lparr>private_data := (private_data u)(p \<mapsto> d')\<rparr>) = directory u"
  by (auto simp: directory_def)


lemma keeps_upd_private [frame]:
  "(\<And>d. ControllerHandle (f d) = ControllerHandle d) \<Longrightarrow> keeps directory (upd_private p f)"
  unfolding upd_private_def by (rule keeps_modify) (auto simp: directory_upd split: option.splits)

lemma keeps_on_adapter [frame]: "keeps directory (on_adapter p f)"
  by (auto simp: keeps_def on_adapter_def directory_def split: option.splits prod.splits)

lemma keeps_find_controller [frame]: "(\<And>u b. f (u\<lparr>undi_fault := b\<rparr>) = f u) \<Longrightarrow> keeps f (find_controller h ps)"
  by (induction ps) (auto intro!: frame)

lemma keeps_GetControllerPrivateData [frame]:
  "(\<And>u b. f (u\<lparr>undi_fault := b\<rparr>) = f u) \<Longrightarrow> keeps f (GetControllerPrivateData h)"
  unfolding GetControllerPrivateData_def by (auto intro!: frame)

lemma keeps_directory_add [frame]: "keeps directory (AddUnicodeString2 B l ls t s i)"
  unfolding AddUnicodeString2_def Let_def by (cases l; cases s; cases ls) (auto intro!: frame)

lemma keeps_directory_names [frame]: "keeps directory (ComponentNameInitializeControllerName B p)"
  unfolding ComponentNameInitializeControllerName_def by (auto intro!: frame split: option.splits)

lemma keeps_directory_start [frame]:
  "keeps directory (OpenControllerProtocols B c t p)" "keeps directory (InitController E p)"
  "keeps directory (InitControllerProtocols B p c)" "keeps directory (InitUndiStructures p)"
  "keeps directory (InitChild B p)" "keeps directory (OpenChildProtocols B p t c)"
  unfolding OpenControllerProtocols_def InitController_def InitControllerProtocols_def InitUndiStructures_def
    InitChild_def OpenChildProtocols_def InitNiiPointerProtocol_def GigUndiPxeUpdate_def device_handle_def
  by (auto intro!: frame)


section \<open>Driver start\<close>

text \<open>\<^verbatim>\<open>GetControllerPrivateData\<close> is a search of the directory.\<close>

fun look_up :: "u64 \<Rightarrow> u8 \<times> u64 list \<times> (u64 \<Rightarrow> u64 option) \<Rightarrow> u64" where
  "look_up c (n, ps, hs) = (case find (\<lambda>p. p \<noteq> 0 \<and> hs p = Some c) (take (unat n) ps) of None \<Rightarrow> 0 | Some p \<Rightarrow> p)"

lemma find_controller_result:
  "fst (run_state (find_controller h ps) u) =
     (case find (\<lambda>p. p \<noteq> 0 \<and> map_option ControllerHandle (private_data u p) = Some h) ps of
        None \<Rightarrow> 0 | Some p \<Rightarrow> p)"
  by (induction ps arbitrary: u) (auto simp: get_private_def split: option.splits prod.splits)

lemma GetControllerPrivateData_result:
  "fst (run_state (GetControllerPrivateData c) u) = look_up c (directory u)"
  by (simp add: GetControllerPrivateData_def find_controller_result directory_def)

lemma look_up_registered:
  assumes "look_up c (n, ps, hs) = 0" and "n < 255" and "length ps = MAX_NIC_INTERFACES" and "p \<noteq> 0"
  shows "look_up c (n + 1, ps[unat n := p], hs(p \<mapsto> c)) = p"
proof -
  have n: "unat (n + 1) = Suc (unat n)" "unat n < length ps"
    using assms(2,3) by (simp_all add: unat_word_ariths word_less_nat_alt)
  have none: "\<not> (q \<noteq> 0 \<and> hs q = Some c)" if "q \<in> set (take (unat n) ps)" for q
    using assms(1) that by (auto simp: find_None_iff find_Some_iff split: option.splits)
  have "take (unat (n + 1)) (ps[unat n := p]) = take (unat n) ps @ [p]"
    using n by (simp add: take_Suc_conv_app_nth)
  moreover have "(case find (\<lambda>q. q \<noteq> 0 \<and> (hs(p \<mapsto> c)) q = Some c) (take (unat n) ps @ [p]) of None \<Rightarrow> 0 | Some q \<Rightarrow> q) = p"
  proof (cases "find (\<lambda>q. q \<noteq> 0 \<and> (hs(p \<mapsto> c)) q = Some c) (take (unat n) ps)")
    case (Some q)
    then have "q = p" using none [of q] find_SomeD [OF Some] by (auto split: if_splits)
    with Some show ?thesis by (simp add: find_append)
  qed (use assms(4) in \<open>simp add: find_append\<close>)
  ultimately show ?thesis by simp
qed

lemma error_exit_status:
  "run_state (undi_error B t c p st) u = (r, v) \<Longrightarrow> r = st"
  "run_state (undi_error_delete_device_path B t c p st) u = (r, v) \<Longrightarrow> r = st"
  by (auto simp: undi_error_def undi_error_delete_device_path_def split: prod.splits option.splits)

lemma private_data_run:
  assumes "run_state (InitUndiPrivateData B c) u = ((st, p), v)" and "\<not> EFI_ERROR st"
  shows "p \<noteq> 0 \<and> directory v = (mActiveControllers u + 1, (mIntelgbeUndi32DeviceList u)[unat (mActiveControllers u) := p],
      (\<lambda>q. map_option ControllerHandle (private_data u q))(p \<mapsto> c)) \<and>
    private_data v p = Some (zero_private\<lparr>Signature := GIG_UNDI_DEV_SIGNATURE, ControllerHandle := c\<rparr>) \<and>
    (\<forall>q. q \<noteq> p \<longrightarrow> private_data v q = private_data u q) \<and> undi_fault v = undi_fault u"
  using assms
  by (auto simp: InitUndiPrivateData_def call_bs_def directory_def zero_private_def zero_adapter_def fun_upd_def
      split: prod.splits if_splits)

lemma not_access_denied [simp]:
  "EFI_INVALID_PARAMETER \<noteq> EFI_ACCESS_DENIED" "EFI_OUT_OF_RESOURCES \<noteq> EFI_ACCESS_DENIED"
  by (simp_all add: efi_status_defs ENCODE_ERROR_def BIT_def)

lemma InitController_status:
  "run_state (InitController E p) u = (st, v) \<Longrightarrow> st = EFI_SUCCESS \<or> EFI_ERROR st \<and> st \<noteq> EFI_ACCESS_DENIED"
  by (auto simp: InitController_def split: prod.splits option.splits if_splits)

lemma start_controller_run:
  assumes run: "run_state (start_controller E B t c) u = (Inr p, u')"
  obtains v v1 v2 s0 s1 s2 s3 where "run_state (InitUndiPrivateData B c) u = ((s0, p), v)" "\<not> EFI_ERROR s0"
    "run_state (OpenControllerProtocols B c t p) v = (s1, v1)" "\<not> EFI_ERROR s1"
    "run_state (InitController E p) v1 = (EFI_SUCCESS, v2)"
    "run_state (InitControllerProtocols B p c) v2 = (s3, u')" "\<not> EFI_ERROR s3"
  using assms
  by (auto simp: start_controller_def split: prod.splits if_splits dest!: InitController_status)

lemma start_controller_error: "run_state (start_controller E B t c) u = (Inl st, v) \<Longrightarrow> EFI_ERROR st"
  by (auto simp: start_controller_def split: prod.splits if_splits dest!: error_exit_status)

lemma start_controller_directory:
  assumes "run_state (start_controller E B t c) u = (Inr p, u')"
  shows "p \<noteq> 0 \<and> directory u' = (mActiveControllers u + 1,
      (mIntelgbeUndi32DeviceList u)[unat (mActiveControllers u) := p],
      (\<lambda>q. map_option ControllerHandle (private_data u q))(p \<mapsto> c))"
  using start_controller_run [OF assms] private_data_run keepsD [OF keeps_directory_start(1)]
    keepsD [OF keeps_directory_start(2)] keepsD [OF keeps_directory_start(3)] by metis


lemma driver_start_run:
  assumes "run_state (IntelgbeUndiDriverStart E B This Controller path) u = (EFI_SUCCESS, u')"
    and "look_up Controller (directory u) = 0"
  obtains v p v1 where "directory v = directory u" "run_state (start_controller E B This Controller) v = (Inr p, v1)"
    "if path = 0 \<or> \<not> IsDevicePathEnd (undi_mem u) path
     then run_state (start_child B This Controller p) v1 = (EFI_SUCCESS, u') else u' = v1"
proof -
  obtain q v where look: "run_state (GetControllerPrivateData Controller) u = (q, v)" by fastforce
  have q: "q = 0" using GetControllerPrivateData_result [of Controller u] look assms(2) by simp
  have v: "directory v = directory u" "undi_mem v = undi_mem u"
    by (rule keepsD [OF _ look], simp add: frame)+
  have "\<exists>p v1. run_state (start_controller E B This Controller) v = (Inr p, v1) \<and>
    (if path = 0 \<or> \<not> IsDevicePathEnd (undi_mem u) path
     then run_state (start_child B This Controller p) v1 = (EFI_SUCCESS, u') else u' = v1)"
    using assms(1) look q v(2)
    by (auto simp: IntelgbeUndiDriverStart_def IsNotEndOfDevicePathNode_def Let_def split: prod.splits sum.splits if_splits
        dest!: start_controller_error)
  with v(1) that show thesis by blast
qed

lemma driver_start_live:
  assumes "run_state (start_controller E B t c) v = (Inr p, v1)" and "directory v = directory u"
  shows "p \<noteq> 0" "directory v1 = (mActiveControllers u + 1, (mIntelgbeUndi32DeviceList u)[unat (mActiveControllers u) := p],
      (\<lambda>q. map_option ControllerHandle (private_data u q))(p \<mapsto> c))" "private_data v1 p \<noteq> None"
proof -
  show "p \<noteq> 0" and dir: "directory v1 = (mActiveControllers u + 1,
      (mIntelgbeUndi32DeviceList u)[unat (mActiveControllers u) := p],
      (\<lambda>q. map_option ControllerHandle (private_data u q))(p \<mapsto> c))"
    using start_controller_directory [OF assms(1)] assms(2) by (simp_all add: directory_def)
  show "private_data v1 p \<noteq> None"
    using fun_cong [OF arg_cong [OF dir, of "snd \<circ> snd"], of p] by (auto simp: directory_def)
qed



section \<open>Driver stop\<close>

lemma keeps_directory_stop [frame]:
  "keeps directory (FreeUnicodeStringTable B t)" "keeps directory (CloseControllerProtocols B c this)"
proof -
  have "keeps directory (free_entries B es)" for es by (induction es) (auto intro!: frame)
  then show "keeps directory (FreeUnicodeStringTable B t)"
    unfolding FreeUnicodeStringTable_def by (auto intro!: frame)
qed (auto simp: CloseControllerProtocols_def intro!: frame)

lemma call_bs_run: "run_state (call_bs f) u = (r, v) \<Longrightarrow> \<exists>d. v = u\<lparr>undi_dev := d\<rparr>"
  by (auto simp: call_bs_def split: prod.splits)

lemma free_private_directory:
  "run_state (free_private B p) u = (r, v) \<Longrightarrow>
     directory v = (case directory u of (n, ps, hs) \<Rightarrow> (n, ps, hs(p := None))) \<and> private_data v p = None"
  by (auto simp: free_private_def call_bs_def directory_def split: prod.splits)

lemma stop_controller_directory:
  assumes run: "run_state (StopController E B (Some dbh) c p) u = (EFI_SUCCESS, u')" and d: "private_data u p = Some d"
  shows "directory u' = (mActiveControllers u,
      (mIntelgbeUndi32DeviceList u)[unat (Nii_IfNum (NiiProtocol31 d)) := 0],
      (\<lambda>q. map_option ControllerHandle (private_data u q))(p := None))"
proof -
  have "EFI_INVALID_PARAMETER \<noteq> EFI_SUCCESS" by (simp add: efi_status_defs ENCODE_ERROR_def BIT_def)
  then show ?thesis
    using run d
    by (auto simp: StopController_def get_private_def split: prod.splits if_splits option.splits
        dest!: call_bs_run keepsD [OF keeps_directory_stop(1)] keepsD [OF keeps_directory_stop(2)]
        keepsD [OF keeps_on_adapter] free_private_directory)
      (auto simp: directory_def)
qed

lemma driver_stop_directory:
  assumes "run_state (IntelgbeUndiDriverStop E B dbh Controller 0 children) u = (EFI_SUCCESS, u')"
    and "fst (OpenProtocol B Controller NiiPointerGuid dbh Controller GET_PROTOCOL 0 (undi_dev u)) = (EFI_SUCCESS, p)"
    and "private_data u p = Some d"
  shows "directory u' = (mActiveControllers u - 1,
      (mIntelgbeUndi32DeviceList u)[unat (Nii_IfNum (NiiProtocol31 d)) := 0],
      (\<lambda>q. map_option ControllerHandle (private_data u q))(p := None))"
proof -
  let ?v = "u\<lparr>undi_dev := snd (OpenProtocol B Controller NiiPointerGuid dbh Controller GET_PROTOCOL 0 (undi_dev u))\<rparr>"
  have open_nii: "run_state (call_bs (OpenProtocol B Controller NiiPointerGuid dbh Controller GET_PROTOCOL 0)) u =
      ((EFI_SUCCESS, p), ?v)"
    using assms(2) by (auto simp: call_bs_def split: prod.splits)
  have "EFI_DEVICE_ERROR \<noteq> EFI_SUCCESS" by (simp add: efi_status_defs ENCODE_ERROR_def BIT_def)
  with assms(1) open_nii obtain st v1 where stop: "run_state (StopController E B (Some dbh) Controller p) ?v = (st, v1)"
    "\<not> EFI_ERROR st" "u' = v1\<lparr>mActiveControllers := mActiveControllers v1 - 1\<rparr>"
    by (auto simp: IntelgbeUndiDriverStop_def split: prod.splits if_splits)
  have "st = EFI_SUCCESS"
    using stop(1,2) by (auto simp: StopController_def split: prod.splits if_splits option.splits)
  then have "directory v1 = (mActiveControllers u,
      (mIntelgbeUndi32DeviceList u)[unat (Nii_IfNum (NiiProtocol31 d)) := 0],
      (\<lambda>q. map_option ControllerHandle (private_data u q))(p := None))"
    using stop_controller_directory [of E B dbh Controller p ?v v1 d] stop(1) assms(3) by simp
  then show ?thesis using stop(3) by (simp add: directory_def)
qed

text \<open>The interface number of a controller that has no child yet is still zero.\<close>

definition nii_view :: "'d undi \<Rightarrow> u64 \<Rightarrow> EFI_NETWORK_INTERFACE_IDENTIFIER_PROTOCOL option" where
  "nii_view u p = map_option NiiProtocol31 (private_data u p)"

lemma nii_view_simps [simp]:
  "nii_view (u\<lparr>undi_dev := d\<rparr>) = nii_view u" "nii_view (u\<lparr>undi_fault := b\<rparr>) = nii_view u"
  by (simp_all add: nii_view_def fun_eq_iff)

lemma keeps_nii_upd [frame]: "(\<And>d. NiiProtocol31 (f d) = NiiProtocol31 d) \<Longrightarrow> keeps nii_view (upd_private p f)"
  unfolding upd_private_def by (rule keeps_modify) (auto simp: nii_view_def fun_eq_iff split: option.splits)

lemma keeps_nii_adapter [frame]: "keeps nii_view (on_adapter p f)"
  by (auto simp: keeps_def on_adapter_def nii_view_def fun_eq_iff split: option.splits prod.splits)

lemma keeps_nii_add [frame]: "keeps nii_view (AddUnicodeString2 B l ls t s i)"
  unfolding AddUnicodeString2_def Let_def by (cases l; cases s; cases ls) (auto intro!: frame)

lemma keeps_nii_start [frame]:
  "keeps nii_view (OpenControllerProtocols B c t p)" "keeps nii_view (InitController E p)"
  "keeps nii_view (InitControllerProtocols B p c)"
  unfolding OpenControllerProtocols_def InitController_def InitControllerProtocols_def InitNiiPointerProtocol_def
    ComponentNameInitializeControllerName_def
  by (auto intro!: frame split: option.splits)

lemma start_controller_if_num:
  assumes "run_state (start_controller E B t c) u = (Inr p, u')"
  shows "\<exists>d. private_data u' p = Some d \<and> Nii_IfNum (NiiProtocol31 d) = 0"
proof -
  obtain v v1 v2 s0 s1 s3 where run: "run_state (InitUndiPrivateData B c) u = ((s0, p), v)" "\<not> EFI_ERROR s0"
    "run_state (OpenControllerProtocols B c t p) v = (s1, v1)" "run_state (InitController E p) v1 = (EFI_SUCCESS, v2)"
    "run_state (InitControllerProtocols B p c) v2 = (s3, u')"
    using start_controller_run [OF assms] by metis
  have "nii_view u' = nii_view v"
    using keepsD [OF keeps_nii_start(1) run(3)] keepsD [OF keeps_nii_start(2) run(4)]
      keepsD [OF keeps_nii_start(3) run(5)] by simp
  then have "nii_view u' p = Some (NiiProtocol31 zero_private)"
    using private_data_run [OF run(1,2)] by (simp add: nii_view_def zero_private_def)
  then show ?thesis by (auto simp: nii_view_def zero_private_def)
qed

text \<open>
  C27.  Driver start of a controller without a child, followed by driver stop: the counter is back and the
  private data is gone, and the slot that is cleared is the first one.  For the only controller this gives
  back the directory as it was; for a later one the slot of the first controller is lost and the slot of the
  stopped controller keeps the address of freed memory.
\<close>

theorem childless_start_stop:
  assumes start: "run_state (IntelgbeUndiDriverStart E B This Controller path) u = (EFI_SUCCESS, u1)"
    and unknown: "look_up Controller (directory u) = 0" and bound: "mActiveControllers u < 255"
      "length (mIntelgbeUndi32DeviceList u) = MAX_NIC_INTERFACES"
    and childless: "path \<noteq> 0" "IsDevicePathEnd (undi_mem u) path"
    and stop: "run_state (IntelgbeUndiDriverStop E B dbh Controller 0 children) u1 = (EFI_SUCCESS, u2)"
    and p: "p = fst (run_state (GetControllerPrivateData Controller) u1)"
    and nii: "fst (OpenProtocol B Controller NiiPointerGuid dbh Controller GET_PROTOCOL 0 (undi_dev u1)) = (EFI_SUCCESS, p)"
  shows "mActiveControllers u2 = mActiveControllers u \<and> private_data u2 p = None \<and>
    mIntelgbeUndi32DeviceList u2 = ((mIntelgbeUndi32DeviceList u)[unat (mActiveControllers u) := p])[0 := 0] \<and>
    (mActiveControllers u = 0 \<and> mIntelgbeUndi32DeviceList u ! 0 = 0 \<and> private_data u p = None \<longrightarrow>
       directory u2 = directory u) \<and>
    (mActiveControllers u > 0 \<longrightarrow> mIntelgbeUndi32DeviceList u2 ! unat (mActiveControllers u) = p)"
proof -
  let ?n = "unat (mActiveControllers u)" and ?ps = "mIntelgbeUndi32DeviceList u"
    and ?hs = "\<lambda>q. map_option ControllerHandle (private_data u q)"
  obtain v q v1 where v: "directory v = directory u" "run_state (start_controller E B This Controller) v = (Inr q, v1)"
    and "u1 = v1" using driver_start_run [OF start unknown] childless by (metis (full_types))
  have "q = p"
    using look_up_registered [OF unknown [unfolded directory_def] bound driver_start_live(1) [OF v(2,1)]]
      driver_start_live(2) [OF v(2,1)] p \<open>u1 = v1\<close> by (simp only: GetControllerPrivateData_result)
  then obtain d where d: "private_data u1 p = Some d" "Nii_IfNum (NiiProtocol31 d) = 0"
    using start_controller_if_num [OF v(2)] \<open>u1 = v1\<close> by blast
  have 1: "directory u1 = (mActiveControllers u + 1, ?ps[?n := p], ?hs(p \<mapsto> Controller))"
    using driver_start_live(2) [OF v(2,1)] \<open>q = p\<close> \<open>u1 = v1\<close> by simp
  have 2: "directory u2 = (mActiveControllers u, (?ps[?n := p])[0 := 0], ?hs(p := None))"
    using driver_stop_directory [OF stop nii d(1)] 1 d(2) by (simp add: directory_def)
  have "private_data u2 p = None"
    using fun_cong [OF arg_cong [OF 2, of "snd \<circ> snd"], of p] by (auto simp: directory_def)
  moreover have "directory u2 = directory u" if "?n = 0" "?ps ! 0 = 0" "private_data u p = None"
    using that 2 list_update_id [of ?ps 0] by (auto simp: directory_def)
  moreover have "((?ps[?n := p])[0 := 0]) ! ?n = p" if "mActiveControllers u > 0"
    using that bound by (auto simp: word_gt_0 word_less_nat_alt unat_eq_zero nth_list_update)
  ultimately show ?thesis using 2 by (auto simp: directory_def)
qed

section \<open>A driver that starts\<close>

definition start_env :: "sim_bus env" where
  "start_env = boot_env
     \<lparr>pci_attributes := \<lambda>p oper x r d. ((EFI_SUCCESS, 0x700), d),
      pci_allocate_buffer := \<lambda>p n r d. ((EFI_SUCCESS, 0x100000), d),
      pci_map := \<lambda>p oper h n a m d. ((EFI_SUCCESS, n, h, 1), d)\<rparr>"

definition start_services :: "sim_bus boot_services" where
  "start_services = dead_services
     \<lparr>OpenProtocol := \<lambda>h pr a c att r d.
        ((EFI_SUCCESS, if pr = PciIoProtocol then 1 else if pr = NiiPointerGuid then 16 else 0x9000), d),
      LibAllocatePrivateData := \<lambda>d. (16, d)\<rparr>"

definition start_undi :: "sim_bus undi" where
  "start_undi = initial_undi \<lparr>sim_regs = boot_regs, sim_busy = 0, sim_data = 0\<rparr>
     (\<lambda>a. if a = 0x40 then 0x7F else if a = 0x41 then 0xFF else 0)"

lemma start_healthy: "healthy_board start_env sim_view boot_cfg"
  using boot_healthy by (simp add: healthy_board_def mdio_controller_def start_env_def)

definition opened :: GIG_DRIVER_DATA where
  "opened = zero_adapter\<lparr>PciIo := 1\<rparr>"

lemma start_pci:
  "\<exists>w. run_state (IntelgbePciInit start_env) \<lparr>GigAdapter = opened, dev = d, mem = m, fault = f\<rparr> = (EFI_SUCCESS, w) \<and>
     dev w = d"
  by (simp add: opened_def zero_adapter_def zero_mapping_def IntelgbePciInit_def pci_init_alloc_def start_env_def
      UndiDmaAllocateCommonBuffer_def UndiDmaMapCommonBuffer_def Let_def)


lemma start_first_time:
  assumes "dev w = undi_dev start_undi"
  shows "\<exists>w'. run_state (IntelgbeFirstTimeInit start_env) w = (EFI_SUCCESS, w')"
proof -
  have "bus_regs sim_view w = boot_regs" "bus_busy sim_view (dev w) < 100"
    using assms by (simp_all add: start_undi_def initial_undi_def sim_view_def)
  then show ?thesis
    using first_time_boots [OF start_healthy, of w 1 PHY_MARVELL_88E1512] boot_device boot_scan boot_select by simp
qed

lemma start_init_controller:
  assumes "private_data u p = Some d" "NicInfo d = opened" "undi_dev u = undi_dev start_undi" "p \<noteq> 0"
  shows "fst (run_state (InitController start_env p) u) = EFI_SUCCESS"
proof -
  obtain w where w: "run_state (IntelgbePciInit start_env) (adapter_world u d) = (EFI_SUCCESS, w)" "dev w = undi_dev u"
    using start_pci [of "undi_dev u" "undi_mem u" "undi_fault u"] assms(2) by (auto simp: adapter_world_def)
  obtain w' where w': "run_state (IntelgbeFirstTimeInit start_env) w = (EFI_SUCCESS, w')"
    using start_first_time [of w] w(2) assms(3) by auto
  have "adapter_world (u\<lparr>private_data := (private_data u)(p \<mapsto> d\<lparr>NicInfo := GigAdapter w\<rparr>), undi_dev := dev w,
      undi_mem := mem w, undi_fault := fault w\<rparr>) (d\<lparr>NicInfo := GigAdapter w\<rparr>) = w"
    by (simp add: adapter_world_def)
  then show ?thesis
    using assms w w'
    by (simp add: InitController_def on_adapter_def split: prod.split)
qed

lemma start_protocols: "p \<noteq> 0 \<Longrightarrow> fst (run_state (InitControllerProtocols start_services p c) u) = EFI_SUCCESS"
  by (simp add: InitControllerProtocols_def InitNiiPointerProtocol_def call_bs_def start_services_def dead_services_def
      split: prod.split)

lemma start_open:
  assumes "private_data u p = Some d" "NicInfo d = zero_adapter" "p \<noteq> 0"
  shows "\<exists>u' d'. run_state (OpenControllerProtocols start_services c (Some dbh) p) u = (EFI_SUCCESS, u') \<and>
    undi_dev u' = undi_dev u \<and> private_data u' p = Some d' \<and> NicInfo d' = opened"
  using assms
  by (simp add: OpenControllerProtocols_def get_private_def upd_private_def call_bs_def start_services_def opened_def)

lemma start_private:
  "\<exists>u' d. run_state (InitUndiPrivateData start_services c) u = ((EFI_SUCCESS, 16), u') \<and> undi_dev u' = undi_dev u \<and>
     private_data u' 16 = Some d \<and> NicInfo d = zero_adapter"
  by (simp add: InitUndiPrivateData_def call_bs_def start_services_def zero_adapter_def)

lemma start_controller_starts:
  assumes "undi_dev u = undi_dev start_undi"
  shows "\<exists>u'. run_state (start_controller start_env start_services (Some dbh) c) u = (Inr 16, u')"
proof -
  obtain v d where 1: "run_state (InitUndiPrivateData start_services c) u = ((EFI_SUCCESS, 16), v)"
    "undi_dev v = undi_dev u" "private_data v 16 = Some d" "NicInfo d = zero_adapter" using start_private by blast
  obtain v1 d1 where 2: "run_state (OpenControllerProtocols start_services c (Some dbh) 16) v = (EFI_SUCCESS, v1)"
    "undi_dev v1 = undi_dev v" "private_data v1 16 = Some d1" "NicInfo d1 = opened"
    using start_open [OF 1(3,4)] by force
  obtain v2 where 3: "run_state (InitController start_env 16) v1 = (EFI_SUCCESS, v2)"
    using start_init_controller [OF 2(3,4)] 1(2) 2(2) assms by (cases "run_state (InitController start_env 16) v1") simp
  obtain v3 where "run_state (InitControllerProtocols start_services 16 c) v2 = (EFI_SUCCESS, v3)"
    using start_protocols [of 16 c v2] by (cases "run_state (InitControllerProtocols start_services 16 c) v2") simp
  with 1 2 3 show ?thesis by (simp add: start_controller_def)
qed

lemma driver_starts:
  obtains u' where
    "run_state (IntelgbeUndiDriverStart start_env start_services (Some 2) 1 0x40) start_undi = (EFI_SUCCESS, u')"
    "private_data u' 16 \<noteq> None" "fst (run_state (GetControllerPrivateData 1) u') = 16"
proof -
  obtain u' where sc: "run_state (start_controller start_env start_services (Some 2) 1) start_undi = (Inr 16, u')"
    using start_controller_starts [OF refl, of 2 1] by blast
  have look: "run_state (GetControllerPrivateData 1) start_undi = (0, start_undi)"
    by (simp add: GetControllerPrivateData_def start_undi_def initial_undi_def)
  have path: "IsDevicePathEnd (undi_mem start_undi) 0x40"
    by (simp add: IsDevicePathEnd_def start_undi_def initial_undi_def)
  note dir = driver_start_live [OF sc refl]
  have "look_up 1 (directory u') = 16"
    unfolding dir(2) by (rule look_up_registered) (simp_all add: start_undi_def initial_undi_def)
  then show thesis
    using that [of u'] sc look path dir(3)
    by (simp add: IntelgbeUndiDriverStart_def IsNotEndOfDevicePathNode_def Let_def GetControllerPrivateData_result)
qed


lemma restore_starts: "fst (run_state (restore_attributes start_env) w) = EFI_SUCCESS"
  by (simp add: restore_attributes_def start_env_def)

lemma free_names_start: "run_state (FreeUnicodeStringTable start_services t) u = (EFI_SUCCESS, u)"
proof -
  have "run_state (free_entries start_services es) u = ((), u)" for es
    by (induction es) (simp_all add: call_bs_def start_services_def dead_services_def)
  then show ?thesis
    by (simp add: FreeUnicodeStringTable_def call_bs_def start_services_def dead_services_def split: option.split)
qed

lemma on_adapter_live:
  assumes "private_data u p = Some d"
  obtains v d' where "run_state (on_adapter p f) u = (Some (fst (run_state f (adapter_world u d))), v)"
    "private_data v p = Some d'"
  using assms that by (cases "run_state f (adapter_world u d)") (simp add: on_adapter_def)

lemma driver_stops:
  assumes d: "private_data u 16 = Some d"
  shows "\<exists>u'. run_state (IntelgbeUndiDriverStop start_env start_services 2 1 0 None) u = (EFI_SUCCESS, u')"
proof -
  let ?u = "u\<lparr>mIntelgbeUndi32DeviceList := (mIntelgbeUndi32DeviceList u)[unat (Nii_IfNum (NiiProtocol31 d)) := 0]\<rparr>"
  have "private_data ?u 16 = Some d" using d by simp
  from on_adapter_live [OF this, of "free_dma_resources start_env"] obtain v d1 where
    1: "run_state (on_adapter 16 (free_dma_resources start_env)) ?u = (Some (), v)" "private_data v 16 = Some d1"
    by (metis (full_types) unit.exhaust)
  from on_adapter_live [OF 1(2), of "restore_attributes start_env"] obtain v2 where
    2: "run_state (on_adapter 16 (restore_attributes start_env)) v = (Some EFI_SUCCESS, v2)"
    by (metis restore_starts)
  have bs: "run_state (call_bs (UninstallProtocols start_services h ps)) u = (EFI_SUCCESS, u)"
    "run_state (call_bs (FreePool start_services a)) w = (EFI_SUCCESS, w)"
    "run_state (call_bs (CloseProtocol start_services h pr x y)) w = (EFI_SUCCESS, w)"
    "run_state (call_bs (OpenProtocol start_services h NiiPointerGuid x y att r)) w = ((EFI_SUCCESS, 16), w)"
    for h ps a w pr x y att r
    by (simp_all add: call_bs_def start_services_def dead_services_def)
  show ?thesis
    using 1 2 d by (simp add: IntelgbeUndiDriverStop_def StopController_def bs get_private_def free_names_start
        CloseControllerProtocols_def free_private_def)
qed

theorem childless_start_stop_witness:
  "\<exists>u1 u2. run_state (IntelgbeUndiDriverStart start_env start_services (Some 2) 1 0x40) start_undi = (EFI_SUCCESS, u1) \<and>
     run_state (IntelgbeUndiDriverStop start_env start_services 2 1 0 None) u1 = (EFI_SUCCESS, u2) \<and>
     directory u2 = directory start_undi"
proof -
  obtain u1 where start: "run_state (IntelgbeUndiDriverStart start_env start_services (Some 2) 1 0x40) start_undi = (EFI_SUCCESS, u1)"
    and live: "private_data u1 16 \<noteq> None" and p: "fst (run_state (GetControllerPrivateData 1) u1) = 16"
    using driver_starts .
  have init: "look_up 1 (directory start_undi) = 0" "mActiveControllers start_undi = 0"
    "length (mIntelgbeUndi32DeviceList start_undi) = MAX_NIC_INTERFACES" "mIntelgbeUndi32DeviceList start_undi ! 0 = 0"
    "private_data start_undi 16 = None" "IsDevicePathEnd (undi_mem start_undi) 0x40"
    by (simp_all add: directory_def start_undi_def initial_undi_def IsDevicePathEnd_def)
  obtain u2 where stop: "run_state (IntelgbeUndiDriverStop start_env start_services 2 1 0 None) u1 = (EFI_SUCCESS, u2)"
    using driver_stops live by blast
  have "fst (OpenProtocol start_services 1 NiiPointerGuid 2 1 GET_PROTOCOL 0 (undi_dev u1)) = (EFI_SUCCESS, 16)"
    by (simp add: start_services_def)
  from childless_start_stop [OF start init(1) _ init(3) _ init(6) stop p [symmetric] this] init start stop show ?thesis
    by auto
qed
end
