(* ===== verification/Undi_Receive.thy ===== *)
theory Undi_Receive
  imports Undi_Ring
begin

text \<open>
  The receive ring as a queue.  Going round the ring from the driver's index, the descriptors the controller
  has given back come first; each stands for a frame that waits, in the buffer of its slot.
\<close>

section \<open>Rotated lists\<close>

lemma mod_round: "x < n + n \<Longrightarrow> x mod n = (if x < n then x else x - n)" for x :: nat
  by (simp add: le_mod_geq)

lemma rotate_update:
  assumes "c < length xs" and "k < length xs"
  shows "rotate c (xs[(c + k) mod length xs := x]) = (rotate c xs)[k := x]"
proof (rule nth_equalityI)
  fix i assume "i < length (rotate c (xs[(c + k) mod length xs := x]))"
  then have i: "i < length xs" by simp
  have "(c + i) mod length xs = (c + k) mod length xs \<longleftrightarrow> i = k"
    using assms i mod_round [of "c + i" "length xs"] mod_round [of "c + k" "length xs"]
    by (simp split: if_splits) linarith
  moreover have "(c + n) mod length xs < length xs" for n using i by (intro mod_less_divisor) linarith
  ultimately show "rotate c (xs[(c + k) mod length xs := x]) ! i = (rotate c xs)[k := x] ! i"
    using i assms(2) by (auto simp: nth_rotate nth_list_update)
qed simp

lemma rotate_consume:
  assumes "c < length xs"
  shows "rotate ((c + 1) mod length xs) (xs[c := x]) = tl (rotate c xs) @ [x]"
proof -
  have "rotate ((c + 1) mod length xs) (xs[c := x]) = rotate1 (rotate c (xs[c := x]))"
    using rotate_conv_mod [of "c + 1" "xs[c := x]"] by (simp add: rotate1_rotate_swap rotate_Suc)
  also have "rotate c (xs[c := x]) = (rotate c xs)[0 := x]"
    using rotate_update [OF assms, of 0 x] assms by (cases xs) simp_all
  finally show ?thesis using assms by (cases "rotate c xs") auto
qed

lemma takeWhile_fill:
  assumes "list_all (\<lambda>x. \<not> P x) (dropWhile P xs)" and "length (takeWhile P xs) < length xs" and "P x"
  shows "takeWhile P (xs[length (takeWhile P xs) := x]) = takeWhile P xs @ [x]"
    and "list_all (\<lambda>x. \<not> P x) (dropWhile P (xs[length (takeWhile P xs) := x]))"
proof -
  obtain y ys where d: "dropWhile P xs = y # ys"
    using assms(2) by (metis append_Nil2 less_irrefl neq_Nil_conv takeWhile_dropWhile_id)
  have "xs = takeWhile P xs @ y # ys" using d by (metis takeWhile_dropWhile_id)
  then have upd: "xs[length (takeWhile P xs) := x] = takeWhile P xs @ x # ys"
    by (metis list_update_length)
  have ys: "list_all (\<lambda>x. \<not> P x) ys" using assms(1) by (simp add: d)
  then have "takeWhile P ys = []" "dropWhile P ys = ys" by (cases ys; simp)+
  moreover have "\<forall>z \<in> set (takeWhile P xs). P z" by (auto dest: set_takeWhileD)
  ultimately show "takeWhile P (xs[length (takeWhile P xs) := x]) = takeWhile P xs @ [x]"
    "list_all (\<lambda>x. \<not> P x) (dropWhile P (xs[length (takeWhile P xs) := x]))"
    unfolding upd using assms(3) ys by (simp_all add: takeWhile_append2 dropWhile_append2)
qed

section \<open>The frames that wait\<close>

abbreviation rx_buffer :: "'d world \<Rightarrow> memory \<Rightarrow> nat \<Rightarrow> u8 list" where
  "rx_buffer w m i \<equiv> load_bytes m (rx_slot_addr (rx_buff (rxq w)) (of_nat i)) RX_BUFFER_SIZE"

definition rx_slots :: "'d world \<Rightarrow> (intelgbe_rx_desc \<times> u8 list) list" where
  "rx_slots w = rotate (unat (cur_rx (rxq w)))
     (map (\<lambda>i. (rx_ring (rxq w) ! i, rx_buffer w (mem w) i)) [0..<ring_size])"

fun given_back :: "intelgbe_rx_desc \<times> u8 list \<Rightarrow> bool" where
  "given_back (d, bs) \<longleftrightarrow> \<not> bit (des3 d) 31"

abbreviation rx_waiting :: "'d world \<Rightarrow> (intelgbe_rx_desc \<times> u8 list) list" where
  "rx_waiting w \<equiv> takeWhile given_back (rx_slots w)"

abbreviation frame_length :: "intelgbe_rx_desc \<Rightarrow> nat" where
  "frame_length d \<equiv> unat (des3 d AND 0x7FFF)"

text \<open>The frame of a slot; \<open>None\<close> for one that the controller has marked bad.\<close>

fun rx_frame :: "intelgbe_rx_desc \<times> u8 list \<Rightarrow> u8 list option" where
  "rx_frame (d, bs) = (if rx_desc_good d then Some (take (frame_length d) bs) else None)"

definition rx_content :: "'d world \<Rightarrow> u8 list option list" where
  "rx_content w = map rx_frame (rx_waiting w)"

text \<open>Behind the frames that wait, the controller has every slot; no frame is longer than a buffer.\<close>

definition rx_queue_inv :: "'d world \<Rightarrow> bool" where
  "rx_queue_inv w \<longleftrightarrow> rx_inv w \<and> list_all (\<lambda>s. \<not> given_back s) (dropWhile given_back (rx_slots w)) \<and>
     list_all (\<lambda>s. frame_length (fst s) \<le> RX_BUFFER_SIZE) (rx_waiting w)"

lemma length_rx_slots [simp]: "length (rx_slots w) = ring_size"
  by (simp add: rx_slots_def)

lemma rx_slots_Cons:
  assumes "rx_inv w"
  shows "rx_slots w = (rx_current w, rx_buffer w (mem w) (unat (cur_rx (rxq w)))) # tl (rx_slots w)"
proof -
  have "hd (rx_slots w) = rx_slots w ! 0" by (rule hd_conv_nth) (metis length_rx_slots list.size(3) zero_neq_numeral)
  also have "\<dots> = (rx_current w, rx_buffer w (mem w) (unat (cur_rx (rxq w))))"
    using assms by (simp add: rx_slots_def nth_rotate rx_inv_def)
  finally show ?thesis by (metis length_rx_slots list.collapse list.size(3) zero_neq_numeral)
qed

lemma rx_slots_cong:
  assumes "cur_rx (rxq v) = cur_rx (rxq w)" and "rx_ring (rxq v) = rx_ring (rxq w)"
    and "\<And>i. i < ring_size \<Longrightarrow> rx_buffer v (mem v) i = rx_buffer w (mem w) i"
  shows "rx_slots v = rx_slots w"
  using assms unfolding rx_slots_def by (auto intro!: arg_cong [of _ _ "rotate (unat (cur_rx (rxq w)))"])

lemma rx_slots_fill:
  assumes "rx_inv w" and "k < ring_size" and j: "j = (unat (cur_rx (rxq w)) + k) mod ring_size"
    and "cur_rx (rxq v) = cur_rx (rxq w)" and "rx_ring (rxq v) = (rx_ring (rxq w))[j := d]"
    and "\<And>i. i < ring_size \<Longrightarrow> i \<noteq> j \<Longrightarrow> rx_buffer v (mem v) i = rx_buffer w (mem w) i"
  shows "rx_slots v = (rx_slots w)[k := (d, rx_buffer v (mem v) j)]"
proof -
  let ?f = "\<lambda>w i. (rx_ring (rxq w) ! i, rx_buffer w (mem w) i)"
  have "j < ring_size" using j by simp
  then have "map (?f v) [0..<ring_size] = (map (?f w) [0..<ring_size])[j := (d, rx_buffer v (mem v) j)]"
    using assms(1,5,6) by (intro nth_equalityI) (auto simp: nth_list_update rx_inv_def)
  then show ?thesis
    using rotate_update [of "unat (cur_rx (rxq w))" "map (?f w) [0..<ring_size]" k] assms(1,2,4) j
    by (simp add: rx_slots_def rx_inv_def)
qed

lemma rx_slots_consume:
  assumes "rx_inv w" and "cur_rx (rxq v) = ring_next (cur_rx (rxq w))"
    and "rx_ring (rxq v) = (rx_ring (rxq w))[unat (cur_rx (rxq w)) := d]"
    and "\<And>i. i < ring_size \<Longrightarrow> rx_buffer v (mem v) i = rx_buffer w (mem w) i"
  shows "rx_slots v = tl (rx_slots w) @ [(d, rx_buffer w (mem w) (unat (cur_rx (rxq w))))]"
proof -
  let ?f = "\<lambda>w i. (rx_ring (rxq w) ! i, rx_buffer w (mem w) i)" and ?c = "unat (cur_rx (rxq w))"
  have "map (?f v) [0..<ring_size] = (map (?f w) [0..<ring_size])[?c := (d, rx_buffer w (mem w) ?c)]"
    using assms(1,3,4) by (intro nth_equalityI) (auto simp: nth_list_update rx_inv_def)
  then show ?thesis
    using rotate_consume [of ?c "map (?f w) [0..<ring_size]"] assms(1,2)
    by (simp add: rx_slots_def rx_inv_def unat_ring_next)
qed

section \<open>One call\<close>

text \<open>
  The client's side of a call: its buffer takes the frame and, like its data block, lies outside the receive
  buffers.
\<close>

definition rx_call_ok :: "'d world \<Rightarrow> u64 \<Rightarrow> u64 \<Rightarrow> bool" where
  "rx_call_ok w Cpb Db \<longleftrightarrow>
     (let buf = CpbReceive_BufferAddr (mem w) Cpb; n = frame_length (rx_current w);
          all = ring_size * RX_BUFFER_SIZE in
      n \<le> unat (CpbReceive_BufferLen (mem w) Cpb) \<and> unat (CpbReceive_BufferLen (mem w) Cpb) < 0x8000 \<and>
      disjoint_ranges (rx_buff (rxq w)) all buf n \<and> disjoint_ranges (rx_buff (rxq w)) all Db 80 \<and>
      disjoint_ranges buf n Db 80)"

lemma rx_buffer_sub:
  assumes "disjoint_ranges a (ring_size * RX_BUFFER_SIZE) b k" and "i < ring_size" and "j + n \<le> k"
  shows "disjoint_ranges (rx_slot_addr a (of_nat i)) RX_BUFFER_SIZE (b + of_nat j) n"
proof -
  have "(of_nat sizeof_LOCAL_RX_BUFFER * ucast (of_nat i :: u32) :: u64) = of_nat (2048 * i)"
    using assms(2) by (simp add: word_unat_eq_iff unsigned_ucast_eq unsigned_of_nat unat_word_ariths take_bit_nat_eq_self)
  moreover have "2048 * i + RX_BUFFER_SIZE \<le> ring_size * RX_BUFFER_SIZE" using assms(2) by simp
  ultimately show ?thesis using disjoint_sub [OF assms(1) _ assms(3), of "2048 * i" RX_BUFFER_SIZE] by simp
qed

lemma full_frame_len:
  assumes "frame_length d \<le> unat n" and "unat n < 0x8000"
  shows "unat (of_int (rx_frame_len (des3 d) n) :: u32) = frame_length d"
proof -
  have u: "uint n = int (unat n)" "uint (des3 d AND 0x7FFF) = int (frame_length d)" by simp_all
  have "uint n < 0x8000" using assms(2) u(1) by linarith
  moreover have "uint (des3 d AND 0x7FFF) \<le> uint n" using assms(1) u by linarith
  ultimately have "rx_frame_len (des3 d) n = int (frame_length d)"
    using rx_frame_len_bounds [of n "des3 d"] u(2) by (simp only: min_absorb1)
  then show ?thesis by simp
qed

lemma receive_rx_buff:
  assumes "rx_inv w" and "run_state (IntelgbeReceive E Cpb Db) w = (st, w')"
  shows "rx_buff (rxq w') = rx_buff (rxq w)"
  using assms
  by (auto simp: IntelgbeReceive_def get_rx_queue_def get_rx_desc_def set_rx_queue_def rx_inv_def Let_def split: if_splits)

text \<open>A delivered frame is the client's, byte for byte, and the receive buffers are as they were.\<close>

lemma receive_copies:
  assumes inv: "rx_inv w" and run: "run_state (IntelgbeReceive E Cpb Db) w = (PXE_STATCODE_SUCCESS, w')"
    and good: "rx_desc_good (rx_current w)" and call: "rx_call_ok w Cpb Db"
    and fits: "frame_length (rx_current w) \<le> RX_BUFFER_SIZE"
  shows "load_bytes (mem w') (CpbReceive_BufferAddr (mem w) Cpb) (unat (load32 (mem w') (Db + 64))) =
      take (frame_length (rx_current w)) (rx_buffer w (mem w) (unat (cur_rx (rxq w))))"
    and "i < ring_size \<Longrightarrow> rx_buffer w (mem w') i = rx_buffer w (mem w) i"
proof -
  let ?buf = "CpbReceive_BufferAddr (mem w) Cpb" and ?d = "rx_current w" and ?c = "cur_rx (rxq w)"
  define len :: u32 where "len = of_int (rx_frame_len (des3 ?d) (CpbReceive_BufferLen (mem w) Cpb))"
  have len: "unat len = frame_length ?d"
    unfolding len_def by (rule full_frame_len) (use call in \<open>simp_all add: rx_call_ok_def Let_def\<close>)
  have c: "unat ?c < ring_size" using inv by (simp add: rx_inv_def)
  note areas = call [unfolded rx_call_ok_def Let_def]
  have sub: "disjoint_ranges (rx_slot_addr (rx_buff (rxq w)) (of_nat i)) RX_BUFFER_SIZE ?buf (unat len)"
    "disjoint_ranges (rx_slot_addr (rx_buff (rxq w)) (of_nat i)) RX_BUFFER_SIZE Db 80" if "i < ring_size" for i
    using rx_buffer_sub [of "rx_buff (rxq w)" ?buf "frame_length ?d" i 0 "frame_length ?d"]
      rx_buffer_sub [of "rx_buff (rxq w)" Db 80 i 0 80] areas that len by simp_all
  have ra: "rx_areas (rx_slot_addr (rx_buff (rxq w)) ?c) ?buf (unat len) Db"
    using sub [OF c] areas fits len by (simp add: rx_areas_def)
  have m': "mem w' = receive_frame Cpb Db (rx_slot_addr (rx_buff (rxq w)) ?c) (des3 ?d) (GigAdapter w) (mem w)"
    using receive_run [OF inv run] good by (simp split: if_splits)
  have "load_bytes m a (unat len) = take (unat len) (load_bytes m a RX_BUFFER_SIZE)" for m a
    using fits len by (intro nth_equalityI) (simp_all add: nth_load_bytes)
  then show "load_bytes (mem w') ?buf (unat (load32 (mem w') (Db + 64))) =
      take (frame_length ?d) (rx_buffer w (mem w) (unat ?c))"
    using receive_frame_fields(1,2) [OF len_def ra m'] len by simp
  show "rx_buffer w (mem w') i = rx_buffer w (mem w) i" if "i < ring_size"
    unfolding m' receive_frame_stores [OF len_def ra]
    using load_other_area [OF sub(1) [OF that]] load_other_area [OF sub(2) [OF that]] by simp
qed

lemma takeWhile_snoc:
  assumes "\<not> P x"
  shows "takeWhile P (xs @ [x]) = takeWhile P xs"
    and "list_all (\<lambda>x. \<not> P x) (dropWhile P xs) \<Longrightarrow> list_all (\<lambda>x. \<not> P x) (dropWhile P (xs @ [x]))"
  using assms by (induction xs) (simp_all split: if_splits)

lemma receive_consumes:
  assumes inv: "rx_queue_inv w" and run: "run_state (IntelgbeReceive E Cpb Db) w = (PXE_STATCODE_SUCCESS, w')"
    and bufs: "\<And>i. i < ring_size \<Longrightarrow> rx_buffer w (mem w') i = rx_buffer w (mem w) i"
  shows "rx_queue_inv w'" and "rx_waiting w = (rx_current w, rx_buffer w (mem w) (unat (cur_rx (rxq w)))) # rx_waiting w'"
proof -
  let ?h = "(rx_current w, rx_buffer w (mem w) (unat (cur_rx (rxq w))))"
  have rx: "rx_inv w" using inv by (simp add: rx_queue_inv_def)
  have run': "given_back ?h" "rx_inv w'" "cur_rx (rxq w') = ring_next (cur_rx (rxq w))"
    "rx_ring (rxq w') = (rx_ring (rxq w))[unat (cur_rx (rxq w)) := rearmed (rx_slot_addr (dma_rx_buff (rxq w)) (cur_rx (rxq w)))]"
    using receive_run [OF rx run] by (simp_all split: if_splits)
  have slots: "rx_slots w' = tl (rx_slots w) @ [(rearmed (rx_slot_addr (dma_rx_buff (rxq w)) (cur_rx (rxq w))),
      rx_buffer w (mem w) (unat (cur_rx (rxq w))))]" (is "_ = _ @ [?r]")
    by (rule rx_slots_consume [OF rx run'(3,4)]) (use bufs in \<open>simp add: receive_rx_buff [OF rx run]\<close>)
  have r: "\<not> given_back ?r" by (simp add: rearmed_def bit_simps BIT_def)
  have w: "rx_slots w = ?h # tl (rx_slots w)" by (rule rx_slots_Cons [OF rx])
  have wait: "rx_waiting w = ?h # takeWhile given_back (tl (rx_slots w))"
    "dropWhile given_back (rx_slots w) = dropWhile given_back (tl (rx_slots w))"
    using run'(1) by (subst w, simp)+
  show "rx_waiting w = ?h # rx_waiting w'" unfolding slots takeWhile_snoc(1) [of given_back, OF r] by (rule wait(1))
  then show "rx_queue_inv w'"
    using inv run'(2) takeWhile_snoc(2) [of given_back, OF r] by (simp add: rx_queue_inv_def slots wait(2))
qed

section \<open>The receive ring as a channel\<close>

text \<open>
  The steps of the receive queue: a call that delivers, a call that drops a bad frame, a call that finds
  nothing, a frame arriving in the next slot the controller has, and the client changing its memory, each
  with any change of the environment.  What leaves is read from the client's buffer, with the length in
  its data block.
\<close>

inductive rx_step :: "'d env \<Rightarrow> 'd world \<Rightarrow> u8 list option fifo_event \<Rightarrow> 'd world \<Rightarrow> bool" for E where
  delivered: "run_state (IntelgbeReceive E Cpb Db) w = (PXE_STATCODE_SUCCESS, w') \<Longrightarrow>
    rx_desc_good (rx_current w) \<Longrightarrow> rx_call_ok w Cpb Db \<Longrightarrow>
    rx_step E w (Deq [Some (load_bytes (mem w') (CpbReceive_BufferAddr (mem w) Cpb)
      (unat (load32 (mem w') (Db + 64))))]) w'"
| dropped: "run_state (IntelgbeReceive E Cpb Db) w = (PXE_STATCODE_SUCCESS, w') \<Longrightarrow>
    \<not> rx_desc_good (rx_current w) \<Longrightarrow> rx_step E w (Deq [None]) w'"
| nothing: "run_state (IntelgbeReceive E Cpb Db) w = (PXE_STATCODE_NO_DATA, w') \<Longrightarrow> rx_step E w Internal w'"
| arrived: "length (rx_waiting w) < ring_size \<Longrightarrow>
    j = (unat (cur_rx (rxq w)) + length (rx_waiting w)) mod ring_size \<Longrightarrow>
    \<not> bit (des3 d) 31 \<Longrightarrow> frame_length d \<le> RX_BUFFER_SIZE \<Longrightarrow>
    \<forall>i < ring_size. i \<noteq> j \<longrightarrow> rx_buffer w m i = rx_buffer w (mem w) i \<Longrightarrow>
    rx_step E w (Enq (rx_frame (d, rx_buffer w m j))) (w\<lparr>dev := x, mem := m, GigAdapter := (GigAdapter w)\<lparr>
      rx_queue := (rx_queue (GigAdapter w))[0 := (rxq w)\<lparr>rx_ring := (rx_ring (rxq w))[j := d]\<rparr>]\<rparr>\<rparr>)"
| client: "\<forall>i < ring_size. rx_buffer w m i = rx_buffer w (mem w) i \<Longrightarrow>
    rx_step E w Internal (w\<lparr>dev := x, mem := m\<rparr>)"

lemma client_step:
  assumes "rx_queue_inv w" and "\<forall>i < ring_size. rx_buffer w m i = rx_buffer w (mem w) i"
  shows "rx_queue_inv (w\<lparr>dev := x, mem := m\<rparr>)" and "rx_content (w\<lparr>dev := x, mem := m\<rparr>) = rx_content w"
proof -
  have "rx_slots (w\<lparr>dev := x, mem := m\<rparr>) = rx_slots w" by (rule rx_slots_cong) (use assms(2) in simp_all)
  then show "rx_queue_inv (w\<lparr>dev := x, mem := m\<rparr>)" "rx_content (w\<lparr>dev := x, mem := m\<rparr>) = rx_content w"
    using assms(1) by (simp_all add: rx_queue_inv_def rx_content_def rx_inv_def)
qed

lemma arrival:
  assumes inv: "rx_queue_inv w" and k: "length (rx_waiting w) < ring_size"
    and j: "j = (unat (cur_rx (rxq w)) + length (rx_waiting w)) mod ring_size"
    and d: "\<not> bit (des3 d) 31" "frame_length d \<le> RX_BUFFER_SIZE"
    and m: "\<forall>i < ring_size. i \<noteq> j \<longrightarrow> rx_buffer w m i = rx_buffer w (mem w) i"
    and v: "v = w\<lparr>dev := x, mem := m, GigAdapter := (GigAdapter w)\<lparr>
      rx_queue := (rx_queue (GigAdapter w))[0 := (rxq w)\<lparr>rx_ring := (rx_ring (rxq w))[j := d]\<rparr>]\<rparr>\<rparr>"
  shows "rx_queue_inv v" and "rx_content v = rx_content w @ [rx_frame (d, rx_buffer w m j)]"
proof -
  have rx: "rx_inv w" using inv by (simp add: rx_queue_inv_def)
  then have q: "rxq v = (rxq w)\<lparr>rx_ring := (rx_ring (rxq w))[j := d]\<rparr>" "mem v = m" by (simp_all add: v rx_inv_def)
  have rx': "rx_inv v" using rx by (simp add: v rx_inv_def)
  have slots: "rx_slots v = (rx_slots w)[length (rx_waiting w) := (d, rx_buffer w m j)]"
    using rx_slots_fill [OF rx k j, of v d] q m by simp
  have fill: "rx_waiting v = rx_waiting w @ [(d, rx_buffer w m j)]"
    "list_all (\<lambda>s. \<not> given_back s) (dropWhile given_back (rx_slots v))"
    unfolding slots using takeWhile_fill [of given_back "rx_slots w"] inv k d(1) by (simp_all add: rx_queue_inv_def)
  show "rx_queue_inv v" using inv rx' d(2) by (simp add: rx_queue_inv_def fill)
  show "rx_content v = rx_content w @ [rx_frame (d, rx_buffer w m j)]" by (simp add: rx_content_def fill)
qed

lemma departure:
  assumes inv: "rx_queue_inv w" and step: "rx_step E w (Deq xs) w'"
  shows "rx_queue_inv w'" and "rx_content w = xs @ rx_content w'"
proof -
  have rx: "rx_inv w" using inv by (simp add: rx_queue_inv_def)
  have cur: "frame_length (rx_current w) \<le> RX_BUFFER_SIZE"
    if "run_state (IntelgbeReceive E Cpb Db) w = (PXE_STATCODE_SUCCESS, w')" for Cpb Db
  proof -
    have "given_back (rx_current w, rx_buffer w (mem w) (unat (cur_rx (rxq w))))"
      using receive_run [OF rx that] by (simp split: if_splits)
    then have "(rx_current w, rx_buffer w (mem w) (unat (cur_rx (rxq w)))) \<in> set (rx_waiting w)"
      by (subst rx_slots_Cons [OF rx]) simp
    then show ?thesis using inv by (auto simp: rx_queue_inv_def list_all_iff)
  qed
  have "rx_queue_inv w' \<and> rx_content w = xs @ rx_content w'"
    using step
  proof cases
    case (delivered Cpb Db)
    note copies = receive_copies [OF rx delivered(2-4) cur [OF delivered(2)]]
    show ?thesis
      using receive_consumes [OF inv delivered(2) copies(2)] copies(1) delivered(1,3) by (simp add: rx_content_def)
  next
    case (dropped Cpb Db)
    have "mem w' = mem w" using receive_run [OF rx dropped(2)] dropped(3) by (simp split: if_splits)
    with receive_consumes [OF inv dropped(2)] dropped(1,3) show ?thesis by (simp add: rx_content_def)
  qed
  then show "rx_queue_inv w'" "rx_content w = xs @ rx_content w'" by simp_all
qed

lemma internal:
  assumes inv: "rx_queue_inv w" and step: "rx_step E w Internal w'"
  shows "rx_queue_inv w' \<and> rx_content w' = rx_content w"
  using step
proof cases
  case (nothing Cpb Db)
  then have "w' = w" using receive_run [of w E Cpb Db] inv by (simp add: rx_queue_inv_def split: if_splits)
  with inv show ?thesis by simp
next
  case (client m x)
  with client_step [OF inv, of m x] show ?thesis by simp
qed

lemma entry:
  assumes inv: "rx_queue_inv w" and step: "rx_step E w (Enq a) w'"
  shows "rx_queue_inv w' \<and> rx_content w' = rx_content w @ [a]"
  using step
proof cases
  case (arrived j d m x)
  from arrival [OF inv arrived(3-7) arrived(2)] arrived(1) show ?thesis by blast
qed

interpretation rx_queue_fifo: fifo_channel rx_queue_inv rx_content "rx_step E" for E
proof
  fix w w' :: "'a world" and a xs e assume inv: "rx_queue_inv w"
  show "rx_queue_inv w'" if "rx_step E w e w'"
    using that departure(1) [OF inv] internal [OF inv] entry [OF inv] by (cases e) blast+
  show "rx_content w' = rx_content w @ [a]" if "rx_step E w (Enq a) w'" using entry [OF inv that] by blast
  show "rx_content w = xs @ rx_content w'" if "rx_step E w (Deq xs) w'" by (rule departure(2) [OF inv that])
  show "rx_content w' = rx_content w" if "rx_step E w Internal w'" using internal [OF inv that] by simp
qed

lemma handed_out:
  assumes "rx_inv w" and "\<forall>i < DEFAULT_RX_DESCRIPTORS. bit (des3 (rx_ring (rxq w) ! i)) 31"
  shows "rx_queue_inv w" and "rx_content w = []"
proof -
  have "\<forall>s \<in> set (rx_slots w). \<not> given_back s" using assms(2) by (auto simp: rx_slots_def)
  then have "rx_waiting w = []" "list_all (\<lambda>s. \<not> given_back s) (dropWhile given_back (rx_slots w))"
    by (cases "rx_slots w"; simp add: list_all_iff)+
  then show "rx_queue_inv w" "rx_content w = []" using assms(1) by (simp_all add: rx_queue_inv_def rx_content_def)
qed

text \<open>
  C2.  Frames reach the client in the order in which they arrived.  Start with a ring that is handed to
  the controller, as the first initialisation leaves it.  Take any interleaving of arriving frames (each at most as
  long as a receive buffer of the ring), receive calls and memory changes by the client outside the ring's buffers,
  in which every call that meets a good frame brings a client buffer at least as long as the frame, shorter than 32 KiB,
  and apart from the ring's buffers and the data block.  Then the frames that arrived are those the client has
  found in its buffers, whole and unchanged, and those still waiting in the ring, in order: none is lost, none
  delivered twice.  A frame the controller marked bad takes its turn and delivers nothing.  (With a shorter
  buffer the frame is cut, and with one of 32 KiB or more the length reported is that of the buffer.)
\<close>

theorem rx_history:
  assumes "rx_inv w" and "\<forall>i < DEFAULT_RX_DESCRIPTORS. bit (des3 (rx_ring (rxq w) ! i)) 31"
    and "trace (rx_step E) w es w'"
  shows "entered es = departed es @ rx_content w' \<and> length (rx_content w') \<le> DEFAULT_RX_DESCRIPTORS"
proof -
  have "length (rx_content w') \<le> DEFAULT_RX_DESCRIPTORS"
    using length_takeWhile_le [of given_back "rx_slots w'"] by (simp add: rx_content_def)
  then show ?thesis
    using rx_queue_fifo.trace_history [OF assms(3) handed_out(1) [OF assms(1,2)]] handed_out(2) [OF assms(1,2)] by simp
qed

definition armed_world :: "unit world" where
  "armed_world = (ring_world () rx_block)\<lparr>GigAdapter := zero_adapter\<lparr>rx_queue :=
     [zero_rx_queue\<lparr>rx_ring := replicate DEFAULT_RX_DESCRIPTORS (rearmed 0), rx_buff := 0x100000\<rparr>]\<rparr>\<rparr>"

theorem rx_history_witness:
  "\<exists>w'. trace (rx_step dead_env) armed_world
       [Enq (Some (load_bytes rx_block 0x100000 60)), Deq [Some (load_bytes rx_block 0x100000 60)]] w' \<and>
     rx_content w' = []"
proof -
  let ?d = "zero_desc\<lparr>des3 := BIT 28 OR 60\<rparr>" and ?f = "load_bytes rx_block 0x100000 60"
  have w: "rx_inv armed_world" "\<forall>i < DEFAULT_RX_DESCRIPTORS. bit (des3 (rx_ring (rxq armed_world) ! i)) 31"
    by (simp_all add: armed_world_def rx_inv_def zero_rx_queue_def rearmed_def BIT_def bit_simps del: replicate.simps)
  define w1 where "w1 = armed_world\<lparr>dev := (), mem := rx_block, GigAdapter := (GigAdapter armed_world)\<lparr>
      rx_queue := (rx_queue (GigAdapter armed_world))[0 := (rxq armed_world)\<lparr>rx_ring := (rx_ring (rxq armed_world))[0 := ?d]\<rparr>]\<rparr>\<rparr>"
  have cur: "cur_rx (rxq armed_world) = 0" "rx_buff (rxq armed_world) = 0x100000" "mem armed_world = rx_block"
    by (simp_all add: armed_world_def zero_rx_queue_def)
  have q1: "rx_ring (rxq w1) ! 0 = ?d" "cur_rx (rxq w1) = 0" "rx_buff (rxq w1) = 0x100000" "mem w1 = rx_block"
    using w(1) cur by (simp_all add: w1_def rx_inv_def)
  have good: "rx_desc_good ?d" "\<not> bit (des3 ?d) 31" "frame_length ?d = 60"
    by (simp_all add: rx_desc_good_def zero_desc_def BIT_def)
  have "rx_waiting armed_world = []" using handed_out(2) [OF w] by (simp add: rx_content_def)
  with rx_step.arrived [of armed_world 0 ?d rx_block dead_env "()"] cur good
  have arrive: "rx_step dead_env armed_world (Enq (rx_frame (?d, rx_buffer armed_world rx_block 0))) w1"
    by (simp add: w1_def)
  have frame: "rx_frame (?d, rx_buffer armed_world rx_block 0) = Some ?f"
    using good by (auto simp: cur(2) intro!: nth_equalityI simp: nth_load_bytes)
  have inv1: "rx_inv w1" using w(1) by (simp add: w1_def rx_inv_def)
  obtain st w2 where run: "run_state (IntelgbeReceive dead_env 0 0x300000) w1 = (st, w2)" by fastforce
  have st: "st = PXE_STATCODE_SUCCESS" using receive_run [OF inv1 run] q1 good by (simp split: if_splits)
  have call: "rx_call_ok w1 0 0x300000"
    using disjoint_offsets [of "0x100000" "0x100000" "0x200000" 60 0] disjoint_offsets [of "0x100000" "0x100000" "0x300000" 80 0]
      disjoint_offsets [of "0x200000" 60 "0x300000" 80 0] good q1 by (simp add: rx_call_ok_def rx_block_fields)
  have "rx_step dead_env w1 (Deq [Some (load_bytes (mem w2) 0x200000 (unat (load32 (mem w2) 0x300040)))]) w2"
    using rx_step.delivered [OF run [unfolded st] _ call] q1 good by (simp add: rx_block_fields)
  moreover have "load_bytes (mem w2) 0x200000 (unat (load32 (mem w2) 0x300040)) = ?f"
    using receive_copies(1) [OF inv1 run [unfolded st] _ call] q1 good frame cur by (simp add: rx_block_fields)
  ultimately have "trace (rx_step dead_env) armed_world [Enq (Some ?f), Deq [Some ?f]] w2"
    using arrive frame by (auto intro!: trace.intros)
  with rx_history [OF w this] show ?thesis by auto
qed

end
