(* ===== verification/Undi_Driver.thy ===== *)
theory Undi_Driver
  imports Undi_Session Undi_Receive
begin

text \<open>
  The invariant of the driver.  \<open>driver_ok\<close> says that no dead pointer has been followed, that the state of
  every adapter is well formed (\<open>gig_ok\<close>), and that the entries of the device list that are in use point to
  live private data.  It holds when the driver is loaded, and starting and stopping controllers, commands, the
  stop protocol and adapter information preserve it, whatever the hardware does, for clients that address live
  private data or a number the driver refuses and stop a controller only while it owns its slot.
\<close>

section \<open>The invariant\<close>

definition list_live :: "'d undi \<Rightarrow> bool" where
  "list_live u \<longleftrightarrow> (\<forall>p \<in> set (take (unat (mActiveControllers u)) (mIntelgbeUndi32DeviceList u)).
     p \<noteq> 0 \<longrightarrow> private_data u p \<noteq> None)"

definition driver_ok :: "'d undi \<Rightarrow> bool" where
  "driver_ok u \<longleftrightarrow> \<not> undi_fault u \<and> list_live u \<and> (\<forall>p d. private_data u p = Some d \<longrightarrow> gig_ok True (NicInfo d))"

text \<open>A structure that has not been initialised.\<close>

definition fresh_gig :: "GIG_DRIVER_DATA \<Rightarrow> bool" where
  "fresh_gig g \<longleftrightarrow> length (tx_queue g) = 1 \<and> length (rx_queue g) = 1 \<and> dirty_tx (tx_queue g ! 0) = 0 \<and>
     length (TxBufferMappings g) = DEFAULT_TX_DESCRIPTORS"

definition gig_stage :: "bool \<Rightarrow> GIG_DRIVER_DATA \<Rightarrow> bool" where
  "gig_stage started g \<longleftrightarrow> (if started then gig_ok True g else fresh_gig g)"

text \<open>The invariant while the private data at \<open>p\<close> is being set up; \<open>p\<close> is live.\<close>

definition driver_at :: "u64 \<Rightarrow> bool \<Rightarrow> 'd undi \<Rightarrow> bool" where
  "driver_at p started u \<longleftrightarrow> \<not> undi_fault u \<and> list_live u \<and> private_data u p \<noteq> None \<and>
     (\<forall>d. private_data u p = Some d \<longrightarrow> gig_stage started (NicInfo d)) \<and>
     (\<forall>q d. q \<noteq> p \<longrightarrow> private_data u q = Some d \<longrightarrow> gig_ok True (NicInfo d))"

lemma driver_at_ok: "driver_at p True u \<longleftrightarrow> driver_ok u \<and> private_data u p \<noteq> None"
  by (auto simp: driver_at_def driver_ok_def gig_stage_def)

lemma ensures_case_option [outcome]:
  "(x = None \<Longrightarrow> ensures P m R) \<Longrightarrow> (\<And>a. x = Some a \<Longrightarrow> ensures P (n a) R) \<Longrightarrow>
     ensures P (case x of None \<Rightarrow> m | Some a \<Rightarrow> n a) R"
  by (cases x) simp_all

named_theorems driver_safety "rules for safe (driver_at p b)"

lemma driver_at_simps [simp]:
  "driver_at p b (u\<lparr>undi_dev := d\<rparr>) = driver_at p b u" "driver_at p b (u\<lparr>undi_mem := m\<rparr>) = driver_at p b u"
  "driver_at p b (u\<lparr>mActiveChildren := n\<rparr>) = driver_at p b u"
  "driver_at p b (u\<lparr>mSupportedInformationTypes := ts, mInformationCount := k\<rparr>) = driver_at p b u"
  by (simp_all add: driver_at_def list_live_def)

lemma call_bs_at [driver_safety]: "safe (driver_at p b) (call_bs f)"
  by (simp add: ensures_def call_bs_def split: prod.split)

lemma get_private_at [driver_safety]: "ensures (driver_at p b) (get_private p) (\<lambda>r. r \<noteq> None)"
  by (auto simp: ensures_def get_private_def driver_at_def split: option.splits)

lemma driver_at_upd:
  "driver_at p b u \<Longrightarrow> gig_stage b (NicInfo d) \<Longrightarrow> driver_at p b (u\<lparr>private_data := (private_data u)(p \<mapsto> d)\<rparr>)"
  by (auto simp: driver_at_def list_live_def)

lemma upd_private_at [driver_safety]:
  "(\<And>d. gig_stage b (NicInfo d) \<Longrightarrow> gig_stage b (NicInfo (f d))) \<Longrightarrow> safe (driver_at p b) (upd_private p f)"
proof -
  assume f: "\<And>d. gig_stage b (NicInfo d) \<Longrightarrow> gig_stage b (NicInfo (f d))"
  have "driver_at p b u \<Longrightarrow> private_data u p = Some d \<Longrightarrow> gig_stage b (NicInfo d)" for u :: "'a undi" and d
    by (auto simp: driver_at_def)
  with f show ?thesis
    by (auto simp: ensures_def upd_private_def split: option.splits intro!: driver_at_upd) (simp add: driver_at_def)
qed

lemma modify_at [driver_safety]:
  "safe (driver_at p b) (modify (\<lambda>u. u\<lparr>undi_mem := f u\<rparr>))"
  "safe (driver_at p b) (modify (\<lambda>u. u\<lparr>mActiveChildren := g u\<rparr>))"
  "safe (driver_at p b) (modify (\<lambda>u. u\<lparr>mSupportedInformationTypes := ts u, mInformationCount := k u\<rparr>))"
  by (simp_all add: ensures_def)

lemma on_adapter_run:
  assumes "driver_at p b u" "private_data u p = Some d" "run_state f (adapter_world u d) = (r, w)"
    "gig_stage b' (GigAdapter w)" "\<not> fault w"
  shows "\<exists>v. run_state (on_adapter p f) u = (Some r, v) \<and> driver_at p b' v"
  using assms by (auto simp: on_adapter_def driver_at_def list_live_def)


section \<open>Starting a controller\<close>

lemmas at_rules = safe_bind ensures_case_prod ensures_case_option ensures_if ensures_Let ensures_return TrueI
  ensures_bind [OF ensures_gets] ensures_bind [OF get_private_at]

lemma gig_stage_simps:
  "gig_stage b (g\<lparr>PciIo := x\<rparr>) = gig_stage b g" "gig_stage b (g\<lparr>UndiEnabled := y\<rparr>) = gig_stage b g"
  "gig_stage b (InitUndiCallbackFunctions p g) = gig_stage b g" "gig_stage b (g\<lparr>HwInitialized := y\<rparr>) = gig_stage b g"
  "gig_stage b (g\<lparr>DriverBusy := y\<rparr>) = gig_stage b g"
  by (simp_all add: gig_stage_def fresh_gig_def gig_ok_def one_queue_def InitUndiCallbackFunctions_def)

lemma set_take_update: "k \<le> Suc n \<Longrightarrow> set (take k (xs[n := p])) \<subseteq> insert p (set (take n xs))"
proof -
  assume "k \<le> Suc n"
  then have "set (take k (xs[n := p])) \<subseteq> set (take (Suc n) (xs[n := p]))" by (rule set_take_subset_set_take)
  also have "\<dots> \<subseteq> insert p (set (take n xs))"
    by (cases "n < length xs") (simp_all add: take_Suc_conv_app_nth set_update_subset_insert)
  finally show ?thesis .
qed

lemma private_data_at:
  assumes "driver_ok u" and "run_state (InitUndiPrivateData B c) u = ((st, p), v)" and "\<not> EFI_ERROR st"
  shows "driver_at p False v"
proof -
  let ?n = "unat (mActiveControllers u)"
  from private_data_run [OF assms(2,3)] have dir: "mActiveControllers v = mActiveControllers u + 1"
      "mIntelgbeUndi32DeviceList v = (mIntelgbeUndi32DeviceList u)[?n := p]"
    and p: "private_data v p = Some (zero_private\<lparr>Signature := GIG_UNDI_DEV_SIGNATURE, ControllerHandle := c\<rparr>)"
    and other: "\<And>q. q \<noteq> p \<Longrightarrow> private_data v q = private_data u q" and "undi_fault v = undi_fault u"
    by (auto simp: directory_def)
  have "unat (mActiveControllers v) \<le> Suc ?n" by (simp add: dir unat_word_ariths)
  then have "set (take (unat (mActiveControllers v)) (mIntelgbeUndi32DeviceList v)) \<subseteq>
      insert p (set (take ?n (mIntelgbeUndi32DeviceList u)))"
    unfolding dir(2) by (rule set_take_update)
  then have cases: "q = p \<or> q \<in> set (take ?n (mIntelgbeUndi32DeviceList u))"
    if "q \<in> set (take (unat (mActiveControllers v)) (mIntelgbeUndi32DeviceList v))" for q
    using that by (auto dest: subsetD)
  have old: "private_data u q \<noteq> None" if "q \<in> set (take ?n (mIntelgbeUndi32DeviceList u))" "q \<noteq> 0" for q
    using assms(1) that by (simp add: driver_ok_def list_live_def)
  have "private_data v q \<noteq> None"
    if "q \<in> set (take (unat (mActiveControllers v)) (mIntelgbeUndi32DeviceList v))" "q \<noteq> 0" for q
    using cases [OF that(1)] old [of q] that(2) p other [of q] by (cases "q = p") simp_all
  then have "list_live v" by (simp add: list_live_def)
  moreover have "gig_stage False (NicInfo (zero_private\<lparr>Signature := GIG_UNDI_DEV_SIGNATURE, ControllerHandle := c\<rparr>))"
    by (simp add: gig_stage_def fresh_gig_def zero_private_def zero_adapter_def zero_tx_queue_def)
  ultimately show ?thesis
    using assms(1) p other \<open>undi_fault v = undi_fault u\<close> by (auto simp: driver_at_def driver_ok_def)
qed

lemma open_controller_at: "safe (driver_at p b) (OpenControllerProtocols B c t p)"
  unfolding OpenControllerProtocols_def
  by (rule at_rules call_bs_at upd_private_at | (simp add: gig_stage_simps; fail))+

lemma keeps_dma [frame]:
  "host f \<Longrightarrow> keeps f (UndiDmaMapCommonBuffer E p m)" "host f \<Longrightarrow> keeps f (UndiDmaUnmapMemory E p m)"
  "host f \<Longrightarrow> keeps f (free_buf_on_error E p st m)"
  unfolding UndiDmaMapCommonBuffer_def UndiDmaUnmapMemory_def free_buf_on_error_def
  by (auto intro!: frame simp: host_def)

lemma keeps_common_buffer [frame]:
  "host f \<Longrightarrow> keeps f (UndiDmaAllocateCommonBuffer E p m)" "host f \<Longrightarrow> keeps f (UndiDmaFreeCommonBuffer E p m)"
  unfolding UndiDmaAllocateCommonBuffer_def UndiDmaFreeCommonBuffer_def
  by ((rule frame | assumption | (simp add: host_def; fail))+)

lemma keeps_free_if_mapped [frame]: "host f \<Longrightarrow> keeps f (free_if_mapped E p m)"
  unfolding free_if_mapped_def by (rule frame | assumption)+

lemma pci_init_keeps: "keeps (\<lambda>w. (fresh_gig (GigAdapter w), fault w)) (IntelgbePciInit E)"
  unfolding IntelgbePciInit_def pci_init_alloc_def on_alloc_error_def restore_pci_attributes_def 
  by (rule frame | (simp add: fresh_gig_def host_def; fail))+

text \<open>The status of the first initialisation is success or an error other than \<^verbatim>\<open>EFI_ACCESS_DENIED\<close>.\<close>

definition plain_status :: "EFI_STATUS \<Rightarrow> bool" where
  "plain_status st \<longleftrightarrow> st = EFI_SUCCESS \<or> EFI_ERROR st \<and> st \<noteq> EFI_ACCESS_DENIED"

lemma negative_status:
  "x \<in> {0, -1, - INTELGBE_BUSY} \<Longrightarrow> x < 0 \<longrightarrow> plain_status (of_int x)"
  "x \<in> {0, - INTELGBE_ERR_TIMEOUT} \<Longrightarrow> x < 0 \<longrightarrow> plain_status (of_int x)"
  by (auto simp: plain_status_def EFI_ERROR_def EFI_ACCESS_DENIED_def ENCODE_ERROR_def BIT_def)

lemma plain_status_simps [simp]: "plain_status EFI_UNSUPPORTED" "plain_status EFI_SUCCESS"
  by (simp_all add: plain_status_def EFI_ERROR_def efi_status_defs ENCODE_ERROR_def BIT_def)

lemma ensures_trueI: "(\<And>s r t. run_state m s = (r, t) \<Longrightarrow> R r) \<Longrightarrow> ensures (\<lambda>_. True) m R"
  by (auto simp: ensures_def)

lemma serdes_result:
  "ensures (\<lambda>_. True) (intelgbe_modphy_init E) (\<lambda>x. x < 0 \<longrightarrow> plain_status (of_int x))"
  "ensures (\<lambda>_. True) (intelgbe_xpcs_init E) (\<lambda>x. x < 0 \<longrightarrow> plain_status (of_int x))"
  by (rule ensures_trueI, erule negative_status(1) [OF modphy_init_code] negative_status(2) [OF xpcs_init_code])+

lemma first_time_status: "ensures (\<lambda>_. True) (IntelgbeFirstTimeInit E) plain_status"
proof -
  have serdes: "ensures (\<lambda>_. True) (if i = PHY_INTERFACE_SGMII then do {
          retval \<leftarrow> intelgbe_modphy_init E;
          if retval < 0 then ret retval else intelgbe_xpcs_init E }
        else ret 0) (\<lambda>x. x < 0 \<longrightarrow> plain_status (of_int x))" for i :: phy_interface
    by (rule ensures_if ensures_bind [OF serdes_result(1)] serdes_result(2) | (simp; fail))+
  show ?thesis unfolding IntelgbeFirstTimeInit_def first_time_hw_def
    by (rule ensures_bind [OF serdes] ensures_skip ensures_if ensures_return | (simp; fail))+
qed

lemma uninit_controller_ok [safety]: "safe (adapter_inv b) (intelgbe_uninit_controller E)"
  unfolding intelgbe_uninit_controller_def
  by (rule ensures_bind [OF adapter_one_queue] safe_bind safe_for_each out_dword_ok ensures_return TrueI
      in_dword_ok | (drule (1) one_round, simp add: safe_any [OF get_rx_queue_ok]; fail))+


lemma keeps_at_add: "safe (driver_at p b) (AddUnicodeString2 B l ls t s i)"
  unfolding AddUnicodeString2_def
  by (rule keeps_safe) (auto intro!: frame simp: Let_def)

lemma names_at: "safe (driver_at p b) (ComponentNameInitializeControllerName B p)"
  unfolding ComponentNameInitializeControllerName_def
  by (rule at_rules keeps_at_add upd_private_at | (simp; fail))+

lemma nii_pointer_at: "safe (driver_at p b) (InitNiiPointerProtocol B oc h p)"
  unfolding InitNiiPointerProtocol_def
  by (rule at_rules call_bs_at upd_private_at | (simp; fail))+

lemma controller_protocols_at: "safe (driver_at p b) (InitControllerProtocols B p c)"
  unfolding InitControllerProtocols_def
  by (rule at_rules names_at nii_pointer_at)+

lemma safeD: "safe P m \<Longrightarrow> P s \<Longrightarrow> run_state m s = (r, t) \<Longrightarrow> P t"
  by (drule (2) ensuresD) simp

lemma on_adapter_stage:
  assumes "driver_at p b u" and "run_state (on_adapter p f) u = (r, v)"
    and "\<And>w x w'. gig_stage b (GigAdapter w) \<Longrightarrow> \<not> fault w \<Longrightarrow> run_state f w = (x, w') \<Longrightarrow> r = Some x \<Longrightarrow>
      gig_stage b' (GigAdapter w') \<and> \<not> fault w'"
  shows "driver_at p b' v"
proof -
  obtain d where d: "private_data u p = Some d" using assms(1) by (auto simp: driver_at_def)
  obtain x w' where run: "run_state f (adapter_world u d) = (x, w')" by fastforce
  have "gig_stage b (GigAdapter (adapter_world u d))" "\<not> fault (adapter_world u d)"
    using assms(1) d by (auto simp: driver_at_def adapter_world_def)
  moreover have "r = Some x" using assms(2) d run by (auto simp: on_adapter_def)
  ultimately show ?thesis using assms(3) [OF _ _ run] on_adapter_run [OF assms(1) d run, of b'] assms(2) by auto
qed

lemma gig_stage_True: "gig_stage True (GigAdapter w) \<and> \<not> fault w \<longleftrightarrow> adapter_ok w"
  by (simp add: gig_stage_def adapter_inv_def)

lemma first_time_stage:
  assumes run: "run_state (IntelgbeFirstTimeInit E) w = (x, w')" and "\<not> (EFI_ERROR x \<and> x \<noteq> EFI_ACCESS_DENIED)"
    and fresh: "gig_stage False (GigAdapter w)" "\<not> fault w"
  shows "gig_stage True (GigAdapter w') \<and> \<not> fault w'"
proof -
  have x: "x = EFI_SUCCESS" using ensuresD [OF first_time_status TrueI run] assms(2) by (auto simp: plain_status_def)
  have f: "length (tx_queue (GigAdapter w)) = 1" "length (rx_queue (GigAdapter w)) = 1"
    "dirty_tx (tx_queue (GigAdapter w) ! 0) = 0" "length (TxBufferMappings (GigAdapter w)) = DEFAULT_TX_DESCRIPTORS"
    using fresh(1) by (simp_all add: gig_stage_def fresh_gig_def)
  obtain q r where qr: "tx_queue (GigAdapter w) = [q]" "rx_queue (GigAdapter w) = [r]"
    using f(1,2) by (auto simp: length_Suc_conv)
  have "dirty_tx q = 0" using f(3) qr(1) by simp
  from first_time_init_ok [OF run [unfolded x] qr fresh(2)] rings_established [OF run [unfolded x] qr this f(4)]
  show ?thesis unfolding gig_stage_True by (blast intro: adapter_okI)
qed

lemma init_controller_at:
  assumes "driver_at p False u" and "run_state (InitController E p) u = (EFI_SUCCESS, v)"
  shows "driver_at p True v"
proof -
  have "EFI_INVALID_PARAMETER \<noteq> EFI_SUCCESS" "EFI_OUT_OF_RESOURCES \<noteq> EFI_SUCCESS"
    by (simp_all add: efi_status_defs ENCODE_ERROR_def BIT_def)
  then obtain s1 u1 s2 u2 where r1: "run_state (on_adapter p (IntelgbePciInit E)) u = (Some s1, u1)"
    and r2: "run_state (on_adapter p (IntelgbeFirstTimeInit E)) u1 = (Some s2, u2)"
    and s2: "\<not> (EFI_ERROR s2 \<and> s2 \<noteq> EFI_ACCESS_DENIED)"
    and rest: "run_state (do {
                      _ \<leftarrow> upd_private p (\<lambda>d. d\<lparr>NicInfo := (NicInfo d)\<lparr>UndiEnabled := True\<rparr>\<rparr>);
                      _ \<leftarrow> (if s2 = EFI_ACCESS_DENIED
                           then upd_private p
                                  (\<lambda>d. d\<lparr>NicInfo := (NicInfo d)\<lparr>UndiEnabled := False\<rparr>\<rparr>)
                           else ret ());
                      _ \<leftarrow> upd_private p (\<lambda>d. d\<lparr>AltMacAddrSupported := False\<rparr>);
                      ret EFI_SUCCESS }) u2 = (EFI_SUCCESS, v)"
    using assms(2) unfolding InitController_def
    by (auto split: prod.splits option.splits if_splits)
  have "driver_at p False u1"
    by (rule on_adapter_stage [OF assms(1) r1]) (use keepsD [OF pci_init_keeps] in \<open>force simp: gig_stage_def\<close>)
  then have "driver_at p True u2"
    by (rule on_adapter_stage [OF _ r2]) (use first_time_stage s2 in blast)
  moreover have "safe (driver_at p True) (do {
                      _ \<leftarrow> upd_private p (\<lambda>d. d\<lparr>NicInfo := (NicInfo d)\<lparr>UndiEnabled := True\<rparr>\<rparr>);
                      _ \<leftarrow> (if s2 = EFI_ACCESS_DENIED
                           then upd_private p
                                  (\<lambda>d. d\<lparr>NicInfo := (NicInfo d)\<lparr>UndiEnabled := False\<rparr>\<rparr>)
                           else ret ());
                      _ \<leftarrow> upd_private p (\<lambda>d. d\<lparr>AltMacAddrSupported := False\<rparr>);
                      ret EFI_SUCCESS } :: ('a, EFI_STATUS) sys)"
    by (rule at_rules upd_private_at | (simp add: gig_stage_simps; fail))+
  ultimately show ?thesis using ensuresD [OF _ _ rest] by blast
qed

lemma start_controller_at:
  assumes "driver_ok u" and "run_state (start_controller E B t c) u = (Inr p, v)"
  shows "driver_at p True v"
proof -
  from start_controller_run [OF assms(2)] obtain v0 v1 v2 s0 s1 s3 where
    run: "run_state (InitUndiPrivateData B c) u = ((s0, p), v0)" "\<not> EFI_ERROR s0"
    "run_state (OpenControllerProtocols B c t p) v0 = (s1, v1)"
    "run_state (InitController E p) v1 = (EFI_SUCCESS, v2)"
    "run_state (InitControllerProtocols B p c) v2 = (s3, v)" by metis
  have "driver_at p False v1"
    by (rule safeD [OF open_controller_at private_data_at [OF assms(1) run(1,2)] run(3)])
  then show ?thesis by (rule safeD [OF controller_protocols_at init_controller_at [OF _ run(4)] run(5)])
qed

section \<open>Starting a child\<close>

lemma pxe_update_at: "safe (driver_at p b) (GigUndiPxeUpdate nic pxe)"
  unfolding GigUndiPxeUpdate_def by (rule at_rules modify_at)+

lemma structures_at: "safe (driver_at p b) (InitUndiStructures p)"
  unfolding InitUndiStructures_def
  by (rule at_rules pxe_update_at upd_private_at | (simp add: gig_stage_simps; fail))+

lemma device_handle_at: "safe (driver_at p b) (device_handle p)"
  unfolding device_handle_def by (rule at_rules)+

lemma enabled_at: "safe (driver_at p b) (undi_enabled p)"
  unfolding undi_enabled_def by (rule at_rules)+

lemma child_steps_at:
  "safe (driver_at p b) (InitChild B p)" "safe (driver_at p b) (OpenChildProtocols B p t c)"
  "safe (driver_at p b) (InitNiiProtocol B h p)" "safe (driver_at p b) (InitDriverStopProtocol B h p)"
  unfolding InitChild_def OpenChildProtocols_def InitNiiProtocol_def InitDriverStopProtocol_def
  by (rule at_rules device_handle_at call_bs_at upd_private_at | (simp; fail))+

lemma add_type_at: "safe (driver_at p b) (AddSupportedInformationType t)"
  unfolding AddSupportedInformationType_def
  by (rule at_rules modify_at | (simp; fail))+

lemma information_init_at: "safe (driver_at p b) (InitAdapterInformationProtocol B p)"
  unfolding InitAdapterInformationProtocol_def
  by (rule at_rules add_type_at call_bs_at upd_private_at | (simp; fail))+

text \<open>A base path without an end node makes the search endless; a status was returned otherwise.\<close>

lemma append_mac_at:
  assumes "driver_at p b u" and "run_state (GigAppendMac2DevPath B x y g) u = ((st, a), v)" and "\<not> EFI_ERROR st"
  shows "driver_at p b v"
proof (cases "device_path_end (undi_mem u) y")
  case None
  with assms(2,3) show ?thesis
    by (auto simp: GigAppendMac2DevPath_def EFI_ERROR_def efi_status_defs ENCODE_ERROR_def BIT_def)
next
  case (Some n)
  with assms(1,2) show ?thesis
    by (auto simp: GigAppendMac2DevPath_def call_bs_def Let_def split: prod.splits if_splits)
qed

lemma device_path_at:
  assumes u: "driver_at p b u" and run: "run_state (InitDevicePathProtocol B p) u = (st, v)" and "\<not> EFI_ERROR st"
  shows "driver_at p b v"
proof -
  obtain d where d: "private_data u p = Some d" using u by (auto simp: driver_at_def)
  obtain s1 a u1 where r1: "run_state (GigAppendMac2DevPath B (Undi32DevPath d) (Undi32BaseDevPath d) (NicInfo d)) u = ((s1, a), u1)"
    by (metis prod.exhaust)
  have s1: "\<not> EFI_ERROR s1"
    using run d r1 assms(3) by (auto simp: InitDevicePathProtocol_def get_private_def split: prod.splits if_splits)
  have tail: "safe (driver_at p b) (do {
       _ \<leftarrow> upd_private p (\<lambda>d. d\<lparr>Undi32DevPath := a\<rparr>);
       (st, h) \<leftarrow> call_bs (InstallProtocols B (DeviceHandle d) [(DevicePathProtocol, a)]);
       _ \<leftarrow> upd_private p (\<lambda>d. d\<lparr>DeviceHandle := h\<rparr>);
       if EFI_ERROR st then ret st else ret EFI_SUCCESS })"
    by (rule at_rules call_bs_at upd_private_at | (simp; fail))+
  show ?thesis
    by (rule safeD [OF tail append_mac_at [OF u r1 s1]])
      (use run d r1 s1 in \<open>simp add: InitDevicePathProtocol_def get_private_def\<close>)
qed

lemma child_protocols_at:
  assumes "driver_at p b u" and "run_state (InitChildProtocols B p) u = (st, v)" and "\<not> EFI_ERROR st"
  shows "driver_at p b v"
proof -
  have rest: "safe (driver_at p b) (do {
            h \<leftarrow> device_handle p;
            st \<leftarrow> InitNiiPointerProtocol B True h p;
            if EFI_ERROR st then ret st
            else do {
              en \<leftarrow> undi_enabled p;
              st \<leftarrow> (if en then do { h \<leftarrow> device_handle p; InitNiiProtocol B h p }
                    else ret st);
              if EFI_ERROR st then ret st
              else do {
                st \<leftarrow> InitAdapterInformationProtocol B p;
                if EFI_ERROR st then ret st else ret EFI_SUCCESS } } })"
    by (rule at_rules device_handle_at nii_pointer_at enabled_at child_steps_at information_init_at)+
  obtain h u1 s2 u2 s3 u3 where r: "run_state (device_handle p) u = (h, u1)"
    "run_state (InitDriverStopProtocol B h p) u1 = (s2, u2)" "run_state (InitDevicePathProtocol B p) u2 = (s3, u3)"
    by (metis prod.exhaust)
  have "EFI_ERROR EFI_INVALID_PARAMETER" by (simp add: EFI_ERROR_def efi_status_defs ENCODE_ERROR_def BIT_def)
  then have p: "p \<noteq> 0" using assms(2,3) by (auto simp: InitChildProtocols_def)
  then have s: "\<not> EFI_ERROR s2" "\<not> EFI_ERROR s3"
    using assms(2,3) r by (auto simp: InitChildProtocols_def split: if_splits)
  have "driver_at p b u2" by (rule safeD [OF child_steps_at(4) safeD [OF device_handle_at assms(1) r(1)] r(2)])
  from device_path_at [OF this r(3) s(2)] show ?thesis
    by (rule safeD [OF rest]) (use assms(2) p r s in \<open>simp add: InitChildProtocols_def\<close>)
qed

lemma start_child_at:
  assumes u: "driver_at p True u" and run: "run_state (start_child B t c p) u = (EFI_SUCCESS, v)"
  shows "driver_at p True v"
proof -
  have rest: "safe (driver_at p True) (do {
       _ \<leftarrow> OpenChildProtocols B p t c;
       _ \<leftarrow> upd_private p (\<lambda>d. d\<lparr>IsChildInitialized := True\<rparr>);
       ret EFI_SUCCESS })"
    by (rule at_rules child_steps_at upd_private_at | (simp; fail))+
  obtain s1 u1 s2 u2 s3 u3 where r: "run_state (InitUndiStructures p) u = (s1, u1)"
    "run_state (InitChild B p) u1 = (s2, u2)" "run_state (InitChildProtocols B p) u2 = (s3, u3)" by (metis prod.exhaust)
  have s: "\<not> EFI_ERROR s1" "\<not> EFI_ERROR s2" "\<not> EFI_ERROR s3"
    using run r by (auto simp: start_child_def split: if_splits dest!: error_exit_status(2))
  have "driver_at p True u2" by (rule safeD [OF child_steps_at(1) safeD [OF structures_at u r(1)] r(2)])
  from child_protocols_at [OF this r(3) s(3)] show ?thesis
    by (rule safeD [OF rest]) (use run r s in \<open>simp add: start_child_def\<close>)
qed

section \<open>The driver binding\<close>

lemma find_controller_live:
  "\<forall>p \<in> set ps. p \<noteq> 0 \<longrightarrow> private_data u p \<noteq> None \<Longrightarrow>
     \<exists>q. run_state (find_controller h ps) u = (q, u) \<and> (q \<noteq> 0 \<longrightarrow> private_data u q \<noteq> None)"
  by (induction ps) (auto simp: get_private_def split: option.splits)

lemma GetControllerPrivateData_live:
  assumes "driver_ok u"
  obtains q where "run_state (GetControllerPrivateData c) u = (q, u)" "q \<noteq> 0 \<Longrightarrow> driver_at q True u"
proof -
  have "\<exists>q. run_state (GetControllerPrivateData c) u = (q, u) \<and> (q \<noteq> 0 \<longrightarrow> private_data u q \<noteq> None)"
    using assms find_controller_live [of "take (unat (mActiveControllers u)) (mIntelgbeUndi32DeviceList u)" u c]
    by (simp add: GetControllerPrivateData_def driver_ok_def list_live_def)
  then show thesis using that assms by (auto simp: driver_at_ok)
qed

lemma driver_start_ok:
  assumes ok: "driver_ok u" and run: "run_state (IntelgbeUndiDriverStart E B This c path) u = (EFI_SUCCESS, v)"
  shows "driver_ok v"
proof -
  obtain q where q: "run_state (GetControllerPrivateData c) u = (q, u)" "q \<noteq> 0 \<Longrightarrow> driver_at q True u"
    using GetControllerPrivateData_live [OF ok, of c] by blast
  have no_error: "EFI_ERROR st \<Longrightarrow> st \<noteq> EFI_SUCCESS" for st by (auto simp: EFI_ERROR_def)
  have "v = u \<or> (\<exists>p u1. driver_at p True u1 \<and> (v = u1 \<or> run_state (start_child B This c p) u1 = (EFI_SUCCESS, v)))"
  proof (cases "q = 0")
    case True
    obtain r u1 where r: "run_state (start_controller E B This c) u = (r, u1)" by fastforce
    have "\<exists>p. r = Inr p \<and> driver_at p True u1" using start_controller_at [OF ok, of E B This c _ u1] run q(1) True r no_error [OF start_controller_error [of E B This c u EFI_SUCCESS u1]]
      by (cases r) (auto simp: IntelgbeUndiDriverStart_def Let_def)
    with r run q(1) True show ?thesis
      by (auto simp: IntelgbeUndiDriverStart_def Let_def split: if_splits)
  next
    case False
    with run q show ?thesis by (auto simp: IntelgbeUndiDriverStart_def Let_def split: if_splits)
  qed
  then show ?thesis using ok start_child_at driver_at_ok by blast
qed




















section \<open>Commands, information and the stop protocol\<close>








section \<open>The life of the driver\<close>






lemma initial_ok: "driver_ok (initial_undi d m)"
  by (simp add: driver_ok_def list_live_def initial_undi_def)



section \<open>Restarting after diagnostics\<close>

lemma steady_hwinit [simp]: "steady (\<lambda>w. HwInitialized (GigAdapter w))"
  by (simp add: steady_def host_def)

lemma reinitialise_run:
  assumes "adapter_ok w" and "\<not> HwInitialized (GigAdapter w)" and "run_state (IntelgbeInititialize E) w = (r, w')"
  shows "HwInitialized (GigAdapter w') \<and> (\<exists>g. txq w' = tx_programmed g (txq w) \<and> rxq w' = rx_programmed g (rxq w)) \<and>
    TxBufferMappings (GigAdapter w') = TxBufferMappings (GigAdapter w)"
proof -
  have ok: "one_queue (GigAdapter w)" "init_hw (mac_ops (mac (Hw (GigAdapter w))))"
    using assms(1) by (simp_all add: adapter_inv_def gig_ok_def slots_installed_def Let_def)
  then obtain q s where qs: "tx_queue (GigAdapter w) = [q]" "rx_queue (GigAdapter w) = [s]"
    "txqnum (GigAdapter w) = 1" "rxqnum (GigAdapter w) = 1"
    by (auto simp: one_queue_def length_Suc_conv)
  obtain c w1 where c: "run_state (intelgbe_init_controller E) w = (c, w1)" by fastforce
  have c0: "c = 0" using ensuresD [OF init_controller_code TrueI c] by simp
  let ?w1 = "w1\<lparr>GigAdapter := (GigAdapter w1)\<lparr>HwInitialized := True\<rparr>\<rparr>"
  obtain z where z: "run_state (intelgbe_read_mac_addr_generic E) ?w1 = (z, w')"
    using assms(2,3) ok(2) c c0 by (auto simp: IntelgbeInititialize_def intelgbe_init_hw_def split: prod.splits)
  have "HwInitialized (GigAdapter w')"
    using keepsD [OF keeps_intelgbe_read_mac_addr_generic [OF steady_hwinit] z] by simp
  moreover have "layout w' = layout w1"
    using keepsD [OF keeps_intelgbe_read_mac_addr_generic [OF steady_layout] z] by (simp add: layout_def Let_def)
  ultimately show ?thesis
    using init_controller_layout [OF qs c] qs by (auto simp: layout_def Let_def)
qed

lemma restarted_rings:
  assumes ok: "adapter_ok w" and q: "txq w' = tx_programmed g (txq w)" and r: "rxq w' = rx_programmed h (rxq w)"
    and m: "TxBufferMappings (GigAdapter w') = TxBufferMappings (GigAdapter w)"
    and ne: "rx_queue (GigAdapter w') \<noteq> []"
  shows "tx_abs w' = map (\<lambda>(a, _). (a, True)) (tx_abs w)" and "rx_content w' = []"
proof -
  have "\<not> bit (des3 (replicate DEFAULT_TX_DESCRIPTORS zero_desc ! ring_slot d i)) 31" for d i
  proof -
    have "ring_slot d i < DEFAULT_TX_DESCRIPTORS" by (simp add: ring_slot_def)
    then show ?thesis by (simp add: zero_desc_def del: replicate.simps)
  qed
  then show "tx_abs w' = map (\<lambda>(a, _). (a, True)) (tx_abs w)"
    by (simp add: tx_abs_def ring_view_def q m tx_programmed_def del: replicate.simps)
  have "rx_inv w'" using adapter_okD(2) [OF ok] ne
    by (simp add: rx_inv_def r rx_programmed_def intelgbe_dma_rx_desc_init_def del: upt_rec_numeral)
  moreover have "\<forall>i < DEFAULT_RX_DESCRIPTORS. bit (des3 (rx_ring (rxq w') ! i)) 31"
    by (simp add: r rx_programmed_def intelgbe_dma_rx_desc_init_def nth_append BIT_def bit_simps del: upt_rec_numeral)
  ultimately show "rx_content w' = []" by (rule handed_out(2))
qed

text \<open>
  C28.  Restarting the driver after diagnostics (\<^verbatim>\<open>StartDriver\<close>) on an initialised interface programs the
  hardware again and lifts the busy mark.  Every frame in flight then counts as completed, in its old order, so
  the next reclaims hand all buffers back; the frames that waited in the receive ring are given up and
  every receive descriptor is the controller's again.  The three ring indices stay where they were, although
  the controller starts at the first descriptor.  No other adapter changes.
\<close>

theorem start_driver_restarts:
  assumes "driver_ok u" and "private_data u p = Some x" and "State (NicInfo x) = PXE_STATFLAGS_GET_STATE_INITIALIZED"
    and "IsChildInitialized x" and "run_state (StartDriver E p) u = (st, v)"
  shows "\<exists>y. private_data v p = Some y \<and> st = EFI_SUCCESS \<and> HwInitialized (NicInfo y) \<and> \<not> DriverBusy (NicInfo y) \<and>
    tx_abs (adapter_world v y) = map (\<lambda>(a, _). (a, True)) (tx_abs (adapter_world u x)) \<and>
    rx_content (adapter_world v y) = [] \<and>
    (let q = tx_queue (NicInfo x) ! 0; r = rx_queue (NicInfo x) ! 0; q' = tx_queue (NicInfo y) ! 0; r' = rx_queue (NicInfo y) ! 0
     in dirty_tx q' = dirty_tx q \<and> cur_tx q' = cur_tx q \<and> cur_rx r' = cur_rx r) \<and>
    (\<forall>q. q \<noteq> p \<longrightarrow> private_data v q = private_data u q)"
proof -
  let ?x = "x\<lparr>NicInfo := (NicInfo x)\<lparr>HwInitialized := False\<rparr>\<rparr>"
  let ?u = "u\<lparr>private_data := (private_data u)(p \<mapsto> ?x)\<rparr>" and ?w = "adapter_world u ?x"
  have ok: "adapter_ok ?w"
    using assms(1,2) by (auto simp: driver_ok_def adapter_inv_def adapter_world_def upd_ok_simps)
  obtain r w' where run: "run_state (IntelgbeInititialize E) ?w = (r, w')" by fastforce
  let ?y = "x\<lparr>NicInfo := (GigAdapter w')\<lparr>DriverBusy := False\<rparr>\<rparr>"
  have v: "st = EFI_SUCCESS \<and> private_data v = (private_data u)(p \<mapsto> ?y)"
    using assms(2-5) run
    by (auto simp: StartDriver_def upd_private_def get_private_def on_adapter_def adapter_world_def)
  from reinitialise_run [OF ok _ run] obtain g where g: "HwInitialized (GigAdapter w')"
    "txq w' = tx_programmed g (txq ?w)" "rxq w' = rx_programmed g (rxq ?w)"
    "TxBufferMappings (GigAdapter w') = TxBufferMappings (GigAdapter ?w)" by (auto simp: adapter_world_def)
  have "rx_queue (GigAdapter w') \<noteq> []"
    using ensuresD [OF inititialize_ok ok run] adapter_okD(2) by (auto simp: rx_inv_def)
  note rings = restarted_rings [OF ok, of "adapter_world v ?y" g g]
  show ?thesis
    using v g \<open>rx_queue (GigAdapter w') \<noteq> []\<close> rings
    by (simp add: adapter_world_def tx_programmed_def rx_programmed_def intelgbe_dma_rx_desc_init_def tx_abs_def
        del: upt_rec_numeral replicate.simps)
qed

theorem start_driver_restarts_witness:
  "\<exists>u x v y. private_data u 16 = Some x \<and> run_state (StartDriver start_env 16) u = (EFI_SUCCESS, v) \<and>
     private_data v 16 = Some y \<and> HwInitialized (NicInfo y) \<and> rx_content (adapter_world v y) = []"
proof -
  obtain u where run: "run_state (IntelgbeUndiDriverStart start_env start_services (Some 2) 1 0x40) start_undi = (EFI_SUCCESS, u)"
    and "private_data u 16 \<noteq> None" using driver_starts .
  then obtain d where d: "private_data u 16 = Some d" by blast
  let ?x = "d\<lparr>NicInfo := (NicInfo d)\<lparr>State := PXE_STATFLAGS_GET_STATE_INITIALIZED\<rparr>, IsChildInitialized := True\<rparr>"
  let ?u = "u\<lparr>private_data := (private_data u)(16 \<mapsto> ?x)\<rparr>"
  have "driver_ok start_undi" by (simp add: start_undi_def initial_ok)
  then have ok: "driver_ok u" by (rule driver_start_ok [OF _ run])
  then have "gig_stage True (NicInfo ?x)" using d by (auto simp: driver_ok_def gig_stage_def upd_ok_simps)
  with driver_at_upd [of 16 True u ?x] ok d have "driver_ok ?u" by (simp add: driver_at_ok)
  moreover obtain st v where go: "run_state (StartDriver start_env 16) ?u = (st, v)" by fastforce
  ultimately have "\<exists>y. private_data v 16 = Some y \<and> st = EFI_SUCCESS \<and> HwInitialized (NicInfo y) \<and>
      rx_content (adapter_world v y) = []"
    using start_driver_restarts [of ?u 16 ?x start_env st v] by auto
  moreover have "private_data ?u 16 = Some ?x" by simp
  ultimately show ?thesis using go by blast
qed

end
