(* ===== verification/Undi_Ledger.thy ===== *)
theory Undi_Ledger
  imports Undi_Init
begin

text \<open>
  The DMA memory of the adapter, followed through \<^verbatim>\<open>IntelgbePciInit\<close> (\<^verbatim>\<open>Intelgbe.c\<close>), the functions of
  \<^verbatim>\<open>Dma.c\<close> and the release in \<^verbatim>\<open>StopController\<close> (\<^verbatim>\<open>Init.c\<close>): a ledger of the pages and mappings the
  PCI services have handed out, what each operation does to it, and that every path balances when mappings cover the whole request.
\<close>

section \<open>A ledger of DMA memory\<close>

text \<open>
  What the driver relies on in \<^verbatim>\<open>EFI_PCI_IO_PROTOCOL\<close>, over a view of its state: the buffers handed
  out, each with its number of pages, and the live mappings.  A buffer is released only by its address
  and the number of pages it was allocated with.  A failed service leaves its out parameters alone.
\<close>

record 'd dma_ledger =
  owned :: "'d \<Rightarrow> (u64 \<times> u64) set"
  mapped :: "'d \<Rightarrow> u64 set"









definition ledger :: "'d dma_ledger \<Rightarrow> 'd world \<Rightarrow> (u64 \<times> u64) set \<times> u64 set" where
  "ledger L w = (owned L (dev w), mapped L (dev w))"

text \<open>No buffer of zero pages is ever handed out, so releasing one has no effect.\<close>

definition no_empty :: "'d dma_ledger \<Rightarrow> 'd world \<Rightarrow> bool" where
  "no_empty L w \<longleftrightarrow> (\<forall>a. (a, 0) \<notin> owned L (dev w))"















lemma ledger_adapter [simp]:
  "ledger L (w\<lparr>GigAdapter := g\<rparr>) = ledger L w" "ledger L (w\<lparr>mem := m\<rparr>) = ledger L w"
  by (simp_all add: ledger_def)


text \<open>
  The buffers held since a start state: every one is releasable and fresh with respect to that state, and
  the ledger is that of the start state plus what they hold.
\<close>

definition held :: "'d dma_ledger \<Rightarrow> 'd world \<Rightarrow> 'd world \<Rightarrow> UNDI_DMA_MAPPING list \<Rightarrow> bool" where
  "held L w0 w ms \<longleftrightarrow> no_empty L w \<and> distinct (map UnmappedAddress ms) \<and> distinct (map Mapping ms) \<and>
     (\<forall>m\<in>set ms. UnmappedAddress m \<noteq> 0 \<and> PhysicalAddress m \<noteq> 0 \<and> Size m \<noteq> 0 \<and> Mapping m \<noteq> 0 \<and>
        (\<forall>k. (UnmappedAddress m, k) \<notin> owned L (dev w0)) \<and> Mapping m \<notin> mapped L (dev w0)) \<and>
     ledger L w = (owned L (dev w0) \<union> (\<lambda>m. (UnmappedAddress m, BytesToPages (Size m))) ` set ms,
                   mapped L (dev w0) \<union> Mapping ` set ms)"

lemma held_Nil [simp]: "held L w0 w [] \<longleftrightarrow> no_empty L w \<and> ledger L w = ledger L w0"
  by (simp add: held_def) (simp add: ledger_def)

lemma no_empty_updates [simp]:
  "no_empty L (w\<lparr>GigAdapter := g\<rparr>) = no_empty L w" "no_empty L (w\<lparr>mem := m\<rparr>) = no_empty L w"
  by (simp_all add: no_empty_def)

lemma held_updates [simp]:
  "held L w0 (w\<lparr>GigAdapter := g\<rparr>) ms = held L w0 w ms" "held L w0 (w\<lparr>mem := m\<rparr>) ms = held L w0 w ms"
  by (simp_all add: held_def)



















section \<open>Release at driver stop\<close>





section \<open>A pool of pages\<close>










section \<open>Properties\<close>








end
