(* ===== verification/Undi_Path.thy ===== *)
theory Undi_Path
  imports Undi_Init
begin

text \<open>
  The device path of a child (\<^verbatim>\<open>GigAppendMac2DevPath\<close> in \<^verbatim>\<open>Init.c\<close>): device paths as lists of nodes, their
  encoding in memory, and the construction of the path with the node for the MAC address.
\<close>

section \<open>Device paths in memory\<close>

text \<open>A node is its type, its subtype and its data; its header ends with its length, four included.\<close>

type_synonym path_node = "u8 \<times> u8 \<times> u8 list"

definition enc_node :: "path_node \<Rightarrow> u8 list" where
  "enc_node nd = (case nd of (t, s, body) \<Rightarrow> [t, s] @ le_bytes 2 (of_nat (4 + length body) :: u16) @ body)"

definition end_node :: "u8 list" where
  "end_node = [0x7F, 0xFF, 4, 0]"

definition enc_nodes :: "path_node list \<Rightarrow> u8 list" where
  "enc_nodes ns = concat (map enc_node ns)"



lemma enc_simps [simp]: "enc_nodes [] = []" "enc_nodes (nd # ns) = enc_node nd @ enc_nodes ns"
  "length end_node = 4"
  by (simp_all add: enc_nodes_def end_node_def)

lemma enc_append [simp]: "enc_nodes (ns @ ms) = enc_nodes ns @ enc_nodes ms"
  by (simp add: enc_nodes_def)








section \<open>Appending the MAC node\<close>







text \<open>A node whose length field is zero makes the search endless.\<close>

lemma zero_length_diverges:
  assumes "\<not> IsDevicePathEnd m a" and "load16 m (a + 2) = 0"
  shows "device_path_end m a = None"
proof -
  have "IsDevicePathEnd m a \<or> load16 m (a + 2) \<noteq> 0" if "device_path_end m a = Some y" for y
    using that
    by (rule device_path_end.raw_induct [where P = "\<lambda>m a _. IsDevicePathEnd m a \<or> load16 m (a + 2) \<noteq> 0", rotated])
      (fastforce simp: NextDevicePathNode_def split: if_splits)
  with assms show ?thesis by (cases "device_path_end m a") auto
qed

section \<open>Property\<close>







end
