(* ===== verification/Undi_Lock.thy ===== *)
theory Undi_Lock
  imports Undi_Types
begin

text \<open>
  \<^verbatim>\<open>IntelgbeBlockIt\<close> (\<^verbatim>\<open>Intelgbe.c\<close>) and the locks of \<^verbatim>\<open>UefiLib.c\<close> it uses: blocking through the client's
  callback, or else through one lock for all adapters, initialised on first use.  The driver defines the
  function and does not call it.  \<^verbatim>\<open>gBS->RaiseTPL\<close>, \<^verbatim>\<open>gBS->RestoreTPL\<close> and the callback are arguments.
  The result is none where an \<^verbatim>\<open>ASSERT\<close> fails.
\<close>

section \<open>Operations\<close>

datatype EFI_LOCK_STATE = EfiLockUninitialized | EfiLockReleased | EfiLockAcquired

record EFI_LOCK =
  Tpl :: u64
  OwnerTpl :: u64
  Lock :: EFI_LOCK_STATE

abbreviation TPL_APPLICATION :: u64 where "TPL_APPLICATION \<equiv> 4"
abbreviation TPL_NOTIFY :: u64 where "TPL_NOTIFY \<equiv> 16"
abbreviation TPL_HIGH_LEVEL :: u64 where "TPL_HIGH_LEVEL \<equiv> 31"

record 'd tpl_services =
  RaiseTPL :: "u64 \<Rightarrow> 'd \<Rightarrow> u64 \<times> 'd"
  RestoreTPL :: "u64 \<Rightarrow> 'd \<Rightarrow> 'd"
  BlockCallback :: "u64 \<Rightarrow> u64 \<Rightarrow> u32 \<Rightarrow> 'd \<Rightarrow> 'd"

definition EfiInitializeLock :: "u64 \<Rightarrow> EFI_LOCK option" where
  "EfiInitializeLock Priority =
     (if Priority \<le> TPL_HIGH_LEVEL
      then Some \<lparr>Tpl = Priority, OwnerTpl = TPL_APPLICATION, Lock = EfiLockReleased\<rparr> else None)"

definition EfiAcquireLock :: "'d tpl_services \<Rightarrow> EFI_LOCK \<times> 'd \<Rightarrow> (EFI_LOCK \<times> 'd) option" where
  "EfiAcquireLock S ld =
     (case ld of (l, d) \<Rightarrow>
        if Lock l = EfiLockReleased
        then (case RaiseTPL S (Tpl l) d of (owner, d') \<Rightarrow> Some (l\<lparr>OwnerTpl := owner, Lock := EfiLockAcquired\<rparr>, d'))
        else None)"

definition EfiReleaseLock :: "'d tpl_services \<Rightarrow> EFI_LOCK \<times> 'd \<Rightarrow> (EFI_LOCK \<times> 'd) option" where
  "EfiReleaseLock S ld =
     (case ld of (l, d) \<Rightarrow>
        if Lock l = EfiLockAcquired
        then Some (l\<lparr>Lock := EfiLockReleased\<rparr>, RestoreTPL S (OwnerTpl l) d) else None)"

text \<open>The static variables \<^verbatim>\<open>mLock\<close> and \<^verbatim>\<open>mInitializeLock\<close>, with the environment.\<close>

record 'd lock_state =
  mLock :: EFI_LOCK
  mInitializeLock :: bool
  lock_dev :: 'd

definition initial_lock :: "'d \<Rightarrow> 'd lock_state" where
  "initial_lock d =
     \<lparr>mLock = \<lparr>Tpl = 0, OwnerTpl = 0, Lock = EfiLockUninitialized\<rparr>, mInitializeLock = True, lock_dev = d\<rparr>"

definition IntelgbeBlockIt ::
  "'d tpl_services \<Rightarrow> GIG_DRIVER_DATA \<Rightarrow> u32 \<Rightarrow> 'd lock_state \<Rightarrow> 'd lock_state option" where
  "IntelgbeBlockIt S g Flag s =
     (if Block g \<noteq> 0 then Some (s\<lparr>lock_dev := BlockCallback S (Block g) (UniqueId g) Flag (lock_dev s)\<rparr>)
      else (case (if mInitializeLock s then EfiInitializeLock TPL_NOTIFY else Some (mLock s)) of
         None \<Rightarrow> None
       | Some l \<Rightarrow>
           map_option (\<lambda>(l, d). s\<lparr>mLock := l, mInitializeLock := False, lock_dev := d\<rparr>)
             (if Flag \<noteq> 0 then EfiAcquireLock S (l, lock_dev s) else EfiReleaseLock S (l, lock_dev s))))"

section \<open>Blocking in pairs\<close>

text \<open>Task priority levels as the boot services keep them: raising returns the level to restore.\<close>

definition tpl_contract :: "'d tpl_services \<Rightarrow> ('d \<Rightarrow> u64) \<Rightarrow> bool" where
  "tpl_contract S tpl \<longleftrightarrow>
     (\<forall>n d. fst (RaiseTPL S n d) = tpl d \<and> tpl (snd (RaiseTPL S n d)) = n) \<and>
     (\<forall>n d. tpl (RestoreTPL S n d) = n)"

definition unblocked :: "'d lock_state \<Rightarrow> bool" where
  "unblocked s \<longleftrightarrow> mInitializeLock s \<or> Lock (mLock s) = EfiLockReleased \<and> Tpl (mLock s) = TPL_NOTIFY"

lemma block_unblock:
  assumes "tpl_contract S tpl" and "Block g = 0" and "unblocked s" and "f \<noteq> 0"
  shows "\<exists>s1 s2. IntelgbeBlockIt S g f s = Some s1 \<and> tpl (lock_dev s1) = TPL_NOTIFY \<and>
    IntelgbeBlockIt S g f s1 = None \<and>
    IntelgbeBlockIt S g 0 s1 = Some s2 \<and> unblocked s2 \<and> tpl (lock_dev s2) = tpl (lock_dev s)"
  using assms
  by (auto simp: IntelgbeBlockIt_def EfiInitializeLock_def EfiAcquireLock_def EfiReleaseLock_def unblocked_def
      tpl_contract_def split_beta)

end
