(* ===== verification/Snp_Types.thy ===== *)
theory Snp_Types
  imports Undi_Decode
begin

text \<open>
  The client of the UNDI driver: the data of the Simple Network Protocol driver of
  \<^verbatim>\<open>NetworkPkg/SnpDxe\<close>, the platform it runs on and the memory and priority primitives its operations
  share.  An UNDI is reached only through its entry point, a field of the platform, so that everything
  proved of the operations alone holds over any UNDI.
\<close>

section \<open>Data\<close>

abbreviation EfiSimpleNetworkStopped :: u32 where "EfiSimpleNetworkStopped \<equiv> 0"
abbreviation EfiSimpleNetworkStarted :: u32 where "EfiSimpleNetworkStarted \<equiv> 1"
abbreviation EfiSimpleNetworkInitialized :: u32 where "EfiSimpleNetworkInitialized \<equiv> 2"

abbreviation sizeof_EFI_MAC_ADDRESS :: nat where "sizeof_EFI_MAC_ADDRESS \<equiv> 32"
abbreviation MAX_MCAST_FILTER_CNT :: nat where "MAX_MCAST_FILTER_CNT \<equiv> 16"

text \<open>The array \<^verbatim>\<open>MCastFilter\<close> is kept as its bytes.\<close>

record EFI_SIMPLE_NETWORK_MODE =
  Mode_State :: u32
  HwAddressSize :: u32
  MediaHeaderSize :: u32
  MaxPacketSize :: u32
  NvRamSize :: u32
  NvRamAccessSize :: u32
  ReceiveFilterMask :: u32
  ReceiveFilterSetting :: u32
  MaxMCastFilterCount :: u32
  MCastFilterCount :: u32
  MCastFilter :: "u8 list"
  CurrentAddress :: "u8 list"
  BroadcastAddress :: "u8 list"
  PermanentAddress :: "u8 list"
  IfType :: u8
  MacAddressChangeable :: bool
  MultipleTxSupported :: bool
  MediaPresentSupported :: bool
  MediaPresent :: bool

record MAP_LIST =
  VirtualAddress :: u64
  MapCookie :: u64

abbreviation MAX_MAP_LENGTH :: nat where "MAX_MAP_LENGTH \<equiv> 100"
abbreviation MAX_XMIT_BUFFERS :: nat where "MAX_XMIT_BUFFERS \<equiv> 32"
abbreviation SNP_TX_BUFFER_INCREASEMENT :: u32 where "SNP_TX_BUFFER_INCREASEMENT \<equiv> 32"
abbreviation SNP_MAX_TX_BUFFER_NUM :: u32 where "SNP_MAX_TX_BUFFER_NUM \<equiv> 65536"
abbreviation PCI_MAX_BAR :: u8 where "PCI_MAX_BAR \<equiv> 6"

text \<open>\<^verbatim>\<open>IssueUndi32Command\<close>: the stub for hardware UNDIs, or the entry point at an address.\<close>

datatype undi_entry_point = HwUndi | SwUndi u64

datatype efi_lock = EfiLockReleased | EfiLockAcquired

text \<open>
  \<^verbatim>\<open>SNP_DRIVER\<close>.  \<open>Snp_Addr\<close> is its own address; \<open>InitInfo\<close>, which the UNDI writes, stays in memory
  at \<open>InitInfo_Addr\<close>.  \<open>RecycledTxBuf\<close> is the allocated array, with its address.  The table of function
  pointers \<^verbatim>\<open>Snp\<close> has no field but the event \<^verbatim>\<open>WaitForPacket\<close>; the buffers for UNDI 3.0 are never used.
\<close>

record SNP_DRIVER =
  Snp_Addr :: u64
  Snp_Lock :: efi_lock
  Snp_OwnerTpl :: u64
  WaitForPacket :: u64
  Mode :: EFI_SIMPLE_NETWORK_MODE
  IssueUndi32Command :: undi_entry_point
  IsSwUndi :: bool
  IfNum :: u16
  TxRxBufferSize :: u32
  TxRxBuffer :: u64
  Snp_PciIo :: u64
  IoBarIndex :: u8
  MemoryBarIndex :: u8
  Cdb :: PXE_CDB
  Cpb :: u64
  Db :: u64
  InitInfo_Addr :: u64
  MapList :: "MAP_LIST list"
  ExitBootServicesEvent :: u64
  MediaStatusSupported :: bool
  CableDetectSupported :: bool
  RecycledTxBuf :: "u64 list"
  RecycledTxBufPtr :: u64
  MaxRecycledTxBuf :: u32
  RecycledTxBufCount :: u32

definition EFI_BUFFER_TOO_SMALL :: EFI_STATUS where
  "EFI_BUFFER_TOO_SMALL = ENCODE_ERROR 5"

definition EFI_NOT_STARTED :: EFI_STATUS where
  "EFI_NOT_STARTED = ENCODE_ERROR 19"

lemma snp_status_codes [simp]: "EFI_ERROR EFI_BUFFER_TOO_SMALL" "EFI_ERROR EFI_NOT_STARTED"
  by (simp_all add: EFI_BUFFER_TOO_SMALL_def EFI_NOT_STARTED_def)

lemmas status_nonzero [simp] =
  EFI_ERROR_codes [THEN EFI_ERROR_nonzero] snp_status_codes [THEN EFI_ERROR_nonzero]

section \<open>The platform\<close>

text \<open>
  The state: the driver structure, memory, the current task priority and the rest of the machine
  (\<open>senv\<close>).  \<open>sfault\<close> records a failed \<^verbatim>\<open>ASSERT\<close>.
\<close>

record 'e snp_world =
  Snp :: SNP_DRIVER
  smem :: memory
  tpl :: u64
  senv :: 'e
  sfault :: bool

type_synonym ('e, 'a) snp = "('e snp_world, 'a) state"

datatype snp_callback =
  SnpUndi32CallbackDelay_fn | SnpUndi32CallbackBlock_fn | SnpUndi32CallbackMemio_fn
| SnpUndi32CallbackMap_fn | SnpUndi32CallbackUnmap_fn | SnpUndi32CallbackSync_fn

text \<open>
  The UNDI entry points by address, and what the driver uses of the PCI I/O protocol, the boot services
  and the pool allocator.  An allocated pool comes with its contents.
\<close>

record 'e snp_env =
  undi_entry :: "u64 \<Rightarrow> PXE_CDB \<Rightarrow> ('e, PXE_CDB) snp"
  callback_address :: "snp_callback \<Rightarrow> u64"
  snp_allocate_buffer :: "u64 \<Rightarrow> u64 \<Rightarrow> 'e \<Rightarrow> (EFI_STATUS \<times> u64) \<times> 'e"
  snp_free_buffer :: "u64 \<Rightarrow> u64 \<Rightarrow> u64 \<Rightarrow> 'e \<Rightarrow> 'e"
  snp_create_event :: "'e \<Rightarrow> (EFI_STATUS \<times> u64) \<times> 'e"
  snp_close_event :: "u64 \<Rightarrow> 'e \<Rightarrow> 'e"
  snp_signal_event :: "u64 \<Rightarrow> 'e \<Rightarrow> 'e"
  snp_allocate_pool :: "u64 \<Rightarrow> 'e \<Rightarrow> (u64 \<times> (nat \<Rightarrow> u64)) \<times> 'e"
  snp_free_pool :: "u64 \<Rightarrow> 'e \<Rightarrow> 'e"

definition call_snp :: "('e \<Rightarrow> 'a \<times> 'e) \<Rightarrow> ('e, 'a) snp" where
  "call_snp f = state.State (\<lambda>s. case f (senv s) of (r, e) \<Rightarrow> (r, s\<lparr>senv := e\<rparr>))"

definition run_snp :: "('e \<Rightarrow> 'e) \<Rightarrow> ('e, unit) snp" where
  "run_snp f = modify (\<lambda>s. s\<lparr>senv := f (senv s)\<rparr>)"

abbreviation snp :: "('e, SNP_DRIVER) snp" where
  "snp \<equiv> gets Snp"

abbreviation upd_snp :: "(SNP_DRIVER \<Rightarrow> SNP_DRIVER) \<Rightarrow> ('e, unit) snp" where
  "upd_snp f \<equiv> modify (\<lambda>s. s\<lparr>Snp := f (Snp s)\<rparr>)"

abbreviation upd_mode ::
  "(EFI_SIMPLE_NETWORK_MODE \<Rightarrow> EFI_SIMPLE_NETWORK_MODE) \<Rightarrow> ('e, unit) snp" where
  "upd_mode f \<equiv> upd_snp (\<lambda>d. d\<lparr>Mode := f (Mode d)\<rparr>)"

abbreviation upd_smem :: "(memory \<Rightarrow> memory) \<Rightarrow> ('e, unit) snp" where
  "upd_smem f \<equiv> modify (\<lambda>s. s\<lparr>smem := f (smem s)\<rparr>)"

abbreviation snp_assert :: "bool \<Rightarrow> ('e, unit) snp" where
  "snp_assert b \<equiv> modify (\<lambda>s. s\<lparr>sfault := (sfault s \<or> \<not> b)\<rparr>)"

section \<open>Memory and priority\<close>

definition CopyMem :: "u64 \<Rightarrow> u64 \<Rightarrow> nat \<Rightarrow> memory \<Rightarrow> memory" where
  "CopyMem dst src n m = store_bytes m dst (load_bytes m src n)"

text \<open>\<^verbatim>\<open>CopyMem\<close> onto the first bytes of a field.\<close>

definition overwrite :: "u8 list \<Rightarrow> u8 list \<Rightarrow> u8 list" where
  "overwrite new old = new @ drop (length new) old"

definition PXE_SWAP_UINT16 :: "u16 \<Rightarrow> u16" where
  "PXE_SWAP_UINT16 n = push_bit 8 (n AND 0x00FF) OR drop_bit 8 (n AND 0xFF00)"

definition SNP_MEM_PAGES :: "u32 \<Rightarrow> u64" where
  "SNP_MEM_PAGES n = ucast ((n - 1) div 4096 + 1)"

abbreviation TPL_CALLBACK :: u64 where "TPL_CALLBACK \<equiv> 8"
abbreviation TPL_NOTIFY :: u64 where "TPL_NOTIFY \<equiv> 16"

definition RaiseTPL :: "u64 \<Rightarrow> ('e, u64) snp" where
  "RaiseTPL new = do { old \<leftarrow> gets tpl; _ \<leftarrow> modify (\<lambda>s. s\<lparr>tpl := new\<rparr>); ret old }"

definition RestoreTPL :: "u64 \<Rightarrow> ('e, unit) snp" where
  "RestoreTPL old = modify (\<lambda>s. s\<lparr>tpl := old\<rparr>)"

text \<open>\<^verbatim>\<open>OldTpl = gBS->RaiseTPL (TPL_CALLBACK); ... ON_EXIT: gBS->RestoreTPL (OldTpl); return Status;\<close>.  The
  returns for \<^verbatim>\<open>Snp == NULL\<close> in between cannot be reached, since \<^verbatim>\<open>Snp\<close> is computed from a pointer that is not
  \<^verbatim>\<open>NULL\<close>, and are left out.\<close>

definition at_callback_tpl :: "('e, 'a) snp \<Rightarrow> ('e, 'a) snp" where
  "at_callback_tpl body = do {
     OldTpl \<leftarrow> RaiseTPL TPL_CALLBACK;
     r \<leftarrow> body;
     _ \<leftarrow> RestoreTPL OldTpl;
     ret r }"

text \<open>
  The \<^verbatim>\<open>switch\<close> on \<^verbatim>\<open>Mode.State\<close> that opens every operation but \<^verbatim>\<open>Start\<close>; the operation goes on in the
  wanted state.
\<close>

definition when_state :: "u32 \<Rightarrow> ('e, EFI_STATUS) snp \<Rightarrow> ('e, EFI_STATUS) snp" where
  "when_state wanted body = do {
     d \<leftarrow> snp;
     if Mode_State (Mode d) = wanted then body
     else if Mode_State (Mode d) = EfiSimpleNetworkStopped then ret EFI_NOT_STARTED
     else ret EFI_DEVICE_ERROR }"

section \<open>Issuing a command\<close>

text \<open>\<^verbatim>\<open>IssueHwUndiCommand\<close> leaves the descriptor as it is.\<close>

definition IssueHwUndiCommand :: "PXE_CDB \<Rightarrow> ('e, PXE_CDB) snp" where
  "IssueHwUndiCommand c = ret c"

text \<open>The ten fields of \<^verbatim>\<open>Snp->Cdb\<close>, as every command fills them.\<close>

definition snp_cdb :: "SNP_DRIVER \<Rightarrow> u16 \<Rightarrow> u16 \<Rightarrow> u16 \<Rightarrow> u64 \<Rightarrow> u16 \<Rightarrow> u64 \<Rightarrow> PXE_CDB" where
  "snp_cdb d op flags cpbsize cpbaddr dbsize dbaddr =
     \<lparr>OpCode = op, OpFlags = flags, CPBsize = cpbsize, DBsize = dbsize, CPBaddr = cpbaddr,
      DBaddr = dbaddr, StatCode = 0, StatFlags = 0, IFnum = IfNum d, Control = 0\<rparr>"

definition issue_command :: "'e snp_env \<Rightarrow> PXE_CDB \<Rightarrow> ('e, PXE_CDB) snp" where
  "issue_command V c = do {
     _ \<leftarrow> upd_snp (\<lambda>d. d\<lparr>Cdb := c\<rparr>);
     d \<leftarrow> snp;
     c \<leftarrow> (case IssueUndi32Command d of
             HwUndi \<Rightarrow> IssueHwUndiCommand c
           | SwUndi a \<Rightarrow> undi_entry V a c);
     _ \<leftarrow> upd_snp (\<lambda>d. d\<lparr>Cdb := c\<rparr>);
     ret c }"

end
