(* ===== verification/Snp_Callback.thy ===== *)
theory Snp_Callback
  imports Snp_Types
begin

text \<open>
  The callbacks the Simple Network Protocol driver hands to an UNDI with the start command
  (\<^verbatim>\<open>SnpDxe/Callback.c\<close>), and the list in which it keeps the mappings made through them.
\<close>

section \<open>Services\<close>

datatype snp_map_op =
  BusMasterRead | BusMasterWrite | BusMasterCommonBuffer

text \<open>
  What the callbacks use of the PCI I/O protocol and the boot services.  \<open>cb_map\<close> is given the contents of
  its output parameter \<^verbatim>\<open>Mapping\<close> and yields the status, the device address and the new contents; the
  register accesses are given the width and a bar and transfer through memory.
\<close>

record 'e callback_env =
  cb_stall :: "u64 \<Rightarrow> 'e \<Rightarrow> 'e"
  cb_map :: "u64 \<Rightarrow> snp_map_op \<Rightarrow> u64 \<Rightarrow> u64 \<Rightarrow> u64 \<Rightarrow> 'e \<Rightarrow> (EFI_STATUS \<times> u64 \<times> u64) \<times> 'e"
  cb_unmap :: "u64 \<Rightarrow> u64 \<Rightarrow> 'e \<Rightarrow> 'e"
  cb_io_read :: "u64 \<Rightarrow> nat \<Rightarrow> u8 \<Rightarrow> u64 \<Rightarrow> 'e \<Rightarrow> u64 \<times> 'e"
  cb_io_write :: "u64 \<Rightarrow> nat \<Rightarrow> u8 \<Rightarrow> u64 \<Rightarrow> u64 \<Rightarrow> 'e \<Rightarrow> 'e"
  cb_mem_read :: "u64 \<Rightarrow> nat \<Rightarrow> u8 \<Rightarrow> u64 \<Rightarrow> 'e \<Rightarrow> u64 \<times> 'e"
  cb_mem_write :: "u64 \<Rightarrow> nat \<Rightarrow> u8 \<Rightarrow> u64 \<Rightarrow> u64 \<Rightarrow> 'e \<Rightarrow> 'e"

section \<open>Operations\<close>

text \<open>\<^verbatim>\<open>EfiAcquireLock\<close> and \<^verbatim>\<open>EfiReleaseLock\<close> on \<^verbatim>\<open>Snp->Lock\<close>, whose priority is \<^verbatim>\<open>TPL_NOTIFY\<close>.\<close>

definition SnpUndi32CallbackBlock :: "u32 \<Rightarrow> ('e, unit) snp" where
  "SnpUndi32CallbackBlock Enable =
     (if Enable \<noteq> 0 then do {
        d \<leftarrow> snp;
        _ \<leftarrow> snp_assert (Snp_Lock d = EfiLockReleased);
        old \<leftarrow> RaiseTPL TPL_NOTIFY;
        upd_snp (\<lambda>d. d\<lparr>Snp_OwnerTpl := old, Snp_Lock := EfiLockAcquired\<rparr>) }
      else do {
        d \<leftarrow> snp;
        _ \<leftarrow> snp_assert (Snp_Lock d = EfiLockAcquired);
        _ \<leftarrow> upd_snp (\<lambda>d. d\<lparr>Snp_Lock := EfiLockReleased\<rparr>);
        RestoreTPL (Snp_OwnerTpl d) })"

definition SnpUndi32CallbackDelay :: "'e callback_env \<Rightarrow> u64 \<Rightarrow> ('e, unit) snp" where
  "SnpUndi32CallbackDelay C MicroSeconds =
     (if MicroSeconds \<noteq> 0 then run_snp (cb_stall C MicroSeconds) else ret ())"

abbreviation PXE_IO_READ :: u8 where "PXE_IO_READ \<equiv> 0"
abbreviation PXE_IO_WRITE :: u8 where "PXE_IO_WRITE \<equiv> 1"
abbreviation PXE_MEM_READ :: u8 where "PXE_MEM_READ \<equiv> 2"
abbreviation PXE_MEM_WRITE :: u8 where "PXE_MEM_WRITE \<equiv> 4"

text \<open>The width, as the number of bytes that the code asks for: one for a size it does not know.\<close>

definition memio_width :: "u8 \<Rightarrow> nat" where
  "memio_width NumBytes = (if NumBytes = 2 then 2 else if NumBytes = 4 then 4 else if NumBytes = 8 then 8 else 1)"

definition memio_bar :: "u8 \<Rightarrow> SNP_DRIVER \<Rightarrow> u8" where
  "memio_bar ReadOrWrite d =
     (if ReadOrWrite = PXE_IO_READ \<or> ReadOrWrite = PXE_IO_WRITE then IoBarIndex d else MemoryBarIndex d)"

definition SnpUndi32CallbackMemio :: "'e callback_env \<Rightarrow> u8 \<Rightarrow> u8 \<Rightarrow> u64 \<Rightarrow> u64 \<Rightarrow> ('e, unit) snp" where
  "SnpUndi32CallbackMemio C ReadOrWrite NumBytes MemOrPortAddr BufferPtr =
     (if ReadOrWrite \<notin> {PXE_IO_READ, PXE_IO_WRITE, PXE_MEM_READ, PXE_MEM_WRITE} then ret ()
      else do {
        d \<leftarrow> snp;
        let w = memio_width NumBytes;
        let bar = memio_bar ReadOrWrite d;
        _ \<leftarrow> snp_assert (bar < PCI_MAX_BAR);
        if \<not> bar < PCI_MAX_BAR then ret ()
        else if ReadOrWrite = PXE_IO_READ then do {
          v \<leftarrow> call_snp (cb_io_read C (Snp_PciIo d) w bar MemOrPortAddr);
          upd_smem (\<lambda>m. store_bytes m BufferPtr (le_bytes w v)) }
        else if ReadOrWrite = PXE_IO_WRITE then do {
          m \<leftarrow> gets smem;
          run_snp (cb_io_write C (Snp_PciIo d) w bar MemOrPortAddr (le_word (load_bytes m BufferPtr w))) }
        else if ReadOrWrite = PXE_MEM_READ then do {
          v \<leftarrow> call_snp (cb_mem_read C (Snp_PciIo d) w bar MemOrPortAddr);
          upd_smem (\<lambda>m. store_bytes m BufferPtr (le_bytes w v)) }
        else do {
          m \<leftarrow> gets smem;
          run_snp (cb_mem_write C (Snp_PciIo d) w bar MemOrPortAddr (le_word (load_bytes m BufferPtr w))) } })"





definition SnpUndi32CallbackSync :: "u64 \<Rightarrow> u32 \<Rightarrow> u32 \<Rightarrow> u64 \<Rightarrow> ('e, unit) snp" where
  "SnpUndi32CallbackSync CpuAddr NumBytes Direction DeviceAddr =
     (if CpuAddr = 0 \<or> DeviceAddr = 0 \<or> NumBytes = 0 then ret ()
      else if Direction = 1 then upd_smem (CopyMem CpuAddr DeviceAddr (unat NumBytes))
      else if Direction = 2 then upd_smem (CopyMem DeviceAddr CpuAddr (unat NumBytes))
      else ret ())"

section \<open>The list of mappings as a finite map\<close>

text \<open>The entries in use: a free one has the address zero.\<close>

definition map_entries :: "MAP_LIST list \<Rightarrow> (u64 \<times> u64) list" where
  "map_entries l = filter (\<lambda>p. fst p \<noteq> 0) (map (\<lambda>e. (VirtualAddress e, MapCookie e)) l)"



lemma map_entries_simps [simp]:
  "map_entries [] = []"
  "map_entries (e # l) = (if VirtualAddress e = 0 then [] else [(VirtualAddress e, MapCookie e)]) @ map_entries l"
  "map_entries (l @ l') = map_entries l @ map_entries l'"
  by (simp_all add: map_entries_def)






section \<open>Properties\<close>









end
