(* ===== verification/Snp_Ops.thy ===== *)
theory Snp_Ops
  imports Snp_Types
begin

text \<open>
  The operations of the Simple Network Protocol, one section per source file of \<^verbatim>\<open>NetworkPkg/SnpDxe\<close>: the
  \<^verbatim>\<open>Pxe...\<close> routine that issues the UNDI command and the \<^verbatim>\<open>SnpUndi32...\<close> function of the protocol.  A pointer
  that may be \<^verbatim>\<open>NULL\<close> is an address that may be 0; what it points to is read and written in memory.
\<close>

abbreviation PXE_STATCODE_INVALID_CPB :: u16 where "PXE_STATCODE_INVALID_CPB \<equiv> 0x0002"
abbreviation PXE_STATCODE_UNSUPPORTED :: u16 where "PXE_STATCODE_UNSUPPORTED \<equiv> 0x000C"
abbreviation PXE_STATCODE_BUFFER_FULL :: u16 where "PXE_STATCODE_BUFFER_FULL \<equiv> 0x000D"
abbreviation PXE_STATCODE_INVALID_PARAMETER :: u16 where "PXE_STATCODE_INVALID_PARAMETER \<equiv> 0x000E"
abbreviation PXE_STATFLAGS_STATUS_MASK :: u16 where "PXE_STATFLAGS_STATUS_MASK \<equiv> 0xC000"

section \<open>Start.c\<close>

definition write_start_cpb :: "'e snp_env \<Rightarrow> u64 \<Rightarrow> u64 \<Rightarrow> memory \<Rightarrow> memory" where
  "write_start_cpb V cpb unique m =
     (let m = store64 m cpb (callback_address V SnpUndi32CallbackDelay_fn);
          m = store64 m (cpb + 8) (callback_address V SnpUndi32CallbackBlock_fn);
          m = store64 m (cpb + 16) 0;
          m = store64 m (cpb + 24) (callback_address V SnpUndi32CallbackMemio_fn);
          m = store64 m (cpb + 32) (callback_address V SnpUndi32CallbackMap_fn);
          m = store64 m (cpb + 40) (callback_address V SnpUndi32CallbackUnmap_fn);
          m = store64 m (cpb + 48) (callback_address V SnpUndi32CallbackSync_fn)
      in store64 m (cpb + 56) unique)"

definition PxeStart :: "'e snp_env \<Rightarrow> ('e, EFI_STATUS) snp" where
  "PxeStart V = do {
     d \<leftarrow> snp;
     let c = snp_cdb d 0x0001 0 0 0 0 0;
     let c = (if IsSwUndi d then c\<lparr>CPBsize := 64, CPBaddr := Cpb d\<rparr> else c);
     _ \<leftarrow> (if IsSwUndi d then upd_smem (write_start_cpb V (Cpb d) (Snp_Addr d)) else ret ());
     c \<leftarrow> issue_command V c;
     if StatCode c \<noteq> PXE_STATCODE_SUCCESS then ret EFI_DEVICE_ERROR
     else do {
       _ \<leftarrow> upd_mode (\<lambda>m. m\<lparr>Mode_State := EfiSimpleNetworkStarted\<rparr>);
       ret EFI_SUCCESS } }"

definition SnpUndi32Start :: "'e snp_env \<Rightarrow> u64 \<Rightarrow> ('e, EFI_STATUS) snp" where
  "SnpUndi32Start V This =
     (if This = 0 then ret EFI_INVALID_PARAMETER
      else at_callback_tpl (do {
        d \<leftarrow> snp;
        if Mode_State (Mode d) = EfiSimpleNetworkStarted
           \<or> Mode_State (Mode d) = EfiSimpleNetworkInitialized then ret EFI_ALREADY_STARTED
        else if Mode_State (Mode d) \<noteq> EfiSimpleNetworkStopped then ret EFI_DEVICE_ERROR
        else do {
          st \<leftarrow> PxeStart V;
          if EFI_ERROR st then ret st
          else do {
            _ \<leftarrow> upd_snp (\<lambda>d. d\<lparr>MapList := replicate MAX_MAP_LENGTH \<lparr>VirtualAddress = 0, MapCookie = 0\<rparr>\<rparr>);
            _ \<leftarrow> upd_mode (\<lambda>m. m\<lparr>MCastFilterCount := 0\<rparr>);
            ret st } } }))"

section \<open>Stop.c\<close>

definition PxeStop :: "'e snp_env \<Rightarrow> ('e, EFI_STATUS) snp" where
  "PxeStop V = do {
     d \<leftarrow> snp;
     c \<leftarrow> issue_command V (snp_cdb d 0x0002 0 0 0 0 0);
     if StatCode c \<noteq> PXE_STATCODE_SUCCESS then ret EFI_DEVICE_ERROR
     else do {
       _ \<leftarrow> upd_mode (\<lambda>m. m\<lparr>Mode_State := EfiSimpleNetworkStopped\<rparr>);
       ret EFI_SUCCESS } }"

definition SnpUndi32Stop :: "'e snp_env \<Rightarrow> u64 \<Rightarrow> ('e, EFI_STATUS) snp" where
  "SnpUndi32Stop V This =
     (if This = 0 then ret EFI_INVALID_PARAMETER
      else at_callback_tpl (when_state EfiSimpleNetworkStarted (PxeStop V)))"

section \<open>Get\_status.c\<close>

abbreviation EFI_SIMPLE_NETWORK_RECEIVE_INTERRUPT :: u32 where
  "EFI_SIMPLE_NETWORK_RECEIVE_INTERRUPT \<equiv> 1"
abbreviation EFI_SIMPLE_NETWORK_TRANSMIT_INTERRUPT :: u32 where
  "EFI_SIMPLE_NETWORK_TRANSMIT_INTERRUPT \<equiv> 2"
abbreviation EFI_SIMPLE_NETWORK_COMMAND_INTERRUPT :: u32 where
  "EFI_SIMPLE_NETWORK_COMMAND_INTERRUPT \<equiv> 4"

text \<open>The four tests of the interrupt flags; the last one sets the command bit again.\<close>

definition interrupt_status :: "u16 \<Rightarrow> u32" where
  "interrupt_status flags =
     (let f = flags AND 0x000F;
          v = 0;
          v = (if f AND 0x0001 = 0x0001 then v OR EFI_SIMPLE_NETWORK_RECEIVE_INTERRUPT else v);
          v = (if f AND 0x0002 = 0x0002 then v OR EFI_SIMPLE_NETWORK_TRANSMIT_INTERRUPT else v);
          v = (if f AND 0x0004 = 0x0004 then v OR EFI_SIMPLE_NETWORK_COMMAND_INTERRUPT else v)
      in if f AND 0x0008 = 0x0008 then v OR EFI_SIMPLE_NETWORK_COMMAND_INTERRUPT else v)"

text \<open>
  The body of the loop over \<^verbatim>\<open>Db->TxBuffer\<close> for one address; \<open>False\<close> is the early return of
  \<^verbatim>\<open>EFI_DEVICE_ERROR\<close>.
\<close>

definition recycle_one :: "'e snp_env \<Rightarrow> u64 \<Rightarrow> ('e, bool) snp" where
  "recycle_one V buf =
     (if buf = 0 then ret True
      else do {
        d \<leftarrow> snp;
        ok \<leftarrow>
          (if RecycledTxBufCount d = MaxRecycledTxBuf d then
             (if MaxRecycledTxBuf d + SNP_TX_BUFFER_INCREASEMENT \<ge> SNP_MAX_TX_BUFFER_NUM then ret False
              else do {
                let n = MaxRecycledTxBuf d + SNP_TX_BUFFER_INCREASEMENT;
                (tmp, junk) \<leftarrow> call_snp (snp_allocate_pool V (8 * ucast n));
                if tmp = 0 then ret False
                else do {
                  let old = take (unat (RecycledTxBufCount d)) (RecycledTxBuf d);
                  _ \<leftarrow> run_snp (snp_free_pool V (RecycledTxBufPtr d));
                  _ \<leftarrow> upd_snp (\<lambda>d. d\<lparr>RecycledTxBuf := old @ map junk [length old..<unat n],
                                      RecycledTxBufPtr := tmp, MaxRecycledTxBuf := n\<rparr>);
                  ret True } })
           else ret True);
        if \<not> ok then ret False
        else do {
          _ \<leftarrow> upd_snp (\<lambda>d. d\<lparr>RecycledTxBuf := (RecycledTxBuf d)[unat (RecycledTxBufCount d) := buf],
                              RecycledTxBufCount := RecycledTxBufCount d + 1\<rparr>);
          ret True } })"

fun recycle_all :: "'e snp_env \<Rightarrow> nat list \<Rightarrow> ('e, bool) snp" where
  "recycle_all V [] = ret True"
| "recycle_all V (i # is) = do {
     s \<leftarrow> gets id;
     ok \<leftarrow> recycle_one V (load64 (smem s) (Db (Snp s) + 8 + 8 * of_nat i));
     if ok then recycle_all V is else ret False }"

definition status_opflags :: "SNP_DRIVER \<Rightarrow> u64 \<Rightarrow> bool \<Rightarrow> u16" where
  "status_opflags d InterruptStatusPtr GetTransmittedBuf =
     (let f = 0;
          f = (if GetTransmittedBuf then f OR PXE_OPFLAGS_GET_TRANSMITTED_BUFFERS else f);
          f = (if InterruptStatusPtr \<noteq> 0 then f OR PXE_OPFLAGS_GET_INTERRUPT_STATUS else f)
      in if MediaStatusSupported d then f OR PXE_OPFLAGS_GET_MEDIA_STATUS else f)"

text \<open>The part of \<^verbatim>\<open>PxeGetStatus\<close> after a successful command.\<close>

definition status_results :: "'e snp_env \<Rightarrow> u64 \<Rightarrow> bool \<Rightarrow> PXE_CDB \<Rightarrow> ('e, EFI_STATUS) snp" where
  "status_results V InterruptStatusPtr GetTransmittedBuf c = do {
     _ \<leftarrow> (if InterruptStatusPtr \<noteq> 0
          then upd_smem (\<lambda>m. store32 m InterruptStatusPtr (interrupt_status (StatFlags c)))
          else ret ());
     ok \<leftarrow> (if GetTransmittedBuf
              \<and> StatFlags c AND PXE_STATFLAGS_GET_STATUS_NO_TXBUFS_WRITTEN = 0
           then recycle_all V [0..<MAX_XMIT_BUFFERS] else ret True);
     if \<not> ok then ret EFI_DEVICE_ERROR
     else do {
       d \<leftarrow> snp;
       _ \<leftarrow> (if MediaStatusSupported d
            then upd_mode (\<lambda>m. m\<lparr>MediaPresent :=
                   StatFlags c AND PXE_STATFLAGS_GET_STATUS_NO_MEDIA = 0\<rparr>)
            else ret ());
       ret EFI_SUCCESS } }"

definition PxeGetStatus :: "'e snp_env \<Rightarrow> u64 \<Rightarrow> bool \<Rightarrow> ('e, EFI_STATUS) snp" where
  "PxeGetStatus V InterruptStatusPtr GetTransmittedBuf = do {
     d \<leftarrow> snp;
     _ \<leftarrow> (if GetTransmittedBuf then upd_smem (ZeroMem (Db d + 8) (8 * MAX_XMIT_BUFFERS)) else ret ());
     c \<leftarrow> issue_command V
            (snp_cdb d 0x000E (status_opflags d InterruptStatusPtr GetTransmittedBuf) 0 0 264 (Db d));
     if StatCode c \<noteq> PXE_STATCODE_SUCCESS then ret EFI_DEVICE_ERROR
     else status_results V InterruptStatusPtr GetTransmittedBuf c }"

text \<open>\<^verbatim>\<open>*TxBuf\<close> at the end of \<^verbatim>\<open>SnpUndi32GetStatus\<close>.\<close>

definition pop_recycled :: "u64 \<Rightarrow> ('e, unit) snp" where
  "pop_recycled TxBuf = do {
     d \<leftarrow> snp;
     if RecycledTxBufCount d = 0 then upd_smem (\<lambda>m. store64 m TxBuf 0)
     else do {
       let n = RecycledTxBufCount d - 1;
       _ \<leftarrow> upd_snp (\<lambda>d. d\<lparr>RecycledTxBufCount := n\<rparr>);
       upd_smem (\<lambda>m. store64 m TxBuf (RecycledTxBuf d ! unat n)) } }"

definition SnpUndi32GetStatus :: "'e snp_env \<Rightarrow> u64 \<Rightarrow> u64 \<Rightarrow> u64 \<Rightarrow> ('e, EFI_STATUS) snp" where
  "SnpUndi32GetStatus V This InterruptStatus TxBuf =
     (if This = 0 then ret EFI_INVALID_PARAMETER
      else if InterruptStatus = 0 \<and> TxBuf = 0 then ret EFI_INVALID_PARAMETER
      else at_callback_tpl (when_state EfiSimpleNetworkInitialized (do {
        d \<leftarrow> snp;
        st \<leftarrow> PxeGetStatus V InterruptStatus (RecycledTxBufCount d = 0 \<and> TxBuf \<noteq> 0);
        _ \<leftarrow> (if TxBuf \<noteq> 0 then pop_recycled TxBuf else ret ());
        ret st })))"

section \<open>Initialize.c\<close>

definition write_init_cpb :: "SNP_DRIVER \<Rightarrow> memory \<Rightarrow> memory" where
  "write_init_cpb d m =
     (let cpb = Cpb d;
          m = store64 m cpb (TxRxBuffer d);
          m = store32 m (cpb + 8) (TxRxBufferSize d);
          m = store32 m (cpb + 12) 0;
          m = store16 m (cpb + 16) 0;
          m = store16 m (cpb + 18) 0;
          m = store16 m (cpb + 20) 0;
          m = store16 m (cpb + 22) 0;
          m = store8 m (cpb + 24) 0
      in store8 m (cpb + 25) 0)"

text \<open>The allocation of the buffer that opens \<^verbatim>\<open>PxeInit\<close>.\<close>

definition allocate_txrx :: "'e snp_env \<Rightarrow> ('e, EFI_STATUS) snp" where
  "allocate_txrx V = do {
     d \<leftarrow> snp;
     if TxRxBufferSize d = 0 then ret EFI_SUCCESS
     else do {
       (st, a) \<leftarrow> call_snp (snp_allocate_buffer V (Snp_PciIo d) (SNP_MEM_PAGES (TxRxBufferSize d)));
       if st \<noteq> EFI_SUCCESS then ret st
       else do {
         _ \<leftarrow> snp_assert (a \<noteq> 0);
         _ \<leftarrow> upd_snp (\<lambda>d. d\<lparr>TxRxBuffer := a\<rparr>);
         ret EFI_SUCCESS } } }"

definition free_txrx :: "'e snp_env \<Rightarrow> ('e, unit) snp" where
  "free_txrx V = do {
     d \<leftarrow> snp;
     _ \<leftarrow> (if TxRxBuffer d \<noteq> 0
          then run_snp (snp_free_buffer V (Snp_PciIo d) (SNP_MEM_PAGES (TxRxBufferSize d)) (TxRxBuffer d))
          else ret ());
     upd_snp (\<lambda>d. d\<lparr>TxRxBuffer := 0\<rparr>) }"

definition PxeInit :: "'e snp_env \<Rightarrow> u16 \<Rightarrow> ('e, EFI_STATUS) snp" where
  "PxeInit V CableDetectFlag = do {
     st \<leftarrow> allocate_txrx V;
     if st \<noteq> EFI_SUCCESS then ret st
     else do {
       d \<leftarrow> snp;
       _ \<leftarrow> upd_smem (write_init_cpb d);
       c \<leftarrow> issue_command V (snp_cdb d 0x0005 CableDetectFlag 26 (Cpb d) 12 (Db d));
       if StatFlags c AND PXE_STATFLAGS_STATUS_MASK = PXE_STATFLAGS_COMMAND_COMPLETE
          \<and> StatCode c = PXE_STATCODE_SUCCESS
       then do {
         _ \<leftarrow> (if CableDetectFlag = PXE_OPFLAGS_INITIALIZE_DETECT_CABLE
              then upd_mode (\<lambda>m. m\<lparr>MediaPresent :=
                     StatFlags c AND PXE_STATFLAGS_INITIALIZED_NO_MEDIA
                       \<noteq> PXE_STATFLAGS_INITIALIZED_NO_MEDIA\<rparr>)
              else ret ());
         _ \<leftarrow> upd_mode (\<lambda>m. m\<lparr>Mode_State := EfiSimpleNetworkInitialized\<rparr>);
         ret EFI_SUCCESS }
       else do {
         _ \<leftarrow> free_txrx V;
         ret EFI_DEVICE_ERROR } } }"

text \<open>The reset of the filters and of the station address, in \<^verbatim>\<open>Initialize\<close> and \<^verbatim>\<open>Shutdown\<close>.\<close>

definition reset_mode :: "EFI_SIMPLE_NETWORK_MODE \<Rightarrow> EFI_SIMPLE_NETWORK_MODE" where
  "reset_mode m = m\<lparr>MCastFilterCount := 0, ReceiveFilterSetting := 0,
     MCastFilter := replicate (MAX_MCAST_FILTER_CNT * sizeof_EFI_MAC_ADDRESS) 0,
     CurrentAddress := PermanentAddress m\<rparr>"

text \<open>\<^verbatim>\<open>SnpUndi32Initialize\<close> once the event exists; \<open>st\<close> is the status of its creation.\<close>

definition initialize_undi :: "'e snp_env \<Rightarrow> EFI_STATUS \<Rightarrow> u64 \<Rightarrow> u64 \<Rightarrow> ('e, EFI_STATUS) snp" where
  "initialize_undi V st ExtraRxBufferSize ExtraTxBufferSize = do {
     _ \<leftarrow> upd_mode reset_mode;
     m \<leftarrow> gets smem;
     _ \<leftarrow> upd_snp (\<lambda>d. d\<lparr>TxRxBufferSize :=
            ucast (ucast (load32 m (InitInfo_Addr d)) + ExtraRxBufferSize + ExtraTxBufferSize)\<rparr>);
     d \<leftarrow> snp;
     done \<leftarrow> (if CableDetectSupported d then do {
                st \<leftarrow> PxeInit V PXE_OPFLAGS_INITIALIZE_DETECT_CABLE;
                ret (st = EFI_SUCCESS) }
              else ret False);
     if done then ret st
     else do {
       _ \<leftarrow> upd_mode (\<lambda>m. m\<lparr>MediaPresent := False\<rparr>);
       st \<leftarrow> PxeInit V PXE_OPFLAGS_INITIALIZE_DO_NOT_DETECT_CABLE;
       d \<leftarrow> snp;
       if EFI_ERROR st then do {
         _ \<leftarrow> run_snp (snp_close_event V (WaitForPacket d));
         ret st }
       else do {
         _ \<leftarrow> (if MediaStatusSupported d then PxeGetStatus V 0 False else ret EFI_SUCCESS);
         ret st } } }"

definition SnpUndi32Initialize :: "'e snp_env \<Rightarrow> u64 \<Rightarrow> u64 \<Rightarrow> u64 \<Rightarrow> ('e, EFI_STATUS) snp" where
  "SnpUndi32Initialize V This ExtraRxBufferSize ExtraTxBufferSize =
     (if This = 0 then ret EFI_INVALID_PARAMETER
      else at_callback_tpl (when_state EfiSimpleNetworkStarted (do {
        (st, ev) \<leftarrow> call_snp (snp_create_event V);
        if EFI_ERROR st then do {
          _ \<leftarrow> upd_snp (\<lambda>d. d\<lparr>WaitForPacket := 0\<rparr>);
          ret EFI_DEVICE_ERROR }
        else do {
          _ \<leftarrow> upd_snp (\<lambda>d. d\<lparr>WaitForPacket := ev\<rparr>);
          initialize_undi V st ExtraRxBufferSize ExtraTxBufferSize } })))"

section \<open>Shutdown.c and Reset.c\<close>

definition PxeShutdown :: "'e snp_env \<Rightarrow> ('e, EFI_STATUS) snp" where
  "PxeShutdown V = do {
     d \<leftarrow> snp;
     c \<leftarrow> issue_command V (snp_cdb d 0x0007 0 0 0 0 0);
     if StatCode c \<noteq> PXE_STATCODE_SUCCESS then ret EFI_DEVICE_ERROR
     else do {
       _ \<leftarrow> free_txrx V;
       _ \<leftarrow> upd_snp (\<lambda>d. d\<lparr>TxRxBufferSize := 0\<rparr>);
       ret EFI_SUCCESS } }"

definition SnpUndi32Shutdown :: "'e snp_env \<Rightarrow> u64 \<Rightarrow> ('e, EFI_STATUS) snp" where
  "SnpUndi32Shutdown V This =
     (if This = 0 then ret EFI_INVALID_PARAMETER
      else at_callback_tpl (when_state EfiSimpleNetworkInitialized (do {
        st \<leftarrow> PxeShutdown V;
        _ \<leftarrow> upd_mode (\<lambda>m. reset_mode (m\<lparr>Mode_State := EfiSimpleNetworkStarted\<rparr>));
        d \<leftarrow> snp;
        _ \<leftarrow> run_snp (snp_close_event V (WaitForPacket d));
        ret st })))"

definition PxeReset :: "'e snp_env \<Rightarrow> ('e, EFI_STATUS) snp" where
  "PxeReset V = do {
     d \<leftarrow> snp;
     c \<leftarrow> issue_command V (snp_cdb d 0x0006 0 0 0 0 0);
     ret (if StatCode c \<noteq> PXE_STATCODE_SUCCESS then EFI_DEVICE_ERROR else EFI_SUCCESS) }"

definition SnpUndi32Reset :: "'e snp_env \<Rightarrow> u64 \<Rightarrow> bool \<Rightarrow> ('e, EFI_STATUS) snp" where
  "SnpUndi32Reset V This ExtendedVerification =
     (if This = 0 then ret EFI_INVALID_PARAMETER
      else at_callback_tpl (when_state EfiSimpleNetworkInitialized (PxeReset V)))"

end
