(* ===== verification/Snp_Data.thy ===== *)
theory Snp_Data
  imports Snp_Ops
begin

text \<open>
  The remaining operations of the Simple Network Protocol, which need an initialised interface: receive
  filters, station address, statistics, multicast addresses, non-volatile data, transmit, receive and the
  notification function of \<^verbatim>\<open>WaitForPacket\<close>.
\<close>

section \<open>Receive\_filters.c\<close>

abbreviation EFI_SIMPLE_NETWORK_RECEIVE_UNICAST :: u32 where
  "EFI_SIMPLE_NETWORK_RECEIVE_UNICAST \<equiv> 0x01"
abbreviation EFI_SIMPLE_NETWORK_RECEIVE_MULTICAST :: u32 where
  "EFI_SIMPLE_NETWORK_RECEIVE_MULTICAST \<equiv> 0x02"
abbreviation EFI_SIMPLE_NETWORK_RECEIVE_BROADCAST :: u32 where
  "EFI_SIMPLE_NETWORK_RECEIVE_BROADCAST \<equiv> 0x04"
abbreviation EFI_SIMPLE_NETWORK_RECEIVE_PROMISCUOUS :: u32 where
  "EFI_SIMPLE_NETWORK_RECEIVE_PROMISCUOUS \<equiv> 0x08"
abbreviation EFI_SIMPLE_NETWORK_RECEIVE_PROMISCUOUS_MULTICAST :: u32 where
  "EFI_SIMPLE_NETWORK_RECEIVE_PROMISCUOUS_MULTICAST \<equiv> 0x10"

abbreviation PXE_OPFLAGS_RECEIVE_FILTER_ENABLE :: u16 where
  "PXE_OPFLAGS_RECEIVE_FILTER_ENABLE \<equiv> 0x8000"
abbreviation PXE_OPFLAGS_RECEIVE_FILTER_DISABLE :: u16 where
  "PXE_OPFLAGS_RECEIVE_FILTER_DISABLE \<equiv> 0x4000"
abbreviation PXE_OPFLAGS_RECEIVE_FILTER_RESET_MCAST_LIST :: u16 where
  "PXE_OPFLAGS_RECEIVE_FILTER_RESET_MCAST_LIST \<equiv> 0x2000"

text \<open>The five tests that turn protocol filter bits into UNDI filter bits, and back.\<close>

definition filter_opflags :: "u32 \<Rightarrow> u16 \<Rightarrow> u16" where
  "filter_opflags f v =
     (let v = (if f AND EFI_SIMPLE_NETWORK_RECEIVE_UNICAST \<noteq> 0 then v OR 0x0001 else v);
          v = (if f AND EFI_SIMPLE_NETWORK_RECEIVE_BROADCAST \<noteq> 0 then v OR 0x0002 else v);
          v = (if f AND EFI_SIMPLE_NETWORK_RECEIVE_PROMISCUOUS \<noteq> 0 then v OR 0x0008 else v);
          v = (if f AND EFI_SIMPLE_NETWORK_RECEIVE_PROMISCUOUS_MULTICAST \<noteq> 0 then v OR 0x0010 else v)
      in if f AND EFI_SIMPLE_NETWORK_RECEIVE_MULTICAST \<noteq> 0 then v OR 0x0004 else v)"

definition filter_setting :: "u16 \<Rightarrow> u32" where
  "filter_setting f =
     (let v = 0;
          v = (if f AND 0x0001 \<noteq> 0 then v OR EFI_SIMPLE_NETWORK_RECEIVE_UNICAST else v);
          v = (if f AND 0x0002 \<noteq> 0 then v OR EFI_SIMPLE_NETWORK_RECEIVE_BROADCAST else v);
          v = (if f AND 0x0008 \<noteq> 0 then v OR EFI_SIMPLE_NETWORK_RECEIVE_PROMISCUOUS else v);
          v = (if f AND 0x0010 \<noteq> 0 then v OR EFI_SIMPLE_NETWORK_RECEIVE_PROMISCUOUS_MULTICAST else v)
      in if f AND 0x0004 \<noteq> 0 then v OR EFI_SIMPLE_NETWORK_RECEIVE_MULTICAST else v)"

definition PxeRecvFilterEnable :: "'e snp_env \<Rightarrow> u32 \<Rightarrow> u64 \<Rightarrow> u64 \<Rightarrow> ('e, EFI_STATUS) snp" where
  "PxeRecvFilterEnable V EnableFlags MCastAddressCount MCastAddressList = do {
     d \<leftarrow> snp;
     let c = snp_cdb d 0x0009 (filter_opflags EnableFlags PXE_OPFLAGS_RECEIVE_FILTER_ENABLE) 0 0 0 0;
     let c = (if MCastAddressCount \<noteq> 0
              then c\<lparr>CPBsize := ucast (MCastAddressCount * of_nat sizeof_EFI_MAC_ADDRESS),
                     CPBaddr := Cpb d\<rparr> else c);
     _ \<leftarrow> (if MCastAddressCount \<noteq> 0
          then upd_smem (CopyMem (Cpb d) MCastAddressList (unat (CPBsize c))) else ret ());
     c \<leftarrow> issue_command V c;
     ret (if StatCode c = PXE_STATCODE_SUCCESS then EFI_SUCCESS
          else if StatCode c = PXE_STATCODE_INVALID_CDB \<or> StatCode c = PXE_STATCODE_INVALID_CPB
                  \<or> StatCode c = PXE_STATCODE_INVALID_PARAMETER then EFI_INVALID_PARAMETER
          else if StatCode c = PXE_STATCODE_UNSUPPORTED then EFI_UNSUPPORTED
          else EFI_DEVICE_ERROR) }"

definition PxeRecvFilterDisable :: "'e snp_env \<Rightarrow> u32 \<Rightarrow> bool \<Rightarrow> ('e, EFI_STATUS) snp" where
  "PxeRecvFilterDisable V DisableFlags ResetMCastList = do {
     d \<leftarrow> snp;
     let f = (if DisableFlags \<noteq> 0 then PXE_OPFLAGS_RECEIVE_FILTER_DISABLE else 0);
     let f = (if ResetMCastList then f OR PXE_OPFLAGS_RECEIVE_FILTER_RESET_MCAST_LIST else f);
     c \<leftarrow> issue_command V (snp_cdb d 0x0009 (filter_opflags DisableFlags f) 0 0 0 0);
     ret (if StatCode c \<noteq> PXE_STATCODE_SUCCESS then EFI_DEVICE_ERROR else EFI_SUCCESS) }"

text \<open>The loop that counts the filters before the first zero address.\<close>

fun count_filters :: "nat \<Rightarrow> u8 list \<Rightarrow> nat" where
  "count_filters 0 bs = 0"
| "count_filters (Suc n) bs =
     (if take sizeof_EFI_MAC_ADDRESS bs = replicate sizeof_EFI_MAC_ADDRESS 0 then 0
      else Suc (count_filters n (drop sizeof_EFI_MAC_ADDRESS bs)))"

definition PxeRecvFilterRead :: "'e snp_env \<Rightarrow> ('e, EFI_STATUS) snp" where
  "PxeRecvFilterRead V = do {
     d \<leftarrow> snp;
     let n = (ucast (MaxMCastFilterCount (Mode d) * of_nat sizeof_EFI_MAC_ADDRESS) :: u16);
     _ \<leftarrow> (if n \<noteq> 0 then upd_smem (ZeroMem (Db d) (unat n)) else ret ());
     c \<leftarrow> issue_command V (snp_cdb d 0x0009 0 0 0 n (if n = 0 then 0 else Db d));
     if StatCode c \<noteq> PXE_STATCODE_SUCCESS then ret EFI_DEVICE_ERROR
     else do {
       m \<leftarrow> gets smem;
       _ \<leftarrow> upd_snp (\<lambda>d. d\<lparr>Mode := (Mode d)\<lparr>
              ReceiveFilterSetting := filter_setting (StatFlags c),
              MCastFilter := overwrite (load_bytes m (Db d) (unat (DBsize c))) (MCastFilter (Mode d))\<rparr>\<rparr>);
       _ \<leftarrow> upd_mode (\<lambda>m. m\<lparr>MCastFilterCount :=
              of_nat (count_filters (unat (MaxMCastFilterCount m)) (MCastFilter m))\<rparr>);
       ret EFI_SUCCESS } }"

text \<open>The part of \<^verbatim>\<open>SnpUndi32ReceiveFilters\<close> after the parameters are checked.\<close>

definition apply_filters ::
  "'e snp_env \<Rightarrow> u32 \<Rightarrow> u32 \<Rightarrow> bool \<Rightarrow> u64 \<Rightarrow> u64 \<Rightarrow> ('e, EFI_STATUS) snp" where
  "apply_filters V Enable Disable ResetMCastFilter MCastFilterCnt MCastFilterList = do {
     st \<leftarrow> (if Enable \<noteq> 0 \<or> MCastFilterCnt \<noteq> 0
           then PxeRecvFilterEnable V Enable MCastFilterCnt MCastFilterList else ret EFI_SUCCESS);
     if EFI_ERROR st then ret st
     else do {
       st \<leftarrow> (if Disable \<noteq> 0 \<or> ResetMCastFilter
             then PxeRecvFilterDisable V Disable ResetMCastFilter else ret EFI_SUCCESS);
       if EFI_ERROR st then ret st else PxeRecvFilterRead V } }"

definition SnpUndi32ReceiveFilters ::
  "'e snp_env \<Rightarrow> u64 \<Rightarrow> u32 \<Rightarrow> u32 \<Rightarrow> bool \<Rightarrow> u64 \<Rightarrow> u64 \<Rightarrow> ('e, EFI_STATUS) snp" where
  "SnpUndi32ReceiveFilters V This Enable Disable ResetMCastFilter MCastFilterCnt MCastFilterList =
     (if This = 0 then ret EFI_INVALID_PARAMETER
      else at_callback_tpl (when_state EfiSimpleNetworkInitialized (do {
        d \<leftarrow> snp;
        let mask = ReceiveFilterMask (Mode d);
        if Enable AND NOT mask \<noteq> 0 \<or> Disable AND NOT mask \<noteq> 0 then ret EFI_INVALID_PARAMETER
        else if \<not> ResetMCastFilter \<and> MCastFilterCnt \<noteq> 0
                \<and> (MCastFilterCnt > ucast (MaxMCastFilterCount (Mode d)) \<or> MCastFilterList = 0)
        then ret EFI_INVALID_PARAMETER
        else do {
          let Disable = (if ResetMCastFilter
                         then Disable OR (EFI_SIMPLE_NETWORK_RECEIVE_MULTICAST AND mask) else Disable);
          let MCastFilterCnt = (if ResetMCastFilter then 0 else MCastFilterCnt);
          let MCastFilterList = (if ResetMCastFilter then 0 else MCastFilterList);
          if Enable = 0 \<and> Disable = 0 \<and> \<not> ResetMCastFilter \<and> MCastFilterCnt = 0 then ret EFI_SUCCESS
          else if Enable AND EFI_SIMPLE_NETWORK_RECEIVE_MULTICAST \<noteq> 0 \<and> MCastFilterCnt = 0
          then ret EFI_INVALID_PARAMETER
          else apply_filters V Enable Disable ResetMCastFilter MCastFilterCnt MCastFilterList } })))"

section \<open>Station\_address.c\<close>

definition PxeGetStnAddr :: "'e snp_env \<Rightarrow> ('e, EFI_STATUS) snp" where
  "PxeGetStnAddr V = do {
     d \<leftarrow> snp;
     c \<leftarrow> issue_command V (snp_cdb d 0x000A 0 0 0 96 (Db d));
     if StatCode c \<noteq> PXE_STATCODE_SUCCESS then ret EFI_DEVICE_ERROR
     else do {
       m \<leftarrow> gets smem;
       _ \<leftarrow> upd_snp (\<lambda>d. let n = unat (HwAddressSize (Mode d)) in d\<lparr>Mode := (Mode d)\<lparr>
              CurrentAddress := overwrite (load_bytes m (Db d) n) (CurrentAddress (Mode d)),
              BroadcastAddress := overwrite (load_bytes m (Db d + 32) n) (BroadcastAddress (Mode d)),
              PermanentAddress := overwrite (load_bytes m (Db d + 64) n) (PermanentAddress (Mode d))\<rparr>\<rparr>);
       ret EFI_SUCCESS } }"

definition PxeSetStnAddr :: "'e snp_env \<Rightarrow> u64 \<Rightarrow> ('e, EFI_STATUS) snp" where
  "PxeSetStnAddr V NewMacAddr = do {
     d \<leftarrow> snp;
     _ \<leftarrow> (if NewMacAddr \<noteq> 0
          then upd_smem (CopyMem (Cpb d) NewMacAddr (unat (HwAddressSize (Mode d)))) else ret ());
     c \<leftarrow> issue_command V
            (if NewMacAddr = 0
             then snp_cdb d 0x000A PXE_OPFLAGS_STATION_ADDRESS_RESET 0 0 96 (Db d)
             else snp_cdb d 0x000A 0 32 (Cpb d) 96 (Db d));
     if StatCode c \<noteq> PXE_STATCODE_SUCCESS then ret EFI_DEVICE_ERROR
     else do {
       _ \<leftarrow> PxeGetStnAddr V;
       ret EFI_SUCCESS } }"

definition SnpUndi32StationAddress :: "'e snp_env \<Rightarrow> u64 \<Rightarrow> bool \<Rightarrow> u64 \<Rightarrow> ('e, EFI_STATUS) snp" where
  "SnpUndi32StationAddress V This DoReset New =
     (if This = 0 \<or> (\<not> DoReset \<and> New = 0) then ret EFI_INVALID_PARAMETER
      else at_callback_tpl (when_state EfiSimpleNetworkInitialized
        (if DoReset then PxeSetStnAddr V 0 else PxeSetStnAddr V New)))"

section \<open>Statistics.c\<close>

abbreviation sizeof_EFI_NETWORK_STATISTICS :: u64 where "sizeof_EFI_NETWORK_STATISTICS \<equiv> 208"

text \<open>
  The two loops.  The first yields the value of \<^verbatim>\<open>Index\<close> on leaving it, \<^verbatim>\<open>Size\<close> and the memory; the size of the
  caller's table is read from memory in each round.
\<close>

fun convert_statistics ::
  "u64 \<Rightarrow> u64 \<Rightarrow> u64 \<Rightarrow> nat list \<Rightarrow> nat \<Rightarrow> memory \<Rightarrow> nat \<times> nat \<times> memory" where
  "convert_statistics db szp tab [] Sz m = (64, Sz, m)"
| "convert_statistics db szp tab (i # is) Sz m =
     (if unat (load64 m szp) < (i + 1) * 8 then (i, Sz, m)
      else if bit (load64 m db) i
      then convert_statistics db szp tab is (i + 1)
             (store64 m (tab + 8 * of_nat i) (load64 m (db + 8 + 8 * of_nat i)))
      else convert_statistics db szp tab is Sz
             (store_bytes m (tab + 8 * of_nat i) (replicate 8 0xFF)))"

fun extend_size :: "u64 \<Rightarrow> nat list \<Rightarrow> nat \<Rightarrow> nat" where
  "extend_size supported [] Sz = Sz"
| "extend_size supported (i # is) Sz = extend_size supported is (if bit supported i then i else Sz)"

definition report_statistics :: "u64 \<Rightarrow> u64 \<Rightarrow> u64 \<Rightarrow> memory \<Rightarrow> EFI_STATUS \<times> memory" where
  "report_statistics db StatisticsSize StatisticsTable m =
     (let m = ZeroMem StatisticsTable (unat (load64 m StatisticsSize)) m;
          (Index, Sz, m) = convert_statistics db StatisticsSize StatisticsTable [0..<64] 0 m;
          Sz = extend_size (load64 m db) [Index + 1..<64] Sz;
          Sz = of_nat (Sz * 8)
      in ((if load64 m StatisticsSize \<ge> Sz then EFI_SUCCESS else EFI_BUFFER_TOO_SMALL),
          store64 m StatisticsSize Sz))"

definition SnpUndi32Statistics :: "'e snp_env \<Rightarrow> u64 \<Rightarrow> bool \<Rightarrow> u64 \<Rightarrow> u64 \<Rightarrow> ('e, EFI_STATUS) snp" where
  "SnpUndi32Statistics V This DoReset StatisticsSize StatisticsTable =
     (if This = 0 then ret EFI_INVALID_PARAMETER
      else at_callback_tpl (when_state EfiSimpleNetworkInitialized (do {
        if \<not> DoReset \<and> StatisticsSize = 0
        then ret (if StatisticsTable \<noteq> 0 then EFI_INVALID_PARAMETER else EFI_SUCCESS)
        else do {
          d \<leftarrow> snp;
          c \<leftarrow> issue_command V (if DoReset then snp_cdb d 0x000B 1 0 0 0 0
                                else snp_cdb d 0x000B 0 0 0 520 (Db d));
          if StatCode c = PXE_STATCODE_UNSUPPORTED then ret EFI_UNSUPPORTED
          else if StatCode c \<noteq> PXE_STATCODE_SUCCESS then ret EFI_DEVICE_ERROR
          else if DoReset then ret EFI_SUCCESS
          else if StatisticsTable = 0 then do {
            _ \<leftarrow> upd_smem (\<lambda>m. store64 m StatisticsSize sizeof_EFI_NETWORK_STATISTICS);
            ret EFI_BUFFER_TOO_SMALL }
          else do {
            m \<leftarrow> gets smem;
            let (st, m) = report_statistics (Db d) StatisticsSize StatisticsTable m;
            _ \<leftarrow> upd_smem (\<lambda>_. m);
            ret st } } })))"

section \<open>Mcast\_ip\_to\_mac.c and Nvdata.c\<close>

definition PxeIp2Mac :: "'e snp_env \<Rightarrow> bool \<Rightarrow> u64 \<Rightarrow> u64 \<Rightarrow> ('e, EFI_STATUS) snp" where
  "PxeIp2Mac V IPv6 IP MAC = do {
     d \<leftarrow> snp;
     _ \<leftarrow> upd_smem (CopyMem (Cpb d) IP 16);
     c \<leftarrow> issue_command V (snp_cdb d 0x000C (if IPv6 then PXE_OPFLAGS_MCAST_IPV6_TO_MAC else 0)
                               16 (Cpb d) 32 (Db d));
     if StatCode c = PXE_STATCODE_INVALID_CPB then ret EFI_INVALID_PARAMETER
     else if StatCode c = PXE_STATCODE_UNSUPPORTED then ret EFI_UNSUPPORTED
     else if StatCode c \<noteq> PXE_STATCODE_SUCCESS then ret EFI_DEVICE_ERROR
     else do {
       _ \<leftarrow> upd_smem (CopyMem MAC (Db d) PXE_MAC_LENGTH);
       ret EFI_SUCCESS } }"

definition SnpUndi32McastIpToMac :: "'e snp_env \<Rightarrow> u64 \<Rightarrow> bool \<Rightarrow> u64 \<Rightarrow> u64 \<Rightarrow> ('e, EFI_STATUS) snp" where
  "SnpUndi32McastIpToMac V This IPv6 IP MAC =
     (if This = 0 then ret EFI_INVALID_PARAMETER
      else if IP = 0 \<or> MAC = 0 then ret EFI_INVALID_PARAMETER
      else at_callback_tpl (when_state EfiSimpleNetworkInitialized (PxeIp2Mac V IPv6 IP MAC)))"

abbreviation sizeof_NVDATA :: nat where "sizeof_NVDATA \<equiv> 512"

definition PxeNvDataRead :: "'e snp_env \<Rightarrow> u64 \<Rightarrow> u64 \<Rightarrow> u64 \<Rightarrow> ('e, EFI_STATUS) snp" where
  "PxeNvDataRead V Offset BufferSize Buffer = do {
     d \<leftarrow> snp;
     c \<leftarrow> issue_command V (snp_cdb d 0x000D 0 0 0 (of_nat sizeof_NVDATA) (Db d));
     if StatCode c = PXE_STATCODE_UNSUPPORTED then ret EFI_UNSUPPORTED
     else if StatCode c \<noteq> PXE_STATCODE_SUCCESS then ret EFI_DEVICE_ERROR
     else do {
       _ \<leftarrow> snp_assert (unat Offset < sizeof_NVDATA);
       _ \<leftarrow> upd_smem (CopyMem Buffer (Db d + Offset) (unat BufferSize));
       ret EFI_SUCCESS } }"

definition SnpUndi32NvData ::
  "'e snp_env \<Rightarrow> u64 \<Rightarrow> bool \<Rightarrow> u64 \<Rightarrow> u64 \<Rightarrow> u64 \<Rightarrow> ('e, EFI_STATUS) snp" where
  "SnpUndi32NvData V This ReadWrite Offset BufferSize Buffer =
     (if This = 0 then ret EFI_INVALID_PARAMETER
      else at_callback_tpl (when_state EfiSimpleNetworkInitialized (do {
        d \<leftarrow> snp;
        let size = (ucast (NvRamSize (Mode d)) :: u64);
        let access = (ucast (NvRamAccessSize (Mode d)) :: u64);
        if size = 0 \<or> access = 0 then ret EFI_UNSUPPORTED
        else if BufferSize = 0 \<or> Buffer = 0 \<or> Offset \<ge> size \<or> Offset + BufferSize > size
                \<or> BufferSize mod access \<noteq> 0 \<or> Offset mod access \<noteq> 0
        then ret EFI_INVALID_PARAMETER
        else if \<not> ReadWrite then ret EFI_UNSUPPORTED
        else PxeNvDataRead V Offset BufferSize Buffer })))"

section \<open>Transmit.c\<close>

definition write_fill_header_cpb ::
  "SNP_DRIVER \<Rightarrow> u64 \<Rightarrow> u64 \<Rightarrow> u64 \<Rightarrow> u64 \<Rightarrow> u64 \<Rightarrow> u64 \<Rightarrow> u64 \<Rightarrow> memory \<Rightarrow> memory" where
  "write_fill_header_cpb d MacHeaderPtr HeaderSize Buffer BufferSize DestAddr SrcAddr ProtocolPtr m =
     (let cpb = Cpb d;
          n = unat (HwAddressSize (Mode d));
          m = (if SrcAddr \<noteq> 0 then CopyMem cpb SrcAddr n m
               else store_bytes m cpb (take n (CurrentAddress (Mode d))));
          m = CopyMem (cpb + 32) DestAddr n m;
          m = store16 m (cpb + 68) (PXE_SWAP_UINT16 (load16 m ProtocolPtr));
          m = store32 m (cpb + 64) (ucast BufferSize);
          m = store16 m (cpb + 70) (ucast HeaderSize);
          m = store16 m (cpb + 72) 2;
          m = store16 m (cpb + 74) 0;
          m = store64 m (cpb + 76) MacHeaderPtr;
          m = store32 m (cpb + 84) (ucast HeaderSize);
          m = store64 m (cpb + 92) Buffer;
          m = store32 m (cpb + 100) (ucast BufferSize);
          m = store32 m (cpb + 104) 0
      in store32 m (cpb + 88) 0)"

definition PxeFillHeader ::
  "'e snp_env \<Rightarrow> u64 \<Rightarrow> u64 \<Rightarrow> u64 \<Rightarrow> u64 \<Rightarrow> u64 \<Rightarrow> u64 \<Rightarrow> u64 \<Rightarrow> ('e, EFI_STATUS) snp" where
  "PxeFillHeader V MacHeaderPtr HeaderSize Buffer BufferSize DestAddr SrcAddr ProtocolPtr = do {
     d \<leftarrow> snp;
     _ \<leftarrow> upd_smem (write_fill_header_cpb d MacHeaderPtr HeaderSize Buffer BufferSize DestAddr SrcAddr
                      ProtocolPtr);
     c \<leftarrow> issue_command V (snp_cdb d 0x000F PXE_OPFLAGS_FILL_HEADER_FRAGMENTED 332 (Cpb d) 0 0);
     ret (if StatCode c = PXE_STATCODE_SUCCESS then EFI_SUCCESS
          else if StatCode c = PXE_STATCODE_INVALID_PARAMETER then EFI_INVALID_PARAMETER
          else EFI_DEVICE_ERROR) }"

definition write_transmit_cpb :: "u64 \<Rightarrow> u64 \<Rightarrow> u64 \<Rightarrow> memory \<Rightarrow> memory" where
  "write_transmit_cpb cpb Buffer BufferSize m =
     (let m = store64 m cpb Buffer;
          m = store32 m (cpb + 8) (ucast BufferSize);
          m = store16 m (cpb + 12) 0
      in store16 m (cpb + 14) 0)"

definition PxeTransmit :: "'e snp_env \<Rightarrow> u64 \<Rightarrow> u64 \<Rightarrow> ('e, EFI_STATUS) snp" where
  "PxeTransmit V Buffer BufferSize = do {
     d \<leftarrow> snp;
     _ \<leftarrow> upd_smem (write_transmit_cpb (Cpb d) Buffer BufferSize);
     c \<leftarrow> issue_command V (snp_cdb d 0x0010 0 16 (Cpb d) 0 0);
     ret (if StatCode c = PXE_STATCODE_SUCCESS then EFI_SUCCESS
          else if StatCode c = PXE_STATCODE_BUFFER_FULL \<or> StatCode c = PXE_STATCODE_QUEUE_FULL
                  \<or> StatCode c = PXE_STATCODE_BUSY then EFI_NOT_READY
          else EFI_DEVICE_ERROR) }"

definition SnpUndi32Transmit ::
  "'e snp_env \<Rightarrow> u64 \<Rightarrow> u64 \<Rightarrow> u64 \<Rightarrow> u64 \<Rightarrow> u64 \<Rightarrow> u64 \<Rightarrow> u64 \<Rightarrow> ('e, EFI_STATUS) snp" where
  "SnpUndi32Transmit V This HeaderSize BufferSize Buffer SrcAddr DestAddr ProtocolPtr =
     (if This = 0 then ret EFI_INVALID_PARAMETER
      else at_callback_tpl (when_state EfiSimpleNetworkInitialized (do {
        d \<leftarrow> snp;
        let hdr = (ucast (MediaHeaderSize (Mode d)) :: u64);
        if Buffer = 0 then ret EFI_INVALID_PARAMETER
        else if BufferSize < hdr then ret EFI_BUFFER_TOO_SMALL
        else if HeaderSize \<noteq> 0 \<and> (HeaderSize \<noteq> hdr \<or> DestAddr = 0 \<or> ProtocolPtr = 0)
        then ret EFI_INVALID_PARAMETER
        else do {
          st \<leftarrow> (if HeaderSize \<noteq> 0
                then PxeFillHeader V Buffer HeaderSize (Buffer + HeaderSize) (BufferSize - HeaderSize)
                       DestAddr SrcAddr ProtocolPtr
                else ret EFI_SUCCESS);
          if EFI_ERROR st then ret st else PxeTransmit V Buffer BufferSize } })))"

section \<open>Receive.c\<close>

text \<open>What \<^verbatim>\<open>PxeReceive\<close> stores through its pointers after a successful command.\<close>

definition store_received ::
  "SNP_DRIVER \<Rightarrow> u64 \<Rightarrow> u64 \<Rightarrow> u64 \<Rightarrow> u64 \<Rightarrow> u64 \<Rightarrow> memory \<Rightarrow> memory" where
  "store_received d BufferSize HeaderSize SrcAddr DestAddr ProtocolPtr m =
     (let db = Db d;
          n = unat (HwAddressSize (Mode d));
          m = store64 m BufferSize (ucast (load32 m (db + 64)));
          m = (if HeaderSize \<noteq> 0 then store64 m HeaderSize (ucast (load16 m (db + 70))) else m);
          m = (if SrcAddr \<noteq> 0 then CopyMem SrcAddr db n m else m);
          m = (if DestAddr \<noteq> 0 then CopyMem DestAddr (db + 32) n m else m)
      in if ProtocolPtr \<noteq> 0 then store16 m ProtocolPtr (PXE_SWAP_UINT16 (load16 m (db + 68))) else m)"

definition PxeReceive ::
  "'e snp_env \<Rightarrow> u64 \<Rightarrow> u64 \<Rightarrow> u64 \<Rightarrow> u64 \<Rightarrow> u64 \<Rightarrow> u64 \<Rightarrow> ('e, EFI_STATUS) snp" where
  "PxeReceive V Buffer BufferSize HeaderSize SrcAddr DestAddr ProtocolPtr = do {
     d \<leftarrow> snp;
     BuffSize \<leftarrow> gets (\<lambda>s. load64 (smem s) BufferSize);
     _ \<leftarrow> upd_smem (\<lambda>m. store64 m (Cpb d) Buffer);
     len \<leftarrow> gets (\<lambda>s. load64 (smem s) BufferSize);
     _ \<leftarrow> upd_smem (\<lambda>m. store32 (store32 m (Cpb d + 8) (ucast len)) (Cpb d + 12) 0);
     c \<leftarrow> issue_command V (snp_cdb d 0x0011 0 16 (Cpb d) 80 (Db d));
     if StatCode c = PXE_STATCODE_NO_DATA then ret EFI_NOT_READY
     else if StatCode c \<noteq> PXE_STATCODE_SUCCESS then ret EFI_DEVICE_ERROR
     else do {
       d \<leftarrow> snp;
       _ \<leftarrow> upd_smem (store_received d BufferSize HeaderSize SrcAddr DestAddr ProtocolPtr);
       _ \<leftarrow> upd_mode (\<lambda>m. if MediaPresentSupported m \<and> \<not> MediaPresent m then m\<lparr>MediaPresent := True\<rparr> else m);
       len \<leftarrow> gets (\<lambda>s. load64 (smem s) BufferSize);
       ret (if len \<le> BuffSize then EFI_SUCCESS else EFI_BUFFER_TOO_SMALL) } }"

definition SnpUndi32Receive ::
  "'e snp_env \<Rightarrow> u64 \<Rightarrow> u64 \<Rightarrow> u64 \<Rightarrow> u64 \<Rightarrow> u64 \<Rightarrow> u64 \<Rightarrow> u64 \<Rightarrow> ('e, EFI_STATUS) snp" where
  "SnpUndi32Receive V This HeaderSize BufferSize Buffer SrcAddr DestAddr ProtocolPtr =
     (if This = 0 then ret EFI_INVALID_PARAMETER
      else at_callback_tpl (when_state EfiSimpleNetworkInitialized (do {
        d \<leftarrow> snp;
        if BufferSize = 0 \<or> Buffer = 0 then ret EFI_INVALID_PARAMETER
        else if ReceiveFilterSetting (Mode d) = 0 then ret EFI_DEVICE_ERROR
        else PxeReceive V Buffer BufferSize HeaderSize SrcAddr DestAddr ProtocolPtr })))"

section \<open>WaitForPacket.c\<close>

definition SnpWaitForPacketNotify :: "'e snp_env \<Rightarrow> u64 \<Rightarrow> u64 \<Rightarrow> ('e, unit) snp" where
  "SnpWaitForPacketNotify V Event SnpPtr =
     (if Event = 0 \<or> SnpPtr = 0 then ret ()
      else do {
        d \<leftarrow> snp;
        if Mode_State (Mode d) \<noteq> EfiSimpleNetworkInitialized then ret ()
        else do {
          _ \<leftarrow> upd_smem (ZeroMem (Db d) 8);
          c \<leftarrow> issue_command V (snp_cdb d 0x000E 0 0 0 8 (Db d));
          if StatCode c \<noteq> PXE_STATCODE_SUCCESS then ret ()
          else do {
            m \<leftarrow> gets smem;
            if load32 m (Db d) \<noteq> 0 then run_snp (snp_signal_event V Event) else ret () } } })"

end
