(* ===== verification/Snp_Laws.thy ===== *)
theory Snp_Laws
  imports Snp_Data
begin

text \<open>
  What the Simple Network Protocol driver does over any UNDI.  The locale \<open>undi_client\<close> states what the
  driver relies on: an entry point may change memory, the device and, through the mapping callbacks, the
  map list, but no other field of the driver structure and not the task priority.  Its lemmas give the
  protocol's state machine and the well-formedness of the driver structure.
\<close>

section \<open>The calls of the protocol\<close>

datatype snp_call =
  CallStart u64
| CallStop u64
| CallInitialize u64 u64 u64
| CallReset u64 bool
| CallShutdown u64
| CallReceiveFilters u64 u32 u32 bool u64 u64
| CallStationAddress u64 bool u64
| CallStatistics u64 bool u64 u64
| CallMCastIpToMac u64 bool u64 u64
| CallNvData u64 bool u64 u64 u64
| CallGetStatus u64 u64 u64
| CallTransmit u64 u64 u64 u64 u64 u64 u64
| CallReceive u64 u64 u64 u64 u64 u64 u64
| Notify u64 u64

definition run_call :: "'e snp_env \<Rightarrow> snp_call \<Rightarrow> ('e, EFI_STATUS) snp" where
  "run_call V call = (case call of
     CallStart p \<Rightarrow> SnpUndi32Start V p
   | CallStop p \<Rightarrow> SnpUndi32Stop V p
   | CallInitialize p rx tx \<Rightarrow> SnpUndi32Initialize V p rx tx
   | CallReset p x \<Rightarrow> SnpUndi32Reset V p x
   | CallShutdown p \<Rightarrow> SnpUndi32Shutdown V p
   | CallReceiveFilters p en dis r n l \<Rightarrow> SnpUndi32ReceiveFilters V p en dis r n l
   | CallStationAddress p r a \<Rightarrow> SnpUndi32StationAddress V p r a
   | CallStatistics p r n a \<Rightarrow> SnpUndi32Statistics V p r n a
   | CallMCastIpToMac p v6 ip m \<Rightarrow> SnpUndi32McastIpToMac V p v6 ip m
   | CallNvData p rw off n b \<Rightarrow> SnpUndi32NvData V p rw off n b
   | CallGetStatus p i b \<Rightarrow> SnpUndi32GetStatus V p i b
   | CallTransmit p h n b src dst pr \<Rightarrow> SnpUndi32Transmit V p h n b src dst pr
   | CallReceive p h n b src dst pr \<Rightarrow> SnpUndi32Receive V p h n b src dst pr
   | Notify ev p \<Rightarrow> do { _ \<leftarrow> SnpWaitForPacketNotify V ev p; ret EFI_SUCCESS })"

section \<open>The contract of an UNDI\<close>

definition own :: "'e snp_world \<Rightarrow> SNP_DRIVER \<times> u64 \<times> bool" where
  "own s = ((Snp s)\<lparr>MapList := [], Cdb := zero_cdb\<rparr>, tpl s, sfault s)"

abbreviation snp_state :: "'e snp_world \<Rightarrow> u32" where
  "snp_state s \<equiv> Mode_State (Mode (Snp s))"

text \<open>The ring of recycled buffers: capacity, fill and the array that holds them.\<close>

definition recycled :: "'e snp_world \<Rightarrow> u32 \<times> u32 \<times> u64 list" where
  "recycled s = (MaxRecycledTxBuf (Snp s), RecycledTxBufCount (Snp s), RecycledTxBuf (Snp s))"

lemma own_driver: "own t = own s \<Longrightarrow> (Snp t)\<lparr>MapList := [], Cdb := zero_cdb\<rparr> = (Snp s)\<lparr>MapList := [], Cdb := zero_cdb\<rparr>"
  by (simp add: own_def)

lemma own_field:
  assumes "own t = own s" and "\<And>d l c. f (d\<lparr>MapList := l, Cdb := c\<rparr>) = f d"
  shows "f (Snp t) = f (Snp s)"
  using arg_cong [OF own_driver [OF assms(1)], of f] by (simp only: assms(2))

lemma own_fields:
  assumes "own t = own s"
  shows "Mode (Snp t) = Mode (Snp s)" "Db (Snp t) = Db (Snp s)" "Cpb (Snp t) = Cpb (Snp s)"
    "TxRxBuffer (Snp t) = TxRxBuffer (Snp s)" "TxRxBufferSize (Snp t) = TxRxBufferSize (Snp s)"
    "MediaStatusSupported (Snp t) = MediaStatusSupported (Snp s)"
    "CableDetectSupported (Snp t) = CableDetectSupported (Snp s)"
    "IssueUndi32Command (Snp t) = IssueUndi32Command (Snp s)" "IfNum (Snp t) = IfNum (Snp s)"
  by (rule own_field [OF assms], simp)+

lemma own_recycled: "own t = own s \<Longrightarrow> recycled t = recycled s"
  unfolding recycled_def
  by (rule own_field [of t s "\<lambda>d. (MaxRecycledTxBuf d, RecycledTxBufCount d, RecycledTxBuf d)"]) simp_all

lemma keeps_own: "(\<And>s t. own t = own s \<Longrightarrow> f t = f s) \<Longrightarrow> keeps own m \<Longrightarrow> keeps f m"
  unfolding keeps_def by blast

lemma wp_keeps: "keeps f m \<Longrightarrow> (\<And>r t. f t = f s \<Longrightarrow> Q r t) \<Longrightarrow> wp m Q s"
  by (rule wpI) (auto dest: keepsD)

lemma keeps_call_snp [frame]: "(\<And>s e. f (s\<lparr>senv := e\<rparr>) = f s) \<Longrightarrow> keeps f (call_snp g)"
  by (auto simp: keeps_def call_snp_def split: prod.splits)

lemma keeps_run_snp [frame]: "(\<And>s e. f (s\<lparr>senv := e\<rparr>) = f s) \<Longrightarrow> keeps f (run_snp g)"
  by (auto simp: keeps_def run_snp_def)

lemma keeps_at_callback_tpl [frame]:
  "keeps f body \<Longrightarrow> (\<And>s x. f (s\<lparr>tpl := x\<rparr>) = f s) \<Longrightarrow> keeps f (at_callback_tpl body)"
  unfolding at_callback_tpl_def RaiseTPL_def RestoreTPL_def by (auto intro!: frame)

lemma at_callback_restores: "keeps tpl (at_callback_tpl body)"
  by (rule keepsI) (auto simp: at_callback_tpl_def RaiseTPL_def RestoreTPL_def split: prod.splits)

lemma keeps_when_state [frame]: "keeps f body \<Longrightarrow> keeps f (when_state q body)"
  unfolding when_state_def by (auto intro!: frame)

lemma wp_at_callback_tpl [wp_simps]:
  "wp (at_callback_tpl body) Q s = wp body (\<lambda>r t. Q r (t\<lparr>tpl := tpl s\<rparr>)) (s\<lparr>tpl := TPL_CALLBACK\<rparr>)"
  by (simp add: at_callback_tpl_def RaiseTPL_def RestoreTPL_def wp_def split: prod.splits)

lemma wp_when_state [wp_simps]:
  "wp (when_state q body) Q s =
     (if snp_state s = q then wp body Q s
      else if snp_state s = EfiSimpleNetworkStopped then Q EFI_NOT_STARTED s else Q EFI_DEVICE_ERROR s)"
  by (simp add: when_state_def wp_simps)

lemma wp_call_snp [wp_simps]:
  "wp (call_snp f) Q s = (case f (senv s) of (r, e) \<Rightarrow> Q r (s\<lparr>senv := e\<rparr>))"
  by (simp add: wp_def call_snp_def split: prod.splits)

lemma wp_run_snp [wp_simps]: "wp (run_snp f) Q s = Q () (s\<lparr>senv := f (senv s)\<rparr>)"
  by (simp add: run_snp_def wp_simps)

section \<open>The state machine\<close>

text \<open>The state a call leaves behind, and the state in which it can succeed.\<close>

definition snp_next :: "snp_call \<Rightarrow> EFI_STATUS \<Rightarrow> u32 \<Rightarrow> u32" where
  "snp_next call st q = (case call of
     CallStart p \<Rightarrow> if st = EFI_SUCCESS then EfiSimpleNetworkStarted else q
   | CallStop p \<Rightarrow> if st = EFI_SUCCESS then EfiSimpleNetworkStopped else q
   | CallInitialize p rx tx \<Rightarrow> if st = EFI_SUCCESS then EfiSimpleNetworkInitialized else q
   | CallShutdown p \<Rightarrow>
       if p \<noteq> 0 \<and> q = EfiSimpleNetworkInitialized then EfiSimpleNetworkStarted else q
   | _ \<Rightarrow> q)"

definition snp_wants :: "snp_call \<Rightarrow> u32 \<Rightarrow> bool" where
  "snp_wants call q = (case call of
     CallStart p \<Rightarrow> q = EfiSimpleNetworkStopped
   | CallStop p \<Rightarrow> q = EfiSimpleNetworkStarted
   | CallInitialize p rx tx \<Rightarrow> q = EfiSimpleNetworkStarted
   | Notify ev p \<Rightarrow> True
   | _ \<Rightarrow> q = EfiSimpleNetworkInitialized)"

text \<open>In any other state a call is refused with an error and changes nothing.\<close>

lemma call_refused:
  assumes "\<not> snp_wants call (snp_state s)"
  shows "\<exists>st. EFI_ERROR st \<and> run_state (run_call V call) s = (st, s)"
  using assms
  by (cases call; simp add: run_call_def snp_wants_def SnpUndi32Start_def SnpUndi32Stop_def
      SnpUndi32Initialize_def SnpUndi32Reset_def SnpUndi32Shutdown_def SnpUndi32ReceiveFilters_def
      SnpUndi32StationAddress_def SnpUndi32Statistics_def SnpUndi32McastIpToMac_def SnpUndi32NvData_def
      SnpUndi32GetStatus_def SnpUndi32Transmit_def SnpUndi32Receive_def at_callback_tpl_def RaiseTPL_def
      RestoreTPL_def when_state_def)

locale undi_client =
  fixes V :: "'e snp_env"
  assumes entry_keeps: "keeps own (undi_entry V a c)"
begin

lemma issue_own: "keeps own (issue_command V c)"
  unfolding issue_command_def IssueHwUndiCommand_def
  by (intro keeps_bind keeps_modify keeps_gets keeps_return)
    (auto simp: own_def split: undi_entry_point.splits intro: entry_keeps keeps_return)

lemma issue_state [frame]: "keeps snp_state (issue_command V c)"
  by (rule keeps_own [OF _ issue_own]) (drule own_fields(1), simp)

lemma txrx_state [frame]: "keeps snp_state (allocate_txrx V)" "keeps snp_state (free_txrx V)"
  unfolding allocate_txrx_def free_txrx_def by (auto intro!: frame)

lemma recycle_state [frame]: "keeps snp_state (recycle_one V b)" "keeps snp_state (recycle_all V is)"
  by (auto intro!: frame simp: recycle_one_def) (induction "is"; auto intro!: frame simp: recycle_one_def)

lemma get_status_state [frame]: "keeps snp_state (PxeGetStatus V p b)"
  unfolding PxeGetStatus_def status_results_def by (auto intro!: frame)

lemma data_state [frame]:
  "keeps snp_state (PxeReset V)" "keeps snp_state (PxeRecvFilterEnable V e n l)"
  "keeps snp_state (PxeRecvFilterDisable V x r)" "keeps snp_state (PxeRecvFilterRead V)"
  "keeps snp_state (PxeGetStnAddr V)" "keeps snp_state (PxeIp2Mac V v6 ip m)"
  "keeps snp_state (PxeNvDataRead V off n b)" "keeps snp_state (PxeFillHeader V h hs b bs da sa pr)"
  "keeps snp_state (PxeTransmit V b n)" "keeps snp_state (PxeReceive V b n h sa da pr)"
  "keeps snp_state (SnpWaitForPacketNotify V ev p)"
  unfolding PxeReset_def PxeRecvFilterEnable_def PxeRecvFilterDisable_def PxeRecvFilterRead_def
    PxeGetStnAddr_def PxeIp2Mac_def PxeNvDataRead_def PxeFillHeader_def PxeTransmit_def PxeReceive_def
    SnpWaitForPacketNotify_def
  by (auto intro!: frame simp: Let_def)

lemma shutdown_state [frame]: "keeps snp_state (PxeShutdown V)"
  unfolding PxeShutdown_def by (auto intro!: frame)

lemma set_address_state [frame]: "keeps snp_state (PxeSetStnAddr V a)"
  unfolding PxeSetStnAddr_def by (auto intro!: frame)

lemma call_state:
  "keeps snp_state (SnpUndi32Reset V p x)" "keeps snp_state (SnpUndi32ReceiveFilters V p en dis r n l)"
  "keeps snp_state (SnpUndi32StationAddress V p r a)" "keeps snp_state (SnpUndi32Statistics V p r n a)"
  "keeps snp_state (SnpUndi32McastIpToMac V p v6 ip m)" "keeps snp_state (SnpUndi32NvData V p rw off n b)"
  "keeps snp_state (SnpUndi32GetStatus V p i b)" "keeps snp_state (SnpUndi32Transmit V p h n b src dst pr)"
  "keeps snp_state (SnpUndi32Receive V p h n b src dst pr)"
  unfolding SnpUndi32Reset_def SnpUndi32ReceiveFilters_def apply_filters_def SnpUndi32StationAddress_def
    SnpUndi32Statistics_def SnpUndi32McastIpToMac_def SnpUndi32NvData_def SnpUndi32GetStatus_def
    pop_recycled_def SnpUndi32Transmit_def SnpUndi32Receive_def
  by (auto intro!: frame simp: Let_def split_def)

text \<open>The routines that set the state.\<close>

lemma start_wp: "wp (PxeStart V) (\<lambda>st t. if st = EFI_SUCCESS then snp_state t = EfiSimpleNetworkStarted
    else EFI_ERROR st \<and> snp_state t = snp_state s) s"
  unfolding PxeStart_def Let_def wp_bind wp_gets
  by (rule wp_keeps [of snp_state], force intro!: frame)
    (rule wp_keeps [OF issue_state], simp add: wp_simps)

lemma stop_wp: "wp (PxeStop V) (\<lambda>st t. snp_state t =
    (if st = EFI_SUCCESS then EfiSimpleNetworkStopped else snp_state s)) s"
  unfolding PxeStop_def wp_bind wp_gets
  by (rule wp_keeps [OF issue_state]) (simp add: wp_simps)

lemma init_wp: "wp (PxeInit V f) (\<lambda>st t. snp_state t =
    (if st = EFI_SUCCESS then EfiSimpleNetworkInitialized else snp_state s)) s"
  unfolding PxeInit_def wp_bind
  by (rule wp_keeps [OF txrx_state(1)])
    (simp add: wp_simps, intro impI wp_keeps [OF issue_state],
     auto simp: wp_simps intro!: wp_keeps [OF txrx_state(2)])

lemma initialize_undi_wp: "wp (initialize_undi V EFI_SUCCESS rx tx) (\<lambda>st t. snp_state t =
    (if st = EFI_SUCCESS then EfiSimpleNetworkInitialized else snp_state s)) s"
proof -
  have init: "wp (PxeInit V f) P u"
    if "\<And>st t. snp_state t = (if st = EFI_SUCCESS then EfiSimpleNetworkInitialized else snp_state u) \<Longrightarrow> P st t"
    for f P and u :: "'e snp_world" by (rule wp_mono [OF init_wp]) (rule that)
  show ?thesis
    unfolding initialize_undi_def wp_bind wp_gets wp_modify wp_if wp_return
    by (auto simp: wp_simps reset_mode_def intro!: init wp_keeps [OF get_status_state] split: if_splits)
qed

lemma initialize_wp:
  assumes "\<And>e. fst (fst (snp_create_event V e)) = EFI_SUCCESS \<or> EFI_ERROR (fst (fst (snp_create_event V e)))"
  shows "wp (SnpUndi32Initialize V p rx tx) (\<lambda>st t. snp_state t =
      (if st = EFI_SUCCESS then EfiSimpleNetworkInitialized else snp_state s)
      \<and> (st = EFI_SUCCESS \<longrightarrow> snp_state s = EfiSimpleNetworkStarted)) s"
  using assms [of "senv s"]
  by (auto simp: SnpUndi32Initialize_def wp_simps split: prod.splits
      intro!: wp_mono [OF initialize_undi_wp])

lemma start_call_wp: "wp (SnpUndi32Start V p) (\<lambda>st t. snp_state t =
      (if st = EFI_SUCCESS then EfiSimpleNetworkStarted else snp_state s)
      \<and> (st = EFI_SUCCESS \<longrightarrow> snp_state s = EfiSimpleNetworkStopped)) s"
  by (auto simp: SnpUndi32Start_def wp_simps intro!: wp_mono [OF start_wp] split: if_splits)

lemma stop_call_wp: "wp (SnpUndi32Stop V p) (\<lambda>st t. snp_state t =
      (if st = EFI_SUCCESS then EfiSimpleNetworkStopped else snp_state s)
      \<and> (st = EFI_SUCCESS \<longrightarrow> snp_state s = EfiSimpleNetworkStarted)) s"
  by (auto simp: SnpUndi32Stop_def wp_simps intro!: wp_mono [OF stop_wp] split: if_splits)

lemma shutdown_call_wp: "wp (SnpUndi32Shutdown V p) (\<lambda>st t. snp_state t =
      (if p \<noteq> 0 \<and> snp_state s = EfiSimpleNetworkInitialized then EfiSimpleNetworkStarted else snp_state s)
      \<and> (st = EFI_SUCCESS \<longrightarrow> snp_state s = EfiSimpleNetworkInitialized)) s"
  by (auto simp: SnpUndi32Shutdown_def wp_simps reset_mode_def intro!: wp_keeps [OF shutdown_state])

lemma call_wp:
  assumes "\<And>e. fst (fst (snp_create_event V e)) = EFI_SUCCESS \<or> EFI_ERROR (fst (fst (snp_create_event V e)))"
  shows "wp (run_call V call) (\<lambda>st t. snp_state t = snp_next call st (snp_state s)) s"
proof (cases call)
  case (CallInitialize p rx tx)
  then show ?thesis
    using initialize_wp [of p rx tx s, OF assms] by (auto simp: run_call_def snp_next_def elim: wp_mono)
next
  case (CallStart p)
  then show ?thesis using start_call_wp [of p s] by (auto simp: run_call_def snp_next_def elim: wp_mono)
next
  case (CallStop p)
  then show ?thesis using stop_call_wp [of p s] by (auto simp: run_call_def snp_next_def elim: wp_mono)
next
  case (CallShutdown p)
  then show ?thesis
    using shutdown_call_wp [of p s] by (auto simp: run_call_def snp_next_def elim: wp_mono)
qed (auto simp: run_call_def snp_next_def wp_simps intro!: keeps_wp call_state wp_keeps [OF data_state(11)])

end

end
