(* ===== verification/Snp_Recycle.thy ===== *)
theory Snp_Recycle
  imports Snp_Laws
begin

text \<open>
  The array of recycled transmit buffers, as a stack: \<^verbatim>\<open>GetStatus\<close> refills it from the UNDI only when it is
  empty and takes one address from its end.  Since an UNDI reports at most 32 addresses and the array holds
  at least as many, the code that grows the array is never reached.
\<close>

section \<open>The stack\<close>

definition stack :: "'e snp_world \<Rightarrow> u64 list" where
  "stack s = take (unat (RecycledTxBufCount (Snp s))) (RecycledTxBuf (Snp s))"

definition stack_ok :: "'e snp_world \<Rightarrow> bool" where
  "stack_ok s \<longleftrightarrow>
     MAX_XMIT_BUFFERS \<le> unat (MaxRecycledTxBuf (Snp s)) \<and>
     RecycledTxBufCount (Snp s) \<le> MaxRecycledTxBuf (Snp s) \<and>
     length (RecycledTxBuf (Snp s)) = unat (MaxRecycledTxBuf (Snp s))"

lemma length_stack: "stack_ok s \<Longrightarrow> length (stack s) = unat (RecycledTxBufCount (Snp s))"
  by (simp add: stack_def stack_ok_def word_le_nat_alt)

lemma stack_empty_iff: "stack_ok s \<Longrightarrow> stack s = [] \<longleftrightarrow> RecycledTxBufCount (Snp s) = 0"
  using length_stack [of s] by (auto simp: unat_eq_zero)

lemma own_stack: "own t = own s \<Longrightarrow> stack t = stack s \<and> (stack_ok t \<longleftrightarrow> stack_ok s)"
  using own_recycled [of t s] by (simp add: recycled_def stack_def stack_ok_def)

text \<open>An address that is not zero is pushed.\<close>

definition push :: "u64 \<Rightarrow> 'e snp_world \<Rightarrow> 'e snp_world" where
  "push b s = (if b = 0 then s else s\<lparr>Snp := (Snp s)\<lparr>
     RecycledTxBuf := (RecycledTxBuf (Snp s))[unat (RecycledTxBufCount (Snp s)) := b],
     RecycledTxBufCount := RecycledTxBufCount (Snp s) + 1\<rparr>\<rparr>)"

lemma push_fields [simp]:
  "smem (push b s) = smem s" "senv (push b s) = senv s" "Db (Snp (push b s)) = Db (Snp s)"
  "Mode (Snp (push b s)) = Mode (Snp s)" "MaxRecycledTxBuf (Snp (push b s)) = MaxRecycledTxBuf (Snp s)"
  by (simp_all add: push_def)

lemma push_stack:
  assumes ok: "stack_ok s" and room: "length (stack s) < unat (MaxRecycledTxBuf (Snp s))"
  shows "stack (push b s) = stack s @ (if b = 0 then [] else [b])" "stack_ok (push b s)"
proof -
  let ?n = "RecycledTxBufCount (Snp s)"
  have n: "unat ?n < length (RecycledTxBuf (Snp s))" "unat ?n < unat (MaxRecycledTxBuf (Snp s))"
    using ok room by (simp_all add: length_stack stack_ok_def)
  then have suc: "unat (?n + 1) = Suc (unat ?n)"
    using unsigned_less [of "MaxRecycledTxBuf (Snp s)", where 'a = nat] by (simp add: unat_word_ariths(1))
  show "stack (push b s) = stack s @ (if b = 0 then [] else [b])"
    using n by (simp add: stack_def push_def suc take_Suc_conv_app_nth)
  show "stack_ok (push b s)"
    using ok n by (auto simp: stack_ok_def push_def suc word_le_nat_alt)
qed

lemma recycle_one_run:
  assumes "stack_ok s" and "length (stack s) < unat (MaxRecycledTxBuf (Snp s))"
  shows "run_state (recycle_one V b) s = (True, push b s)"
proof -
  have "RecycledTxBufCount (Snp s) \<noteq> MaxRecycledTxBuf (Snp s)" using assms by (auto simp: length_stack)
  then show ?thesis by (simp add: recycle_one_def push_def)
qed

abbreviation reported :: "'e snp_world \<Rightarrow> nat list \<Rightarrow> u64 list" where
  "reported s is \<equiv> map (\<lambda>i. load64 (smem s) (Db (Snp s) + 8 + 8 * of_nat i)) is"

lemma recycle_all_run:
  assumes "stack_ok s" and "length (stack s) + length is \<le> unat (MaxRecycledTxBuf (Snp s))"
  shows "run_state (recycle_all V is) s = (True, fold push (reported s is) s) \<and>
     stack_ok (fold push (reported s is) s) \<and>
     stack (fold push (reported s is) s) = stack s @ filter (\<lambda>b. b \<noteq> 0) (reported s is)"
  using assms
proof (induction "is" arbitrary: s)
  case (Cons i "is")
  let ?b = "load64 (smem s) (Db (Snp s) + 8 + 8 * of_nat i)"
  from Cons.prems have room: "length (stack s) < unat (MaxRecycledTxBuf (Snp s))" by simp
  note st = push_stack [OF Cons.prems(1) room, of ?b]
  have "length (stack (push ?b s)) + length is \<le> unat (MaxRecycledTxBuf (Snp s))"
    using Cons.prems(2) by (simp add: st)
  then show ?case
    using Cons.IH [OF st(2)] by (simp add: recycle_one_run [OF Cons.prems(1) room] st(1))
qed simp

end
