(* ===== verification/Snp_Undi.thy ===== *)
theory Snp_Undi
  imports Snp_Recycle Undi_Safety
begin

text \<open>
  The Simple Network Protocol driver on top of this UNDI driver: its entry point is
  \<^verbatim>\<open>IntelgbeUndiApiEntry\<close>, on the memory the two share.  The platform services act on the environment of
  the UNDI driver, not on its data.
\<close>

section \<open>The composition\<close>

definition intel_entry :: "'d env \<Rightarrow> PXE_CDB \<Rightarrow> ('d undi, PXE_CDB) snp" where
  "intel_entry E c = state.State (\<lambda>s.
     case run_state (IntelgbeUndiApiEntry E (Some c)) ((senv s)\<lparr>undi_mem := smem s\<rparr>) of
       ((st, r), u) \<Rightarrow> (case r of None \<Rightarrow> c | Some c' \<Rightarrow> c', s\<lparr>smem := undi_mem u, senv := u\<rparr>))"

definition on_dev :: "('d \<Rightarrow> 'a \<times> 'd) \<Rightarrow> 'd undi \<Rightarrow> 'a \<times> 'd undi" where
  "on_dev f u = (case f (undi_dev u) of (r, d) \<Rightarrow> (r, u\<lparr>undi_dev := d\<rparr>))"

definition on_dev' :: "('d \<Rightarrow> 'd) \<Rightarrow> 'd undi \<Rightarrow> 'd undi" where
  "on_dev' f u = u\<lparr>undi_dev := f (undi_dev u)\<rparr>"

definition intel_platform :: "'d env \<Rightarrow> 'd snp_env \<Rightarrow> 'd undi snp_env" where
  "intel_platform E V =
     \<lparr>undi_entry = \<lambda>a. intel_entry E, callback_address = callback_address V,
      snp_allocate_buffer = \<lambda>p n. on_dev (snp_allocate_buffer V p n),
      snp_free_buffer = \<lambda>p n a. on_dev' (snp_free_buffer V p n a),
      snp_create_event = on_dev (snp_create_event V),
      snp_close_event = \<lambda>ev. on_dev' (snp_close_event V ev),
      snp_signal_event = \<lambda>ev. on_dev' (snp_signal_event V ev),
      snp_allocate_pool = \<lambda>n. on_dev (snp_allocate_pool V n),
      snp_free_pool = \<lambda>a. on_dev' (snp_free_pool V a)\<rparr>"

text \<open>The adapter that the driver's commands reach, on the shared memory.\<close>

definition nic :: "'d undi snp_world \<Rightarrow> 'd world option" where
  "nic s = map_option (adapter_world ((senv s)\<lparr>undi_mem := smem s\<rparr>))
     (private_data (senv s) (mIntelgbeUndi32DeviceList (senv s) ! unat (IfNum (Snp s))))"

lemma intel_entry_frame: "run_state (intel_entry E c) s = (c', t) \<Longrightarrow> Snp t = Snp s \<and> tpl t = tpl s \<and> sfault t = sfault s"
  by (auto simp: intel_entry_def split: prod.splits)

interpretation intel: undi_client "intel_platform E V" for E V
  by unfold_locales
    (auto intro!: keepsI dest!: intel_entry_frame simp: intel_platform_def own_def)

text \<open>A command either fails the check of the interface number or is run on the adapter.\<close>

lemma intel_entry_run:
  assumes nic: "nic s = Some w" and num: "IFnum c = IfNum (Snp s)"
    and run: "run_state (intel_entry E c) s = (c', t)"
  shows "(c' = fail_with PXE_STATCODE_INVALID_CDB c \<and> nic t = Some w \<and> smem t = smem s \<and> IFnum c \<noteq> 0) \<or>
    (\<exists>st w'. run_state (undi_call E c) w = ((st, c'), w') \<and> nic t = Some w' \<and> smem t = mem w')"
proof -
  define u where "u = (senv s)\<lparr>undi_mem := smem s\<rparr>"
  define p where "p = mIntelgbeUndi32DeviceList u ! unat (IfNum (Snp s))"
  obtain d where d: "private_data u p = Some d" "w = adapter_world u d"
    using nic by (auto simp: nic_def u_def p_def)
  have entry: "run_state (intel_entry E c) s =
      (case run_state (IntelgbeUndiApiEntry E (Some c)) u of
         ((st, r), v) \<Rightarrow> (case r of None \<Rightarrow> c | Some c' \<Rightarrow> c', s\<lparr>smem := undi_mem v, senv := v\<rparr>))"
    by (simp add: intel_entry_def u_def)
  show ?thesis
  proof (cases "IFnum c > ucast (undi_mem u (mIntelgbePxe31 u + 7))")
    case True
    then have "run_state (IntelgbeUndiApiEntry E (Some c)) u =
        ((EFI_INVALID_PARAMETER, Some (fail_with PXE_STATCODE_INVALID_CDB c)), u)"
      by (simp add: IntelgbeUndiApiEntry_def)
    with run nic entry True show ?thesis by (auto simp: nic_def u_def)
  next
    case False
    obtain st c1 w' where call: "run_state (undi_call E c) w = ((st, c1), w')"
      by (metis prod.collapse)
    define v where "v = u\<lparr>private_data := (private_data u)(p \<mapsto> d\<lparr>NicInfo := GigAdapter w'\<rparr>),
        undi_dev := dev w', undi_mem := mem w', undi_fault := fault w'\<rparr>"
    have "run_state (on_adapter p (undi_call E c)) u = (Some (st, c1), v)"
      using d call by (simp add: on_adapter_def v_def)
    then have "run_state (IntelgbeUndiApiEntry E (Some c)) u = ((st, Some c1), v)"
      using False num by (simp add: IntelgbeUndiApiEntry_def p_def)
    then have "c' = c1" "t = s\<lparr>smem := undi_mem v, senv := v\<rparr>" using run entry by simp_all
    then have "c' = c1 \<and> nic t = Some w' \<and> smem t = mem w'"
      by (simp add: nic_def v_def p_def u_def adapter_world_def)
    with call show ?thesis by blast
  qed
qed

section \<open>The transmit queue under the commands\<close>

definition tx_side :: "'d world \<Rightarrow> intelgbe_tx_queue list \<times> UNDI_DMA_MAPPING list" where
  "tx_side w = (tx_queue (GigAdapter w), TxBufferMappings (GigAdapter w))"

lemma tx_side_abs: "tx_side w' = tx_side w \<Longrightarrow> tx_abs w' = tx_abs w"
  by (simp add: tx_side_def tx_abs_def)

lemma steady_tx_side [simp]: "host tx_side" "phy_blind tx_side" "steady tx_side"
  by (simp_all add: host_def phy_blind_def steady_def tx_side_def)

lemma handlers_tx_side:
  "keeps tx_side (IntelgbeUndiGetState E c)" "keeps tx_side (IntelgbeUndiGetInitInfo E c)"
  "keeps tx_side (IntelgbeUndiRecFilter E c)" "keeps tx_side (IntelgbeUndiStnAddr E c)"
  "keeps tx_side (IntelgbeUndiIp2Mac E c)" "keeps tx_side (IntelgbeUndiFillHeader E c)"
  unfolding IntelgbeUndiGetState_def IntelgbeUndiGetInitInfo_def IntelgbeUndiRecFilter_def
    IntelgbeUndiStnAddr_def IntelgbeUndiIp2Mac_def IntelgbeUndiFillHeader_def
  by (auto intro!: frame simp: tx_side_def)

lemma receive_tx_side: "keeps tx_side (IntelgbeUndiReceive E c)"
  unfolding IntelgbeUndiReceive_def IntelgbeReceive_def get_rx_desc_def get_rx_queue_def set_rx_queue_def
  by (auto intro!: frame simp: tx_side_def)

text \<open>The status command reaps buffers only when it is asked to.\<close>

lemma poll_tx_side: "keeps tx_side (poll_interrupts E is fl)"
  by (induction "is" arbitrary: fl) (auto intro!: frame simp: poll_interrupt_def)

lemma status_tx_side:
  assumes "OpFlags c AND PXE_OPFLAGS_GET_TRANSMITTED_BUFFERS = 0"
  shows "keeps tx_side (IntelgbeUndiStatus E c)"
  unfolding IntelgbeUndiStatus_def using assms by (auto intro!: frame poll_tx_side)

definition plain_command :: "PXE_CDB \<Rightarrow> bool" where
  "plain_command c \<longleftrightarrow> tab_ApiPtr (api_row c) \<noteq> Transmit \<and>
     (tab_ApiPtr (api_row c) = Status \<longrightarrow> OpFlags c AND PXE_OPFLAGS_GET_TRANSMITTED_BUFFERS = 0)"

lemma plain_api_tx_side:
  assumes "plain_command c" and "undi_state w = 2"
    and run: "run_state (call_api (tab_ApiPtr (api_row c)) E (complete c)) w = (c', w')"
  shows "tx_side w' = tx_side w"
proof -
  let ?api = "tab_ApiPtr (api_row c)"
  have "?api = Start \<or> ?api = Initialize \<Longrightarrow> w' = w"
    using run assms(2)
    by (auto simp: call_api_def IntelgbeUndiStart_def IntelgbeUndiInitialize_def split: if_splits)
  moreover have "?api \<noteq> Start \<Longrightarrow> ?api \<noteq> Initialize \<Longrightarrow> keeps tx_side (call_api ?api E (complete c))"
    using assms(1)
    by (cases ?api) (auto simp: plain_command_def call_api_def handlers_tx_side receive_tx_side IntelgbeUndiStop_def
        IntelgbeUndiGetConfigInfo_def IntelgbeUndiReset_def IntelgbeUndiShutdown_def IntelgbeUndiInterrupt_def
        IntelgbeUndiStatistics_def IntelgbeUndiNvData_def intro!: status_tx_side frame)
  ultimately show ?thesis using keepsD [OF _ run] by metis
qed

definition tx_ready :: "'d world \<Rightarrow> bool" where
  "tx_ready w \<longleftrightarrow> adapter_ok w \<and> undi_state w = 2"

lemma tx_ready_call:
  assumes "tx_ready w" and run: "run_state (undi_call E c) w = ((st, c'), w')"
  shows "tx_ready w'"
proof -
  have "undi_step E w (Some (c, st, c')) w'" using run by (rule undi_step.command)
  then have "undi_state w' = 2" using undi_step_state [of E w "Some (c, st, c')" w'] assms(1)
    by (auto simp: tx_ready_def)
  then show ?thesis using assms ensuresD [OF undi_call_ok, of w] by (auto simp: tx_ready_def)
qed

lemma plain_call_tx:
  assumes "plain_command c" and "tx_ready w" and run: "run_state (undi_call E c) w = ((st, c'), w')"
  shows "tx_abs w' = tx_abs w"
proof (rule tx_side_abs)
  have ver: "tx_side (versioned w) = tx_side w" by (simp add: tx_side_def)
  show "tx_side w' = tx_side w"
    using run assms(2) ver plain_api_tx_side [OF assms(1), of "versioned w"]
    by (auto simp: undi_call_run tx_ready_def split: if_splits prod.splits)
qed

section \<open>The transmit and status commands\<close>

text \<open>Every refusal carries a status code other than success.\<close>

lemma transmit_call:
  assumes "tx_ready w" and c: "OpCode c = 0x10" "OpFlags c = 0"
    and run: "run_state (undi_call E c) w = ((st, c'), w')"
  shows "tx_abs w' = (if StatCode c' = PXE_STATCODE_SUCCESS
    then tx_abs w @ [(TxBuffer_FrameAddr (mem w) (CPBaddr c), False)] else tx_abs w)"
proof -
  let ?w = "versioned w"
  have row: "tab_ApiPtr (api_row c) = Transmit" using c by (simp add: mIntelgbeApiTable_def table_row_def)
  have abs: "tx_abs ?w = tx_abs w" by (simp add: tx_abs_def)
  have inv: "tx_inv ?w" using assms(1) adapter_okD(1) [of w] by (simp add: tx_ready_def tx_inv_def)
  have "tx_abs v = (if StatCode c1 = PXE_STATCODE_SUCCESS
      then tx_abs w @ [(TxBuffer_FrameAddr (mem w) (CPBaddr c), False)] else tx_abs w)"
    if api: "run_state (IntelgbeUndiTransmit E (complete c)) ?w = (c1, v)" for c1 v
  proof (cases "DriverBusy (GigAdapter w) \<or> CPBsize c = 0")
    case True
    then show ?thesis using api abs by (auto simp: IntelgbeUndiTransmit_def split: if_splits)
  next
    case False
    obtain code v1 where tx: "run_state (IntelgbeTransmit E (CPBaddr c) 0) ?w = (code, v1)" by fastforce
    then have "v = v1" "StatCode c1 = code"
      using api False c by (auto simp: IntelgbeUndiTransmit_def)
    then show ?thesis using transmit_run [OF inv _ tx] abs by (auto split: if_splits)
  qed
  then show ?thesis
    using run row abs by (auto simp: undi_call_run call_api_def split: if_splits prod.splits)
qed

lemma trivial_ensures: "ensures (\<lambda>_. True) m (\<lambda>_. True)"
  by (simp add: ensures_def)

lemma poll_flag: "ensures (\<lambda>_. True) (poll_interrupts E is fl) (\<lambda>r. bit r 5 = bit fl 5)"
proof (induction "is" arbitrary: fl)
  case (Cons i "is")
  let ?R = "\<lambda>r :: u16. bit r 5 = bit fl 5"
  have "ensures (\<lambda>_. True) (poll_interrupt E i fl) ?R"
    unfolding poll_interrupt_def
    by (rule ensures_bind [OF trivial_ensures], rule ensures_bind [OF trivial_ensures],
        rule ensures_bind [where S = ?R])
      (rule ensures_bind [OF trivial_ensures] ensures_if ensures_return | (simp add: bit_simps; fail))+
  then show ?case
    unfolding poll_interrupts.simps
    by (rule ensures_bind) (rule ensures_mono [OF Cons.IH], simp)
qed (simp add: outcome)

definition link_flags :: "'d env \<Rightarrow> PXE_CDB \<Rightarrow> u16 \<Rightarrow> ('d, u16) op" where
  "link_flags E c flags = (if OpFlags c AND PXE_OPFLAGS_GET_MEDIA_STATUS \<noteq> 0 then do {
     up \<leftarrow> IsLinkUp E;
     ret (if \<not> up then flags OR PXE_STATFLAGS_GET_STATUS_NO_MEDIA else flags) }
   else ret flags)"

definition interrupt_flags :: "'d env \<Rightarrow> nat list \<Rightarrow> PXE_CDB \<Rightarrow> ('d, u16) op" where
  "interrupt_flags E is c = (if OpFlags c AND PXE_OPFLAGS_GET_INTERRUPT_STATUS \<noteq> 0
     then poll_interrupts E is (StatFlags c) else ret (StatFlags c))"

lemma flags_ensure:
  "ensures (\<lambda>_. True) (interrupt_flags E is c) (\<lambda>r. bit r 5 = bit (StatFlags c) 5)"
  "ensures (\<lambda>_. True) (link_flags E c fl) (\<lambda>r. bit r 5 = bit fl 5)"
  unfolding interrupt_flags_def link_flags_def
  by (rule ensures_if ensures_bind [OF trivial_ensures] ensures_return poll_flag | (simp add: bit_simps; fail))+

lemma steady_mem [simp]: "steady mem" "host mem" "phy_blind mem"
  by (simp_all add: host_def phy_blind_def steady_def)

lemma flags_keep:
  "keeps tx_side (interrupt_flags E is c)" "keeps mem (interrupt_flags E is c)"
  "keeps tx_side (link_flags E c fl)" "keeps mem (link_flags E c fl)"
  unfolding interrupt_flags_def link_flags_def
  by (auto intro!: frame poll_tx_side)

lemma status_run_split: "IntelgbeUndiStatus E c = do {
     g \<leftarrow> adapter;
     if DriverBusy g then ret (fail_with PXE_STATCODE_BUSY c)
     else if DBsize c < 16 then
       ret (let c = fail_with PXE_STATCODE_INVALID_CDB c in
            if OpFlags c AND PXE_OPFLAGS_GET_TRANSMITTED_BUFFERS \<noteq> 0
            then c\<lparr>StatFlags := StatFlags c OR PXE_STATFLAGS_GET_STATUS_NO_TXBUFS_WRITTEN\<rparr> else c)
     else do {
       c \<leftarrow> (if OpFlags c AND PXE_OPFLAGS_GET_TRANSMITTED_BUFFERS \<noteq> 0
            then status_tx_buffers E c else ret c);
       flags \<leftarrow> interrupt_flags E [0..<unat (max (txqnum g) (rxqnum g))] c;
       flags \<leftarrow> link_flags E c flags;
       ret (c\<lparr>StatFlags := flags OR PXE_STATFLAGS_COMMAND_COMPLETE,
              StatCode := PXE_STATCODE_SUCCESS\<rparr>) } }"
  unfolding IntelgbeUndiStatus_def interrupt_flags_def link_flags_def by (rule refl)

lemma reap_api:
  assumes inv: "tx_inv w" and c: "DBsize c = 264" "bit (OpFlags c) 1" "StatFlags c = 0xC000"
    and idle: "\<not> DriverBusy (GigAdapter w)" and run: "run_state (IntelgbeUndiStatus E c) w = (c', w')"
    and k: "k = tx_released 32 (tx_abs w)"
  shows "StatCode c' = PXE_STATCODE_SUCCESS \<and> tx_abs w' = drop k (tx_abs w) \<and> (k \<noteq> 0 \<longrightarrow> \<not> bit (StatFlags c') 5) \<and>
    mem w' = store_bytes (mem w) (DBaddr c + 8) (le_addrs (map fst (take k (tx_abs w))))"
proof -
  have flag: "OpFlags c AND PXE_OPFLAGS_GET_TRANSMITTED_BUFFERS \<noteq> 0"
    using c(2) and_exp_eq_0_iff_not_bit [of "OpFlags c" 1] by simp
  obtain w1 where w1: "run_state (IntelgbeFreeTxBuffers E 32 (DBaddr c + 8)) w = (of_nat k, w1)" "tx_inv w1"
    "tx_abs w1 = drop k (tx_abs w)"
    "mem w1 = store_bytes (mem w) (DBaddr c + 8) (le_addrs (map fst (take k (tx_abs w))))"
    using free_tx_buffers_run [OF inv, of k 32 E "DBaddr c + 8"] k by auto
  have kb: "k \<le> 32" using tx_released_le(1) by (simp add: k)
  define c1 where "c1 = (let c = (if of_nat k = (0 :: u16)
              then c\<lparr>StatFlags := StatFlags c OR PXE_STATFLAGS_GET_STATUS_NO_TXBUFS_WRITTEN\<rparr>
              else c) in c\<lparr>DBsize := 8 + of_nat k * 8\<rparr>)"
  have buffers: "run_state (status_tx_buffers E c) w = (c1, w1)"
    using w1(1) c(1) by (simp add: status_tx_buffers_def c1_def Let_def)
  have "(of_nat k :: u16) = 0 \<longleftrightarrow> k = 0"
    using kb by (simp add: word_eq_iff_unsigned unat_of_nat flip: unat_eq_zero)
  then have flag1: "k \<noteq> 0 \<Longrightarrow> \<not> bit (StatFlags c1) 5" by (simp add: c1_def c(3) Let_def bit_simps)
  define js where "js = [0..<unat (max (txqnum (GigAdapter w)) (rxqnum (GigAdapter w)))]"
  obtain f2 w2 where two: "run_state (interrupt_flags E js c1) w1 = (f2, w2)" by fastforce
  obtain f3 w3 where three: "run_state (link_flags E c1 f2) w2 = (f3, w3)" by fastforce
  have bits: "bit f3 5 = bit (StatFlags c1) 5"
    using ensuresD [OF flags_ensure(1) TrueI two] ensuresD [OF flags_ensure(2) TrueI three] by simp
  have "tx_abs w3 = tx_abs w1" "mem w3 = mem w1"
    using keepsD [OF flags_keep(1) two] keepsD [OF flags_keep(3) three] keepsD [OF flags_keep(2) two]
      keepsD [OF flags_keep(4) three] tx_side_abs by metis+
  moreover have "(c', w') = (c1\<lparr>StatFlags := f3 OR PXE_STATFLAGS_COMMAND_COMPLETE, StatCode := PXE_STATCODE_SUCCESS\<rparr>, w3)"
    using run idle c(1) flag buffers two three by (simp add: status_run_split js_def)
  ultimately show ?thesis using w1 bits flag1 by (auto simp: bit_simps)
qed

lemma reap_call:
  assumes "tx_ready w" and c: "OpCode c = 0xE" "DBsize c = 264" "bit (OpFlags c) 1"
    and run: "run_state (undi_call E c) w = ((st, c'), w')" and k: "k = tx_released 32 (tx_abs w)"
  shows "if StatCode c' = PXE_STATCODE_SUCCESS
    then tx_abs w' = drop k (tx_abs w) \<and> (k \<noteq> 0 \<longrightarrow> \<not> bit (StatFlags c') 5) \<and>
      mem w' = store_bytes (mem w) (DBaddr c + 8) (le_addrs (map fst (take k (tx_abs w))))
    else tx_abs w' = tx_abs w"
proof -
  let ?w = "versioned w"
  have row: "tab_ApiPtr (api_row c) = Status" using c by (simp add: mIntelgbeApiTable_def table_row_def)
  have abs: "tx_abs ?w = tx_abs w" by (simp add: tx_abs_def)
  have inv: "tx_inv ?w" using assms(1) adapter_okD(1) [of w] by (simp add: tx_ready_def tx_inv_def)
  show ?thesis
  proof (cases "ExitBootServicesTriggered (GigAdapter w) \<or> \<not> cdb_well_formed c \<or>
      \<not> state_allows (tab_State (api_row c)) (undi_state w) \<or> DriverBusy (GigAdapter w)")
    case True
    then show ?thesis
      using run row abs by (auto simp: undi_call_run call_api_def status_run_split split: if_splits prod.splits)
  next
    case False
    then have "run_state (IntelgbeUndiStatus E (complete c)) ?w = (c', w')"
      using run row by (auto simp: undi_call_run call_api_def split: prod.splits)
    from reap_api [OF inv _ _ _ _ this, of k] False c k abs show ?thesis by simp
  qed
qed

end
