(* ===== verification/Snp_Flow.thy ===== *)
theory Snp_Flow
  imports Snp_Undi "HOL-Library.Multiset"
begin

text \<open>
  The life of a transmit buffer through both drivers.  A buffer accepted by \<^verbatim>\<open>SnpUndi32Transmit\<close> is held by the
  UNDI driver's ring and then by the recycled buffers of the protocol driver until \<^verbatim>\<open>SnpUndi32GetStatus\<close> hands
  it back; no call of the protocol loses or duplicates one.
\<close>

section \<open>Buffers held by the two drivers\<close>

definition in_ring :: "'d undi snp_world \<Rightarrow> u64 list" where
  "in_ring s = (case nic s of None \<Rightarrow> [] | Some w \<Rightarrow> tx_content w)"

definition held :: "'d undi snp_world \<Rightarrow> u64 multiset" where
  "held s = mset (in_ring s) + mset (stack s)"

text \<open>
  The driver is bound to an adapter that has been initialised once; \<open>n\<close> is its interface number.
\<close>

definition online :: "u16 \<Rightarrow> 'd undi snp_world \<Rightarrow> bool" where
  "online n s \<longleftrightarrow> (\<exists>w. nic s = Some w \<and> tx_ready w) \<and> stack_ok s \<and> 0 \<notin> set (stack s) \<and>
     IfNum (Snp s) = n \<and> IssueUndi32Command (Snp s) \<noteq> HwUndi"

definition holding :: "u16 \<Rightarrow> u64 multiset \<Rightarrow> 'd undi snp_world \<Rightarrow> bool" where
  "holding n X s \<longleftrightarrow> online n s \<and> held s = X"

section \<open>What changes nothing\<close>

lemma nic_smem: "nic (s\<lparr>smem := m\<rparr>) = map_option (\<lambda>w. w\<lparr>mem := m\<rparr>) (nic s)"
  by (simp add: nic_def option.map_comp o_def adapter_world_def [abs_def])

lemma nic_dev: "nic (s\<lparr>senv := (senv s)\<lparr>undi_dev := d\<rparr>\<rparr>) = map_option (\<lambda>w. w\<lparr>dev := d\<rparr>) (nic s)"
  by (simp add: nic_def option.map_comp o_def adapter_world_def [abs_def])

lemma nic_snp: "IfNum d = IfNum (Snp s) \<Longrightarrow> nic (s\<lparr>Snp := d\<rparr>) = nic s"
  by (simp add: nic_def)

lemma nic_other [simp]: "nic (s\<lparr>tpl := x\<rparr>) = nic s" "nic (s\<lparr>sfault := b\<rparr>) = nic s"
  by (simp_all add: nic_def)

lemma tx_ready_simps [simp]: "tx_ready (w\<lparr>mem := m\<rparr>) = tx_ready w" "tx_ready (w\<lparr>dev := d\<rparr>) = tx_ready w"
  by (simp_all add: tx_ready_def)

lemma tx_content_simps [simp]: "tx_content (w\<lparr>mem := m\<rparr>) = tx_content w" "tx_content (w\<lparr>dev := d\<rparr>) = tx_content w"
  by (simp_all add: tx_abs_def)

lemma stack_simps [simp]:
  "stack (s\<lparr>smem := m\<rparr>) = stack s" "stack (s\<lparr>senv := e\<rparr>) = stack s" "stack (s\<lparr>tpl := x\<rparr>) = stack s"
  "stack (s\<lparr>sfault := b\<rparr>) = stack s" "stack_ok (s\<lparr>smem := m\<rparr>) = stack_ok s"
  "stack_ok (s\<lparr>senv := e\<rparr>) = stack_ok s" "stack_ok (s\<lparr>tpl := x\<rparr>) = stack_ok s"
  "stack_ok (s\<lparr>sfault := b\<rparr>) = stack_ok s"
  by (simp_all add: stack_def stack_ok_def)

lemma holding_simps [simp]:
  "holding n X (s\<lparr>smem := m\<rparr>) = holding n X s" "holding n X (s\<lparr>tpl := x\<rparr>) = holding n X s"
  "holding n X (s\<lparr>sfault := b\<rparr>) = holding n X s"
  "holding n X (s\<lparr>senv := (senv s)\<lparr>undi_dev := d\<rparr>\<rparr>) = holding n X s"
  by (cases "nic s"; simp add: holding_def online_def held_def in_ring_def nic_smem nic_dev)+

text \<open>An update of the driver structure that leaves its binding and the recycled buffers alone.\<close>

definition binding :: "SNP_DRIVER \<Rightarrow> u16 \<times> undi_entry_point \<times> u32 \<times> u32 \<times> u64 list" where
  "binding d = (IfNum d, IssueUndi32Command d, MaxRecycledTxBuf d, RecycledTxBufCount d, RecycledTxBuf d)"

lemma holding_snp: "binding d = binding (Snp s) \<Longrightarrow> holding n X (s\<lparr>Snp := d\<rparr>) = holding n X s"
  by (simp add: binding_def holding_def online_def held_def in_ring_def nic_snp stack_def stack_ok_def)

named_theorems flow "introduction rules for safe (holding n X)"

lemmas flow_base [flow] = ensures_return ensures_bind [OF ensures_gets] safe_bind ensures_if ensures_Let
  ensures_case_prod TrueI

lemma safe_upd_snp [flow]: "(\<And>d. binding (f d) = binding d) \<Longrightarrow> safe (holding n X) (upd_snp f)"
  by (simp add: ensures_def holding_snp)

lemma safe_upd_smem [flow]: "safe (holding n X) (upd_smem f)"
  by (simp add: ensures_def)

lemma safe_assert [flow]: "safe (holding n X) (snp_assert b)"
  by (simp add: ensures_def)

lemma safe_on_dev [flow]: "safe (holding n X) (call_snp (on_dev f))"
  by (auto simp: ensures_def call_snp_def on_dev_def split: prod.splits)

lemma safe_on_dev' [flow]: "safe (holding n X) (run_snp (on_dev' f))"
  by (auto simp: ensures_def run_snp_def on_dev'_def)

lemma safe_at_callback_tpl [flow]: "safe (holding n X) body \<Longrightarrow> safe (holding n X) (at_callback_tpl body)"
  unfolding at_callback_tpl_def RaiseTPL_def RestoreTPL_def
  by (rule flow | assumption | (simp add: ensures_def; fail))+

lemma safe_when_state [flow]: "safe (holding n X) body \<Longrightarrow> safe (holding n X) (when_state q body)"
  unfolding when_state_def by (rule flow | assumption)+

text \<open>A command that neither transmits nor reaps.\<close>

lemma issue_nic:
  assumes nic: "nic s = Some w" and num: "IFnum c = IfNum (Snp s)" and sw: "IssueUndi32Command (Snp s) \<noteq> HwUndi"
    and run: "run_state (issue_command (intel_platform E V) c) s = (c', t)"
  obtains st w' where "run_state (undi_call E c) w = ((st, c'), w')" "nic t = Some w'" "smem t = mem w'" "own t = own s"
  | "c' = fail_with PXE_STATCODE_INVALID_CDB c" "nic t = nic s" "smem t = smem s" "own t = own s" "IFnum c \<noteq> 0"
proof -
  obtain a where a: "IssueUndi32Command (Snp s) = SwUndi a" using sw by (cases "IssueUndi32Command (Snp s)") auto
  define s0 where "s0 = s\<lparr>Snp := (Snp s)\<lparr>Cdb := c\<rparr>\<rparr>"
  have nic0: "nic s0 = Some w" and num0: "IFnum c = IfNum (Snp s0)" and mem0: "smem s0 = smem s"
    using nic num by (simp_all add: s0_def nic_snp)
  obtain t0 where t0: "run_state (intel_entry E c) s0 = (c', t0)" "t = t0\<lparr>Snp := (Snp t0)\<lparr>Cdb := c'\<rparr>\<rparr>"
    using run a by (auto simp: issue_command_def intel_platform_def s0_def split: prod.splits)
  have own: "own t = own s" using keepsD [OF intel.issue_own run] by blast
  have eq: "nic t = nic t0" "smem t = smem t0" by (simp_all add: t0(2) nic_snp)
  from intel_entry_run [OF nic0 num0 t0(1)] show thesis
    using that own by (auto simp: eq nic mem0)
qed

lemma online_issue:
  assumes "online n s" and "IFnum c = n" and run: "run_state (issue_command (intel_platform E V) c) s = (c', t)"
  obtains w st w' where "nic s = Some w" "tx_ready w" "run_state (undi_call E c) w = ((st, c'), w')"
    "nic t = Some w'" "smem t = mem w'" "online n t" "stack t = stack s"
  | w where "nic s = Some w" "c' = fail_with PXE_STATCODE_INVALID_CDB c" "nic t = nic s" "smem t = smem s"
    "online n t" "stack t = stack s"
proof -
  obtain w where w: "nic s = Some w" "tx_ready w" using assms(1) by (auto simp: online_def)
  have on: "IFnum c = IfNum (Snp s)" "IssueUndi32Command (Snp s) \<noteq> HwUndi" using assms(1,2) by (simp_all add: online_def)
  have keep: "stack t = stack s \<and> (online n t \<longleftrightarrow> (\<exists>w. nic t = Some w \<and> tx_ready w))" if "own t = own s"
    using own_stack [OF that] own_fields(8,9) [OF that] assms(1) by (auto simp: online_def)
  show thesis
  proof (cases rule: issue_nic [OF w(1) on run])
    case (1 st w')
    then show thesis using that(1) [OF w 1(1-3)] keep tx_ready_call [OF w(2) 1(1)] by auto
  next
    case 2
    then show thesis using that(2) [OF w(1) 2(1-3)] keep w by auto
  qed
qed

lemma issue_plain [flow]:
  assumes "plain_command c" and "IFnum c = n"
  shows "safe (holding n X) (issue_command (intel_platform E V) c)"
proof -
  have "holding n X t" if "holding n X s" and run: "run_state (issue_command (intel_platform E V) c) s = (c', t)" for s c' t
  proof -
    have on: "online n s" using that(1) by (simp add: holding_def)
    show ?thesis
      using that(1)
      by (cases rule: online_issue [OF on assms(2) run])
        (auto simp: holding_def held_def in_ring_def dest: plain_call_tx [OF assms(1)])
  qed
  then show ?thesis by (auto simp: ensures_def split: prod.splits)
qed

lemma snp_cdb_fields [simp]:
  "IFnum (snp_cdb d op fl cs ca ds da) = IfNum d" "OpCode (snp_cdb d op fl cs ca ds da) = op"
  "OpFlags (snp_cdb d op fl cs ca ds da) = fl"
  by (simp_all add: snp_cdb_def)

lemma plain_commands [simp]:
  "plain_command c" if "OpCode c \<in> {1, 2, 3, 5, 6, 7, 9, 0xA, 0xB, 0xC, 0xD, 0xF, 0x11}"
  using that by (auto simp: plain_command_def mIntelgbeApiTable_def table_row_def)

lemma plain_status [simp]: "plain_command (snp_cdb d 0xE fl cs ca ds da)" if "fl AND 2 = 0"
  using that by (simp add: plain_command_def mIntelgbeApiTable_def table_row_def)

lemma holding_num: "holding n X s \<Longrightarrow> IfNum (Snp s) = n"
  by (simp add: holding_def online_def)

section \<open>The operations\<close>

lemma txrx_flow [flow]:
  "safe (holding n X) (allocate_txrx (intel_platform E V))" "safe (holding n X) (free_txrx (intel_platform E V))"
  unfolding allocate_txrx_def free_txrx_def
  by (rule flow | (simp add: intel_platform_def flow; fail) | (simp add: binding_def; fail))+

lemma start_stop_flow [flow]:
  "safe (holding n X) (PxeStart (intel_platform E V))" "safe (holding n X) (PxeStop (intel_platform E V))"
  "safe (holding n X) (PxeShutdown (intel_platform E V))" "safe (holding n X) (PxeReset (intel_platform E V))"
  unfolding PxeStart_def PxeStop_def PxeShutdown_def PxeReset_def
  by (rule flow | (auto simp: binding_def holding_num; fail))+

lemma status_opflags_plain [simp]: "status_opflags d p False AND 2 = 0"
  by (simp add: status_opflags_def Let_def )

lemma get_status_flow [flow]: "safe (holding n X) (PxeGetStatus (intel_platform E V) p False)"
  unfolding PxeGetStatus_def status_results_def
  by (rule flow | (auto simp: binding_def holding_num; fail))+

lemma init_flow [flow]: "safe (holding n X) (PxeInit (intel_platform E V) fl)"
  unfolding PxeInit_def
  by (rule flow | (auto simp: binding_def holding_num; fail))+

lemma data_flow [flow]:
  "safe (holding n X) (PxeRecvFilterEnable (intel_platform E V) en k l)"
  "safe (holding n X) (PxeRecvFilterDisable (intel_platform E V) x r)"
  "safe (holding n X) (PxeRecvFilterRead (intel_platform E V))"
  "safe (holding n X) (PxeGetStnAddr (intel_platform E V))"
  "safe (holding n X) (PxeIp2Mac (intel_platform E V) v6 ip m)"
  "safe (holding n X) (PxeNvDataRead (intel_platform E V) off k b)"
  "safe (holding n X) (PxeFillHeader (intel_platform E V) h hs b bs da sa pr)"
  "safe (holding n X) (PxeReceive (intel_platform E V) b k h sa da pr)"
  unfolding PxeRecvFilterEnable_def PxeRecvFilterDisable_def PxeRecvFilterRead_def
    PxeGetStnAddr_def PxeIp2Mac_def PxeNvDataRead_def PxeFillHeader_def PxeReceive_def
  by (rule flow | (auto simp: binding_def holding_num Let_def; fail))+

lemma set_address_flow [flow]: "safe (holding n X) (PxeSetStnAddr (intel_platform E V) a)"
  unfolding PxeSetStnAddr_def
  by (rule flow | (auto simp: binding_def holding_num; fail))+

lemma notify_flow [flow]: "safe (holding n X) (SnpWaitForPacketNotify (intel_platform E V) ev p)"
  unfolding SnpWaitForPacketNotify_def
  by (rule flow | (auto simp: binding_def holding_num; fail) | (simp add: intel_platform_def flow; fail))+

lemma initialize_flow [flow]: "safe (holding n X) (initialize_undi (intel_platform E V) st rx tx)"
  unfolding initialize_undi_def
  by (rule flow | (auto simp: binding_def holding_num; fail) | (simp add: intel_platform_def flow; fail))+

section \<open>Transmit\<close>

lemma transmit_cpb_addr: "TxBuffer_FrameAddr (write_transmit_cpb cpb b n m) cpb = b"
proof -
  have "load64 (store_bytes m' (cpb + 14) (le_bytes 2 v)) cpb = load64 m' cpb"
    "load64 (store_bytes m' (cpb + 12) (le_bytes 2 v)) cpb = load64 m' cpb"
    "load64 (store_bytes m' (cpb + 8) (le_bytes 4 x)) cpb = load64 m' cpb" for m' and v :: u16 and x :: u32
    unfolding load64_def by (subst load_store_other; simp)+
  then show ?thesis
    by (simp add: write_transmit_cpb_def TxBuffer_FrameAddr_def store16_def store32_def Let_def)
qed

lemma pxe_transmit_flow:
  assumes "holding n X s" and run: "run_state (PxeTransmit (intel_platform E V) b k) s = (st, t)"
  shows "holding n (if st = EFI_SUCCESS then X + {#b#} else X) t"
proof -
  let ?c = "snp_cdb (Snp s) 0x10 0 16 (Cpb (Snp s)) 0 0"
  define s1 where "s1 = s\<lparr>smem := write_transmit_cpb (Cpb (Snp s)) b k (smem s)\<rparr>"
  have "holding n X s1" using assms(1) by (simp add: s1_def)
  then have on: "online n s1" "IFnum ?c = n" and X: "held s1 = X"
    using holding_num [OF assms(1)] by (simp_all add: holding_def)
  obtain c' where issue: "run_state (issue_command (intel_platform E V) ?c) s1 = (c', t)"
    and st: "st = EFI_SUCCESS \<longleftrightarrow> StatCode c' = PXE_STATCODE_SUCCESS"
    using run by (auto simp: PxeTransmit_def s1_def split: prod.splits if_splits)
  show ?thesis
  proof (cases rule: online_issue [OF on issue])
    case (1 w sx w')
    have "mem w = smem s1" using 1(1) by (auto simp: nic_def adapter_world_def)
    then have "TxBuffer_FrameAddr (mem w) (CPBaddr ?c) = b"
      by (simp add: s1_def transmit_cpb_addr snp_cdb_def)
    with transmit_call [OF 1(2) _ _ 1(3)] show ?thesis
      using 1 X st by (auto simp: holding_def held_def in_ring_def)
  next
    case (2 w)
    then show ?thesis using X st by (auto simp: holding_def held_def in_ring_def)
  qed
qed

section \<open>Status\<close>

lemma le_addrs_zeros: "le_addrs (replicate n 0) = replicate (8 * n) 0"
proof (induction n)
  case (Suc n)
  have "le_bytes 8 (0 :: u64) = replicate 8 0" by (simp add: le_bytes_def map_replicate_const)
  then show ?case using Suc by (simp flip: replicate_add)
qed simp

lemma le_addrs_append: "le_addrs (as @ bs) = le_addrs as @ le_addrs bs"
  by (simp add: le_addrs_def)

lemma store_over_zeros:
  assumes "length as \<le> 32"
  shows "store_bytes (ZeroMem a 256 m) a (le_addrs as) = store_bytes m a (le_addrs (as @ replicate (32 - length as) 0))"
proof
  fix x
  let ?i = "unat (x - a)"
  have len: "8 * length as \<le> 256" using assms by simp
  show "store_bytes (ZeroMem a 256 m) a (le_addrs as) x =
      store_bytes m a (le_addrs (as @ replicate (32 - length as) 0)) x"
    using len by (auto simp: store_bytes_def ZeroMem_def le_addrs_append le_addrs_zeros nth_append)
qed

text \<open>What the 32 entries of the data block read after a status command.\<close>

lemma reported_buffers:
  assumes "length as \<le> 32" and m: "m' = store_bytes (ZeroMem (db + 8) 256 m) (db + 8) (le_addrs as)"
  shows "map (\<lambda>i. load64 m' (db + 8 + 8 * of_nat i)) [0..<32] = as @ replicate (32 - length as) 0"
proof (rule nth_equalityI)
  fix i assume "i < length (map (\<lambda>i. load64 m' (db + 8 + 8 * of_nat i)) [0..<32])"
  then have "i < 32" by simp
  then show "map (\<lambda>i. load64 m' (db + 8 + 8 * of_nat i)) [0..<32] ! i = (as @ replicate (32 - length as) 0) ! i"
    using load_le_addrs [of i "as @ replicate (32 - length as) 0" m "db + 8"] assms
    by (simp add: store_over_zeros)
qed (use assms in simp)

lemma load64_disjoint:
  assumes "disjoint_ranges a 256 p 4" and "i < 32"
  shows "load64 (store32 m p v) (a + 8 * of_nat i) = load64 m (a + 8 * of_nat i)"
proof -
  have "disjoint_ranges (a + of_nat (8 * i)) 8 (p + of_nat 0) 4"
    by (rule disjoint_sub [OF assms(1)]) (use assms(2) in simp_all)
  then show ?thesis unfolding load64_def store32_def by (simp add: load_store_other)
qed

lemma released_nonzero: "0 \<notin> set (map fst (take (tx_released n q) q))"
proof -
  have "take (tx_released n q) q = takeWhile (\<lambda>(a, done). done \<and> a \<noteq> 0) (take n q)"
    using takeWhile_eq_take [of "\<lambda>(a, done). done \<and> a \<noteq> 0" "take n q"] tx_released_le(1) [of n q]
    by (simp add: tx_released_def min_absorb1)
  then show ?thesis by (auto dest: set_takeWhileD)
qed

text \<open>
  A status command that reaps: the addresses leave the ring and enter the recycled buffers, unless the UNDI
  driver refuses the command.
\<close>

lemma stack_smem_snp: "stack (s\<lparr>Snp := d\<rparr>) = stack s" "stack_ok (s\<lparr>Snp := d\<rparr>) = stack_ok s" if "binding d = binding (Snp s)"
  using that by (simp_all add: binding_def stack_def stack_ok_def)

lemma fold_push_fields:
  "smem (fold push bs s) = smem s" "senv (fold push bs s) = senv s" "IfNum (Snp (fold push bs s)) = IfNum (Snp s)"
  "IssueUndi32Command (Snp (fold push bs s)) = IssueUndi32Command (Snp s)"
  by (induction bs arbitrary: s) (simp_all add: push_def)

lemma recycle_holding:
  assumes on: "online n s" and empty: "stack s = []" and db: "reported s [0..<MAX_XMIT_BUFFERS] = as @ replicate k 0"
    and nz: "0 \<notin> set as"
  obtains t where "run_state (recycle_all V [0..<MAX_XMIT_BUFFERS]) s = (True, t)" "online n t" "stack t = as"
    "in_ring t = in_ring s"
proof -
  let ?t = "fold push (reported s [0..<MAX_XMIT_BUFFERS]) s"
  have ok: "stack_ok s" using on by (simp add: online_def)
  have "length (stack s) + length [0..<MAX_XMIT_BUFFERS] \<le> unat (MaxRecycledTxBuf (Snp s))"
    using ok by (simp add: empty stack_ok_def)
  from recycle_all_run [OF ok this, of V] have run: "run_state (recycle_all V [0..<MAX_XMIT_BUFFERS]) s = (True, ?t)"
    and t: "stack_ok ?t" "stack ?t = filter (\<lambda>b. b \<noteq> 0) (as @ replicate k 0)"
    unfolding db empty by simp_all
  have "stack ?t = as" using nz by (auto simp: t(2) filter_id_conv)
  moreover have "nic ?t = nic s" by (simp add: nic_def fold_push_fields)
  ultimately show thesis using that [OF run] on t(1) nz by (simp add: online_def in_ring_def fold_push_fields)
qed

lemma status_results_holding:
  assumes on: "online n s" and empty: "stack s = []" and nz: "0 \<notin> set as"
    and db: "reported s [0..<MAX_XMIT_BUFFERS] = as @ replicate k 0"
    and flag: "as \<noteq> [] \<Longrightarrow> \<not> bit (StatFlags c) 5"
    and apart: "p = 0 \<or> disjoint_ranges (Db (Snp s) + 8) 256 p 4"
    and run: "run_state (status_results V p True c) s = (st, t)"
  shows "online n t \<and> held t = mset as + mset (in_ring s)"
proof -
  define s1 where "s1 = (if p = 0 then s else s\<lparr>smem := store32 (smem s) p (interrupt_status (StatFlags c))\<rparr>)"
  have on1: "online n s1" and st1: "stack s1 = []" and ring1: "in_ring s1 = in_ring s"
    using on empty by (cases "nic s"; auto simp: s1_def online_def in_ring_def nic_smem)+
  have db1: "reported s1 [0..<MAX_XMIT_BUFFERS] = as @ replicate k 0"
  proof -
    have "reported s1 [0..<MAX_XMIT_BUFFERS] = reported s [0..<MAX_XMIT_BUFFERS]"
      using apart by (auto simp: s1_def load64_disjoint)
    then show ?thesis by (simp only: db)
  qed
  have media: "online n (t1\<lparr>Snp := (Snp t1)\<lparr>Mode := m\<rparr>\<rparr>) = online n t1"
    "held (t1\<lparr>Snp := (Snp t1)\<lparr>Mode := m\<rparr>\<rparr>) = held t1" for m and t1 :: "'a undi snp_world"
    by (simp_all add: online_def held_def in_ring_def nic_snp stack_def stack_ok_def)
  have bit5: "StatFlags c AND PXE_STATFLAGS_GET_STATUS_NO_TXBUFS_WRITTEN = 0 \<longleftrightarrow> \<not> bit (StatFlags c) 5"
    using and_exp_eq_0_iff_not_bit [of "StatFlags c" 5] by simp
  obtain t1 where t1: "run_state (recycle_all V [0..<MAX_XMIT_BUFFERS]) s1 = (True, t1)" "online n t1" "stack t1 = as"
    "in_ring t1 = in_ring s1"
    using recycle_holding [OF on1 st1 db1 nz] by blast
  define t2 where "t2 = (if bit (StatFlags c) 5 then s1 else t1)"
  have "t = t2 \<or> (\<exists>m. t = t2\<lparr>Snp := (Snp t2)\<lparr>Mode := m\<rparr>\<rparr>)"
    using run t1(1) by (cases "p = 0") (auto simp: status_results_def bit5 s1_def t2_def split: if_splits)
  then have "online n t = online n t2" "held t = held t2" using media by auto
  moreover have "online n t2 \<and> held t2 = mset as + mset (in_ring s)"
    using t1 on1 st1 ring1 flag by (auto simp: t2_def held_def)
  ultimately show ?thesis by simp
qed

lemma get_status_reaps:
  assumes hold: "holding n X s" and empty: "stack s = []"
    and apart: "p = 0 \<or> disjoint_ranges (Db (Snp s) + 8) 256 p 4"
    and run: "run_state (PxeGetStatus (intel_platform E V) p True) s = (st, t)"
  shows "holding n X t"
proof -
  let ?db = "Db (Snp s)"
  let ?c = "snp_cdb (Snp s) 0xE (status_opflags (Snp s) p True) 0 0 264 ?db"
  define s1 where "s1 = s\<lparr>smem := ZeroMem (?db + 8) 256 (smem s)\<rparr>"
  have hold1: "holding n X s1" using hold by (simp add: s1_def)
  then have on1: "online n s1" "IFnum ?c = n" using holding_num [OF hold] by (simp_all add: holding_def)
  have st1: "stack s1 = []" using empty by (simp add: s1_def)
  obtain c' t1 where issue: "run_state (issue_command (intel_platform E V) ?c) s1 = (c', t1)" by fastforce
  have rest: "(st, t) = (if StatCode c' \<noteq> PXE_STATCODE_SUCCESS then (EFI_DEVICE_ERROR, t1)
      else run_state (status_results (intel_platform E V) p True c') t1)"
    using run issue by (simp add: PxeGetStatus_def s1_def split: if_splits)
  have db1: "Db (Snp t1) = ?db" using own_fields(2) [OF keepsD [OF intel.issue_own issue]] by (simp add: s1_def)
  have flag: "bit (OpFlags ?c) 1" by (simp add: status_opflags_def Let_def bit_simps)
  show ?thesis
  proof (cases rule: online_issue [OF on1 issue])
    case (1 w sx w')
    let ?k = "tx_released 32 (tx_abs w)" and ?as = "map fst (take (tx_released 32 (tx_abs w)) (tx_abs w))"
    have memw: "mem w = smem s1" using 1(1) by (auto simp: nic_def adapter_world_def)
    note reap = reap_call [OF 1(2) _ _ flag 1(3) refl]
    show ?thesis
    proof (cases "StatCode c' = PXE_STATCODE_SUCCESS")
      case False
      then show ?thesis using reap 1 rest hold1 by (auto simp: holding_def held_def in_ring_def snp_cdb_def)
    next
      case True
      have k: "length ?as \<le> 32" using tx_released_le(1) [of 32 "tx_abs w"] by simp
      have w': "tx_abs w' = drop ?k (tx_abs w)" "?k \<noteq> 0 \<longrightarrow> \<not> bit (StatFlags c') 5"
        "smem t1 = store_bytes (ZeroMem (?db + 8) 256 (smem s)) (?db + 8) (le_addrs ?as)"
        using reap True 1 memw by (simp_all add: snp_cdb_def s1_def)
      have rep: "reported t1 [0..<MAX_XMIT_BUFFERS] = ?as @ replicate (32 - length ?as) 0"
        using reported_buffers [OF k w'(3)] by (simp add: db1)
      have apart1: "p = 0 \<or> disjoint_ranges (Db (Snp t1) + 8) 256 p 4" using apart by (simp add: db1)
      have run1: "run_state (status_results (intel_platform E V) p True c') t1 = (st, t)" using rest True by simp
      have flag1: "?as \<noteq> [] \<Longrightarrow> \<not> bit (StatFlags c') 5" using w'(2) by auto
      have st: "stack t1 = []" using 1 st1 by simp
      from status_results_holding [OF _ st released_nonzero rep flag1 apart1 run1] 1
      have "online n t" "held t = mset ?as + mset (in_ring t1)" by simp_all
      moreover have "tx_content w = ?as @ in_ring t1"
        using 1 by (simp add: in_ring_def w'(1) flip: map_append)
      moreover have "X = mset (tx_content w)" using hold1 1 st1 by (simp add: holding_def held_def in_ring_def)
      ultimately show ?thesis by (simp only: holding_def mset_append)
    qed
  next
    case (2 w)
    then show ?thesis using rest hold1 by (simp add: holding_def held_def in_ring_def)
  qed
qed

text \<open>The address handed back is taken from the end of the recycled buffers.\<close>

lemma pop_holding:
  assumes hold: "holding n X s" and run: "run_state (pop_recycled p) s = ((), t)"
  shows "\<exists>Y. holding n Y t \<and> X = Y + (if load64 (smem t) p = 0 then {#} else {#load64 (smem t) p#})"
proof (cases "RecycledTxBufCount (Snp s) = 0")
  case True
  then show ?thesis using hold run by (auto simp: pop_recycled_def)
next
  case False
  let ?n = "RecycledTxBufCount (Snp s)"
  let ?b = "RecycledTxBuf (Snp s) ! unat (?n - 1)"
  define u where "u = s\<lparr>Snp := (Snp s)\<lparr>RecycledTxBufCount := ?n - 1\<rparr>\<rparr>"
  have t: "t = u\<lparr>smem := store64 (smem s) p ?b\<rparr>" using run False by (auto simp: pop_recycled_def u_def Let_def)
  have on: "online n s" and X: "held s = X" using hold by (simp_all add: holding_def)
  have n: "unat ?n = Suc (unat (?n - 1))" using False by (simp add: unat_minus_one unat_gt_0 Suc_pred)
  have "unat ?n \<le> length (RecycledTxBuf (Snp s))" using on by (simp add: online_def stack_ok_def word_le_nat_alt)
  then have st: "stack s = stack u @ [?b]" using n by (simp add: stack_def u_def take_Suc_conv_app_nth)
  have nic: "nic u = nic s" by (simp add: u_def nic_snp)
  have "?n - 1 \<le> ?n" using n by (simp add: word_le_nat_alt)
  then have "stack_ok u" using on by (auto simp: online_def stack_ok_def u_def)
  then have "online n u" using on st nic by (simp add: online_def u_def)
  moreover have "held u + {#?b#} = X" using X st nic by (simp add: held_def in_ring_def)
  ultimately have "holding n (held u) t" "X = held u + {#?b#}" by (simp_all add: t holding_def [of n "held u" u])
  moreover have "?b \<noteq> 0" "load64 (smem t) p = ?b" using on st by (auto simp: online_def t)
  ultimately show ?thesis by auto
qed

section \<open>Every call of the protocol\<close>

definition sent :: "snp_call \<Rightarrow> EFI_STATUS \<Rightarrow> u64 multiset" where
  "sent call st = (case call of
     CallTransmit p h n b src dst pr \<Rightarrow> if st = EFI_SUCCESS then {#b#} else {#}
   | _ \<Rightarrow> {#})"

text \<open>What the client finds at \<^verbatim>\<open>*TxBuf\<close> after a status call that reached the UNDI.\<close>

definition returned :: "snp_call \<Rightarrow> 'e snp_world \<Rightarrow> 'e snp_world \<Rightarrow> u64 multiset" where
  "returned call s t = (case call of
     CallGetStatus p i b \<Rightarrow>
       if p \<noteq> 0 \<and> b \<noteq> 0 \<and> snp_state s = EfiSimpleNetworkInitialized \<and> load64 (smem t) b \<noteq> 0
       then {#load64 (smem t) b#} else {#}
   | _ \<Rightarrow> {#})"

text \<open>The client does not direct the interrupt status into the driver's own data block.\<close>

definition call_apart :: "snp_call \<Rightarrow> 'e snp_world \<Rightarrow> bool" where
  "call_apart call s = (case call of
     CallGetStatus p i b \<Rightarrow> i = 0 \<or> disjoint_ranges (Db (Snp s) + 8) 256 i 4
   | _ \<Rightarrow> True)"

lemma at_callback_run:
  assumes "run_state (at_callback_tpl body) s = (st, t)"
  obtains t1 where "run_state body (s\<lparr>tpl := TPL_CALLBACK\<rparr>) = (st, t1)" "t = t1\<lparr>tpl := tpl s\<rparr>"
  using assms by (auto simp: at_callback_tpl_def RaiseTPL_def RestoreTPL_def split: prod.splits)

lemma transmit_flow:
  assumes hold: "holding n X s"
    and run: "run_state (SnpUndi32Transmit (intel_platform E V) p h k b src dst pr) s = (st, t)"
  shows "holding n (X + sent (CallTransmit p h k b src dst pr) st) t"
proof (cases "p = 0 \<or> snp_state s \<noteq> EfiSimpleNetworkInitialized")
  case True
  then show ?thesis
    using hold run by (auto simp: SnpUndi32Transmit_def sent_def when_state_def elim!: at_callback_run split: if_splits)
next
  case False
  then obtain t1 where body: "run_state (do {
        d \<leftarrow> snp;
        let hdr = (ucast (MediaHeaderSize (Mode d)) :: u64);
        if b = 0 then ret EFI_INVALID_PARAMETER
        else if k < hdr then ret EFI_BUFFER_TOO_SMALL
        else if h \<noteq> 0 \<and> (h \<noteq> hdr \<or> dst = 0 \<or> pr = 0) then ret EFI_INVALID_PARAMETER
        else do {
          st \<leftarrow> (if h \<noteq> 0 then PxeFillHeader (intel_platform E V) b h (b + h) (k - h) dst src pr
                else ret EFI_SUCCESS);
          if EFI_ERROR st then ret st else PxeTransmit (intel_platform E V) b k } })
      (s\<lparr>tpl := TPL_CALLBACK\<rparr>) = (st, t1)" and t: "t = t1\<lparr>tpl := tpl s\<rparr>"
    using run by (auto simp: SnpUndi32Transmit_def when_state_def elim!: at_callback_run)
  have fill: "safe (holding n X) (if h \<noteq> 0 then PxeFillHeader (intel_platform E V) b h (b + h) (k - h) dst src pr
      else ret EFI_SUCCESS)" by (rule flow)+
  have hold1: "holding n X (s\<lparr>tpl := TPL_CALLBACK\<rparr>)" using hold by simp
  obtain r u where u: "run_state (if h \<noteq> 0 then PxeFillHeader (intel_platform E V) b h (b + h) (k - h) dst src pr
      else ret EFI_SUCCESS) (s\<lparr>tpl := TPL_CALLBACK\<rparr>) = (r, u)" by fastforce
  have "holding n X u" using ensuresD [OF fill hold1 u] by simp
  then have "holding n (X + (if st = EFI_SUCCESS then {#b#} else {#})) t1"
    using body u hold1 pxe_transmit_flow [of n X u E V b k st t1]
    by (auto simp: Let_def split: if_splits dest: EFI_ERROR_nonzero)
  then show ?thesis by (simp add: t sent_def)
qed

lemma get_status_flow_call:
  assumes hold: "holding n X s" and apart: "i = 0 \<or> disjoint_ranges (Db (Snp s) + 8) 256 i 4"
    and run: "run_state (SnpUndi32GetStatus (intel_platform E V) p i b) s = (st, t)"
  shows "\<exists>Y. holding n Y t \<and> X = Y + returned (CallGetStatus p i b) s t"
proof (cases "p = 0 \<or> (i = 0 \<and> b = 0) \<or> snp_state s \<noteq> EfiSimpleNetworkInitialized")
  case True
  then show ?thesis
    using hold run
    by (auto simp: SnpUndi32GetStatus_def returned_def when_state_def elim!: at_callback_run split: if_splits)
next
  case False
  let ?s = "s\<lparr>tpl := TPL_CALLBACK\<rparr>"
  let ?reap = "RecycledTxBufCount (Snp s) = 0 \<and> b \<noteq> 0"
  obtain u t1 where u: "run_state (PxeGetStatus (intel_platform E V) i ?reap) ?s = (st, u)"
    and t1: "run_state (if b \<noteq> 0 then pop_recycled b else ret ()) u = ((), t1)" and t: "t = t1\<lparr>tpl := tpl s\<rparr>"
    using run False
    by (auto simp: SnpUndi32GetStatus_def when_state_def elim!: at_callback_run split: prod.splits)
  have hold1: "holding n X ?s" using hold by simp
  have "holding n X u"
  proof (cases ?reap)
    case True
    then have "stack ?s = []" using hold by (simp add: holding_def online_def stack_empty_iff)
    then show ?thesis using get_status_reaps [OF hold1 _ _ u [unfolded Eq_TrueI [OF True]]] apart by simp
  next
    case False
    show ?thesis using ensuresD [OF get_status_flow hold1 u [unfolded Eq_FalseI [OF False]]] by simp
  qed
  then show ?thesis
    using t1 t False pop_holding [of n X u b t1]
    by (cases "b = 0") (auto simp: returned_def)
qed

lemma other_calls_flow:
  "safe (holding n X) (SnpUndi32Start (intel_platform E V) p)" "safe (holding n X) (SnpUndi32Stop (intel_platform E V) p)"
  "safe (holding n X) (SnpUndi32Initialize (intel_platform E V) p rx tx)"
  "safe (holding n X) (SnpUndi32Reset (intel_platform E V) p x)"
  "safe (holding n X) (SnpUndi32Shutdown (intel_platform E V) p)"
  "safe (holding n X) (SnpUndi32ReceiveFilters (intel_platform E V) p en dis r k l)"
  "safe (holding n X) (SnpUndi32StationAddress (intel_platform E V) p r a)"
  "safe (holding n X) (SnpUndi32Statistics (intel_platform E V) p r k a)"
  "safe (holding n X) (SnpUndi32McastIpToMac (intel_platform E V) p v6 ip m)"
  "safe (holding n X) (SnpUndi32NvData (intel_platform E V) p rw off k b)"
  "safe (holding n X) (SnpUndi32Receive (intel_platform E V) p h k b src dst pr)"
  unfolding SnpUndi32Start_def SnpUndi32Stop_def SnpUndi32Initialize_def SnpUndi32Reset_def SnpUndi32Shutdown_def
    SnpUndi32ReceiveFilters_def apply_filters_def SnpUndi32StationAddress_def SnpUndi32Statistics_def
    SnpUndi32McastIpToMac_def SnpUndi32NvData_def SnpUndi32Receive_def
  by (rule flow | (auto simp: binding_def holding_num; fail) | (simp add: intel_platform_def flow; fail))+

lemma call_flow:
  assumes hold: "holding n X s" and apart: "call_apart call s"
    and run: "run_state (run_call (intel_platform E V) call) s = (st, t)"
  shows "\<exists>Y. holding n Y t \<and> X + sent call st = Y + returned call s t"
proof (cases call)
  case (CallGetStatus p i b)
  then show ?thesis
    using get_status_flow_call [OF hold _ run [unfolded CallGetStatus run_call_def, simplified]] apart
    by (simp add: call_apart_def sent_def)
next
  case (CallTransmit p h k b src dst pr)
  then show ?thesis
    using transmit_flow [OF hold run [unfolded CallTransmit run_call_def, simplified]] by (auto simp: returned_def)
next
  case (Notify ev p)
  then show ?thesis
    using ensuresD [OF notify_flow hold] run
    by (auto simp: run_call_def sent_def returned_def split: prod.splits)
qed (use run ensuresD [OF other_calls_flow(1) hold] ensuresD [OF other_calls_flow(2) hold]
    ensuresD [OF other_calls_flow(3) hold] ensuresD [OF other_calls_flow(4) hold] ensuresD [OF other_calls_flow(5) hold]
    ensuresD [OF other_calls_flow(6) hold] ensuresD [OF other_calls_flow(7) hold] ensuresD [OF other_calls_flow(8) hold]
    ensuresD [OF other_calls_flow(9) hold] ensuresD [OF other_calls_flow(10) hold]
    ensuresD [OF other_calls_flow(11) hold] in \<open>auto simp: run_call_def sent_def returned_def\<close>)

end
