(* ===== verification/Snp_Session.thy ===== *)
theory Snp_Session
  imports Snp_Flow Undi_Init
begin

text \<open>
  Sessions of the Simple Network Protocol over this UNDI driver: any sequence of calls, with the controller,
  the network and the client at work in between.
\<close>

section \<open>Conservation\<close>

text \<open>
  A component that takes items in and gives items out.  Unlike a queue it promises no order, only that it
  neither loses nor invents an item.
\<close>

locale conserving =
  fixes inv :: "'s \<Rightarrow> bool" and content :: "'s \<Rightarrow> 'a multiset"
    and step :: "'s \<Rightarrow> 'a multiset \<times> 'a multiset \<Rightarrow> 's \<Rightarrow> bool"
  assumes step_inv: "inv s \<Longrightarrow> step s e t \<Longrightarrow> inv t"
    and step_balance: "inv s \<Longrightarrow> step s (taken, given) t \<Longrightarrow> content s + taken = content t + given"
begin

lemma trace_balance:
  "trace step s es t \<Longrightarrow> inv s \<Longrightarrow>
     inv t \<and> content s + sum_list (map fst es) = content t + sum_list (map snd es)"
proof (induction rule: trace.induct)
  case (trace_cons s e t es u)
  then have t: "inv t" and one: "content s + fst e = content t + snd e"
    using step_inv step_balance [of s "fst e" "snd e" t] by simp_all
  have "content s + sum_list (map fst (e # es)) = (content s + fst e) + sum_list (map fst es)"
    by (simp add: add.assoc)
  also have "\<dots> = (content t + sum_list (map fst es)) + snd e" unfolding one by (simp add: ac_simps)
  also have "content t + sum_list (map fst es) = content u + sum_list (map snd es)"
    using trace_cons.IH [OF t] by simp
  also have "(content u + sum_list (map snd es)) + snd e = content u + sum_list (map snd (e # es))"
    by (simp add: ac_simps)
  finally show ?case using trace_cons.IH [OF t] by blast
qed simp

text \<open>Starting empty, what was given out was taken in before.\<close>

lemma given_was_taken:
  "trace step s es t \<Longrightarrow> inv s \<Longrightarrow> content s = {#} \<Longrightarrow> sum_list (map snd es) \<subseteq># sum_list (map fst es)"
  using trace_balance [of s es t] by (simp add: mset_subset_eq_add_right)

end

section \<open>The steps\<close>

inductive flow_step ::
  "'d env \<Rightarrow> 'd snp_env \<Rightarrow> 'd undi snp_world \<Rightarrow> u64 multiset \<times> u64 multiset \<Rightarrow> 'd undi snp_world \<Rightarrow> bool"
  for E V where
  protocol_call: "run_state (run_call (intel_platform E V) call) s = (st, t) \<Longrightarrow> call_apart call s \<Longrightarrow>
    flow_step E V s (sent call st, returned call s t) t"
| surroundings: "nic s = Some w \<Longrightarrow> session_step E w None w' \<Longrightarrow> nic t = Some w' \<Longrightarrow> Snp t = Snp s \<Longrightarrow>
    flow_step E V s ({#}, {#}) t"

inductive_cases session_step_NoneE: "session_step E w None w'"

lemma surroundings_tx:
  assumes "session_step E w None w'" and "tx_ready w"
  shows "tx_ready w' \<and> tx_content w' = tx_content w"
proof -
  have ok: "adapter_ok w'" using session_step_ok [OF assms(1)] assms(2) by (simp add: tx_ready_def)
  have "tx_queue (GigAdapter w) \<noteq> []" using assms(2) by (auto simp: tx_ready_def adapter_inv_def gig_ok_def one_queue_def)
  then have "undi_state w' = undi_state w \<and> tx_content w' = tx_content w"
    by (auto intro: session_step_NoneE [OF assms(1)] simp: map_fst_tx_abs)
  then show ?thesis using ok assms(2) by (simp add: tx_ready_def)
qed

lemma flow_step_balance:
  assumes "online n s" and "flow_step E V s e t"
  shows "online n t \<and> held s + fst e = held t + snd e"
  using assms(2)
proof cases
  case (protocol_call call st)
  have "holding n (held s) s" using assms(1) by (simp add: holding_def)
  from call_flow [OF this protocol_call(3,2)] show ?thesis using protocol_call(1) by (auto simp: holding_def)
next
  case (surroundings w w')
  then show ?thesis
    using surroundings_tx [OF surroundings(3)] assms(1)
    by (auto simp: online_def held_def in_ring_def stack_def stack_ok_def)
qed

interpretation buffers: conserving "online n" held "flow_step E V" for n E V
  by unfold_locales (auto dest: flow_step_balance)

text \<open>A queue conserves its items.\<close>

sublocale fifo_channel \<subseteq> bag: conserving inv "\<lambda>s. mset (content s)"
    "\<lambda>s e t. \<exists>f. step s f t \<and> e = (mset (entered [f]), mset (departed [f]))"
proof
  fix s e t taken given assume inv: "inv s"
  show "inv t" if "\<exists>f. step s f t \<and> e = (mset (entered [f]), mset (departed [f]))"
    using that inv step_inv by blast
  assume "\<exists>f. step s f t \<and> (taken, given) = (mset (entered [f]), mset (departed [f]))"
  then obtain f where "trace step s [f] t" "taken = mset (entered [f])" "given = mset (departed [f])"
    by (auto intro: trace.intros)
  then show "mset (content s) + taken = mset (content t) + given"
    using trace_history [of s "[f]" t] inv by (metis mset_append union_commute)
qed

section \<open>A bound interface\<close>

text \<open>The two drivers over an adapter, with the structures as \<^verbatim>\<open>SimpleNetworkDriverStart\<close> leaves them.\<close>

definition fresh_mode :: EFI_SIMPLE_NETWORK_MODE where
  "fresh_mode = \<lparr>Mode_State = EfiSimpleNetworkInitialized, HwAddressSize = 6, MediaHeaderSize = 14,
     MaxPacketSize = 1500, NvRamSize = 0, NvRamAccessSize = 0, ReceiveFilterMask = 0x1F,
     ReceiveFilterSetting = 0, MaxMCastFilterCount = 16, MCastFilterCount = 0, MCastFilter = replicate 512 0,
     CurrentAddress = replicate 32 0, BroadcastAddress = replicate 32 0, PermanentAddress = replicate 32 0,
     IfType = 1, MacAddressChangeable = True, MultipleTxSupported = True, MediaPresentSupported = True,
     MediaPresent = True\<rparr>"

definition fresh_driver :: SNP_DRIVER where
  "fresh_driver = \<lparr>Snp_Addr = 0x9000, Snp_Lock = EfiLockReleased, Snp_OwnerTpl = 0, WaitForPacket = 0,
     Mode = fresh_mode, IssueUndi32Command = SwUndi 0x400000, IsSwUndi = True, IfNum = 0, TxRxBufferSize = 0,
     TxRxBuffer = 0, Snp_PciIo = 1, IoBarIndex = 1, MemoryBarIndex = 0, Cdb = zero_cdb, Cpb = 0x200000,
     Db = 0x201000, InitInfo_Addr = 0x9800, MapList = replicate MAX_MAP_LENGTH \<lparr>VirtualAddress = 0, MapCookie = 0\<rparr>, ExitBootServicesEvent = 0,
     MediaStatusSupported = True, CableDetectSupported = True, RecycledTxBuf = replicate 32 0,
     RecycledTxBufPtr = 0x300000, MaxRecycledTxBuf = 32, RecycledTxBufCount = 0\<rparr>"

definition quiet_services :: "'e snp_env" where
  "quiet_services = \<lparr>undi_entry = \<lambda>a. ret, callback_address = \<lambda>_. 0,
     snp_allocate_buffer = \<lambda>p n e. ((EFI_SUCCESS, 0x600000), e), snp_free_buffer = \<lambda>p n a e. e,
     snp_create_event = \<lambda>e. ((EFI_SUCCESS, 1), e), snp_close_event = \<lambda>ev e. e, snp_signal_event = \<lambda>ev e. e,
     snp_allocate_pool = \<lambda>n e. ((0x700000, \<lambda>_. 0), e), snp_free_pool = \<lambda>a e. e\<rparr>"

definition bound_world :: "'d world \<Rightarrow> 'd undi snp_world" where
  "bound_world w = \<lparr>Snp = fresh_driver, smem = mem w, tpl = 4,
     senv = (initial_undi (dev w) (mem w))\<lparr>undi_fault := fault w, mIntelgbeUndi32DeviceList := [1],
       private_data := [1 \<mapsto> zero_private\<lparr>NicInfo := GigAdapter w\<rparr>]\<rparr>, sfault = False\<rparr>"

lemma nic_bound: "nic (bound_world w) = Some w"
  by (simp add: nic_def bound_world_def fresh_driver_def initial_undi_def adapter_world_def)

lemma bound_online: "tx_ready w \<Longrightarrow> online 0 (bound_world w)"
  using nic_bound [of w]
  by (simp add: online_def stack_def stack_ok_def) (simp add: bound_world_def fresh_driver_def)

lemma held_bound: "held (bound_world w) = mset (tx_content w)"
  using nic_bound [of w]
  by (simp add: held_def in_ring_def stack_def) (simp add: bound_world_def fresh_driver_def)

lemma boot_ready: "\<exists>w :: sim_bus world. tx_ready w \<and> tx_abs w = []"
proof -
  obtain w where run: "run_state (IntelgbeFirstTimeInit boot_env) boot_world = (EFI_SUCCESS, w)"
    using boot_runs by blast
  have init: "\<not> fault boot_world"
    "tx_queue (GigAdapter boot_world) = [zero_tx_queue\<lparr>tx_ring := replicate DEFAULT_TX_DESCRIPTORS zero_desc\<rparr>]"
    "rx_queue (GigAdapter boot_world) = [zero_rx_queue\<lparr>rx_ring := replicate DEFAULT_RX_DESCRIPTORS zero_desc,
       rx_buff := 0x100000, dma_rx_buff := 0x100000\<rparr>]"
    "length (TxBufferMappings (GigAdapter boot_world)) = DEFAULT_TX_DESCRIPTORS"
    by (simp_all add: boot_world_def ring_world_def zero_adapter_def del: replicate.simps)
  have "tx_inv w" "rx_inv w" "tx_abs w = []"
    using rings_established [OF run init(2,3) _ init(4)] by (simp_all add: zero_tx_queue_def)
  moreover have "adapter_inv False w" using first_time_init_ok [OF run init(2,3,1)] .
  ultimately have "adapter_ok w" "tx_abs w = []" using adapter_okI by blast+
  then have "tx_ready (w\<lparr>GigAdapter := (GigAdapter w)\<lparr>State := 2\<rparr>\<rparr>) \<and>
      tx_abs (w\<lparr>GigAdapter := (GigAdapter w)\<lparr>State := 2\<rparr>\<rparr>) = []"
    by (simp add: tx_ready_def adapter_inv_def gig_ok_def one_queue_def tx_abs_def Let_def)
  then show ?thesis by blast
qed

section \<open>Properties\<close>

text \<open>
  C4.  Conservation of transmit buffers through both drivers.  From any moment at which the adapter is
  initialised, over every sequence of protocol calls with whatever parameters, and whatever the controller,
  the network and the client do in between: the buffers in the transmit ring and among the recycled ones,
  with those accepted by \<^verbatim>\<open>Transmit\<close>, are those still there with those handed back by \<^verbatim>\<open>GetStatus\<close>.  No buffer is
  lost on the way or handed back twice.
\<close>

theorem snp_buffers_conserved:
  assumes "online n s" and "trace (flow_step E V) s es t"
  shows "online n t \<and> held s + sum_list (map fst es) = held t + sum_list (map snd es)"
  using buffers.trace_balance [OF assms(2,1)] .

lemma boot_flow:
  "\<exists>(w :: sim_bus world) st t. online 0 (bound_world w) \<and> held (bound_world w) = {#} \<and>
     run_state (run_call (intel_platform E V) call) (bound_world w) = (st, t)"
proof -
  obtain w :: "sim_bus world" where "tx_ready w" "tx_abs w = []" using boot_ready by blast
  then have "online 0 (bound_world w)" "held (bound_world w) = {#}" by (simp_all add: bound_online held_bound)
  then show ?thesis by (metis prod.exhaust)
qed

theorem snp_buffers_conserved_witness:
  "\<exists>(w :: sim_bus world) st t.
     trace (flow_step boot_env quiet_services) (bound_world w) [(sent (CallTransmit 1 0 64 0x5000 0 0 0) st, {#})] t \<and>
     held t = (if st = EFI_SUCCESS then {#0x5000#} else {#})"
proof -
  let ?call = "CallTransmit 1 0 64 0x5000 0 0 0" and ?step = "flow_step boot_env quiet_services"
  obtain w :: "sim_bus world" and st t where on: "online 0 (bound_world w)" "held (bound_world w) = {#}"
    and run: "run_state (run_call (intel_platform boot_env quiet_services) ?call) (bound_world w) = (st, t)"
    using boot_flow by blast
  have "?step (bound_world w) (sent ?call st, returned ?call (bound_world w) t) t"
    using run by (rule flow_step.protocol_call) (simp add: call_apart_def)
  then have tr: "trace ?step (bound_world w) [(sent ?call st, {#})] t"
    by (simp add: returned_def trace_cons trace_nil)
  from snp_buffers_conserved [OF on(1) tr] on(2) tr show ?thesis
    by (intro exI [of _ w] exI [of _ st] exI [of _ t]) (simp add: sent_def)
qed

text \<open>Every call restores the task priority it found.\<close>

context undi_client
begin

lemma notify_tpl: "keeps tpl (SnpWaitForPacketNotify V ev p)"
proof -
  have [frame]: "keeps tpl (issue_command V c)" for c
    by (rule keeps_own [OF _ issue_own]) (simp add: own_def)
  show ?thesis unfolding SnpWaitForPacketNotify_def by (auto intro!: frame)
qed

lemma call_tpl: "keeps tpl (run_call V call)"
  by (cases call)
    (auto simp: run_call_def SnpUndi32Start_def SnpUndi32Stop_def SnpUndi32Initialize_def SnpUndi32Reset_def
      SnpUndi32Shutdown_def SnpUndi32ReceiveFilters_def SnpUndi32StationAddress_def SnpUndi32Statistics_def
      SnpUndi32McastIpToMac_def SnpUndi32NvData_def SnpUndi32GetStatus_def SnpUndi32Transmit_def
      SnpUndi32Receive_def intro!: at_callback_restores keeps_return keeps_bind notify_tpl)

end

text \<open>
  C16.  The state machine of the protocol, over any UNDI whose entry point leaves the driver's own fields alone.
  Every call ends with the task priority it started with; only \<^verbatim>\<open>Start\<close>, \<^verbatim>\<open>Stop\<close>, \<^verbatim>\<open>Initialize\<close> and \<^verbatim>\<open>Shutdown\<close>
  change the state, the first three exactly when they report success; and a call made in another state than
  the one it needs is refused with an error and changes nothing.
\<close>

theorem snp_state_machine:
  assumes "\<And>a c. keeps own (undi_entry V a c)"
    and "\<And>e. fst (fst (snp_create_event V e)) = EFI_SUCCESS \<or> EFI_ERROR (fst (fst (snp_create_event V e)))"
    and run: "run_state (run_call V call) s = (st, t)"
  shows "snp_state t = snp_next call st (snp_state s) \<and> tpl t = tpl s \<and>
    (\<not> snp_wants call (snp_state s) \<longrightarrow> EFI_ERROR st \<and> t = s)"
proof -
  have V: "undi_client V" using assms(1) by (rule undi_client.intro)
  have "snp_state t = snp_next call st (snp_state s)"
    using undi_client.call_wp [OF V assms(2), of call s] run by (simp add: wp_def)
  moreover have "tpl t = tpl s" using keepsD [OF undi_client.call_tpl [OF V] run] .
  ultimately show ?thesis using call_refused [of call s V] run by auto
qed

text \<open>The contract holds of this UNDI: there, starting an initialised interface is refused.\<close>

theorem snp_state_machine_witness:
  "\<exists>st t. run_state (run_call (intel_platform boot_env quiet_services) (CallStart 1)) (bound_world boot_world) = (st, t) \<and>
     snp_state t = EfiSimpleNetworkInitialized \<and> EFI_ERROR st \<and> t = bound_world boot_world"
proof -
  let ?V = "intel_platform boot_env quiet_services"
  obtain st t where run: "run_state (run_call ?V (CallStart 1)) (bound_world boot_world) = (st, t)"
    by (metis prod.exhaust)
  have state: "snp_state (bound_world boot_world) = EfiSimpleNetworkInitialized"
    by (simp add: bound_world_def fresh_driver_def fresh_mode_def)
  have "fst (fst (snp_create_event ?V e)) = EFI_SUCCESS \<or> EFI_ERROR (fst (fst (snp_create_event ?V e)))" for e
    by (simp add: intel_platform_def quiet_services_def on_dev_def)
  from snp_state_machine [OF intel.entry_keeps this run] run state show ?thesis
    by (auto simp: snp_next_def snp_wants_def)
qed

text \<open>
  C33.  \<^verbatim>\<open>WaitForPacket\<close> is never signalled over this UNDI: the notification function asks for the status with a data block of
  8 bytes, which \<^verbatim>\<open>IntelgbeUndiStatus\<close> refuses, so that neither the event services nor the hardware are reached.
\<close>

theorem wait_for_packet_silent:
  assumes "online n s" and run: "run_state (SnpWaitForPacketNotify (intel_platform E V) ev p) s = (r, t)"
  shows "undi_dev (senv t) = undi_dev (senv s)"
proof (cases "ev = 0 \<or> p = 0 \<or> snp_state s \<noteq> EfiSimpleNetworkInitialized")
  case True
  then show ?thesis using run by (auto simp: SnpWaitForPacketNotify_def split: if_splits)
next
  case False
  let ?c = "snp_cdb (Snp s) 0xE 0 0 0 8 (Db (Snp s))"
  define s1 where "s1 = s\<lparr>smem := ZeroMem (Db (Snp s)) 8 (smem s)\<rparr>"
  have on: "online n s1" "IFnum ?c = n"
    using assms(1) by (auto simp: s1_def online_def nic_smem)
  obtain c' t1 where issue: "run_state (issue_command (intel_platform E V) ?c) s1 = (c', t1)" by fastforce
  have devs: "undi_dev (senv u) = dev w" if "nic u = Some w" for u :: "'a undi snp_world" and w
    using that by (auto simp: nic_def adapter_world_def)
  have "StatCode c' \<noteq> PXE_STATCODE_SUCCESS \<and> undi_dev (senv t1) = undi_dev (senv s1)"
  proof (cases rule: online_issue [OF on issue])
    case (1 w st w')
    have "tab_ApiPtr (api_row ?c) = Status" by (simp add: mIntelgbeApiTable_def table_row_def)
    then have "StatCode c' \<noteq> PXE_STATCODE_SUCCESS \<and> dev w' = dev w"
      using 1(3) by (auto simp: undi_call_run call_api_def status_run_split snp_cdb_def split: if_splits prod.splits)
    then show ?thesis using devs 1(1,4) by simp
  next
    case (2 w)
    then show ?thesis using devs [OF 2(1)] devs [of t1 w] by simp
  qed
  then show ?thesis using run False issue by (auto simp: SnpWaitForPacketNotify_def s1_def)
qed

theorem wait_for_packet_silent_witness:
  "\<exists>(w :: sim_bus world) t. snp_state (bound_world w) = EfiSimpleNetworkInitialized \<and>
     run_state (SnpWaitForPacketNotify (intel_platform boot_env quiet_services) 7 1) (bound_world w) = ((), t) \<and>
     undi_dev (senv t) = undi_dev (senv (bound_world w))"
proof -
  obtain w :: "sim_bus world" where "tx_ready w" using boot_ready by blast
  then have on: "online 0 (bound_world w)" by (rule bound_online)
  obtain t where run:
    "run_state (SnpWaitForPacketNotify (intel_platform boot_env quiet_services) 7 1) (bound_world w) = ((), t)"
    by (metis old.unit.exhaust prod.exhaust)
  have "snp_state (bound_world w) = EfiSimpleNetworkInitialized"
    by (simp add: bound_world_def fresh_driver_def fresh_mode_def)
  with wait_for_packet_silent [OF on run] run show ?thesis by blast
qed

end
