(* ===== verification/Snp_Binding.thy ===== *)
theory Snp_Binding
  imports Snp_Ops Snp_Data Undi_System
begin

text \<open>
  The driver binding of the Simple Network Protocol driver (\<^verbatim>\<open>SnpDxe/Snp.c\<close>): the checks of the !PXE
  structure, the construction of the driver structure on top of an UNDI, and its removal.
\<close>

section \<open>Services\<close>

datatype snp_protocol = DevicePathOn | PciIoOn | Nii31On | SimpleNetworkOn

datatype snp_open = TestProtocol | ByDriver | GetProtocol

text \<open>
  What the binding uses of the boot services and the PCI I/O protocol; \<open>nii_at\<close> is the network interface
  identifier at an address.  \<open>snp_bar\<close> yields status, resource type and the address of the descriptor.
\<close>

record 'e binding_env =
  snp_open_protocol :: "u64 \<Rightarrow> snp_protocol \<Rightarrow> snp_open \<Rightarrow> 'e \<Rightarrow> (EFI_STATUS \<times> u64) \<times> 'e"
  snp_close_protocol :: "u64 \<Rightarrow> snp_protocol \<Rightarrow> 'e \<Rightarrow> EFI_STATUS \<times> 'e"
  snp_locate_pci :: "u64 \<Rightarrow> 'e \<Rightarrow> (EFI_STATUS \<times> u64) \<times> 'e"
  snp_install :: "u64 \<Rightarrow> u64 \<Rightarrow> 'e \<Rightarrow> EFI_STATUS \<times> 'e"
  snp_uninstall :: "u64 \<Rightarrow> u64 \<Rightarrow> 'e \<Rightarrow> EFI_STATUS \<times> 'e"
  snp_bar :: "u64 \<Rightarrow> u8 \<Rightarrow> 'e \<Rightarrow> (EFI_STATUS \<times> u8 \<times> u64) \<times> 'e"
  snp_exit_event :: "u64 \<Rightarrow> 'e \<Rightarrow> (EFI_STATUS \<times> u64) \<times> 'e"
  PcdSnpCreateExitBootServicesEvent :: bool
  nii_at :: "u64 \<Rightarrow> 'e \<Rightarrow> EFI_NETWORK_INTERFACE_IDENTIFIER_PROTOCOL"

section \<open>Supported\<close>

abbreviation PXE_ROMID_SIGNATURE :: u32 where "PXE_ROMID_SIGNATURE \<equiv> 0x45585021"
abbreviation EfiNetworkInterfaceUndi :: u8 where "EfiNetworkInterfaceUndi \<equiv> 1"

abbreviation pxe_implementation :: "u64 \<Rightarrow> memory \<Rightarrow> u32" where
  "pxe_implementation pxe m \<equiv> load32 m (pxe + 12)"

abbreviation pxe_entry_point :: "u64 \<Rightarrow> memory \<Rightarrow> u64" where
  "pxe_entry_point pxe m \<equiv> load64 m (pxe + 16)"

text \<open>The checks of the identifier and of the !PXE structure.\<close>

definition undi_supported :: "EFI_NETWORK_INTERFACE_IDENTIFIER_PROTOCOL \<Rightarrow> memory \<Rightarrow> bool" where
  "undi_supported nii m =
     (let pxe = Nii_Id nii in
      Nii_Type nii = EfiNetworkInterfaceUndi \<and> pxe AND 0x0F = 0 \<and>
      load32 m pxe = PXE_ROMID_SIGNATURE \<and> m (pxe + 6) \<ge> 0x02 \<and>
      \<not> m (pxe + 8) < 0x03 \<and> \<not> (m (pxe + 8) = 0x03 \<and> m (pxe + 9) < 0x01) \<and>
      (pxe_implementation pxe m AND 0x80000000 = 0 \<longrightarrow>
         \<not> pxe_entry_point pxe m < ucast (m (pxe + 4)) \<and> m (pxe + 27) \<noteq> 0))"

definition SimpleNetworkDriverSupported :: "'e binding_env \<Rightarrow> u64 \<Rightarrow> ('e, EFI_STATUS) snp" where
  "SimpleNetworkDriverSupported B Controller = do {
     (st, _) \<leftarrow> call_snp (snp_open_protocol B Controller DevicePathOn TestProtocol);
     if EFI_ERROR st then ret st
     else do {
       (st, p) \<leftarrow> call_snp (snp_open_protocol B Controller Nii31On ByDriver);
       if EFI_ERROR st then ret st
       else do {
         s \<leftarrow> gets id;
         let st = (if undi_supported (nii_at B p (senv s)) (smem s) then EFI_SUCCESS else EFI_UNSUPPORTED);
         _ \<leftarrow> call_snp (snp_close_protocol B Controller Nii31On);
         ret st } } }"

section \<open>Start\<close>

definition Calc8BitCksum :: "u64 \<Rightarrow> nat \<Rightarrow> memory \<Rightarrow> u8" where
  "Calc8BitCksum Buffer Length m =
     (if Buffer = 0 \<or> Length = 0 then 0 else fold (\<lambda>b c. c + b) (load_bytes m Buffer Length) 0)"

text \<open>The checksum, and the need for promiscuous or broadcast reception.\<close>

definition undi_usable :: "u64 \<Rightarrow> memory \<Rightarrow> bool" where
  "undi_usable pxe m \<longleftrightarrow>
     Calc8BitCksum pxe (unat (m (pxe + 4))) m = 0 \<and>
     (pxe_implementation pxe m AND 0x00000040 \<noteq> 0 \<or> pxe_implementation pxe m AND 0x00000020 \<noteq> 0)"

text \<open>
  The zeroed structure at the allocated address.  In the X64 layout it has 2648 bytes, so that it fits one page, with
  \<^verbatim>\<open>InitInfo\<close> at 960 and the protocol at 32.
\<close>

abbreviation TPL_APPLICATION :: u64 where "TPL_APPLICATION \<equiv> 4"

definition zero_mode :: EFI_SIMPLE_NETWORK_MODE where
  "zero_mode =
     \<lparr>Mode_State = 0, HwAddressSize = 0, MediaHeaderSize = 0, MaxPacketSize = 0, NvRamSize = 0,
      NvRamAccessSize = 0, ReceiveFilterMask = 0, ReceiveFilterSetting = 0, MaxMCastFilterCount = 0,
      MCastFilterCount = 0, MCastFilter = replicate (MAX_MCAST_FILTER_CNT * sizeof_EFI_MAC_ADDRESS) 0,
      CurrentAddress = replicate sizeof_EFI_MAC_ADDRESS 0, BroadcastAddress = replicate sizeof_EFI_MAC_ADDRESS 0,
      PermanentAddress = replicate sizeof_EFI_MAC_ADDRESS 0, IfType = 0, MacAddressChangeable = False,
      MultipleTxSupported = False, MediaPresentSupported = False, MediaPresent = False\<rparr>"

definition zero_snp_driver :: "u64 \<Rightarrow> SNP_DRIVER" where
  "zero_snp_driver a =
     \<lparr>Snp_Addr = a, Snp_Lock = EfiLockReleased, Snp_OwnerTpl = 0, WaitForPacket = 0, Mode = zero_mode,
      IssueUndi32Command = SwUndi 0, IsSwUndi = False, IfNum = 0, TxRxBufferSize = 0, TxRxBuffer = 0,
      Snp_PciIo = 0, IoBarIndex = 0, MemoryBarIndex = 0, Cdb = zero_cdb, Cpb = 0, Db = 0,
      InitInfo_Addr = a + 960, MapList = replicate MAX_MAP_LENGTH \<lparr>VirtualAddress = 0, MapCookie = 0\<rparr>,
      ExitBootServicesEvent = 0, MediaStatusSupported = False, CableDetectSupported = False,
      RecycledTxBuf = [], RecycledTxBufPtr = 0, MaxRecycledTxBuf = 0, RecycledTxBufCount = 0\<rparr>"

definition snp_interface_number :: "EFI_NETWORK_INTERFACE_IDENTIFIER_PROTOCOL \<Rightarrow> u16" where
  "snp_interface_number nii =
     (if Nii_Revision nii \<ge> 0x00020000 then Nii_IfNum nii else Nii_IfNum nii AND 0xFF)"

text \<open>A relative entry point is added to the low byte of the structure's address.\<close>

definition snp_entry_point :: "u64 \<Rightarrow> memory \<Rightarrow> undi_entry_point" where
  "snp_entry_point pxe m =
     (if pxe_implementation pxe m AND 0x80000000 \<noteq> 0 then HwUndi
      else if pxe_implementation pxe m AND 0x40000000 \<noteq> 0 then SwUndi (pxe_entry_point pxe m)
      else SwUndi ((pxe AND 0xFF) + pxe_entry_point pxe m))"

text \<open>The loop over the base address registers; \<open>Inl\<close> is the jump to \<^verbatim>\<open>Error_DeleteSNP\<close>.\<close>

fun scan_bars ::
  "'e snp_env \<Rightarrow> 'e binding_env \<Rightarrow> u64 \<Rightarrow> u8 list \<Rightarrow> bool \<Rightarrow> bool \<Rightarrow> ('e, EFI_STATUS + unit) snp" where
  "scan_bars V B pci [] FoundMemoryBar FoundIoBar = ret (Inr ())"
| "scan_bars V B pci (BarIndex # is) FoundMemoryBar FoundIoBar = do {
     (st, ResType, BarDesc) \<leftarrow> call_snp (snp_bar B pci BarIndex);
     if st = EFI_UNSUPPORTED then scan_bars V B pci is FoundMemoryBar FoundIoBar
     else if EFI_ERROR st then ret (Inl st)
     else do {
       let is_mem = (\<not> FoundMemoryBar \<and> ResType = 0);
       let is_io = (\<not> is_mem \<and> \<not> FoundIoBar \<and> ResType = 1);
       _ \<leftarrow> upd_snp (\<lambda>d. if is_mem then d\<lparr>MemoryBarIndex := BarIndex\<rparr>
                         else if is_io then d\<lparr>IoBarIndex := BarIndex\<rparr> else d);
       _ \<leftarrow> run_snp (snp_free_pool V BarDesc);
       if (FoundMemoryBar \<or> is_mem) \<and> (FoundIoBar \<or> is_io) then ret (Inr ())
       else scan_bars V B pci is (FoundMemoryBar \<or> is_mem) (FoundIoBar \<or> is_io) } }"

text \<open>The mode structure and the two support flags, from the initialisation data and the !PXE structure.\<close>

definition filter_mask :: "u32 \<Rightarrow> u32" where
  "filter_mask imp =
     (let v = EFI_SIMPLE_NETWORK_RECEIVE_UNICAST;
          v = (if imp AND 0x00000080 \<noteq> 0 then v OR EFI_SIMPLE_NETWORK_RECEIVE_PROMISCUOUS_MULTICAST else v);
          v = (if imp AND 0x00000040 \<noteq> 0 then v OR EFI_SIMPLE_NETWORK_RECEIVE_PROMISCUOUS else v);
          v = (if imp AND 0x00000020 \<noteq> 0 then v OR EFI_SIMPLE_NETWORK_RECEIVE_BROADCAST else v);
          v = (if imp AND 0x00000010 \<noteq> 0 then v OR EFI_SIMPLE_NETWORK_RECEIVE_MULTICAST else v)
      in if imp AND 0x00000080 \<noteq> 0 then v OR EFI_SIMPLE_NETWORK_RECEIVE_PROMISCUOUS_MULTICAST else v)"

definition fill_mode :: "u64 \<Rightarrow> u16 \<Rightarrow> memory \<Rightarrow> SNP_DRIVER \<Rightarrow> SNP_DRIVER" where
  "fill_mode pxe InitStatFlags m d =
     (let info = InitInfo_Addr d;
          imp = pxe_implementation pxe m;
          width = (ucast (load16 m (info + 28)) :: u32);
          cable = (InitStatFlags AND 0x0001 = 0x0001);
          media = (InitStatFlags AND 0x0002 = 0x0002)
      in d\<lparr>CableDetectSupported := cable, MediaStatusSupported := media, Mode := (Mode d)\<lparr>
           Mode_State := EfiSimpleNetworkStopped,
           HwAddressSize := ucast (load16 m (info + 32)),
           MediaHeaderSize := ucast (load16 m (info + 30)),
           MaxPacketSize := load32 m (info + 4),
           NvRamAccessSize := width,
           NvRamSize := load32 m (info + 24) * width,
           IfType := m (info + 44),
           MaxMCastFilterCount := ucast (load16 m (info + 34)),
           MCastFilterCount := 0,
           MediaPresentSupported := (MediaPresentSupported (Mode d) \<or> cable \<or> media),
           MacAddressChangeable := (imp AND 0x00000100 \<noteq> 0),
           MultipleTxSupported := (imp AND 0x00001000 \<noteq> 0),
           ReceiveFilterMask := filter_mask imp,
           ReceiveFilterSetting := 0\<rparr>\<rparr>)"

text \<open>From the start of the UNDI to its stop: what fills the mode structure.\<close>

definition probe_undi :: "'e snp_env \<Rightarrow> u64 \<Rightarrow> ('e, EFI_STATUS + unit) snp" where
  "probe_undi V pxe = do {
     st \<leftarrow> PxeStart V;
     if st \<noteq> EFI_SUCCESS then ret (Inl st)
     else do {
       d \<leftarrow> snp;
       c \<leftarrow> issue_command V (snp_cdb d 0x0003 0 0 0 47 (InitInfo_Addr d));
       if StatCode c \<noteq> PXE_STATCODE_SUCCESS then do {
         _ \<leftarrow> PxeStop V;
         ret (Inl EFI_SUCCESS) }
       else do {
         m \<leftarrow> gets smem;
         _ \<leftarrow> upd_snp (fill_mode pxe (StatFlags c) m);
         _ \<leftarrow> upd_snp (\<lambda>d. d\<lparr>TxRxBufferSize := load32 m (InitInfo_Addr d)\<rparr>);
         st \<leftarrow> PxeInit V PXE_OPFLAGS_INITIALIZE_DO_NOT_DETECT_CABLE;
         if EFI_ERROR st then do {
           _ \<leftarrow> PxeStop V;
           ret (Inl st) }
         else do {
           st \<leftarrow> PxeGetStnAddr V;
           if st \<noteq> EFI_SUCCESS then do {
             _ \<leftarrow> PxeShutdown V;
             _ \<leftarrow> PxeStop V;
             ret (Inl st) }
           else do {
             _ \<leftarrow> upd_mode (\<lambda>m. m\<lparr>MediaPresent := False\<rparr>);
             _ \<leftarrow> PxeShutdown V;
             _ \<leftarrow> PxeStop V;
             ret (Inr ()) } } } } }"

text \<open>The buffers, the base address registers and the probe; \<open>Inl\<close> is the jump to \<^verbatim>\<open>Error_DeleteSNP\<close>.\<close>

definition build_driver ::
  "'e snp_env \<Rightarrow> 'e binding_env \<Rightarrow> u64 \<Rightarrow> EFI_NETWORK_INTERFACE_IDENTIFIER_PROTOCOL \<Rightarrow> u64 \<Rightarrow>
     ('e, EFI_STATUS + unit) snp" where
  "build_driver V B pci nii Address = do {
     let pxe = Nii_Id nii;
     _ \<leftarrow> upd_smem (ZeroMem (Address + 960) 47);
     _ \<leftarrow> upd_snp (\<lambda>_. (zero_snp_driver Address)\<lparr>Snp_PciIo := pci, Snp_Lock := EfiLockReleased,
            Snp_OwnerTpl := TPL_APPLICATION\<rparr>);
     (buf, junk) \<leftarrow> call_snp (snp_allocate_pool V (8 * ucast SNP_TX_BUFFER_INCREASEMENT));
     if buf = 0 then ret (Inl EFI_OUT_OF_RESOURCES)
     else do {
       m \<leftarrow> gets smem;
       _ \<leftarrow> upd_snp (\<lambda>d. d\<lparr>RecycledTxBuf := map junk [0..<unat SNP_TX_BUFFER_INCREASEMENT], RecycledTxBufPtr := buf,
              MaxRecycledTxBuf := SNP_TX_BUFFER_INCREASEMENT, RecycledTxBufCount := 0,
              IfNum := snp_interface_number nii,
              IsSwUndi := (pxe_implementation pxe m AND 0x80000000 = 0),
              IssueUndi32Command := snp_entry_point pxe m\<rparr>);
       (st, a) \<leftarrow> call_snp (snp_allocate_buffer V pci (SNP_MEM_PAGES 4096));
       if st \<noteq> EFI_SUCCESS then ret (Inl st)
       else do {
         _ \<leftarrow> upd_snp (\<lambda>d. d\<lparr>Cpb := a, Db := a + 2048, MemoryBarIndex := PCI_MAX_BAR, IoBarIndex := PCI_MAX_BAR\<rparr>);
         r \<leftarrow> scan_bars V B pci [0, 1, 2, 3, 4, 5] False False;
         (case r of Inl st \<Rightarrow> ret (Inl st) | Inr _ \<Rightarrow> probe_undi V pxe) } } }"

text \<open>The exit event and the installation, which is the only path that returns the buffer of the blocks on failure.\<close>

definition publish_driver ::
  "'e snp_env \<Rightarrow> 'e binding_env \<Rightarrow> u64 \<Rightarrow> u64 \<Rightarrow> ('e, EFI_STATUS + EFI_STATUS) snp" where
  "publish_driver V B pci Controller = do {
     d \<leftarrow> snp;
     st \<leftarrow> (if PcdSnpCreateExitBootServicesEvent B then do {
             (st, ev) \<leftarrow> call_snp (snp_exit_event B (Snp_Addr d));
             _ \<leftarrow> upd_snp (\<lambda>d. d\<lparr>ExitBootServicesEvent := ev\<rparr>);
             ret st }
           else ret EFI_SUCCESS);
     if EFI_ERROR st then ret (Inl st)
     else do {
       st \<leftarrow> call_snp (snp_install B Controller (Snp_Addr d + 32));
       if \<not> EFI_ERROR st then ret (Inr st)
       else do {
         d \<leftarrow> snp;
         _ \<leftarrow> run_snp (snp_free_buffer V pci (SNP_MEM_PAGES 4096) (Cpb d));
         ret (Inl st) } } }"

text \<open>The labels \<^verbatim>\<open>NiiError\<close> and \<^verbatim>\<open>Error_DeleteSNP\<close>.\<close>

definition nii_error :: "'e binding_env \<Rightarrow> u64 \<Rightarrow> EFI_STATUS \<Rightarrow> ('e, EFI_STATUS) snp" where
  "nii_error B Controller st = do {
     _ \<leftarrow> call_snp (snp_close_protocol B Controller Nii31On);
     _ \<leftarrow> call_snp (snp_close_protocol B Controller DevicePathOn);
     ret (if \<not> EFI_ERROR st then EFI_DEVICE_ERROR else st) }"

definition delete_snp ::
  "'e snp_env \<Rightarrow> 'e binding_env \<Rightarrow> u64 \<Rightarrow> u64 \<Rightarrow> EFI_STATUS \<Rightarrow> ('e, EFI_STATUS) snp" where
  "delete_snp V B pci Controller st = do {
     d \<leftarrow> snp;
     _ \<leftarrow> (if RecycledTxBufPtr d \<noteq> 0 then run_snp (snp_free_pool V (RecycledTxBufPtr d)) else ret ());
     _ \<leftarrow> run_snp (snp_free_buffer V pci 1 (Snp_Addr d));
     nii_error B Controller st }"

text \<open>Once the identifier is open.\<close>

definition start_on_undi ::
  "'e snp_env \<Rightarrow> 'e binding_env \<Rightarrow> u64 \<Rightarrow> u64 \<Rightarrow> u64 \<Rightarrow> ('e, EFI_STATUS) snp" where
  "start_on_undi V B Controller pci p = do {
     s \<leftarrow> gets id;
     let nii = nii_at B p (senv s);
     if \<not> undi_usable (Nii_Id nii) (smem s) then nii_error B Controller EFI_SUCCESS
     else do {
       (st, Address) \<leftarrow> call_snp (snp_allocate_buffer V pci 1);
       if st \<noteq> EFI_SUCCESS then nii_error B Controller st
       else do {
         r \<leftarrow> build_driver V B pci nii Address;
         (case r of
            Inl st \<Rightarrow> delete_snp V B pci Controller st
          | Inr _ \<Rightarrow> do {
              r \<leftarrow> publish_driver V B pci Controller;
              (case r of Inl st \<Rightarrow> delete_snp V B pci Controller st | Inr st \<Rightarrow> ret st) }) } } }"

definition SimpleNetworkDriverStart :: "'e snp_env \<Rightarrow> 'e binding_env \<Rightarrow> u64 \<Rightarrow> ('e, EFI_STATUS) snp" where
  "SimpleNetworkDriverStart V B Controller = do {
     (st, path) \<leftarrow> call_snp (snp_open_protocol B Controller DevicePathOn ByDriver);
     if EFI_ERROR st then ret st
     else do {
       (st, h) \<leftarrow> call_snp (snp_locate_pci B path);
       if EFI_ERROR st then ret st
       else do {
         (st, pci) \<leftarrow> call_snp (snp_open_protocol B h PciIoOn GetProtocol);
         if EFI_ERROR st then ret st
         else do {
           (st, p) \<leftarrow> call_snp (snp_open_protocol B Controller Nii31On ByDriver);
           if EFI_ERROR st then do {
             _ \<leftarrow> call_snp (snp_close_protocol B Controller DevicePathOn);
             ret st }
           else start_on_undi V B Controller pci p } } } }"

section \<open>Stop and the exit notification\<close>

definition SnpNotifyExitBootServices :: "'e snp_env \<Rightarrow> ('e, unit) snp" where
  "SnpNotifyExitBootServices V = do {
     _ \<leftarrow> PxeShutdown V;
     _ \<leftarrow> PxeStop V;
     ret () }"

text \<open>The protocol found on the handle is that of the driver structure in the state.\<close>

definition SimpleNetworkDriverStop :: "'e snp_env \<Rightarrow> 'e binding_env \<Rightarrow> u64 \<Rightarrow> ('e, EFI_STATUS) snp" where
  "SimpleNetworkDriverStop V B Controller = do {
     (st, p) \<leftarrow> call_snp (snp_open_protocol B Controller SimpleNetworkOn GetProtocol);
     if EFI_ERROR st then ret EFI_UNSUPPORTED
     else do {
       d \<leftarrow> snp;
       st \<leftarrow> call_snp (snp_uninstall B Controller (Snp_Addr d + 32));
       if EFI_ERROR st then ret st
       else do {
         _ \<leftarrow> (if PcdSnpCreateExitBootServicesEvent B
              then run_snp (snp_close_event V (ExitBootServicesEvent d)) else ret ());
         _ \<leftarrow> call_snp (snp_close_protocol B Controller Nii31On);
         st \<leftarrow> call_snp (snp_close_protocol B Controller DevicePathOn);
         _ \<leftarrow> PxeShutdown V;
         _ \<leftarrow> PxeStop V;
         d \<leftarrow> snp;
         _ \<leftarrow> run_snp (snp_free_pool V (RecycledTxBufPtr d));
         _ \<leftarrow> run_snp (snp_free_buffer V (Snp_PciIo d) (SNP_MEM_PAGES 4096) (Cpb d));
         _ \<leftarrow> run_snp (snp_free_buffer V (Snp_PciIo d) 1 (Snp_Addr d));
         ret st } } }"

end
