(* ===== verification/Snp_Stats.thy ===== *)
theory Snp_Stats
  imports Snp_Data
begin

text \<open>
  What \<^verbatim>\<open>SnpUndi32Statistics\<close> reports when the caller's table is too short for the statistics that the UNDI
  supports.
\<close>

text \<open>Stores into the table leave what lies outside it alone.\<close>

lemma load64_table:
  assumes "disjoint_ranges a 8 tab (8 * n)" and "k < n" and "length bs = 8"
  shows "load64 (store_bytes m (tab + 8 * of_nat k) bs) a = load64 m a"
  using load_store_other [of a 8 "tab + 8 * of_nat k" bs m] disjoint_sub [OF assms(1), of 0 8 "8 * k" 8] assms(2,3)
  by (simp add: load64_def)

lemma load_zeroed: "disjoint_ranges a n b k \<Longrightarrow> load_bytes (ZeroMem b k m) a n = load_bytes m a n"
  by (auto simp: load_bytes_def ZeroMem_def disjoint_ranges_def)

lemma load64_zeroed: "disjoint_ranges a 8 tab n \<Longrightarrow> load64 (ZeroMem tab n m) a = load64 m a"
  by (simp add: load64_def load_zeroed)

lemma convert_stops:
  assumes "k \<le> i" and i: "i < 64" and size: "unat (load64 m szp) = 8 * i"
    and apart: "disjoint_ranges szp 8 tab (8 * i)" "disjoint_ranges db 8 tab (8 * i)" and "Sz \<le> k"
  shows "\<exists>Sz' m'. convert_statistics db szp tab [k..<64] Sz m = (i, Sz', m') \<and> Sz' \<le> i \<and>
    load64 m' szp = load64 m szp \<and> load64 m' db = load64 m db"
  using assms(1,6) size
proof (induction "i - k" arbitrary: k Sz m)
  case 0
  then show ?case using i by (simp add: upt_conv_Cons)
next
  case (Suc n)
  then have k: "k < i" "n = i - Suc k" by auto
  define m1 where "m1 = (if bit (load64 m db) k then store64 m (tab + 8 * of_nat k) (load64 m (db + 8 + 8 * of_nat k))
    else store_bytes m (tab + 8 * of_nat k) (replicate 8 0xFF))"
  have same: "load64 m1 szp = load64 m szp" "load64 m1 db = load64 m db"
    using load64_table [OF apart(1) k(1)] load64_table [OF apart(2) k(1)] by (simp_all add: m1_def store64_def)
  have "convert_statistics db szp tab [k..<64] Sz m =
      convert_statistics db szp tab [Suc k..<64] (if bit (load64 m db) k then k + 1 else Sz) m1"
    using k(1) i Suc.prems(3) by (simp add: upt_conv_Cons m1_def)
  with Suc.hyps(1) [OF k(2), of "if bit (load64 m db) k then k + 1 else Sz" m1] k(1) Suc.prems same
  show ?case by simp
qed

lemma extend_size_last:
  assumes "\<And>k. j < k \<Longrightarrow> k < n \<Longrightarrow> \<not> bit supported k" and "bit supported j" and "a \<le> j" "j < n"
  shows "extend_size supported [a..<n] Sz = j"
  using assms(3)
proof (induction "n - a" arbitrary: a Sz)
  case (Suc d)
  have none: "extend_size supported [b..<n] x = x" if "j < b" for b x
    using that
  proof (induction "n - b" arbitrary: b)
    case (Suc e)
    then show ?case using assms(1) [of b] by (simp add: upt_conv_Cons)
  qed simp
  show ?case
  proof (cases "a = j")
    case True
    then show ?thesis using assms(2,4) none [of "Suc j"] by (simp add: upt_conv_Cons)
  next
    case False
    then show ?thesis using Suc.hyps(1) [of "Suc a"] Suc.hyps(2) Suc.prems assms(4) by (simp add: upt_conv_Cons)
  qed
qed (use assms(4) in simp)

lemma extend_size_none:
  assumes "\<And>k. a \<le> k \<Longrightarrow> k < n \<Longrightarrow> \<not> bit supported k"
  shows "extend_size supported [a..<n] Sz = Sz"
  using assms
proof (induction "n - a" arbitrary: a)
  case (Suc e)
  then show ?case using Suc.prems [of a] by (simp add: upt_conv_Cons)
qed simp

text \<open>
  C34.  The size reported to a caller whose table holds \<open>i\<close> statistics, when the UNDI supports statistic \<open>j\<close> and
  none above.  If \<open>j\<close> is beyond the table by more than one, the size asked for is one statistic short, so that a caller
  who retries with it never receives statistic \<open>j\<close>; if \<open>j\<close> is the first one that does not fit, it is not counted at
  all and the call reports success.
\<close>

theorem statistics_size_short:
  assumes "report_statistics db StatisticsSize tab m = (st, m')" and "unat (load64 m StatisticsSize) = 8 * i"
    and "bit (load64 m db) j" and "\<forall>k. j < k \<longrightarrow> k < 64 \<longrightarrow> \<not> bit (load64 m db) k" and "i \<le> j" "j < 64"
    and "disjoint_ranges StatisticsSize 8 tab (8 * i)" "disjoint_ranges db 8 tab (8 * i)"
  shows "if j = i then st = EFI_SUCCESS \<and> unat (load64 m' StatisticsSize) \<le> 8 * i
    else st = EFI_BUFFER_TOO_SMALL \<and> unat (load64 m' StatisticsSize) = 8 * j"
proof -
  let ?m0 = "ZeroMem tab (8 * i) m"
  have m0: "load64 ?m0 StatisticsSize = load64 m StatisticsSize" "load64 ?m0 db = load64 m db"
    using load64_zeroed assms(7,8) by blast+
  have i: "i < 64" using assms(5,6) by simp
  obtain Sz m1 where conv: "convert_statistics db StatisticsSize tab [0..<64] 0 ?m0 = (i, Sz, m1)"
    and Sz: "Sz \<le> i" "load64 m1 StatisticsSize = load64 m StatisticsSize" "load64 m1 db = load64 m db"
    using convert_stops [of 0 i ?m0 StatisticsSize tab db 0] m0 assms(2,7,8) i by auto
  let ?e = "extend_size (load64 m db) [i + 1..<64] Sz"
  have e: "?e = (if j = i then Sz else j)"
    using extend_size_last [of j 64 "load64 m db" "i + 1"] extend_size_none [of "i + 1" 64 "load64 m db"] assms(3-6) by auto
  have le: "?e \<le> 63" using e Sz(1) i assms(6) by (auto split: if_splits)
  have size: "unat (of_nat (?e * 8) :: u64) = ?e * 8" unfolding unat_of_nat by (rule mod_less) (use le in simp)
  have "st = (if unat (of_nat (?e * 8) :: u64) \<le> 8 * i then EFI_SUCCESS else EFI_BUFFER_TOO_SMALL)"
    "load64 m' StatisticsSize = of_nat (?e * 8)"
    using assms(1,2) conv Sz(2,3) by (auto simp: report_statistics_def word_le_nat_alt Let_def split: if_splits)
  then show ?thesis using size e Sz(1) assms(5) by (auto simp del: of_nat_mult)
qed

definition one_statistic :: memory where
  "one_statistic = store64 (store64 (\<lambda>_. 0) 0x1000 16) 0x2000 32"

text \<open>A table for two statistics; the UNDI supports number 5 only and is asked for five, not six.\<close>

theorem statistics_size_short_witness:
  "\<exists>st m'. report_statistics 0x2000 0x1000 0x3000 one_statistic = (st, m') \<and>
     st = EFI_BUFFER_TOO_SMALL \<and> unat (load64 m' 0x1000) = 40"
proof -
  obtain st m' where run: "report_statistics 0x2000 0x1000 0x3000 one_statistic = (st, m')" by fastforce
  have apart: "disjoint_ranges 0x1000 8 0x2000 8" "disjoint_ranges 0x1000 8 0x3000 16" "disjoint_ranges 0x2000 8 0x3000 16"
    using disjoint_offsets [of 4096 8 8192 8 0] disjoint_offsets [of 4096 8 12288 16 0]
      disjoint_offsets [of 8192 8 12288 16 0] by simp_all
  have "load64 (store_bytes m 0x2000 bs) 0x1000 = load64 m 0x1000" if "length bs = 8" for m and bs :: "u8 list"
    using load_store_other [of "0x1000" 8 "0x2000" bs m] apart(1) that by (simp add: load64_def)
  then have vals: "load64 one_statistic 0x1000 = 16" "load64 one_statistic 0x2000 = 32"
    by (simp_all add: one_statistic_def) (simp add: store64_def [of _ "0x2000"])
  have bits: "bit (32 :: u64) k \<longleftrightarrow> k = 5" for k using bit_exp_iff [of 5 k, where 'a = "64 word"] by auto
  have size: "unat (load64 one_statistic 0x1000) = 8 * 2" by (simp add: vals)
  have five: "bit (load64 one_statistic 0x2000) 5" and last: "\<forall>k. 5 < k \<longrightarrow> k < 64 \<longrightarrow> \<not> bit (load64 one_statistic 0x2000) k"
    unfolding vals bits by simp_all
  have "st = EFI_BUFFER_TOO_SMALL \<and> unat (load64 m' 0x1000) = 40"
    using statistics_size_short [OF run size five last] apart(2,3) by simp
  then show ?thesis using run by blast
qed

end
