(* ===== verification/Snp_Attach.thy ===== *)
theory Snp_Attach
  imports Snp_Session Snp_Binding Snp_Stats
begin

text \<open>
  The driver binding of the Simple Network Protocol driver on top of this UNDI driver: the structure the
  UNDI publishes passes every check, and a successful start yields an interface on which the transmit
  buffers are conserved.
\<close>

section \<open>The !PXE structure is accepted\<close>

definition published :: "u64 \<Rightarrow> u64 \<Rightarrow> memory \<Rightarrow> bool" where
  "published entry pxe m \<longleftrightarrow>
     load32 m pxe = PXE_ROMID_SIGNATURE \<and> m (pxe + 6) = 0x02 \<and> m (pxe + 8) = 0x03 \<and> m (pxe + 9) = 0x10 \<and>
     pxe_implementation pxe m = PXE_ROMID_IMP \<and> pxe_entry_point pxe m = entry \<and> m (pxe + 27) = 1 \<and>
     pxe_valid pxe m"

lemma byte_at:
  assumes "k < n"
  shows "load_bytes m a n ! k = m (a + of_nat k)"
  using assms by (simp add: load_bytes_def)

text \<open>The fields the checks read are bytes other than the fudge and the interface count.\<close>

lemma published_cong:
  assumes same: "\<And>i. i < 32 \<Longrightarrow> i \<noteq> 5 \<Longrightarrow> i \<noteq> 7 \<Longrightarrow> m' (pxe + of_nat i) = m (pxe + of_nat i)"
    and "published entry pxe m" and "pxe_valid pxe m'"
  shows "published entry pxe m'"
proof -
  have "load_bytes m' (pxe + of_nat j) n = load_bytes m (pxe + of_nat j) n"
    if "j + n \<le> 32" "\<And>i. i < n \<Longrightarrow> j + i \<noteq> 5 \<and> j + i \<noteq> 7" for j n
  proof (rule nth_equalityI)
    fix i assume "i < length (load_bytes m' (pxe + of_nat j) n)"
    then show "load_bytes m' (pxe + of_nat j) n ! i = load_bytes m (pxe + of_nat j) n ! i"
      using same [of "j + i"] that by (auto simp: byte_at add.assoc)
  qed simp
  from this [of 0 4] this [of 12 4] this [of 16 8]
  have "load32 m' pxe = load32 m pxe" "load32 m' (pxe + 12) = load32 m (pxe + 12)"
    "load64 m' (pxe + 16) = load64 m (pxe + 16)" by (simp_all add: load32_def load64_def)
  moreover have "m' (pxe + 6) = m (pxe + 6)" "m' (pxe + 8) = m (pxe + 8)" "m' (pxe + 9) = m (pxe + 9)"
    "m' (pxe + 27) = m (pxe + 27)" using same [of 6] same [of 8] same [of 9] same [of 27] by simp_all
  ultimately show ?thesis using assms(2,3) by (simp add: published_def)
qed

lemma struct_init_published:
  assumes "pxe \<noteq> 0"
  shows "published entry pxe (GigUndiPxeStructInit entry pxe m)"
proof -
  let ?m = "GigUndiPxeStructInit entry pxe m"
  note bytes = GigUndiPxeStructInit_def Let_def fix_fudge_def store8_eq store32_def store64_def store_bytes_def
    le_bytes_def unsigned_minus_1_eq_mask mask_eq_exp_minus_1
  have "load_bytes ?m pxe 4 = le_bytes 4 (0x45585021 :: u32)" "load_bytes ?m (pxe + 12) 4 = le_bytes 4 PXE_ROMID_IMP"
    "load_bytes ?m (pxe + 16) 8 = le_bytes 8 entry"
    by (simp_all add: bytes load_bytes_def upt_rec add.assoc)
  then have "load32 ?m pxe = 0x45585021" "load32 ?m (pxe + 12) = PXE_ROMID_IMP" "load64 ?m (pxe + 16) = entry"
    by (simp_all add: load32_def load64_def le_word_le_bytes)
  moreover have "?m (pxe + 6) = 0x02" "?m (pxe + 8) = 0x03" "?m (pxe + 9) = 0x10" "?m (pxe + 27) = 1"
    by (simp_all add: bytes)
  ultimately show ?thesis using struct_init_valid [OF assms] by (simp add: published_def)
qed

lemma pxe_update_published:
  assumes "pxe \<noteq> 0" and pub: "published entry pxe (undi_mem u)" and run: "run_state (GigUndiPxeUpdate up pxe) u = (r, u')"
  shows "published entry pxe (undi_mem u')"
proof -
  have valid: "pxe_valid pxe (undi_mem u)" using pub by (simp add: published_def)
  have "published entry pxe (fix_fudge pxe ((undi_mem u)(pxe_IFcnt pxe := x)))" for x
  proof (rule published_cong [OF _ pub])
    have "(of_nat i :: u64) = of_nat j \<longleftrightarrow> i = j" if "i < 32" "j < 32" for i j
      using that by (simp add: word_of_nat_eq_iff take_bit_nat_eq_self)
    from this [of _ 5] this [of _ 7]
    show "fix_fudge pxe ((undi_mem u)(pxe_IFcnt pxe := x)) (pxe + of_nat i) = undi_mem u (pxe + of_nat i)"
      if "i < 32" "i \<noteq> 5" "i \<noteq> 7" for i
      using that by (simp add: fix_fudge_def store8_eq)
    show "pxe_valid pxe (fix_fudge pxe ((undi_mem u)(pxe_IFcnt pxe := x)))"
      by (rule fix_fudge_valid) (use assms(1) valid in \<open>simp_all add: pxe_valid_def\<close>)
  qed
  then show ?thesis using run pub by (auto simp: pxe_update_run Let_def split: if_splits)
qed

lemma published_accepted:
  assumes "pxe \<noteq> 0" "pxe AND 0x0F = 0" "32 \<le> entry" and pub: "published entry pxe m"
    and "Nii_Type nii = EfiNetworkInterfaceUndi" "Nii_Id nii = pxe"
  shows "undi_supported nii m \<and> undi_usable pxe m \<and> snp_entry_point pxe m = SwUndi entry"
proof -
  have imp: "PXE_ROMID_IMP AND 0x80000000 = 0" "PXE_ROMID_IMP AND 0x40000000 \<noteq> 0" "PXE_ROMID_IMP AND 0x00000020 \<noteq> 0"
    by (simp_all add: PXE_ROMID_IMP_def)
  have len: "m (pxe + 4) = 32" and sum: "sum_list (load_bytes m pxe 32) = 0"
    using pub by (simp_all add: published_def pxe_valid_def)
  have "Calc8BitCksum pxe (unat (m (pxe + 4))) m = 0"
    using sum by (simp add: Calc8BitCksum_def len fold_plus_sum_list)
  then show ?thesis
    using assms imp len
    by (simp add: published_def undi_supported_def undi_usable_def snp_entry_point_def Let_def not_less)
qed

text \<open>
  C20.  The protocol driver accepts this UNDI.  \<^verbatim>\<open>GigUndiPxeStructInit\<close> writes a !PXE structure, and \<^verbatim>\<open>GigUndiPxeUpdate\<close> keeps one,
  whose signature, revisions, implementation flags, entry point and checksum pass every check of
  \<^verbatim>\<open>SimpleNetworkDriverSupported\<close> and \<^verbatim>\<open>SimpleNetworkDriverStart\<close> when it is paragraph aligned; the driver then calls the entry
  point that the structure was given.
\<close>

theorem snp_accepts_undi:
  assumes "pxe \<noteq> 0" "pxe AND 0x0F = 0" "32 \<le> entry" and "Nii_Type nii = EfiNetworkInterfaceUndi" "Nii_Id nii = pxe"
    and "published entry pxe (undi_mem u)" and "run_state (GigUndiPxeUpdate up pxe) u = (r, u')"
  shows "published entry pxe (GigUndiPxeStructInit entry pxe m) \<and> published entry pxe (undi_mem u') \<and>
    undi_supported nii (undi_mem u') \<and> undi_usable pxe (undi_mem u') \<and> snp_entry_point pxe (undi_mem u') = SwUndi entry"
  using struct_init_published [OF assms(1)] pxe_update_published [OF assms(1,6,7)]
    published_accepted [OF assms(1-3) _ assms(4,5)] by blast

section \<open>The binding on this UNDI\<close>

definition intel_binding :: "'d binding_env \<Rightarrow> 'd undi binding_env" where
  "intel_binding B =
     \<lparr>snp_open_protocol = \<lambda>h p k. on_dev (snp_open_protocol B h p k),
      snp_close_protocol = \<lambda>h p. on_dev (snp_close_protocol B h p),
      snp_locate_pci = \<lambda>path. on_dev (snp_locate_pci B path),
      snp_install = \<lambda>h a. on_dev (snp_install B h a),
      snp_uninstall = \<lambda>h a. on_dev (snp_uninstall B h a),
      snp_bar = \<lambda>p i. on_dev (snp_bar B p i),
      snp_exit_event = \<lambda>a. on_dev (snp_exit_event B a),
      PcdSnpCreateExitBootServicesEvent = PcdSnpCreateExitBootServicesEvent B,
      nii_at = \<lambda>p u. (case private_data u p of Some d \<Rightarrow> NiiProtocol31 d | None \<Rightarrow> nii_at B p (undi_dev u))\<rparr>"

text \<open>
  The driver structure is bound as \<open>b\<close> says to a live adapter whose interface state is at least \<open>k\<close>.
\<close>

definition live :: "u16 \<Rightarrow> 'd world \<Rightarrow> bool" where
  "live k w \<longleftrightarrow> adapter_ok w \<and> undi_state w \<in> {0, 1, 2} \<and> k \<le> undi_state w"

definition attached :: "u16 \<times> undi_entry_point \<times> u32 \<times> u32 \<times> u64 list \<Rightarrow> u16 \<Rightarrow> 'd undi snp_world \<Rightarrow> bool" where
  "attached b k s \<longleftrightarrow> binding (Snp s) = b \<and> fst (snd b) \<noteq> HwUndi \<and> (\<exists>w. nic s = Some w \<and> live k w)"

lemma live_simps [simp]: "live k (w\<lparr>mem := m\<rparr>) = live k w" "live k (w\<lparr>dev := d\<rparr>) = live k w"
  by (simp_all add: live_def)

lemma attached_simps [simp]:
  "attached b k (s\<lparr>smem := m\<rparr>) = attached b k s" "attached b k (s\<lparr>tpl := x\<rparr>) = attached b k s"
  "attached b k (s\<lparr>sfault := f\<rparr>) = attached b k s"
  "attached b k (s\<lparr>senv := (senv s)\<lparr>undi_dev := d\<rparr>\<rparr>) = attached b k s"
  by (auto simp: attached_def nic_smem nic_dev)

lemma attached_snp: "binding d = binding (Snp s) \<Longrightarrow> attached b k (s\<lparr>Snp := d\<rparr>) = attached b k s"
  by (auto simp: attached_def binding_def nic_snp)

lemma live_call:
  assumes "live k w" and run: "run_state (undi_call E c) w = ((st, c'), w')"
  shows "live k w'"
proof -
  have "undi_step E w (Some (c, st, c')) w'" using run by (rule undi_step.command)
  then have "undi_state w' = undi_state w \<or> undi_state w = 0 \<and> undi_state w' = 1 \<or> undi_state w = 1 \<and> undi_state w' = 2"
    using undi_step_state assms(1) by (auto simp: live_def)
  moreover have "adapter_ok w'" using assms(1) ensuresD [OF undi_call_ok _ run] by (auto simp: live_def)
  ultimately show ?thesis using assms(1) by (auto simp: live_def word_le_nat_alt)
qed

lemma own_binding: "own t = own s \<Longrightarrow> binding (Snp t) = binding (Snp s)"
  unfolding binding_def by (rule own_field) simp_all

lemma attached_issue:
  assumes att: "attached b k s" and num: "IFnum c = fst b"
    and run: "run_state (issue_command (intel_platform E V) c) s = (c', t)"
  shows "attached b k t \<and> (\<forall>w. nic s = Some w \<longrightarrow> (\<exists>st w'. run_state (undi_call E c) w = ((st, c'), w') \<and> nic t = Some w') \<or>
    c' = fail_with PXE_STATCODE_INVALID_CDB c)"
proof -
  obtain w where w: "nic s = Some w" "live k w" using att by (auto simp: attached_def)
  have sw: "IFnum c = IfNum (Snp s)" "IssueUndi32Command (Snp s) \<noteq> HwUndi"
    using att num by (auto simp: attached_def binding_def)
  show ?thesis
  proof (cases rule: issue_nic [OF w(1) sw run])
    case (1 st w')
    then show ?thesis using att w live_call [OF w(2) 1(1)] own_binding [OF 1(4)] by (auto simp: attached_def)
  next
    case 2
    then show ?thesis using att w own_binding [OF 2(4)] by (auto simp: attached_def)
  qed
qed

named_theorems attach "introduction rules for safe (attached b k)"

lemmas attach_base [attach] = ensures_return ensures_bind [OF ensures_gets] safe_bind ensures_if ensures_Let
  ensures_case_prod TrueI

lemma attach_upd [attach]:
  "(\<And>d. binding (f d) = binding d) \<Longrightarrow> safe (attached b k) (upd_snp f)"
  "safe (attached b k) (upd_smem g)" "safe (attached b k) (snp_assert p)"
  "safe (attached b k) (run_snp (on_dev' h))" "safe (attached b k) (call_snp (on_dev j))"
  by (auto simp: ensures_def attached_snp run_snp_def on_dev'_def call_snp_def on_dev_def split: prod.splits)

lemma attach_issue [attach]: "IFnum c = fst b \<Longrightarrow> safe (attached b k) (issue_command (intel_platform E V) c)"
  by (auto simp: ensures_def dest: attached_issue split: prod.splits)

lemma attached_num: "attached b k s \<Longrightarrow> IfNum (Snp s) = fst b"
  by (auto simp: attached_def binding_def)

lemma commands_attach [attach]:
  "safe (attached b k) (allocate_txrx (intel_platform E V))" "safe (attached b k) (free_txrx (intel_platform E V))"
  unfolding allocate_txrx_def free_txrx_def
  by (rule attach | (simp add: intel_platform_def attach; fail) | (simp add: binding_def; fail))+

lemma commands_attach' [attach]:
  "safe (attached b k) (PxeStart (intel_platform E V))" "safe (attached b k) (PxeStop (intel_platform E V))"
  "safe (attached b k) (PxeShutdown (intel_platform E V))" "safe (attached b k) (PxeInit (intel_platform E V) fl)"
  "safe (attached b k) (PxeGetStnAddr (intel_platform E V))"
  unfolding PxeStart_def PxeStop_def PxeShutdown_def PxeInit_def PxeGetStnAddr_def
  by (rule attach | (auto simp: binding_def attached_num Let_def; fail))+

lemma scan_attach [attach]: "safe (attached b k) (scan_bars (intel_platform E V) (intel_binding B) p is fm fi)"
  by (induction "is" arbitrary: fm fi)
    (simp_all, (rule attach | assumption | (simp add: intel_platform_def intel_binding_def attach; fail) |
      (auto simp: binding_def; fail))+)

section \<open>A successful start\<close>

text \<open>A successful initialise command leaves the interface initialised.\<close>

lemma initialize_call:
  assumes "live k w" and c: "OpCode c = 5" and ok: "StatCode c' = PXE_STATCODE_SUCCESS"
    and run: "run_state (undi_call E c) w = ((st, c'), w')"
  shows "live 2 w'"
proof -
  let ?w = "versioned w"
  have row: "tab_ApiPtr (api_row c) = Initialize" using c by (simp add: mIntelgbeApiTable_def table_row_def)
  have run1: "run_state (IntelgbeUndiInitialize E (complete c)) ?w = (c', w')"
    using run ok row by (auto simp: undi_call_run call_api_def split: if_splits prod.splits)
  have "undi_state w' = 2"
  proof (cases "DriverBusy (GigAdapter w) \<or> OpFlags c \<notin> {0, 1} \<or> undi_state w = 2")
    case True
    then show ?thesis using run1 ok by (auto simp: IntelgbeUndiInitialize_def split: if_splits)
  next
    case False
    then show ?thesis
      using initialize_run [of ?w "complete c" E c' w', OF _ _ _ run1] ok by (auto split: if_splits)
  qed
  then show ?thesis using live_call [OF assms(1) run] by (simp add: live_def)
qed

lemma pxe_init_raises:
  assumes att: "attached b k s" and run: "run_state (PxeInit (intel_platform E V) fl) s = (EFI_SUCCESS, t)"
  shows "attached b 2 t"
proof -
  obtain st s1 where one: "run_state (allocate_txrx (intel_platform E V)) s = (st, s1)" by fastforce
  define s2 where "s2 = s1\<lparr>smem := write_init_cpb (Snp s1) (smem s1)\<rparr>"
  let ?c = "snp_cdb (Snp s1) 5 fl 26 (Cpb (Snp s1)) 12 (Db (Snp s1))"
  obtain c' s3 where issue: "run_state (issue_command (intel_platform E V) ?c) s2 = (c', s3)" by fastforce
  have att2: "attached b k s2" using ensuresD [OF commands_attach(1) att one] by (simp add: s2_def)
  have num: "IFnum ?c = fst b" using attached_num [OF att2] by (simp add: s2_def)
  have ok: "StatCode c' = PXE_STATCODE_SUCCESS" and t: "binding (Snp t) = binding (Snp s3)" "nic t = nic s3"
    using run one issue by (auto simp: PxeInit_def s2_def binding_def nic_snp split: if_splits prod.splits)
  obtain w where w: "nic s2 = Some w" "live k w" using att2 by (auto simp: attached_def)
  have "c' \<noteq> fail_with PXE_STATCODE_INVALID_CDB ?c" using ok by auto
  with attached_issue [OF att2 num issue] w(1)
  obtain st' w' where "run_state (undi_call E ?c) w = ((st', c'), w')" "nic s3 = Some w'" "attached b k s3" by blast
  then have "attached b 2 s3" using initialize_call [OF w(2) _ ok, of ?c] by (auto simp: attached_def)
  then show ?thesis using t by (simp add: attached_def)
qed

lemma init_status:
  assumes "\<And>p n d. fst (fst (snp_allocate_buffer V p n d)) = EFI_SUCCESS \<or> EFI_ERROR (fst (fst (snp_allocate_buffer V p n d)))"
  shows "ensures (\<lambda>_. True) (PxeInit (intel_platform E V) fl) (\<lambda>st. st = EFI_SUCCESS \<or> EFI_ERROR st)"
proof -
  have "ensures (\<lambda>_. True) (allocate_txrx (intel_platform E V)) (\<lambda>st. st = EFI_SUCCESS \<or> EFI_ERROR st)"
    using assms by (auto simp: ensures_def allocate_txrx_def intel_platform_def call_snp_def on_dev_def split: prod.splits if_splits)
      (metis fst_conv)+
  then show ?thesis
    unfolding PxeInit_def
    by (rule ensures_bind) (auto simp: ensures_def split: prod.splits if_splits)
qed

text \<open>The rules as weakest preconditions.\<close>

lemma wp_attached:
  assumes "safe (attached b k) m" and "attached b k s" and "\<And>r t. attached b k t \<Longrightarrow> Q r t"
  shows "wp m Q s"
  by (rule wpI) (use ensuresD [OF assms(1,2)] assms(3) in blast)

lemma wp_init:
  assumes "\<And>p n d. fst (fst (snp_allocate_buffer V p n d)) = EFI_SUCCESS \<or> EFI_ERROR (fst (fst (snp_allocate_buffer V p n d)))"
    and "attached b k s" and "\<And>t. attached b 2 t \<Longrightarrow> Q EFI_SUCCESS t"
    and "\<And>st t. EFI_ERROR st \<Longrightarrow> attached b k t \<Longrightarrow> Q st t"
  shows "wp (PxeInit (intel_platform E V) fl) Q s"
proof (rule wpI)
  fix st t assume run: "run_state (PxeInit (intel_platform E V) fl) s = (st, t)"
  have "st = EFI_SUCCESS \<or> EFI_ERROR st" using ensuresD [OF init_status [OF assms(1)] TrueI run] by blast
  moreover have "attached b k t" using ensuresD [OF commands_attach'(4) assms(2) run] by blast
  ultimately show "Q st t" using assms(3,4) pxe_init_raises [OF assms(2)] run by blast
qed

lemma probe_raises:
  assumes alloc: "\<And>p n d. fst (fst (snp_allocate_buffer V p n d)) = EFI_SUCCESS \<or> EFI_ERROR (fst (fst (snp_allocate_buffer V p n d)))"
    and att: "attached b 0 s"
  shows "wp (probe_undi (intel_platform E V) pxe) (\<lambda>r t. r = Inr () \<longrightarrow> attached b 2 t) s"
proof -
  have fill: "attached b k (s\<lparr>Snp := (fill_mode pxe fl m d)\<lparr>TxRxBufferSize := n\<rparr>\<rparr>) = attached b k s" if "d = Snp s"
    for k fl m d n and s :: "'a undi snp_world"
    using that by (intro attached_snp) (simp add: fill_mode_def binding_def Let_def)
  have mode: "attached b k (s\<lparr>Snp := (Snp s)\<lparr>Mode := x\<rparr>\<rparr>) = attached b k s" for k x and s :: "'a undi snp_world"
    by (intro attached_snp) (simp add: binding_def)
  note cmds = commands_attach'(1,2,3,5) [THEN wp_attached]
  show ?thesis
    unfolding probe_undi_def wp_simps
    by (rule cmds(1) [OF att])
      (auto simp: wp_simps fill mode attached_num intro!: wp_init [OF alloc] cmds
        wp_attached [OF attach_issue])
qed

lemma wp_on_dev: "wp (call_snp (on_dev f)) Q s =
    (case f (undi_dev (senv s)) of (r, d) \<Rightarrow> Q r (s\<lparr>senv := (senv s)\<lparr>undi_dev := d\<rparr>\<rparr>))"
  by (simp add: wp_call_snp on_dev_def split: prod.splits)

lemma wp_on_dev': "wp (run_snp (on_dev' f)) Q s = Q () (s\<lparr>senv := (senv s)\<lparr>undi_dev := f (undi_dev (senv s))\<rparr>\<rparr>)"
  by (simp add: wp_run_snp on_dev'_def)

lemmas services [simp] =
  intel_platform_def [THEN arg_cong [of _ _ snp_allocate_pool], simplified]
  intel_platform_def [THEN arg_cong [of _ _ snp_allocate_buffer], simplified]
  intel_platform_def [THEN arg_cong [of _ _ snp_free_buffer], simplified]
  intel_platform_def [THEN arg_cong [of _ _ snp_free_pool], simplified]

text \<open>The adapter at an interface number, whatever the driver structure says.\<close>

definition nic_at :: "u16 \<Rightarrow> 'd undi snp_world \<Rightarrow> 'd world option" where
  "nic_at n s = map_option (adapter_world ((senv s)\<lparr>undi_mem := smem s\<rparr>))
     (private_data (senv s) (mIntelgbeUndi32DeviceList (senv s) ! unat n))"

lemma nic_at_nic: "nic s = nic_at (IfNum (Snp s)) s"
  by (simp add: nic_def nic_at_def)

definition live_at :: "u16 \<Rightarrow> 'd undi snp_world \<Rightarrow> bool" where
  "live_at n s \<longleftrightarrow> (\<exists>w. nic_at n s = Some w \<and> live 0 w)"

lemma live_at_simps [simp]:
  "live_at n (s\<lparr>smem := m\<rparr>) = live_at n s" "live_at n (s\<lparr>Snp := d\<rparr>) = live_at n s"
  "live_at n (s\<lparr>senv := (senv s)\<lparr>undi_dev := x\<rparr>\<rparr>) = live_at n s"
  by (auto simp: live_at_def nic_at_def live_def adapter_world_def adapter_inv_def)

lemma attachedI:
  assumes "live_at (IfNum (Snp s)) s" and "IssueUndi32Command (Snp s) \<noteq> HwUndi" and "b = binding (Snp s)"
  shows "attached b 0 s"
  using assms by (auto simp: live_at_def attached_def nic_at_nic binding_def)

lemma attached_online:
  "attached (n, e, 32, 0, l) 2 s \<Longrightarrow> length l = 32 \<Longrightarrow> online n s \<and> stack s = []"
  by (auto simp: attached_def binding_def online_def stack_def stack_ok_def tx_ready_def live_def word_le_nat_alt)

text \<open>Services that do what they are asked.\<close>

definition obliging :: "'d snp_env \<Rightarrow> 'd binding_env \<Rightarrow> bool" where
  "obliging V B \<longleftrightarrow>
     (\<forall>n d. fst (fst (snp_allocate_pool V n d)) \<noteq> 0) \<and>
     (\<forall>q n d. case fst (snp_allocate_buffer V q n d) of (st, a) \<Rightarrow>
        st = EFI_SUCCESS \<and> a \<noteq> 0 \<and> a + 960 \<noteq> 0 \<and> a + 2048 \<noteq> 0) \<and>
     (\<forall>h p k d. fst (fst (snp_open_protocol B h p k d)) = EFI_SUCCESS) \<and>
     (\<forall>path d. fst (fst (snp_locate_pci B path d)) = EFI_SUCCESS) \<and>
     (\<forall>h a d. fst (snp_install B h a d) = EFI_SUCCESS) \<and>
     (\<forall>a d. fst (fst (snp_exit_event B a d)) = EFI_SUCCESS) \<and>
     (\<forall>q i d. fst (fst (snp_bar B q i d)) = EFI_UNSUPPORTED \<or> \<not> EFI_ERROR (fst (fst (snp_bar B q i d))))"

lemma obliging_buffer:
  assumes "obliging V B" and "snp_allocate_buffer V q n d = ((st, a), d')"
  shows "st = EFI_SUCCESS \<and> a \<noteq> 0 \<and> a + 960 \<noteq> 0 \<and> a + 2048 \<noteq> 0"
proof -
  have "case fst (snp_allocate_buffer V q n d) of (st, a) \<Rightarrow> st = EFI_SUCCESS \<and> a \<noteq> 0 \<and> a + 960 \<noteq> 0 \<and> a + 2048 \<noteq> 0"
    by (rule spec [OF spec [OF spec [OF conjunct1 [OF conjunct2 [OF assms(1) [unfolded obliging_def]]]]]])
  then show ?thesis by (simp add: assms(2))
qed

lemma obliging_rest:
  assumes "obliging V B"
  shows "snp_allocate_pool V n d = ((a, j), d') \<Longrightarrow> a \<noteq> 0" "snp_open_protocol B h p k d = ((st, a), d') \<Longrightarrow> st = EFI_SUCCESS"
    "snp_locate_pci B path d = ((st, a), d') \<Longrightarrow> st = EFI_SUCCESS" "snp_install B h a d = (st, d') \<Longrightarrow> st = EFI_SUCCESS"
    "snp_exit_event B a d = ((st, ev), d') \<Longrightarrow> st = EFI_SUCCESS"
    "snp_bar B q i d = ((st, x), d') \<Longrightarrow> st = EFI_UNSUPPORTED \<or> \<not> EFI_ERROR st"
proof -
  note ob = assms [unfolded obliging_def] and c1 = conjunct1 and c2 = conjunct2
  note rest = c2 [OF c2 [OF ob]]
  show "snp_allocate_pool V n d = ((a, j), d') \<Longrightarrow> a \<noteq> 0"
    using c1 [OF ob, rule_format, of n d] by simp
  show "snp_open_protocol B h p k d = ((st, a), d') \<Longrightarrow> st = EFI_SUCCESS"
    using c1 [OF rest, rule_format, of h p k d] by simp
  show "snp_locate_pci B path d = ((st, a), d') \<Longrightarrow> st = EFI_SUCCESS"
    using c1 [OF c2 [OF rest], rule_format, of path d] by simp
  show "snp_install B h a d = (st, d') \<Longrightarrow> st = EFI_SUCCESS"
    using c1 [OF c2 [OF c2 [OF rest]], rule_format, of h a d] by simp
  show "snp_exit_event B a d = ((st, ev), d') \<Longrightarrow> st = EFI_SUCCESS"
    using c1 [OF c2 [OF c2 [OF c2 [OF rest]]], rule_format, of a d] by simp
  show "snp_bar B q i d = ((st, x), d') \<Longrightarrow> st = EFI_UNSUPPORTED \<or> \<not> EFI_ERROR st"
    using c2 [OF c2 [OF c2 [OF c2 [OF rest]]], rule_format, of q i d] by simp
qed

text \<open>The driver structure when the probe begins, and the state it begins in.\<close>

definition built ::
  "EFI_NETWORK_INTERFACE_IDENTIFIER_PROTOCOL \<Rightarrow> u64 \<Rightarrow> u64 \<Rightarrow> u64 \<Rightarrow> (nat \<Rightarrow> u64) \<Rightarrow> u64 \<Rightarrow> memory \<Rightarrow> SNP_DRIVER" where
  "built nii pci Address buf junk a m =
     (zero_snp_driver Address)\<lparr>Snp_PciIo := pci, Snp_Lock := EfiLockReleased, Snp_OwnerTpl := TPL_APPLICATION,
      RecycledTxBuf := map junk [0..<32], RecycledTxBufPtr := buf, MaxRecycledTxBuf := 32, RecycledTxBufCount := 0,
      IfNum := snp_interface_number nii, IsSwUndi := (pxe_implementation (Nii_Id nii) m AND 0x80000000 = 0),
      IssueUndi32Command := snp_entry_point (Nii_Id nii) m, Cpb := a, Db := a + 2048,
      MemoryBarIndex := PCI_MAX_BAR, IoBarIndex := PCI_MAX_BAR\<rparr>"

definition after_scan :: "'e snp_env \<Rightarrow> u64 \<Rightarrow> EFI_STATUS + unit \<Rightarrow> ('e, EFI_STATUS + unit) snp" where
  "after_scan V pxe r = (case r of Inl st \<Rightarrow> ret (Inl st) | Inr _ \<Rightarrow> probe_undi V pxe)"

abbreviation all_bars :: "'d env \<Rightarrow> 'd snp_env \<Rightarrow> 'd binding_env \<Rightarrow> u64 \<Rightarrow> ('d undi, EFI_STATUS + unit) snp" where
  "all_bars E V B pci \<equiv> scan_bars (intel_platform E V) (intel_binding B) pci [0, 1, 2, 3, 4, 5] False False"

lemma build_wp:
  fixes E :: "'d env" and V :: "'d snp_env" and B :: "'d binding_env"
  assumes fail: "\<And>st u. \<not> obliging V B \<Longrightarrow> st \<noteq> EFI_SUCCESS \<Longrightarrow> Q (Inl st) u"
    and tail: "\<And>buf junk a d m. m = ZeroMem (Address + 960) 47 (smem s) \<Longrightarrow> obliging V B \<longrightarrow> a \<noteq> 0 \<and> a + 2048 \<noteq> 0 \<Longrightarrow>
      wp (all_bars E V B pci) (\<lambda>r. wp (after_scan (intel_platform E V) (Nii_Id nii) r) Q)
        (s\<lparr>smem := m, senv := (senv s)\<lparr>undi_dev := d\<rparr>, Snp := built nii pci Address buf junk a m\<rparr>)"
  shows "wp (build_driver (intel_platform E V) (intel_binding B) pci nii Address) Q s"
proof -
  obtain buf junk d1 where pool: "snp_allocate_pool V 0x100 (undi_dev (senv s)) = ((buf, junk), d1)"
    by (metis prod.exhaust)
  obtain st a d2 where page: "snp_allocate_buffer V pci (SNP_MEM_PAGES 4096) d1 = ((st, a), d2)"
    by (metis prod.exhaust)
  let ?m = "ZeroMem (Address + 960) 47 (smem s)"
  have ob: "obliging V B \<longrightarrow> buf \<noteq> 0 \<and> st = EFI_SUCCESS \<and> a \<noteq> 0 \<and> a + 2048 \<noteq> 0"
    using obliging_rest(1) [OF _ pool] obliging_buffer [OF _ page] by blast
  show ?thesis
    using ob tail [OF refl, where a = a and d = d2 and buf = buf and junk = junk]
    by (auto simp: build_driver_def Let_def wp_bind wp_gets wp_modify wp_if wp_return wp_on_dev pool page built_def
        after_scan_def simp del: scan_bars.simps intro: fail)
qed

lemma build_attaches:
  assumes alloc: "\<And>p n d. fst (fst (snp_allocate_buffer V p n d)) = EFI_SUCCESS \<or> EFI_ERROR (fst (fst (snp_allocate_buffer V p n d)))"
    and live: "live_at (snp_interface_number nii) s"
    and sw: "pxe_implementation (Nii_Id nii) (smem s) AND 0x80000000 = 0"
    and apart: "disjoint_ranges (Nii_Id nii + 12) 4 (Address + 960) 47"
  shows "wp (build_driver (intel_platform E V) (intel_binding B) pci nii Address)
    (\<lambda>r t. r = Inr () \<longrightarrow> (\<exists>e l. length l = 32 \<and> attached (snp_interface_number nii, e, 32, 0, l) 2 t)) s"
proof (rule build_wp)
  fix buf a d m and junk :: "nat \<Rightarrow> u64" assume m: "m = ZeroMem (Address + 960) 47 (smem s)"
  let ?n = "snp_interface_number nii" and ?I = "intel_platform E V" and ?l = "map junk [0..<32]"
  let ?Q = "\<lambda>r t. r = Inr () \<longrightarrow> (\<exists>e l. length l = 32 \<and> attached (?n, e, 32, 0, l) 2 t)"
  define u where "u = s\<lparr>smem := m, senv := (senv s)\<lparr>undi_dev := d\<rparr>, Snp := built nii pci Address buf junk a m\<rparr>"
  have imp: "pxe_implementation (Nii_Id nii) m AND 0x80000000 = 0"
    using sw load_zeroed [OF apart] by (simp add: m load32_def)
  have "live_at (IfNum (Snp u)) u" using live
    by (auto simp: u_def built_def live_at_def nic_at_def live_def adapter_world_def adapter_inv_def)
  then have att: "attached (?n, snp_entry_point (Nii_Id nii) m, 32, 0, ?l) 0 u"
    using imp by (intro attachedI) (simp_all add: u_def built_def binding_def snp_entry_point_def)
  have "wp (after_scan ?I (Nii_Id nii) r) ?Q v"
    if "attached (?n, snp_entry_point (Nii_Id nii) m, 32, 0, ?l) 0 v" for r v
  proof (cases r)
    case (Inr x)
    have "wp (probe_undi ?I (Nii_Id nii)) ?Q v"
      by (rule wp_mono [OF probe_raises [OF alloc that]])
        (intro impI exI [of _ "snp_entry_point (Nii_Id nii) m"] exI [of _ ?l] conjI; simp)
    then show ?thesis by (simp add: after_scan_def Inr)
  qed (simp add: after_scan_def wp_return)
  then show "wp (all_bars E V B pci) (\<lambda>r. wp (after_scan ?I (Nii_Id nii) r) ?Q)
      (s\<lparr>smem := m, senv := (senv s)\<lparr>undi_dev := d\<rparr>, Snp := built nii pci Address buf junk a m\<rparr>)"
    unfolding u_def [symmetric] by (rule wp_attached [OF scan_attach att])
qed simp

lemma delete_fails:
  "ensures (\<lambda>_. True) (nii_error B h st) EFI_ERROR" "ensures (\<lambda>_. True) (delete_snp V B p h st) EFI_ERROR"
proof -
  show err: "ensures (\<lambda>_. True) (nii_error B h st) EFI_ERROR"
    by (auto simp: nii_error_def ensures_def split: prod.splits)
  show "ensures (\<lambda>_. True) (delete_snp V B p h st) EFI_ERROR"
    unfolding delete_snp_def by (rule ensures_bind [OF ensures_any] err)+
qed

lemma wp_fails: "ensures (\<lambda>_. True) m EFI_ERROR \<Longrightarrow> wp m (\<lambda>st t. \<not> EFI_ERROR st \<longrightarrow> P st t) s"
  by (rule wpI) (auto dest: ensuresD)

lemma publish_attached: "safe (attached b k) (publish_driver (intel_platform E V) (intel_binding B) pci h)"
  unfolding publish_driver_def
  by (rule attach | (simp add: intel_platform_def intel_binding_def attach; fail) | (auto simp: binding_def; fail))+

lemma start_on_attaches:
  assumes alloc: "\<And>p n d. fst (fst (snp_allocate_buffer V p n d)) = EFI_SUCCESS \<or> EFI_ERROR (fst (fst (snp_allocate_buffer V p n d)))"
    and nii: "nii = nii_at (intel_binding B) p (senv s)"
    and live: "live_at (snp_interface_number nii) s"
    and sw: "pxe_implementation (Nii_Id nii) (smem s) AND 0x80000000 = 0"
    and apart: "\<And>q d. disjoint_ranges (Nii_Id nii + 12) 4 (snd (fst (snp_allocate_buffer V q 1 d)) + 960) 47"
  shows "wp (start_on_undi (intel_platform E V) (intel_binding B) h pci p)
    (\<lambda>st t. \<not> EFI_ERROR st \<longrightarrow> online (snp_interface_number nii) t \<and> stack t = []) s"
proof -
  let ?n = "snp_interface_number nii" and ?I = "intel_platform E V" and ?B = "intel_binding B"
  let ?Q = "\<lambda>st t. \<not> EFI_ERROR st \<longrightarrow> online ?n t \<and> stack t = []"
  obtain st a d where page: "snp_allocate_buffer V pci 1 (undi_dev (senv s)) = ((st, a), d)" by (metis prod.exhaust)
  define u where "u = s\<lparr>senv := (senv s)\<lparr>undi_dev := d\<rparr>\<rparr>"
  have done': "wp (case r of Inl st \<Rightarrow> delete_snp ?I ?B pci h st | Inr st \<Rightarrow> ret st) ?Q t"
    if "attached (?n, e, 32, 0, l) 2 t" "length l = 32" for r t e l
    by (cases r) (use attached_online [OF that] in \<open>auto simp: wp_return intro: wp_fails delete_fails\<close>)
  have pub: "wp (case r of Inl st \<Rightarrow> delete_snp ?I ?B pci h st | Inr _ \<Rightarrow> do { r \<leftarrow> publish_driver ?I ?B pci h;
      (case r of Inl st \<Rightarrow> delete_snp ?I ?B pci h st | Inr st \<Rightarrow> ret st) }) ?Q t"
    if r: "r = Inr () \<longrightarrow> (\<exists>e l. length l = 32 \<and> attached (?n, e, 32, 0, l) 2 t)" for r t
  proof (cases r)
    case (Inr x)
    then obtain e l where "attached (?n, e, 32, 0, l) 2 t" "length l = 32" using r by auto
    then show ?thesis
      using Inr wp_attached [OF publish_attached, of _ 2 t] done' by (auto simp: wp_bind)
  qed (auto intro: wp_fails delete_fails)
  have "live_at ?n u" "disjoint_ranges (Nii_Id nii + 12) 4 (a + 960) 47" "smem u = smem s"
    using live apart [of pci "undi_dev (senv s)"] by (simp_all add: u_def page)
  with build_attaches [OF alloc, of nii u a E B pci] sw
  have build: "wp (build_driver ?I ?B pci nii a) (\<lambda>r t. r = Inr () \<longrightarrow> (\<exists>e l. length l = 32 \<and> attached (?n, e, 32, 0, l) 2 t)) u"
    by simp
  show ?thesis
    unfolding start_on_undi_def
    using wp_mono [OF build pub]
    by (auto simp: wp_bind wp_gets wp_if wp_on_dev page nii [symmetric] u_def [symmetric] intro!: wp_fails delete_fails)
qed

text \<open>
  C17.  A successful start of the protocol driver on this UNDI leaves an interface that is ready for traffic: the
  driver structure names the adapter's entry point and number, the adapter has been initialised, and no
  buffer is recorded as recycled.  From here on the buffers are conserved.
\<close>

theorem snp_start_online:
  assumes alloc: "\<And>q n d. fst (fst (snp_allocate_buffer V q n d)) = EFI_SUCCESS \<or> EFI_ERROR (fst (fst (snp_allocate_buffer V q n d)))"
    and open_nii: "\<And>d. snd (fst (snp_open_protocol B h Nii31On ByDriver d)) = p"
    and data: "private_data (senv s) p = Some data" "nii = NiiProtocol31 data"
    and pub: "published entry (Nii_Id nii) (smem s)"
    and apart: "\<And>q d. disjoint_ranges (Nii_Id nii + 12) 4 (snd (fst (snp_allocate_buffer V q 1 d)) + 960) 47"
    and live: "live_at (snp_interface_number nii) s"
    and run: "run_state (SimpleNetworkDriverStart (intel_platform E V) (intel_binding B) h) s = (st, t)" "\<not> EFI_ERROR st"
  shows "online (snp_interface_number nii) t \<and> stack t = []"
proof -
  let ?n = "snp_interface_number nii" and ?I = "intel_platform E V" and ?B = "intel_binding B"
  let ?Q = "\<lambda>st t. \<not> EFI_ERROR st \<longrightarrow> online ?n t \<and> stack t = []"
  have sw: "pxe_implementation (Nii_Id nii) (smem s) AND 0x80000000 = 0"
    using pub by (simp add: published_def PXE_ROMID_IMP_def)
  have start: "wp (start_on_undi ?I ?B h pci p) ?Q (s\<lparr>senv := (senv s)\<lparr>undi_dev := d\<rparr>\<rparr>)" for pci d
    by (rule start_on_attaches [OF alloc]) (use data live sw apart in \<open>simp_all add: intel_binding_def\<close>)
  have B: "snp_open_protocol ?B h' q k = on_dev (snp_open_protocol B h' q k)"
    "snp_locate_pci ?B path = on_dev (snp_locate_pci B path)"
    "snp_close_protocol ?B h' q = on_dev (snp_close_protocol B h' q)" for h' q k path
    by (simp_all add: intel_binding_def)
  have p: "snp_open_protocol B h Nii31On ByDriver d = ((x, y), d') \<Longrightarrow> y = p" for d x y d'
    using open_nii [of d] by simp
  have "wp (SimpleNetworkDriverStart ?I ?B h) ?Q s"
    unfolding SimpleNetworkDriverStart_def
    by (auto simp: wp_bind wp_if wp_return wp_on_dev B start dest!: p split: prod.splits)
  from wp_run [OF this run(1)] run(2) show ?thesis by blast
qed

section \<open>The start succeeds\<close>

text \<open>An adapter that has been initialised and is not held up.\<close>

definition willing :: "'d world \<Rightarrow> bool" where
  "willing w \<longleftrightarrow> live 2 w \<and> \<not> ExitBootServicesTriggered (GigAdapter w) \<and> \<not> DriverBusy (GigAdapter w) \<and>
     UndiEnabled (GigAdapter w)"

text \<open>The commands that the start issues.\<close>

definition prompt :: "PXE_CDB \<Rightarrow> bool" where
  "prompt c \<longleftrightarrow> cdb_well_formed c \<and> (OpCode c = 0xA \<longrightarrow> CPBaddr c = 0) \<and>
     (OpCode c, OpFlags c) \<in> {(1, 0), (2, 0), (3, 0), (5, 1), (7, 0), (0xA, 0)}"

lemma willing_call:
  assumes "willing w" and "prompt c" and run: "run_state (undi_call E c) w = ((st, c'), w')"
  shows "StatCode c' = PXE_STATCODE_SUCCESS \<and> StatFlags c' AND 0xC000 = 0xC000 \<and> willing w'"
proof -
  have live: "live 2 w'" using live_call [OF _ run] assms(1) by (simp add: willing_def)
  have two: "undi_state w = 2" using assms(1) by (auto simp: willing_def live_def word_le_nat_alt)
  have ok: "run_state (call_api (tab_ApiPtr (api_row c)) E (complete c)) (versioned w) = (c', w')"
    using run assms two
    by (auto simp: undi_call_run willing_def prompt_def state_allows_def mIntelgbeApiTable_def table_row_def
        split: if_splits prod.splits)
  show ?thesis
    using ok assms two live
    by (auto simp: prompt_def willing_def mIntelgbeApiTable_def table_row_def call_api_def IntelgbeUndiStart_def
        IntelgbeUndiStop_def IntelgbeUndiGetInitInfo_def IntelgbeUndiInitialize_def IntelgbeUndiShutdown_def
        IntelgbeUndiStnAddr_def Let_def split: if_splits)
qed

definition eager :: "'d undi snp_world \<Rightarrow> bool" where
  "eager s \<longleftrightarrow> IfNum (Snp s) = 0 \<and> IssueUndi32Command (Snp s) \<noteq> HwUndi \<and> IsSwUndi (Snp s) \<and>
     Cpb (Snp s) \<noteq> 0 \<and> Db (Snp s) \<noteq> 0 \<and> InitInfo_Addr (Snp s) \<noteq> 0 \<and> (\<exists>w. nic s = Some w \<and> willing w)"

definition essentials :: "SNP_DRIVER \<Rightarrow> u16 \<times> undi_entry_point \<times> bool \<times> u64 \<times> u64 \<times> u64" where
  "essentials d = (IfNum d, IssueUndi32Command d, IsSwUndi d, Cpb d, Db d, InitInfo_Addr d)"

lemma willing_simps [simp]: "willing (w\<lparr>mem := m\<rparr>) = willing w" "willing (w\<lparr>dev := d\<rparr>) = willing w"
  by (simp_all add: willing_def)

lemma eager_simps [simp]:
  "eager (s\<lparr>smem := m\<rparr>) = eager s" "eager (s\<lparr>sfault := f\<rparr>) = eager s"
  "eager (s\<lparr>senv := (senv s)\<lparr>undi_dev := d\<rparr>\<rparr>) = eager s"
  by (auto simp: eager_def nic_smem nic_dev)

lemma eager_snp: "essentials d = essentials (Snp s) \<Longrightarrow> eager (s\<lparr>Snp := d\<rparr>) = eager s"
  by (auto simp: eager_def essentials_def nic_snp)

lemma own_essentials: "own t = own s \<Longrightarrow> essentials (Snp t) = essentials (Snp s)"
  unfolding essentials_def by (rule own_field) simp_all

lemma eager_issue:
  assumes "eager s" and "prompt c" and num: "IFnum c = 0"
    and run: "run_state (issue_command (intel_platform E V) c) s = (c', t)"
  shows "eager t \<and> StatCode c' = PXE_STATCODE_SUCCESS \<and> StatFlags c' AND 0xC000 = 0xC000"
proof -
  obtain w where w: "nic s = Some w" "willing w" and sw: "IFnum c = IfNum (Snp s)" "IssueUndi32Command (Snp s) \<noteq> HwUndi"
    using assms(1) num by (auto simp: eager_def)
  show ?thesis
  proof (cases rule: issue_nic [OF w(1) sw run])
    case (1 st w')
    then show ?thesis
      using willing_call [OF w(2) assms(2) 1(1)] own_essentials [OF 1(4)] assms(1) by (auto simp: eager_def essentials_def)
  next
    case 2
    then show ?thesis using num by simp
  qed
qed

lemma wp_eager_issue:
  assumes "eager s" and "prompt c" "IFnum c = 0"
    and "\<And>c' t. eager t \<Longrightarrow> StatCode c' = PXE_STATCODE_SUCCESS \<Longrightarrow> StatFlags c' AND 0xC000 = 0xC000 \<Longrightarrow> Q c' t"
  shows "wp (issue_command (intel_platform E V) c) Q s"
  by (rule wpI) (use eager_issue [OF assms(1-3)] assms(4) in blast)

text \<open>Each command block is well formed.\<close>

lemma prompt_commands:
  assumes "eager s" and "d = Snp s"
  shows "prompt ((snp_cdb d 1 0 0 0 0 0)\<lparr>CPBsize := 64, CPBaddr := Cpb d\<rparr>)" "prompt (snp_cdb d 2 0 0 0 0 0)"
    "prompt (snp_cdb d 3 0 0 0 47 (InitInfo_Addr d))" "prompt (snp_cdb d 5 1 26 (Cpb d) 12 (Db d))"
    "prompt (snp_cdb d 7 0 0 0 0 0)" "prompt (snp_cdb d 0xA 0 0 0 96 (Db d))" "IFnum (snp_cdb d op fl cs ca ds da) = 0"
  using assms
  by (auto simp: prompt_def cdb_well_formed_def snp_cdb_def mIntelgbeApiTable_def table_row_def eager_def Let_def)

lemma eager_num: "eager s \<Longrightarrow> IfNum (Snp s) = 0"
  by (simp add: eager_def)

lemma eager_commands:
  assumes "eager s"
  shows "wp (PxeStart (intel_platform E V)) (\<lambda>st t. st = EFI_SUCCESS \<and> eager t) s"
    "wp (PxeStop (intel_platform E V)) (\<lambda>st t. eager t) s"
    "wp (PxeGetStnAddr (intel_platform E V)) (\<lambda>st t. st = EFI_SUCCESS \<and> eager t) s"
    "wp (PxeShutdown (intel_platform E V)) (\<lambda>st t. eager t) s"
proof -
  have sw: "IsSwUndi (Snp s)" using assms by (simp add: eager_def)
  have es: "essentials (d\<lparr>Mode := x\<rparr>) = essentials d" "essentials (d\<lparr>TxRxBuffer := a\<rparr>) = essentials d"
    "essentials (d\<lparr>TxRxBufferSize := n\<rparr>) = essentials d" for d x a n by (simp_all add: essentials_def)
  show "wp (PxeStart (intel_platform E V)) (\<lambda>st t. st = EFI_SUCCESS \<and> eager t) s"
    using assms prompt_commands [OF assms refl] sw
    by (auto simp: PxeStart_def Let_def wp_simps es eager_snp intro!: wp_eager_issue)
  show "wp (PxeStop (intel_platform E V)) (\<lambda>st t. eager t) s"
    using assms prompt_commands [OF assms refl]
    by (auto simp: PxeStop_def Let_def wp_simps es eager_snp intro!: wp_eager_issue)
  show "wp (PxeGetStnAddr (intel_platform E V)) (\<lambda>st t. st = EFI_SUCCESS \<and> eager t) s"
    using assms prompt_commands [OF assms refl]
    by (auto simp: PxeGetStnAddr_def Let_def wp_simps es eager_snp intro!: wp_eager_issue)
  show "wp (PxeShutdown (intel_platform E V)) (\<lambda>st t. eager t) s"
    using assms prompt_commands [OF assms refl]
    by (auto simp: PxeShutdown_def free_txrx_def Let_def wp_simps on_dev'_def es eager_snp intro!: wp_eager_issue)
qed

lemma eager_init:
  assumes "eager s" and "obliging V B"
  shows "wp (PxeInit (intel_platform E V) 1) (\<lambda>st t. st = EFI_SUCCESS \<and> eager t) s"
proof -
  have es: "essentials (d\<lparr>Mode := x\<rparr>) = essentials d" "essentials (d\<lparr>TxRxBuffer := a\<rparr>) = essentials d" for d x a
    by (simp_all add: essentials_def)
  have "wp (allocate_txrx (intel_platform E V)) (\<lambda>st t. st = EFI_SUCCESS \<and> eager t) s"
    using assms(1)
    by (auto simp: allocate_txrx_def wp_simps on_dev_def es eager_snp dest: obliging_buffer [OF assms(2)] split: prod.splits)
  then show ?thesis
    unfolding PxeInit_def wp_bind
    by (rule wp_mono) (auto simp: wp_simps es eager_snp prompt_commands eager_num intro!: wp_eager_issue)
qed

lemma eager_probe:
  assumes "eager s" and ob: "obliging V B"
  shows "wp (probe_undi (intel_platform E V) pxe) (\<lambda>r t. r = Inr ()) s"
proof -
  have es: "essentials ((fill_mode pxe fl m d)\<lparr>TxRxBufferSize := n\<rparr>) = essentials d" "essentials (d\<lparr>Mode := x\<rparr>) = essentials d"
    for fl m d n x by (simp_all add: essentials_def fill_mode_def Let_def)
  have start: "wp (PxeStart (intel_platform E V)) Q u" if "eager u" "\<And>t. eager t \<Longrightarrow> Q EFI_SUCCESS t" for Q u
    by (rule wp_mono [OF eager_commands(1) [OF that(1)]]) (use that(2) in auto)
  have addr: "wp (PxeGetStnAddr (intel_platform E V)) Q u" if "eager u" "\<And>t. eager t \<Longrightarrow> Q EFI_SUCCESS t" for Q u
    by (rule wp_mono [OF eager_commands(3) [OF that(1)]]) (use that(2) in auto)
  have init: "wp (PxeInit (intel_platform E V) 1) Q u" if "eager u" "\<And>t. eager t \<Longrightarrow> Q EFI_SUCCESS t" for Q u
    by (rule wp_mono [OF eager_init [OF that(1) ob]]) (use that(2) in auto)
  have finish: "wp (PxeShutdown (intel_platform E V)) (\<lambda>_. wp (do { _ \<leftarrow> PxeStop (intel_platform E V); ret (Inr () :: EFI_STATUS + unit) })
      (\<lambda>r t. r = Inr ())) u" for u
    by (rule wp_any) (simp add: wp_bind wp_return wp_any)
  show ?thesis
    unfolding probe_undi_def
    by (auto simp: wp_bind wp_if wp_gets wp_return wp_modify assms(1) es eager_snp prompt_commands eager_num
        intro!: start init addr wp_eager_issue finish)
qed

lemma eager_dev: "eager (s\<lparr>Snp := d, senv := (senv s)\<lparr>undi_dev := x\<rparr>\<rparr>) = eager (s\<lparr>Snp := d\<rparr>)"
  by (auto simp: eager_def nic_def adapter_world_def willing_def live_def adapter_inv_def)

lemma eager_scan:
  assumes "eager s" and ob: "obliging V B"
  shows "wp (scan_bars (intel_platform E V) (intel_binding B) q is fm fi) (\<lambda>r t. r = Inr () \<and> eager t) s"
  using assms(1)
proof (induction "is" arbitrary: s fm fi)
  case (Cons i "is")
  have es: "essentials (d\<lparr>MemoryBarIndex := x\<rparr>) = essentials d" "essentials (d\<lparr>IoBarIndex := x\<rparr>) = essentials d" for d x
    by (simp_all add: essentials_def)
  have B: "snp_bar (intel_binding B) q i = on_dev (snp_bar B q i)" by (simp add: intel_binding_def)
  show ?case
    using Cons.prems
    by (auto simp: wp_simps B on_dev_def on_dev'_def es eager_snp eager_dev Let_def dest: obliging_rest(6) [OF ob] split: prod.splits
        intro!: Cons.IH)
qed (simp add: wp_return)

lemma build_succeeds:
  assumes ob: "obliging V B" and n: "snp_interface_number nii = 0" and willing: "nic_at 0 s = Some w" "willing w"
    and sw: "pxe_implementation (Nii_Id nii) (smem s) AND 0x80000000 = 0"
    and apart: "disjoint_ranges (Nii_Id nii + 12) 4 (Address + 960) 47" and nz: "Address + 960 \<noteq> 0"
  shows "wp (build_driver (intel_platform E V) (intel_binding B) pci nii Address) (\<lambda>r t. r = Inr ()) s"
proof (rule build_wp)
  fix buf a :: u64 and d m and junk :: "nat \<Rightarrow> u64"
  assume m: "m = ZeroMem (Address + 960) 47 (smem s)" and addr: "obliging V B \<longrightarrow> a \<noteq> 0 \<and> a + 2048 \<noteq> 0"
  define u where "u = s\<lparr>smem := m, senv := (senv s)\<lparr>undi_dev := d\<rparr>, Snp := built nii pci Address buf junk a m\<rparr>"
  have imp: "pxe_implementation (Nii_Id nii) m AND 0x80000000 = 0"
    using sw load_zeroed [OF apart] by (simp add: m load32_def)
  have nicu: "nic u = Some (w\<lparr>mem := m, dev := d\<rparr>)"
    using willing(1) n by (auto simp: u_def built_def nic_def nic_at_def adapter_world_def)
  have "eager u"
    using nicu willing(2) imp addr ob nz n
    by (simp add: eager_def) (simp add: u_def built_def zero_snp_driver_def snp_entry_point_def)
  from eager_scan [OF this ob] show "wp (all_bars E V B pci) (\<lambda>r. wp (after_scan (intel_platform E V) (Nii_Id nii) r) (\<lambda>r t. r = Inr ()))
      (s\<lparr>smem := m, senv := (senv s)\<lparr>undi_dev := d\<rparr>, Snp := built nii pci Address buf junk a m\<rparr>)"
    unfolding u_def [symmetric] by (rule wp_mono) (auto simp: after_scan_def intro: eager_probe [OF _ ob])
qed (use ob in simp)

lemma publish_succeeds:
  assumes "obliging V B"
  shows "wp (publish_driver (intel_platform E V) (intel_binding B) pci h) (\<lambda>r t. r = Inr EFI_SUCCESS) s"
  unfolding publish_driver_def
  by (auto simp: wp_simps intel_binding_def on_dev_def dest: obliging_rest(4,5) [OF assms] split: prod.splits)

lemma start_runs:
  assumes ob: "obliging V B"
    and open_nii: "\<And>d. snd (fst (snp_open_protocol B h Nii31On ByDriver d)) = p"
    and data: "private_data (senv s) p = Some data" "nii = NiiProtocol31 data" "snp_interface_number nii = 0"
    and pub: "published entry (Nii_Id nii) (smem s)" and pxe: "Nii_Id nii \<noteq> 0"
    and apart: "\<And>q d. disjoint_ranges (Nii_Id nii + 12) 4 (snd (fst (snp_allocate_buffer V q 1 d)) + 960) 47"
    and willing: "nic_at 0 s = Some w" "willing w"
  shows "\<exists>t. run_state (SimpleNetworkDriverStart (intel_platform E V) (intel_binding B) h) s = (EFI_SUCCESS, t)"
proof -
  let ?I = "intel_platform E V" and ?B = "intel_binding B"
  have imp: "PXE_ROMID_IMP AND 0x80000000 = 0" "PXE_ROMID_IMP AND 0x00000020 \<noteq> 0" by (simp_all add: PXE_ROMID_IMP_def)
  then have sw: "pxe_implementation (Nii_Id nii) (smem s) AND 0x80000000 = 0" and use: "undi_usable (Nii_Id nii) (smem s)"
    using pub pxe
    by (simp_all add: published_def undi_usable_def pxe_valid_def Calc8BitCksum_def fold_plus_sum_list)
  have start: "wp (start_on_undi ?I ?B h pci p) (\<lambda>st t. st = EFI_SUCCESS) (s\<lparr>senv := (senv s)\<lparr>undi_dev := d\<rparr>\<rparr>)" for pci d
  proof -
    let ?s = "s\<lparr>senv := (senv s)\<lparr>undi_dev := d\<rparr>\<rparr>"
    obtain st a d1 where page: "snp_allocate_buffer V pci 1 d = ((st, a), d1)" by (metis prod.exhaust)
    let ?u = "s\<lparr>senv := (senv s)\<lparr>undi_dev := d1\<rparr>\<rparr>"
    have "nic_at 0 ?u = Some (w\<lparr>dev := d1\<rparr>)" using willing(1) by (auto simp: nic_at_def adapter_world_def)
    moreover have ok: "st = EFI_SUCCESS" "a + 960 \<noteq> 0" using obliging_buffer [OF ob page] by simp_all
    moreover have "disjoint_ranges (Nii_Id nii + 12) 4 (a + 960) 47" using apart [of pci d] by (simp add: page)
    ultimately have build: "wp (build_driver ?I ?B pci nii a) (\<lambda>r t. r = Inr ()) ?u"
      using build_succeeds [OF ob data(3), of ?u] willing(2) sw by simp
    have nii: "nii_at ?B p (senv ?s) = nii" using data by (simp add: intel_binding_def)
    have "wp (build_driver ?I ?B pci nii a) (\<lambda>r. wp (case r of Inl st \<Rightarrow> delete_snp ?I ?B pci h st
        | Inr _ \<Rightarrow> do { r \<leftarrow> publish_driver ?I ?B pci h; (case r of Inl st \<Rightarrow> delete_snp ?I ?B pci h st | Inr st \<Rightarrow> ret st) })
        (\<lambda>st t. st = EFI_SUCCESS)) ?u"
      by (rule wp_mono [OF build]) (simp add: wp_bind wp_mono [OF publish_succeeds [OF ob]] wp_return)
    then show ?thesis
      using use page ok nii by (simp add: start_on_undi_def wp_bind wp_gets wp_if wp_on_dev)
  qed
  have B: "snp_open_protocol ?B h' q k = on_dev (snp_open_protocol B h' q k)"
    "snp_locate_pci ?B path = on_dev (snp_locate_pci B path)" for h' q k path
    by (simp_all add: intel_binding_def)
  have p: "snp_open_protocol B h Nii31On ByDriver d = ((x, y), d') \<Longrightarrow> x = EFI_SUCCESS \<and> y = p" for d x y d'
    using open_nii [of d] obliging_rest(2) [OF ob] by auto
  have "wp (SimpleNetworkDriverStart ?I ?B h) (\<lambda>st t. st = EFI_SUCCESS) s"
    unfolding SimpleNetworkDriverStart_def
    by (auto simp: wp_bind wp_if wp_return wp_on_dev B start dest!: p dest: obliging_rest(2,3) [OF ob] split: prod.splits)
  then show ?thesis by (auto simp: wp_def split: prod.splits)
qed

text \<open>
  C18.  The start succeeds on interface number 0, the number that the entry point accepts whatever the interface
  count.  On an adapter of that number that has been initialised, is enabled and is held up neither by an
  update nor by the end of boot services, whose !PXE structure is the published one and apart from the page that is
  allocated for the driver, with services that do what they are asked, \<^verbatim>\<open>SimpleNetworkDriverStart\<close> runs to
  the end and reports success: this UNDI answers every command that the start issues.
\<close>

theorem snp_start_succeeds:
  assumes "obliging V B"
    and "\<And>d. snd (fst (snp_open_protocol B h Nii31On ByDriver d)) = p"
    and "private_data (senv s) p = Some data" "nii = NiiProtocol31 data" "snp_interface_number nii = 0"
    and "published entry (Nii_Id nii) (smem s)" and "Nii_Id nii \<noteq> 0"
    and "\<And>q d. disjoint_ranges (Nii_Id nii + 12) 4 (snd (fst (snp_allocate_buffer V q 1 d)) + 960) 47"
    and "nic_at 0 s = Some w" "willing w"
  shows "\<exists>t. run_state (SimpleNetworkDriverStart (intel_platform E V) (intel_binding B) h) s = (EFI_SUCCESS, t)"
  using start_runs [OF assms] .

section \<open>A board on which the start succeeds\<close>

definition offered_nii :: EFI_NETWORK_INTERFACE_IDENTIFIER_PROTOCOL where
  "offered_nii = \<lparr>Nii_Id = 0x8000, Nii_IfNum = 0, Nii_Revision = 0x00010001, Nii_MajorVer = 0x03, Nii_MinorVer = 0x10,
     Nii_Ipv6Supported = True, Nii_Type = EfiNetworkInterfaceUndi, Nii_ImageSize = 0, Nii_ImageAddr = 0,
     Nii_StringId = ''UNDI''\<rparr>"

definition offered_world :: "'d world \<Rightarrow> 'd undi snp_world" where
  "offered_world w = (bound_world w)\<lparr>smem := GigUndiPxeStructInit 0x400000 0x8000 (mem w),
     senv := (initial_undi (dev w) (mem w))\<lparr>undi_fault := fault w, mIntelgbeUndi32DeviceList := [1],
       private_data := [1 \<mapsto> zero_private\<lparr>NicInfo := GigAdapter w, NiiProtocol31 := offered_nii\<rparr>]\<rparr>\<rparr>"

definition quiet_binding :: "'e binding_env" where
  "quiet_binding = \<lparr>snp_open_protocol = \<lambda>h p k e. ((EFI_SUCCESS, 1), e), snp_close_protocol = \<lambda>h p e. (EFI_SUCCESS, e),
     snp_locate_pci = \<lambda>path e. ((EFI_SUCCESS, 2), e), snp_install = \<lambda>h a e. (EFI_SUCCESS, e),
     snp_uninstall = \<lambda>h a e. (EFI_SUCCESS, e), snp_bar = \<lambda>q i e. ((EFI_UNSUPPORTED, 0, 0), e),
     snp_exit_event = \<lambda>a e. ((EFI_SUCCESS, 3), e), PcdSnpCreateExitBootServicesEvent = True,
     nii_at = \<lambda>p e. offered_nii\<rparr>"

lemma quiet_obliging: "obliging quiet_services quiet_binding"
  by (simp add: obliging_def quiet_services_def quiet_binding_def)

lemma quiet_apart: "disjoint_ranges (Nii_Id offered_nii + 12) 4 (snd (fst (snp_allocate_buffer quiet_services q 1 d)) + 960) 47"
proof -
  have "i = 0 \<or> i = 1 \<or> i = 2 \<or> i = 3" if "i < 4" for i :: nat using that by arith
  then show ?thesis by (force simp: disjoint_ranges_def quiet_services_def offered_nii_def)
qed

lemma offered:
  "private_data (senv (offered_world w)) 1 = Some (zero_private\<lparr>NicInfo := GigAdapter w, NiiProtocol31 := offered_nii\<rparr>)"
  "nic_at 0 (offered_world w) = Some (w\<lparr>mem := smem (offered_world w)\<rparr>)"
  "published 0x400000 (Nii_Id offered_nii) (smem (offered_world w))" "snp_interface_number offered_nii = 0"
  "Nii_Id offered_nii \<noteq> 0"
  by (simp_all add: struct_init_published offered_world_def nic_at_def adapter_world_def initial_undi_def offered_nii_def snp_interface_number_def)

lemma boot_willing: "\<exists>w :: sim_bus world. willing w"
proof -
  obtain w :: "sim_bus world" where "tx_ready w" using boot_ready by blast
  then have "willing (w\<lparr>GigAdapter := (GigAdapter w)\<lparr>ExitBootServicesTriggered := False, DriverBusy := False,
      UndiEnabled := True\<rparr>\<rparr>)"
    by (simp add: willing_def live_def tx_ready_def adapter_inv_def gig_ok_def one_queue_def Let_def)
  then show ?thesis by blast
qed

lemma start_succeeds_here:
  assumes "willing (w :: sim_bus world)"
  shows "\<And>d :: sim_bus. snd (fst (snp_open_protocol quiet_binding 5 Nii31On ByDriver d)) = 1"
    "willing (w\<lparr>mem := smem (offered_world w)\<rparr>)"
    "NiiProtocol31 (zero_private\<lparr>NicInfo := GigAdapter w, NiiProtocol31 := offered_nii\<rparr>) = offered_nii"
  using assms by (simp_all add: quiet_binding_def)

theorem snp_accepts_undi_witness:
  "\<exists>r u'. run_state (GigUndiPxeUpdate True 0x8000)
       ((initial_undi () (\<lambda>_. 0))\<lparr>undi_mem := GigUndiPxeStructInit 0x400000 0x8000 (\<lambda>_. 0)\<rparr>) = (r, u') \<and>
     undi_supported offered_nii (undi_mem u') \<and> undi_usable 0x8000 (undi_mem u')"
proof -
  let ?u = "(initial_undi () (\<lambda>_. 0))\<lparr>undi_mem := GigUndiPxeStructInit 0x400000 0x8000 (\<lambda>_. 0)\<rparr>"
  obtain r u' where run: "run_state (GigUndiPxeUpdate True 0x8000) ?u = (r, u')" by fastforce
  have "published 0x400000 0x8000 (undi_mem ?u)" by (simp add: struct_init_published)
  from snp_accepts_undi [OF _ _ _ _ _ this run, of offered_nii] run
  show ?thesis by (auto simp: offered_nii_def)
qed

theorem snp_start_succeeds_witness:
  "\<exists>(w :: sim_bus world) t. run_state (SimpleNetworkDriverStart (intel_platform boot_env quiet_services)
     (intel_binding quiet_binding) 5) (offered_world w) = (EFI_SUCCESS, t)"
proof -
  obtain w :: "sim_bus world" where w: "willing w" using boot_willing by blast
  note here = start_succeeds_here [OF w]
  from snp_start_succeeds [OF quiet_obliging here(1) offered(1) here(3) [symmetric] offered(4,3,5) quiet_apart offered(2) here(2)]
  show ?thesis by blast
qed

theorem snp_start_online_witness:
  "\<exists>(w :: sim_bus world) t. run_state (SimpleNetworkDriverStart (intel_platform boot_env quiet_services)
     (intel_binding quiet_binding) 5) (offered_world w) = (EFI_SUCCESS, t) \<and> online 0 t \<and> stack t = []"
proof -
  obtain w :: "sim_bus world" where w: "willing w" using boot_willing by blast
  note here = start_succeeds_here [OF w]
  obtain t where run: "run_state (SimpleNetworkDriverStart (intel_platform boot_env quiet_services)
      (intel_binding quiet_binding) 5) (offered_world w) = (EFI_SUCCESS, t)"
    using start_runs [OF quiet_obliging here(1) offered(1) here(3) [symmetric] offered(4,3,5) quiet_apart offered(2) here(2)]
    by blast
  have alloc: "fst (fst (snp_allocate_buffer quiet_services q n d)) = EFI_SUCCESS \<or>
      EFI_ERROR (fst (fst (snp_allocate_buffer quiet_services q n d)))" for q n and d :: sim_bus
    by (simp add: quiet_services_def)
  have "live_at (snp_interface_number offered_nii) (offered_world w)"
    using here(2) by (auto simp: live_at_def offered(2,4) willing_def live_def)
  from snp_start_online [OF alloc here(1) offered(1) here(3) [symmetric] offered(3) quiet_apart this run] run
  show ?thesis by (auto simp: offered(4))
qed

end
