(* ===== verification/Snp_Names.thy ===== *)
theory Snp_Names
  imports Snp_Binding Undi_Names
begin

text \<open>
  The component names of the Simple Network Protocol driver (\<^verbatim>\<open>SnpDxe/ComponentName.c\<close>), over the string tables of
  \<open>Undi_Names\<close>.  The name of a controller is built from its station address in a buffer of 80 characters; the table that
  holds it is a global variable, which the operations take and return.
\<close>

section \<open>The name of the driver\<close>

datatype snp_component_name = gSimpleNetworkComponentName | gSimpleNetworkComponentName2

fun snp_languages :: "snp_component_name \<Rightarrow> string" where
  "snp_languages gSimpleNetworkComponentName = ''eng''"
| "snp_languages gSimpleNetworkComponentName2 = ''en''"

definition mSimpleNetworkDriverNameTable :: "EFI_UNICODE_STRING_TABLE list" where
  "mSimpleNetworkDriverNameTable =
     [\<lparr>Table_Language = ''eng;en'', LanguagePtr = 0, Table_UnicodeString = ''Simple Network Protocol Driver'',
       UnicodeStringPtr = 0\<rparr>]"

definition SimpleNetworkComponentNameGetDriverName ::
  "snp_component_name \<Rightarrow> string option \<Rightarrow> bool \<Rightarrow> EFI_STATUS \<times> string option" where
  "SimpleNetworkComponentNameGetDriverName This lang out =
     LookupUnicodeString2 lang (Some (snp_languages This)) (Some mSimpleNetworkDriverNameTable) out
       (This = gSimpleNetworkComponentName)"

section \<open>The name of a controller\<close>

text \<open>What \<^verbatim>\<open>UnicodeSPrint\<close> leaves of a text in a buffer of so many bytes, the terminator apart.\<close>

definition UnicodeSPrint :: "nat \<Rightarrow> string \<Rightarrow> string" where
  "UnicodeSPrint BufferSize text = take (BufferSize div 2 - 1) text"

definition hex_digit :: "u8 \<Rightarrow> char" where
  "hex_digit b = ''0123456789ABCDEF'' ! unat b"

text \<open>The conversion \<^verbatim>\<open>%02X\<close> of a byte.\<close>

definition hex2 :: "u8 \<Rightarrow> string" where
  "hex2 b = [hex_digit (b div 16), hex_digit (b mod 16)]"

text \<open>One \<^verbatim>\<open>UnicodeSPrint\<close> at \<^verbatim>\<open>HandleName + OffSet\<close>, where \<open>s\<close> is the text before the offset.\<close>

definition print_at_end :: "string \<Rightarrow> string \<Rightarrow> string" where
  "print_at_end s text = s @ UnicodeSPrint (160 - 2 * length s) text"

text \<open>
  The address has 32 bytes.  A larger \<^verbatim>\<open>HwAddressSize\<close> makes the loop read \<open>beyond\<close> it, into the fields that follow.
\<close>

definition handle_name :: "(nat \<Rightarrow> u8) \<Rightarrow> EFI_SIMPLE_NETWORK_MODE \<Rightarrow> string" where
  "handle_name beyond m =
     (let addr = (\<lambda>i. if i < length (CurrentAddress m) then CurrentAddress m ! i else beyond i);
          s = print_at_end [] ''SNP (MAC='';
          s = fold (\<lambda>i s. print_at_end s (hex2 (addr i) @ ''-'')) [0..<unat (HwAddressSize m)] s
      in print_at_end (butlast s) '')'')"

type_synonym name_table = "EFI_UNICODE_STRING_TABLE list option \<times> u64"

definition UpdateName ::
  "'d boot_services \<Rightarrow> (nat \<Rightarrow> u8) \<Rightarrow> EFI_SIMPLE_NETWORK_MODE option \<Rightarrow> name_table \<Rightarrow> ('d, EFI_STATUS \<times> name_table) sys" where
  "UpdateName S beyond mode t =
     (case mode of
        None \<Rightarrow> ret (EFI_INVALID_PARAMETER, t)
      | Some m \<Rightarrow> do {
          let HandleName = handle_name beyond m;
          t \<leftarrow> (if fst t \<noteq> None then do {
                 _ \<leftarrow> FreeUnicodeStringTable S t;
                 ret (None, 0) }
               else ret t);
          (st, t) \<leftarrow> AddUnicodeString2 S (Some ''eng'') (Some (snp_languages gSimpleNetworkComponentName)) t
                       (Some HandleName) True;
          if EFI_ERROR st then ret (st, t)
          else AddUnicodeString2 S (Some ''en'') (Some (snp_languages gSimpleNetworkComponentName2)) t
                 (Some HandleName) False })"

text \<open>\<^verbatim>\<open>EfiTestManagedDevice\<close> for the Simple Network Protocol.\<close>

definition EfiTestManagedDevice :: "'e binding_env \<Rightarrow> u64 \<Rightarrow> ('e, EFI_STATUS) snp" where
  "EfiTestManagedDevice B Controller = do {
     (st, _) \<leftarrow> call_snp (snp_open_protocol B Controller SimpleNetworkOn ByDriver);
     if \<not> EFI_ERROR st then do {
       _ \<leftarrow> call_snp (snp_close_protocol B Controller SimpleNetworkOn);
       ret EFI_UNSUPPORTED }
     else if st \<noteq> EFI_ALREADY_STARTED then ret EFI_UNSUPPORTED
     else ret EFI_SUCCESS }"

text \<open>The protocol found on the handle is that of the driver structure in the state.\<close>

definition SimpleNetworkComponentNameGetControllerName ::
  "'d boot_services \<Rightarrow> 'd undi binding_env \<Rightarrow> (nat \<Rightarrow> u8) \<Rightarrow> snp_component_name \<Rightarrow> u64 \<Rightarrow> u64 \<Rightarrow> string option \<Rightarrow> bool \<Rightarrow>
     name_table \<Rightarrow> ('d undi, (EFI_STATUS \<times> string option) \<times> name_table) snp" where
  "SimpleNetworkComponentNameGetControllerName S B beyond This Controller ChildHandle lang out t =
     (if ChildHandle \<noteq> 0 then ret ((EFI_UNSUPPORTED, None), t)
      else do {
        st \<leftarrow> EfiTestManagedDevice B Controller;
        if EFI_ERROR st then ret ((st, None), t)
        else do {
          (st, p) \<leftarrow> call_snp (snp_open_protocol B Controller SimpleNetworkOn GetProtocol);
          if EFI_ERROR st then ret ((st, None), t)
          else do {
            d \<leftarrow> snp;
            (st, t) \<leftarrow> call_snp (run_state (UpdateName S beyond (if p = 0 then None else Some (Mode d)) t));
            if EFI_ERROR st then ret ((st, None), t)
            else ret (LookupUnicodeString2 lang (Some (snp_languages This)) (fst t) out
                        (This = gSimpleNetworkComponentName), t) } } })"

section \<open>The text of the name\<close>

lemma print_at_end_take: "length s \<le> 79 \<Longrightarrow> print_at_end s t = take 79 (s @ t)"
proof -
  have "(160 - 2 * n) div 2 - 1 = 79 - n" for n :: nat by arith
  then show "length s \<le> 79 \<Longrightarrow> print_at_end s t = take 79 (s @ t)" by (simp add: print_at_end_def UnicodeSPrint_def)
qed

text \<open>A sequence of prints is one print of the whole text.\<close>

lemma print_all_take:
  assumes "length s \<le> 79"
  shows "fold (\<lambda>i s. print_at_end s (f i)) is s = take 79 (s @ concat (map f is))"
  using assms
proof (induction "is" arbitrary: s)
  case (Cons i "is")
  have "fold (\<lambda>i s. print_at_end s (f i)) is (take 79 (s @ f i)) =
      take 79 (take 79 (s @ f i) @ concat (map f is))" by (rule Cons.IH) simp
  also have "\<dots> = take 79 ((s @ f i) @ concat (map f is))" by (simp del: append_assoc add: min_def)
  finally show ?case using Cons.prems by (simp add: print_at_end_take)
qed simp

lemma handle_name_text:
  "handle_name beyond m = butlast (take 79 (''SNP (MAC='' @
     concat (map (\<lambda>i. hex2 (if i < length (CurrentAddress m) then CurrentAddress m ! i else beyond i) @ ''-'')
       [0..<unat (HwAddressSize m)]))) @ '')''"
  by (simp add: handle_name_def Let_def print_all_take print_at_end_take print_at_end_take [of "butlast _"])


text \<open>The address with its bytes separated by dashes.\<close>

fun dashed :: "u8 list \<Rightarrow> string" where
  "dashed [] = []"
| "dashed [b] = hex2 b"
| "dashed (b # bs) = hex2 b @ ''-'' @ dashed bs"

lemma dashed_concat: "bs \<noteq> [] \<Longrightarrow> concat (map (\<lambda>b. hex2 b @ ''-'') bs) = dashed bs @ ''-''"
  by (induction bs rule: dashed.induct) simp_all

lemma map_take_upt: "n \<le> length xs \<Longrightarrow> map (\<lambda>i. f (if i < length xs then xs ! i else g i)) [0..<n] = map f (take n xs)"
  by (rule nth_equalityI) simp_all

lemma length_dashed_texts: "length (concat (map (\<lambda>i. hex2 (f i) @ ''-'') is)) = 3 * length is"
  by (induction "is") (simp_all add: hex2_def)

text \<open>
  The name has at most 79 characters, whatever the size of the address, and does not depend on what follows the address.
  Up to 23 bytes it is the whole address.
\<close>

lemma handle_name_bound: "length (handle_name beyond m) \<le> 79"
  by (simp add: handle_name_text)

lemma handle_name_short:
  assumes "length (CurrentAddress m) = sizeof_EFI_MAC_ADDRESS" "HwAddressSize m \<noteq> 0" "unat (HwAddressSize m) \<le> 23"
  shows "handle_name beyond m = ''SNP (MAC='' @ dashed (take (unat (HwAddressSize m)) (CurrentAddress m)) @ '')''"
proof -
  let ?n = "unat (HwAddressSize m)" and ?a = "CurrentAddress m"
  let ?t = "concat (map (\<lambda>i. hex2 (if i < length ?a then ?a ! i else beyond i) @ ''-'') [0..<?n])"
  have t: "?t = concat (map (\<lambda>b. hex2 b @ ''-'') (take ?n ?a))"
    using map_take_upt [of ?n ?a "\<lambda>b. hex2 b @ ''-''" beyond] assms(1,3) by simp
  have "length ?t \<le> 69" using length_dashed_texts [of _ "[0..<?n]"] assms(3) by simp
  then have "handle_name beyond m = butlast (''SNP (MAC='' @ ?t) @ '')''" by (simp add: handle_name_text)
  moreover have "take ?n ?a \<noteq> []" using assms(1,2) by (auto simp: unat_eq_zero)
  ultimately show ?thesis using dashed_concat [of "take ?n ?a"] unfolding t by (simp add: butlast_append)
qed

lemma handle_name_own:
  assumes "length (CurrentAddress m) = sizeof_EFI_MAC_ADDRESS"
  shows "handle_name beyond m = handle_name beyond' m"
proof -
  let ?n = "unat (HwAddressSize m)" and ?a = "CurrentAddress m"
  let ?f = "\<lambda>h i. hex2 (if i < length ?a then ?a ! i else h i) @ ''-''"
  have same: "map (?f h) [0..<k] = map (?f beyond) [0..<k]" if "k \<le> 32" for h k using that assms by simp
  have "take 79 (''SNP (MAC='' @ concat (map (?f h) [0..<?n])) =
      take 79 (''SNP (MAC='' @ concat (map (?f beyond) [0..<min ?n 32]))" for h
  proof (cases "?n \<le> 32")
    case True
    then show ?thesis by (simp only: same [of ?n h] min_def if_True)
  next
    case False
    then have "[0..<?n] = [0..<32] @ [32..<?n]" using upt_add_eq_append [of 0 32 "?n - 32"] by simp
    then have eq: "concat (map (?f h) [0..<?n]) = concat (map (?f beyond) [0..<32]) @ concat (map (?f h) [32..<?n])"
      by (simp only: same [of 32 h] map_append concat_append)
    have "length (concat (map (?f beyond) [0..<32])) = 96" by (subst length_dashed_texts) simp
    then have cut: "take 79 (p @ concat (map (?f beyond) [0..<32]) @ ys) = take 79 (p @ concat (map (?f beyond) [0..<32]))"
      for p ys :: string by (simp only: take_append append_assoc [symmetric] length_append) simp
    have "min ?n 32 = 32" using False by simp
    then show ?thesis unfolding eq by (simp only: cut)
  qed
  note cut = this [of beyond] this [of beyond']
  show ?thesis unfolding handle_name_text cut by (rule refl)
qed

section \<open>The look-up\<close>

lemma update_name_run:
  assumes "pool_gives S"
  shows "\<exists>a b a' b' p u'. run_state (UpdateName S beyond (Some m) t) u =
    ((EFI_SUCCESS, Some [name_entry ''eng'' a b (handle_name beyond m), name_entry ''en'' a' b' (handle_name beyond m)], p), u')"
proof -
  let ?n = "handle_name beyond m"
  have n: "?n \<noteq> []" by (simp add: handle_name_text)
  note found = language_found_names(1)
  have found2: "language_found False ''en'' ''en''" by (simp add: language_found_def IsLanguageSupported_iff cstring_def)
  have new: "\<not> entry_present ''en'' ''eng''"
    by (simp add: entry_present.simps code_length_def skip_separators_def AsciiChar_def eval_nat_numeral)
  obtain t0 u0 where free: "fst t0 = None" "run_state (if fst t \<noteq> None then do {
        _ \<leftarrow> FreeUnicodeStringTable S t; ret (None, 0) } else ret t) u = (t0, u0)"
    by (cases "fst t"; cases "run_state (FreeUnicodeStringTable S t) u") auto
  obtain p la sa d where 1: "run_state (AddUnicodeString2 S (Some ''eng'') (Some ''eng'') t0 (Some ?n) True) u0 =
      ((EFI_SUCCESS, Some [name_entry ''eng'' la sa ?n], p), u0\<lparr>undi_dev := d\<rparr>)"
    using add_name_run [OF assms found n, of t0 u0] free(1) by auto
  obtain p' lb sb d' where "run_state (AddUnicodeString2 S (Some ''en'') (Some ''en'')
        (Some [name_entry ''eng'' la sa ?n], p) (Some ?n) False) (u0\<lparr>undi_dev := d\<rparr>) =
      ((EFI_SUCCESS, Some [name_entry ''eng'' la sa ?n, name_entry ''en'' lb sb ?n], p'), u0\<lparr>undi_dev := d'\<rparr>)"
    using add_name_run [OF assms found2 n, of "(Some [name_entry ''eng'' la sa ?n], p)" "u0\<lparr>undi_dev := d\<rparr>"] new
    by (auto simp: name_entry_def)
  then show ?thesis using free(2) 1 by (simp add: UpdateName_def Let_def) blast
qed

text \<open>
  On a controller which the boot services report as managed through the Simple Network Protocol, the look-up
  returns the name built from the station address, for \<^verbatim>\<open>eng\<close> and \<^verbatim>\<open>en\<close> and for no other language, whatever the
  table held before.
\<close>

lemma snp_controller_name:
  assumes "pool_gives S" and "cstring l" and "CHR '';'' \<notin> set l"
    and managed: "\<And>e. fst (fst (snp_open_protocol B h SimpleNetworkOn ByDriver e)) = EFI_ALREADY_STARTED"
    and opened: "\<And>e. fst (fst (snp_open_protocol B h SimpleNetworkOn GetProtocol e)) = EFI_SUCCESS \<and>
      snd (fst (snp_open_protocol B h SimpleNetworkOn GetProtocol e)) \<noteq> 0"
    and run: "run_state (SimpleNetworkComponentNameGetControllerName S B beyond This h 0 (Some l) True t) s = ((r, t'), s')"
  shows "r = (if (if This = gSimpleNetworkComponentName then take 3 l = ''eng'' else l = ''en'')
    then (EFI_SUCCESS, Some (handle_name beyond (Mode (Snp s)))) else (EFI_UNSUPPORTED, None))"
proof -
  let ?n = "handle_name beyond (Mode (Snp s))"
  obtain p1 e1 where 1: "snp_open_protocol B h SimpleNetworkOn ByDriver (senv s) = ((EFI_ALREADY_STARTED, p1), e1)"
    using managed by (metis fst_conv prod.exhaust)
  obtain p2 e2 where 2: "snp_open_protocol B h SimpleNetworkOn GetProtocol e1 = ((EFI_SUCCESS, p2), e2)" "p2 \<noteq> 0"
    using opened by (metis fst_conv snd_conv prod.exhaust)
  obtain a b a' b' p u' where 3: "run_state (UpdateName S beyond (Some (Mode (Snp s))) t) e2 =
      ((EFI_SUCCESS, Some [name_entry ''eng'' a b ?n, name_entry ''en'' a' b' ?n], p), u')"
    using update_name_run [OF assms(1)] by metis
  have "r = LookupUnicodeString2 (Some l) (Some (snp_languages This))
      (Some [name_entry ''eng'' a b ?n, name_entry ''en'' a' b' ?n]) True (This = gSimpleNetworkComponentName)"
    using run 1 2 3
    by (simp add: SimpleNetworkComponentNameGetControllerName_def EfiTestManagedDevice_def call_snp_def)
  then show ?thesis
    using lookup_names(1) [OF assms(2)] lookup_names(2) [OF assms(2), of "''en''"] assms(3)
    by (cases This) (simp_all add: cstring_def)
qed

text \<open>
  The driver binding opens the device path and the interface identifier for the driver and not the protocol it installs,
  so that the services do not report the controller as managed in this sense; then there is no name.
\<close>

lemma snp_controller_unnamed:
  assumes "\<And>e. fst (fst (snp_open_protocol B h SimpleNetworkOn ByDriver e)) \<noteq> EFI_ALREADY_STARTED"
  shows "fst (run_state (SimpleNetworkComponentNameGetControllerName S B beyond This h c l out t) s) =
    ((EFI_UNSUPPORTED, None), t)"
proof -
  obtain st p e where run: "snp_open_protocol B h SimpleNetworkOn ByDriver (senv s) = ((st, p), e)" by (metis prod.exhaust)
  then have "st \<noteq> EFI_ALREADY_STARTED" using assms by (metis fst_conv)
  then show ?thesis using run
    by (cases "snp_close_protocol B h SimpleNetworkOn e")
      (simp add: SimpleNetworkComponentNameGetControllerName_def EfiTestManagedDevice_def call_snp_def)
qed

end
