(* ===== verification/Spec2Isabelle.thy ===== *)
theory Spec2Isabelle
  imports Undi_Driver Undi_Ledger Undi_Path Undi_Lock Snp_Callback Snp_Attach Snp_Names
begin

text \<open>
  Verification of the Intel gigabit UNDI network driver (\<^verbatim>\<open>src/IntelUndiPkg\<close>), a UEFI driver for the
  STMMAC Ethernet controllers of Elkhart Lake and Tiger Lake.

  \<^bold>\<open>The program.\<close>  A UEFI boot manager loads the driver and connects it to controllers through the driver
  binding protocol (\<^verbatim>\<open>Init.c\<close>).  Starting a controller allocates its private data, opens its PCI
  protocol, allocates the descriptor rings through the PCI services (\<^verbatim>\<open>Dma.c\<close>, \<^verbatim>\<open>IntelgbePciInit\<close>), brings the
  hardware up (\<^verbatim>\<open>Intelgbe.c\<close>, \<^verbatim>\<open>IntelGbe/intelgbe_stmmac.c\<close>, \<^verbatim>\<open>intelgbe_api.c\<close>) with its PHY
  (\<^verbatim>\<open>intelgbe_phy.c\<close>, \<^verbatim>\<open>marvell_88e1512.c\<close>, \<^verbatim>\<open>marvell_88e2110.c\<close>, \<^verbatim>\<open>maxlinear_gpyxxx.c\<close>) over the MDIO bus, and
  installs protocols on a child handle.  The network stack above then sends commands in command blocks
  (\<^verbatim>\<open>PXE_CDB\<close>) to the entry point in \<^verbatim>\<open>Decode.c\<close>, which checks them against a table and the state of
  the interface and calls a handler; the handlers for data move frames through the two rings
  (\<^verbatim>\<open>IntelgbeTransmit\<close>, \<^verbatim>\<open>IntelgbeFreeTxBuffers\<close>, \<^verbatim>\<open>IntelgbeReceive\<close>).  Beside this the driver offers adapter
  information (\<^verbatim>\<open>AdapterInformation.c\<close>), names (\<^verbatim>\<open>ComponentName.c\<close>), a branding table (\<^verbatim>\<open>Brand.c\<close>,
  \<^verbatim>\<open>DeviceSupport.c\<close>) and a protocol to stop it for diagnostics (\<^verbatim>\<open>StartStop.c\<close>).  The client of the command
  interface is the Simple Network Protocol driver (\<^verbatim>\<open>src/NetworkPkg/SnpDxe\<close>): it finds the !PXE structure,
  attaches to the UNDI (\<^verbatim>\<open>Snp.c\<close>), offers \<^verbatim>\<open>EFI_SIMPLE_NETWORK_PROTOCOL\<close> to the network stack, with one file
  per call, and gives the UNDI the callbacks of \<^verbatim>\<open>Callback.c\<close>.

  \<^bold>\<open>The model.\<close>  A C function becomes a function of the same name in a state monad, with its early returns as
  branches; machine integers are words of their width, so that wrap-around is that of the code, and a
  status is the value the code returns.  The state of an operation on one adapter is a \<open>world\<close>: the
  adapter's data \<open>GIG_DRIVER_DATA\<close>, the byte memory shared with the client (command, parameter and data
  blocks, frames), the environment, and a flag \<open>fault\<close> for a dereferenced \<^verbatim>\<open>NULL\<close> pointer.  The state of
  the driver as a whole is \<open>undi\<close>: the global variables and a map from addresses to the live private
  data.  What lies outside the sources is a parameter: the registers of the controller, the PCI
  services, the stall service and the client's callbacks are fields of a record \<open>env\<close>, the boot
  services fields of \<open>boot_services\<close>, each a function on an arbitrary environment state, so every theorem
  holds for all of them or states as a hypothesis what it needs: a contract such as \<open>mdio_controller\<close>
  (the bus completes a command within the driver's patience), \<open>dma_services\<close> (the PCI services hand out and
  take back pages and mappings), \<open>manages\<close> or \<open>healthy_board\<close>.  For each there is a concrete instance in
  a witness.  The descriptors of the rings are fields of the adapter's state, the frames bytes of the
  memory.

  \<^bold>\<open>Theories.\<close>
  \<^item> \<open>Undi_Prelude\<close>: words, little-endian byte memory, loops, the rules for frames (\<open>keeps\<close>) and for results
    (\<open>ensures\<close>) of monadic programs, with their collections of rules.
  \<^item> \<open>Undi_Types\<close>: the structures of \<^verbatim>\<open>Intelgbe.h\<close> and \<^verbatim>\<open>Dma.h\<close>, status codes, the environment and the state.
  \<^item> \<open>Undi_Mdio\<close>: register access (\<^verbatim>\<open>Intelgbe_osdep.c\<close>), the two MDIO transactions and the accesses and
    read-modify-write helpers of \<^verbatim>\<open>intelgbe_api.c\<close>.  Over a bus that follows its handshake a transaction is
    an assignment to, or the value of, one PHY register.  The locale \<open>register_access\<close> proves the
    read-modify-write idiom once; it is interpreted on clause 22, clause 45 and the XPCS.
  \<^item> \<open>Undi_Phy\<close>: PHY identification, capabilities, reset, auto-negotiation and the three PHY drivers; the scan
    finds the lowest address, and initialisation succeeds over a working bus.
  \<^item> \<open>Undi_Mac\<close>: the controller (\<^verbatim>\<open>intelgbe_stmmac.c\<close>), its initialisation, link status, station address
    (written and read back), SerDes, and the selection of operations by device.
  \<^item> \<open>Undi_Dma\<close>: \<^verbatim>\<open>Dma.c\<close>.
  \<^item> \<open>Undi_Ring\<close>: the data path.  The locale \<open>batch_channel\<close> states what a channel
    promises over any interleaving of its steps; its interpretation on the transmit ring, with the steps
    \<open>tx_move\<close> (a transmission in one buffer or in fragments with any outcome, the reclaim, a write-back by the
    controller, a write by the client), gives that the recorded buffers leave in the order in which they entered, none lost
    and none twice.  A fragmented frame records address 0 in its descriptors, at which every later reclaim stops.
    Each operation refines a list operation.  The receive side is characterised on every branch.
  \<^item> \<open>Undi_Receive\<close>: the locale \<open>fifo_channel\<close> of \<open>Undi_Ring\<close>, interpreted on the receive ring: a client whose buffers
    are at least as long as the frames and below 32 KiB finds the frames in its buffers in the order in which they arrived.
  \<^item> \<open>Undi_Adapter\<close>: bring-up and shutdown (\<^verbatim>\<open>Intelgbe.c\<close>).
  \<^item> \<open>Undi_Boot\<close>: the first initialisation
    establishes the invariants the data path relies on, and succeeds on a healthy board whose PHY has an
    address below 31.
  \<^item> \<open>Undi_System\<close>: globals, private data and boot services.
  \<^item> \<open>Undi_Device\<close>: the branding table and its
    look-up, which is a search by priority.
  \<^item> \<open>Undi_Names\<close>: the component names with the string tables of
    \<^verbatim>\<open>UefiLib.c\<close>, and driver configuration.
  \<^item> \<open>Undi_Aip\<close>: adapter information; the locale \<open>registry\<close>
    states what a table of types promises, and is interpreted on the driver's table.
  \<^item> \<open>Undi_Decode\<close>: the command table, the eighteen handlers and the entry point.  The interface state is a step
    relation \<open>undi_step\<close>; the locale \<open>ranked_machine\<close> gives that the state never goes back.  Dispatch is
    characterised completely, and single handlers are shown to compute what they should and to
    write where they may.
  \<^item> \<open>Undi_Init\<close>: driver binding, the !PXE structure and its checksum, load and unload, and \<^verbatim>\<open>StartStop.c\<close>.
  \<^item> \<open>Undi_Ledger\<close>: DMA pages and mappings are balanced on every path of \<^verbatim>\<open>IntelgbePciInit\<close> and at driver stop,
    provided a mapping covers the whole request; after a shorter one too few pages are freed, which is shown as well.
  \<^item> \<open>Undi_Path\<close>: the device path of a child.
  \<^item> \<open>Undi_Lock\<close>: \<^verbatim>\<open>IntelgbeBlockIt\<close> and its lock.
  \<^item> \<open>Undi_Safety\<close>: an adapter that has been initialised stays well formed and never indexes a ring out of range or
    calls an operation that is not installed, over every session of commands (\<open>session_step\<close>).
  \<^item> \<open>Undi_Session\<close>: the list of controllers over driver start and stop.
  \<^item> \<open>Undi_Driver\<close>: the invariant \<open>driver_ok\<close> of the whole driver over every sequence of its entry points
    (\<open>driver_step\<close>) whose callers address live private data or a number the driver refuses, and stop a controller
    that still owns its slot; and what a restart after diagnostics does to the rings.
  \<^item> \<open>Snp_Types\<close>: the structures of \<^verbatim>\<open>Snp.h\<close>; the state \<open>snp_world\<close> is the driver structure, the shared memory, the task
    priority and an arbitrary environment, and the entry point of the UNDI is a parameter.
  \<^item> \<open>Snp_Ops\<close>, \<open>Snp_Data\<close>: the thirteen calls of the protocol and the notification of \<^verbatim>\<open>WaitForPacket\<close>, those that move
    the state in the first, those that move data in the second.
  \<^item> \<open>Snp_Laws\<close>: the locale \<open>undi_client\<close> asks of an UNDI only that it leaves the driver structure alone, and proves the
    state machine of the protocol over it.
  \<^item> \<open>Snp_Recycle\<close>: the array of recycled transmit buffers is a stack that grows in steps of 32.
  \<^item> \<open>Snp_Undi\<close>, \<open>Snp_Flow\<close>: both drivers together.  The parameter is instantiated with \<^verbatim>\<open>IntelgbeUndiApiEntry\<close>, which
    interprets \<open>undi_client\<close>; each protocol call is followed through the command interface into the transmit ring.
  \<^item> \<open>Snp_Session\<close>: the locale \<open>conserving\<close> states what a conserved quantity promises over any sequence of steps; it
    is interpreted on the transmit buffers held by both drivers, and a sublocale obtains it from \<open>fifo_channel\<close>.
    No buffer is lost between the client, the recycled ones and the ring, nor handed back twice.
  \<^item> \<open>Snp_Callback\<close>: the callbacks.  The list of mappings has no test for an address that is there already; on addresses not
    yet mapped, mapping and unmapping are inverse.
  \<^item> \<open>Snp_Stats\<close>: the size that \<^verbatim>\<open>Statistics\<close> reports.
  \<^item> \<open>Snp_Binding\<close>, \<open>Snp_Attach\<close>: the driver binding, and the binding on this UNDI: its !PXE structure passes every
    check, a successful start leaves an interface on which the session theorems hold, and on a ready
    adapter with working services and interface number 0 the start succeeds.
  \<^item> \<open>Snp_Names\<close>: the names of that driver and of its controllers, built from the station address in a bounded buffer.

  \<^bold>\<open>Loops and bounds.\<close>  Polling loops have the number of rounds of the code (100 for an MDIO transaction).  The
  loop of \<^verbatim>\<open>IntelgbeFreeTxBuffers\<close> runs at most as often as the caller's array has entries, which is its
  recursion argument.  The walk along a device path may be endless and is a partial function; it is shown to
  return on every well-formed path.  \<^verbatim>\<open>IsLanguageSupported\<close> and the table searches are total functions with
  termination proofs.  The loops of the Simple Network Protocol driver run over fixed ranges: 32 buffers
  of a status block, 64 statistics, 100 mappings, 6 base address registers.  All other recursion is
  structural.

  \<^bold>\<open>Not modelled.\<close>  Debug output and the register dump, which a release build compiles out; \<^verbatim>\<open>ASSERT\<close>, but for the
  locks and the Simple Network Protocol driver, where a failed one is recorded; timing, of which only the number of stalls is kept; caches and memory ordering between the
  processor and the controller.  The client's memory is one flat byte map: buffers may overlap, and
  theorems that need them apart say so.  The packages of EDK II are vendored; of \<^verbatim>\<open>MdePkg\<close> what the driver
  calls and can be read is modelled (string tables, locks, device path access), the firmware behind the
  services is a parameter.  Of \<^verbatim>\<open>NetworkPkg\<close> the layer that calls the UNDI is modelled but for its image
  entry point, which only installs protocols; one driver structure exists at a time, and of the structure's memory image only the initialisation data the UNDI writes
  there.  The layers above, \<^verbatim>\<open>MdeModulePkg\<close>, \<^verbatim>\<open>BaseTools\<close> and the platform packages take no part in the driver.
\<close>

end
